(* ===== verification/PC_Prelude.thy ===== *)
theory PC_Prelude
  imports Main "HOL-Library.Sublist"
begin

text \<open>
  Shared vocabulary of the development: the result type of fallible Go functions, the
  parts of Go's \<open>strings\<close>, \<open>strconv\<close> and \<open>fmt\<close> packages the sources use, nil-able pointers
  as options, and the lemma collections of the components.

  A Go string is a list of bytes, so it is modelled by HOL's \<open>string\<close> (a list of 8-bit
  characters). A Go pointer that is only compared with nil and dereferenced is an
  \<open>option\<close>; a slice is a list (nil and empty slices are not distinguished by any code
  modelled here unless a definition says so). A function that returns \<open>(T, error)\<close> is a
  value of \<open>string + T\<close>: \<open>Inl\<close> carries the text of the error.
\<close>

section \<open>Lemma collections\<close>

named_theorems blocks_simps "when a validator's field error blocks admission"
named_theorems conv_defs "definitions of the version conversions"
named_theorems admission_defs "definitions of the admission path"

section \<open>Results\<close>

type_synonym 'a go_result = "string + 'a"

abbreviation Err :: "string \<Rightarrow> 'a go_result" where "Err \<equiv> Inl"

abbreviation Ok :: "'a \<Rightarrow> 'a go_result" where "Ok \<equiv> Inr"

definition is_ok :: "'a go_result \<Rightarrow> bool" where
  "is_ok r = (case r of Inl _ \<Rightarrow> False | Inr _ \<Rightarrow> True)"

lemma is_ok_simps [simp]: "is_ok (Inr x)" "\<not> is_ok (Inl e)"
  by (simp_all add: is_ok_def)

text \<open>\<open>fmt.Errorf("...: %w", err)\<close>: the text of the wrapping error.\<close>

definition wrap_err :: "string \<Rightarrow> string \<Rightarrow> string" where
  "wrap_err pre e = pre @ '': '' @ e"

section \<open>Go's strings, strconv and fmt\<close>

definition HasPrefix :: "string \<Rightarrow> string \<Rightarrow> bool" where
  "HasPrefix s p = prefix p s"

definition HasSuffix :: "string \<Rightarrow> string \<Rightarrow> bool" where
  "HasSuffix s p = suffix p s"

definition TrimPrefix :: "string \<Rightarrow> string \<Rightarrow> string" where
  "TrimPrefix s p = (if prefix p s then drop (length p) s else s)"

definition ContainsRune :: "string \<Rightarrow> char \<Rightarrow> bool" where
  "ContainsRune s c = (c \<in> set s)"

text \<open>\<open>strings.Contains(s, sub)\<close>.\<close>

fun str_contains :: "string \<Rightarrow> string \<Rightarrow> bool" where
  "str_contains [] sub = (sub = [])"
| "str_contains (c # cs) sub = (prefix sub (c # cs) \<or> str_contains cs sub)"

lemma str_contains_sublist: "str_contains s sub \<longleftrightarrow> sublist sub s"
  by (induction s) (auto simp: sublist_Cons_right)

text \<open>
  \<open>strings.ReplaceAll(s, old, new)\<close> for a non-empty \<open>old\<close>: a left-to-right scan that
  replaces non-overlapping occurrences. (The sources never pass an empty \<open>old\<close>.)
\<close>

function ReplaceAll :: "string \<Rightarrow> string \<Rightarrow> string \<Rightarrow> string" where
  "ReplaceAll [] old new = []"
| "ReplaceAll (c # cs) old new =
     (if old \<noteq> [] \<and> prefix old (c # cs)
      then new @ ReplaceAll (drop (length old) (c # cs)) old new
      else c # ReplaceAll cs old new)"
  by pat_completeness auto
termination
  by (relation "measure (\<lambda>(s, old, new). length s)") auto

lemma ReplaceAll_char:
  "ReplaceAll s [a] new = concat (map (\<lambda>c. if c = a then new else [c]) s)"
  by (induction s) auto

text \<open>\<open>strings.Split(s, sep)\<close> for a one-byte separator: always at least one part.\<close>

fun split_on :: "char \<Rightarrow> string \<Rightarrow> string list" where
  "split_on d [] = [[]]"
| "split_on d (c # cs) =
     (if c = d then [] # split_on d cs
      else (case split_on d cs of [] \<Rightarrow> [[c]] | p # ps \<Rightarrow> (c # p) # ps))"

lemma split_on_nonempty [simp]: "split_on d s \<noteq> []"
  by (induction s) (auto split: list.splits)

text \<open>\<open>strings.Split\<close>: the text before the first occurrence of the separator, and the rest.\<close>

fun cut_at :: "string \<Rightarrow> string \<Rightarrow> (string \<times> string) option" where
  "cut_at sep [] = (if sep = [] then Some ([], []) else None)"
| "cut_at sep (c # cs) =
     (if prefix sep (c # cs) then Some ([], drop (length sep) (c # cs))
      else map_option (apfst (Cons c)) (cut_at sep cs))"

lemma cut_at_Some: "cut_at sep s = Some (a, b) \<Longrightarrow> s = a @ sep @ b"
proof (induction s arbitrary: a)
  case (Cons c cs)
  show ?case
  proof (cases "prefix sep (c # cs)")
    case True
    with Cons.prems show ?thesis by (auto simp: prefix_def)
  next
    case False
    with Cons show ?thesis by auto
  qed
qed (simp split: if_splits)

function str_split :: "string \<Rightarrow> string \<Rightarrow> string list" where
  "str_split sep s =
     (if sep = [] then [s]
      else (case cut_at sep s of None \<Rightarrow> [s] | Some (a, b) \<Rightarrow> a # str_split sep b))"
  by pat_completeness auto
termination
  by (relation "measure (\<lambda>(sep, s). length s)") (auto dest!: cut_at_Some)

declare str_split.simps [simp del]

text \<open>\<open>strings.SplitN(s, sep, 2)\<close> for a one-byte separator.\<close>

definition splitN2 :: "char \<Rightarrow> string \<Rightarrow> string list" where
  "splitN2 d s =
     (if d \<in> set s then [takeWhile (\<lambda>c. c \<noteq> d) s, tl (dropWhile (\<lambda>c. c \<noteq> d) s)] else [s])"

text \<open>
  \<open>strings.TrimSpace\<close>: removes leading and trailing white space as defined by Unicode. The
  table lists the UTF-8 encodings of the code points \<open>unicode.IsSpace\<close> accepts.
\<close>

definition space_encodings :: "string list" where
  "space_encodings =
     [[CHR 0x09], [CHR 0x0A], [CHR 0x0B], [CHR 0x0C], [CHR 0x0D], [CHR 0x20],
      [CHR 0xC2, CHR 0x85], [CHR 0xC2, CHR 0xA0],
      [CHR 0xE1, CHR 0x9A, CHR 0x80],
      [CHR 0xE2, CHR 0x80, CHR 0x80], [CHR 0xE2, CHR 0x80, CHR 0x81],
      [CHR 0xE2, CHR 0x80, CHR 0x82], [CHR 0xE2, CHR 0x80, CHR 0x83],
      [CHR 0xE2, CHR 0x80, CHR 0x84], [CHR 0xE2, CHR 0x80, CHR 0x85],
      [CHR 0xE2, CHR 0x80, CHR 0x86], [CHR 0xE2, CHR 0x80, CHR 0x87],
      [CHR 0xE2, CHR 0x80, CHR 0x88], [CHR 0xE2, CHR 0x80, CHR 0x89],
      [CHR 0xE2, CHR 0x80, CHR 0x8A], [CHR 0xE2, CHR 0x80, CHR 0xA8],
      [CHR 0xE2, CHR 0x80, CHR 0xA9], [CHR 0xE2, CHR 0x80, CHR 0xAF],
      [CHR 0xE2, CHR 0x81, CHR 0x9F], [CHR 0xE3, CHR 0x80, CHR 0x80]]"

definition leading_space :: "string list \<Rightarrow> string \<Rightarrow> string option" where
  "leading_space encs s = find (\<lambda>e. prefix e s) encs"

function trim_left_space :: "string list \<Rightarrow> string \<Rightarrow> string" where
  "trim_left_space encs s =
     (case leading_space encs s of
        None \<Rightarrow> s
      | Some e \<Rightarrow> if e = [] then s else trim_left_space encs (drop (length e) s))"
  by pat_completeness auto
termination
  by (relation "measure (\<lambda>(encs, s). length s)")
     (auto simp: leading_space_def find_Some_iff prefix_def)

declare trim_left_space.simps [simp del]

definition TrimSpace :: "string \<Rightarrow> string" where
  "TrimSpace s =
     rev (trim_left_space (map rev space_encodings) (rev (trim_left_space space_encodings s)))"

text \<open>The ASCII part of \<open>strings.ToLower\<close>.\<close>

definition ascii_lower :: "char \<Rightarrow> char" where
  "ascii_lower c =
     (let n = (of_char c :: nat) in if 65 \<le> n \<and> n \<le> 90 then char_of (n + 32) else c)"

definition ToLower :: "string \<Rightarrow> string" where
  "ToLower s = map ascii_lower s"

text \<open>\<open>fmt.Sprintf("%d", n)\<close>.\<close>

fun show_nat :: "nat \<Rightarrow> string" where
  "show_nat n =
     (if n < 10 then [char_of (48 + n)] else show_nat (n div 10) @ [char_of (48 + n mod 10)])"

declare show_nat.simps [simp del]

definition show_int :: "int \<Rightarrow> string" where
  "show_int i = (if i < 0 then ''-'' @ show_nat (nat (- i)) else show_nat (nat i))"

text \<open>\<open>strconv.ParseBool\<close>.\<close>

definition ParseBool :: "string \<Rightarrow> bool go_result" where
  "ParseBool s =
     (if s \<in> {''1'', ''t'', ''T'', ''true'', ''TRUE'', ''True''} then Ok True
      else if s \<in> {''0'', ''f'', ''F'', ''false'', ''FALSE'', ''False''} then Ok False
      else Err (''strconv.ParseBool: parsing '' @ s @ '': invalid syntax''))"

section \<open>Decimal rendering is injective\<close>

lemma char_of_inj_small: "i < 256 \<Longrightarrow> j < 256 \<Longrightarrow> (char_of i :: char) = char_of j \<longleftrightarrow> i = (j::nat)"
  by (metis of_char_of mod_less)

lemma show_nat_not_Nil [simp]: "show_nat n \<noteq> []" "[] \<noteq> show_nat n"
  by (subst show_nat.simps, simp)+

lemma show_nat_inj: "show_nat m = show_nat n \<Longrightarrow> m = n"
proof (induction m arbitrary: n rule: show_nat.induct)
  case (1 m)
  show ?case
  proof (cases "m < 10")
    case True
    with "1.prems" show ?thesis
      by (cases "n < 10")
         (auto simp: show_nat.simps [of m] show_nat.simps [of n] char_of_inj_small)
  next
    case False
    with "1.prems" have n: "\<not> n < 10"
      by (auto simp: show_nat.simps [of m] show_nat.simps [of n] char_of_inj_small)
    with False "1.prems" have eq: "show_nat (m div 10) = show_nat (n div 10)"
      and last: "m mod 10 = n mod 10"
      by (auto simp: show_nat.simps [of m] show_nat.simps [of n] char_of_inj_small)
    from False eq have "m div 10 = n div 10" by (rule "1.IH")
    with last show ?thesis by (metis div_mult_mod_eq)
  qed
qed

section \<open>Lists in sequence\<close>

text \<open>\<open>for i, x := range xs\<close> as the list of index/element pairs.\<close>

definition indexed :: "'a list \<Rightarrow> (nat \<times> 'a) list" where
  "indexed xs = zip [0..<length xs] xs"

lemma snd_indexed [simp]: "map snd (indexed xs) = xs"
  by (simp add: indexed_def)

lemma set_indexed_iff: "(i, x) \<in> set (indexed xs) \<longleftrightarrow> i < length xs \<and> xs ! i = x"
  by (force simp: indexed_def in_set_zip)

lemma ball_indexed: "(\<forall>p \<in> set (indexed xs). P (snd p)) \<longleftrightarrow> (\<forall>x \<in> set xs. P x)"
  by (metis (no_types, lifting) snd_indexed image_iff list.set_map)

text \<open>The first error of a list of fallible computations, as a loop with an early return.\<close>

fun mapM :: "('a \<Rightarrow> 'b go_result) \<Rightarrow> 'a list \<Rightarrow> 'b list go_result" where
  "mapM f [] = Ok []"
| "mapM f (x # xs) =
     (case f x of Inl e \<Rightarrow> Err e
      | Inr y \<Rightarrow> (case mapM f xs of Inl e \<Rightarrow> Err e | Inr ys \<Rightarrow> Ok (y # ys)))"

lemma mapM_Ok_iff: "mapM f xs = Ok ys \<longleftrightarrow> map f xs = map Ok ys"
  by (induction xs arbitrary: ys) (force simp: Cons_eq_map_conv split: sum.splits)+

lemma mapM_Ok_all2: "mapM f xs = Ok ys \<longleftrightarrow> list_all2 (\<lambda>x y. f x = Ok y) xs ys"
  unfolding mapM_Ok_iff by (auto simp: list_all2_conv_all_nth list_eq_iff_nth_eq)

section \<open>Go maps as association lists\<close>

text \<open>Assignment to a key of a Go map.\<close>

definition map_assign :: "'k \<Rightarrow> 'v \<Rightarrow> ('k \<times> 'v) list \<Rightarrow> ('k \<times> 'v) list" where
  "map_assign k v m =
     (if k \<in> fst ` set m then map (\<lambda>p. if fst p = k then (k, v) else p) m else m @ [(k, v)])"

lemma map_of_replace:
  "map_of (map (\<lambda>p. if fst p = k then (k, v) else p) m) = (if k \<in> fst ` set m then (map_of m)(k \<mapsto> v) else map_of m)"
  by (induction m) auto

lemma map_of_map_assign [simp]: "map_of (map_assign k v m) = (map_of m)(k \<mapsto> v)"
proof (cases "k \<in> fst ` set m")
  case True
  then show ?thesis by (simp add: map_assign_def map_of_replace)
next
  case False
  then have "map_of m k = None" by (simp add: map_of_eq_None_iff)
  with False show ?thesis by (auto simp: map_assign_def map_of_append map_add_def fun_eq_iff split: option.splits)
qed

lemma keys_map_assign: "fst ` set (map_assign k v m) = insert k (fst ` set m)"
proof -
  have "dom (map_of (map_assign k v m)) = insert k (dom (map_of m))" by simp
  then show ?thesis unfolding dom_map_of_conv_image_fst .
qed

end
