(* ===== verification/FieldErrors.thy ===== *)
theory FieldErrors
  imports PC_Prelude
begin

text \<open>
  The interface of \<open>knative.dev/pkg/apis.FieldError\<close>, the error type every validator of the
  program returns. The package is not part of the repository, so it is a parameter: a
  record of its constructors and methods over an abstract type \<open>'fe\<close>, with nil as \<open>None\<close>.
  The laws the program relies on (a collection holds the diagnostics of its parts, paths
  do not change levels, \<open>At\<close> sets the level of every diagnostic) are the assumptions of
  the locale \<open>field_error_laws\<close>. The reference instance at the end keeps an error as the
  list of its diagnostics and satisfies them.
\<close>

section \<open>The interface\<close>

datatype diag_level = ErrorLevel | WarningLevel

record 'fe fe_api =
  ErrMissingField :: "string list \<Rightarrow> 'fe"
  ErrMissingOneOf :: "string list \<Rightarrow> 'fe"
  ErrMultipleOneOf :: "string list \<Rightarrow> 'fe"
  ErrDisallowedFields :: "string list \<Rightarrow> 'fe"
  ErrInvalidValue :: "string \<Rightarrow> string \<Rightarrow> string list \<Rightarrow> 'fe"
  ErrGeneric :: "string \<Rightarrow> string list \<Rightarrow> 'fe"
  NewFieldError :: "string \<Rightarrow> string list \<Rightarrow> 'fe"
  SetDetails :: "string \<Rightarrow> 'fe \<Rightarrow> 'fe"
  FEMessage :: "'fe \<Rightarrow> string"
  FEError :: "'fe \<Rightarrow> string"
  Also :: "'fe option \<Rightarrow> 'fe option \<Rightarrow> 'fe option"
  At :: "diag_level \<Rightarrow> 'fe option \<Rightarrow> 'fe option"
  Filter :: "diag_level \<Rightarrow> 'fe option \<Rightarrow> 'fe option"
  ViaField :: "string \<Rightarrow> 'fe option \<Rightarrow> 'fe option"
  ViaFieldIndex :: "string \<Rightarrow> nat \<Rightarrow> 'fe option \<Rightarrow> 'fe option"
  ViaIndex :: "nat \<Rightarrow> 'fe option \<Rightarrow> 'fe option"

text \<open>
  An admission is rejected exactly when the returned error has a diagnostic at
  \<open>ErrorLevel\<close>; diagnostics at \<open>WarningLevel\<close> are only reported.
\<close>

definition blocks :: "'fe fe_api \<Rightarrow> 'fe option \<Rightarrow> bool" where
  "blocks api e = (Filter api ErrorLevel e \<noteq> None)"

definition has_warning :: "'fe fe_api \<Rightarrow> 'fe option \<Rightarrow> bool" where
  "has_warning api e = (Filter api WarningLevel e \<noteq> None)"

text \<open>\<open>apis.CurrentField\<close> is the empty path.\<close>

definition CurrentField :: string where "CurrentField = ''''"

locale field_error_laws =
  fixes api :: "'fe fe_api"
  assumes Also_nil: "Also api None None = None"
    and At_nil: "At api l None = None"
    and Filter_nil: "Filter api l None = None"
    and ViaField_nil: "ViaField api f None = None"
    and ViaFieldIndex_nil: "ViaFieldIndex api f i None = None"
    and ViaIndex_nil: "ViaIndex api i None = None"
    and Filter_Also: "Filter api l (Also api a b) = None \<longleftrightarrow>
          Filter api l a = None \<and> Filter api l b = None"
    and Filter_ViaField: "Filter api l (ViaField api f e) = None \<longleftrightarrow> Filter api l e = None"
    and Filter_ViaFieldIndex:
          "Filter api l (ViaFieldIndex api f i e) = None \<longleftrightarrow> Filter api l e = None"
    and Filter_ViaIndex: "Filter api l (ViaIndex api i e) = None \<longleftrightarrow> Filter api l e = None"
    and Filter_At: "Filter api l (At api k e) = None \<longleftrightarrow>
          l \<noteq> k \<or> (Filter api ErrorLevel e = None \<and> Filter api WarningLevel e = None)"
    and Filter_SetDetails:
          "Filter api l (Some (SetDetails api d x)) = None \<longleftrightarrow> Filter api l (Some x) = None"
    and MissingField_level: "Filter api l (Some (ErrMissingField api fs)) = None \<longleftrightarrow> l \<noteq> ErrorLevel"
    and MissingOneOf_level: "Filter api l (Some (ErrMissingOneOf api fs)) = None \<longleftrightarrow> l \<noteq> ErrorLevel"
    and MultipleOneOf_level:
          "Filter api l (Some (ErrMultipleOneOf api fs)) = None \<longleftrightarrow> l \<noteq> ErrorLevel"
    and DisallowedFields_level:
          "Filter api l (Some (ErrDisallowedFields api fs)) = None \<longleftrightarrow> l \<noteq> ErrorLevel"
    and InvalidValue_level:
          "Filter api l (Some (ErrInvalidValue api v f ds)) = None \<longleftrightarrow> l \<noteq> ErrorLevel"
    and Generic_level: "Filter api l (Some (ErrGeneric api m fs)) = None \<longleftrightarrow> l \<noteq> ErrorLevel"
    and NewFieldError_level: "m \<noteq> '''' \<Longrightarrow>
          Filter api l (Some (NewFieldError api m fs)) = None \<longleftrightarrow> l \<noteq> ErrorLevel"
begin

text \<open>The laws in terms of blocking and warning, as rewrite rules for the validators.\<close>

lemma blocks_basic [simp]:
  "\<not> blocks api None"
  "blocks api (Also api a b) \<longleftrightarrow> blocks api a \<or> blocks api b"
  "blocks api (ViaField api f a) \<longleftrightarrow> blocks api a"
  "blocks api (ViaFieldIndex api f i a) \<longleftrightarrow> blocks api a"
  "blocks api (ViaIndex api i a) \<longleftrightarrow> blocks api a"
  by (simp_all add: blocks_def Filter_nil Filter_Also Filter_ViaField Filter_ViaFieldIndex
      Filter_ViaIndex)

lemma blocks_errors [simp]:
  "blocks api (Some (ErrMissingField api fs))"
  "blocks api (Some (ErrMissingOneOf api fs))"
  "blocks api (Some (ErrMultipleOneOf api fs))"
  "blocks api (Some (ErrDisallowedFields api fs))"
  "blocks api (Some (ErrInvalidValue api v f ds))"
  "blocks api (Some (ErrGeneric api m fs))"
  "blocks api (Some (SetDetails api d x)) \<longleftrightarrow> blocks api (Some x)"
  by (simp_all add: blocks_def MissingField_level MissingOneOf_level MultipleOneOf_level
      DisallowedFields_level InvalidValue_level Generic_level Filter_SetDetails)

lemma blocks_At [simp]:
  "\<not> blocks api (At api WarningLevel a)"
  "blocks api (At api ErrorLevel a) \<longleftrightarrow> blocks api a \<or> has_warning api a"
  by (auto simp: blocks_def has_warning_def Filter_At)

lemma has_warning_basic [simp]:
  "\<not> has_warning api None"
  "has_warning api (Also api a b) \<longleftrightarrow> has_warning api a \<or> has_warning api b"
  "has_warning api (ViaField api f a) \<longleftrightarrow> has_warning api a"
  "has_warning api (ViaFieldIndex api f i a) \<longleftrightarrow> has_warning api a"
  by (simp_all add: has_warning_def Filter_nil Filter_Also Filter_ViaField Filter_ViaFieldIndex)

lemma has_warning_errors [simp]:
  "\<not> has_warning api (Some (ErrMissingField api fs))"
  "\<not> has_warning api (Some (ErrInvalidValue api v f ds))"
  "\<not> has_warning api (Some (ErrGeneric api m fs))"
  "has_warning api (Some (SetDetails api d x)) \<longleftrightarrow> has_warning api (Some x)"
  by (simp_all add: has_warning_def MissingField_level InvalidValue_level Generic_level
      Filter_SetDetails)

lemma has_warning_At [simp]:
  "\<not> has_warning api (At api ErrorLevel a)"
  "has_warning api (At api WarningLevel a) \<longleftrightarrow> blocks api a \<or> has_warning api a"
  by (auto simp: blocks_def has_warning_def Filter_At)

text \<open>A loop that collects the errors of a list blocks when one of the elements does.\<close>

lemma blocks_foldl_Also:
  "blocks api (foldl (\<lambda>acc x. Also api acc (f x)) e xs) \<longleftrightarrow>
     blocks api e \<or> (\<exists>x \<in> set xs. blocks api (f x))"
  by (induction xs arbitrary: e) auto

end

section \<open>Loops that collect field errors\<close>

text \<open>\<open>for i, x := range xs { errs = errs.Also(f(x).ViaFieldIndex(field, i)) }\<close>.\<close>

definition also_each :: "'fe fe_api \<Rightarrow> string \<Rightarrow> ('a \<Rightarrow> 'fe option) \<Rightarrow> 'a list \<Rightarrow>
    'fe option \<Rightarrow> 'fe option" where
  "also_each api field f xs errs =
     foldl (\<lambda>acc p. Also api acc (ViaFieldIndex api field (fst p) (f (snd p)))) errs (indexed xs)"

text \<open>\<open>if c { errs = errs.Also(e) }\<close>.\<close>

definition also_if :: "'fe fe_api \<Rightarrow> bool \<Rightarrow> 'fe option \<Rightarrow> 'fe option \<Rightarrow> 'fe option" where
  "also_if api c e errs = (if c then Also api errs e else errs)"

context field_error_laws
begin

lemma blocks_also_each [simp]:
  "blocks api (also_each api field f xs errs) \<longleftrightarrow>
     blocks api errs \<or> (\<exists>x \<in> set xs. blocks api (f x))"
proof -
  have "(\<exists>p \<in> set (indexed xs). blocks api (f (snd p))) \<longleftrightarrow> (\<exists>x \<in> set xs. blocks api (f x))"
    using ball_indexed [where P = "\<lambda>x. \<not> blocks api (f x)" and xs = xs] by blast
  then show ?thesis by (simp add: also_each_def blocks_foldl_Also)
qed

lemma blocks_also_if [simp]:
  "blocks api (also_if api c e errs) \<longleftrightarrow> blocks api errs \<or> c \<and> blocks api e"
  by (auto simp: also_if_def)

end

section \<open>Go errors\<close>

text \<open>
  An \<open>error\<close> value of the admission path is either a \<open>*apis.FieldError\<close>, which
  \<open>errors.As\<close> recovers, or any other error, of which only the text is used.
\<close>

datatype 'fe go_error = PlainError string | FieldErr 'fe

section \<open>The reference instance\<close>

record diag =
  dg_level :: diag_level
  dg_message :: string
  dg_paths :: "string list"
  dg_details :: string

type_synonym diag_list = "diag list"

definition mk_diag :: "string \<Rightarrow> string list \<Rightarrow> string \<Rightarrow> diag_list" where
  "mk_diag m ps d = [\<lparr>dg_level = ErrorLevel, dg_message = m, dg_paths = ps, dg_details = d\<rparr>]"

definition map_paths :: "(string \<Rightarrow> string) \<Rightarrow> diag_list option \<Rightarrow> diag_list option" where
  "map_paths f = map_option (map (\<lambda>d. d\<lparr>dg_paths := map f (dg_paths d)\<rparr>))"

definition diag_filter :: "diag_level \<Rightarrow> diag_list option \<Rightarrow> diag_list option" where
  "diag_filter l e = (case e of None \<Rightarrow> None
     | Some ds \<Rightarrow> (let ds' = filter (\<lambda>d. dg_level d = l) ds in if ds' = [] then None else Some ds'))"

definition diag_also :: "diag_list option \<Rightarrow> diag_list option \<Rightarrow> diag_list option" where
  "diag_also a b = (case a of None \<Rightarrow> b | Some xs \<Rightarrow>
     (case b of None \<Rightarrow> Some xs | Some ys \<Rightarrow> Some (xs @ ys)))"

definition diag_api :: "diag_list fe_api" where
  "diag_api = \<lparr>
     ErrMissingField = (\<lambda>fs. mk_diag ''missing field(s)'' fs ''''),
     ErrMissingOneOf = (\<lambda>fs. mk_diag ''expected exactly one, got neither'' fs ''''),
     ErrMultipleOneOf = (\<lambda>fs. mk_diag ''expected exactly one, got both'' fs ''''),
     ErrDisallowedFields = (\<lambda>fs. mk_diag ''must not set the field(s)'' fs ''''),
     ErrInvalidValue = (\<lambda>v f ds. mk_diag (''invalid value: '' @ v) [f] (concat ds)),
     ErrGeneric = (\<lambda>m fs. mk_diag m fs ''''),
     NewFieldError = (\<lambda>m fs. mk_diag m fs ''''),
     SetDetails = (\<lambda>d. map (\<lambda>x. x\<lparr>dg_details := d\<rparr>)),
     FEMessage = (\<lambda>ds. case ds of [] \<Rightarrow> '''' | d # _ \<Rightarrow> dg_message d),
     FEError = (\<lambda>ds. concat (map (\<lambda>d. dg_message d @ '': '' @ concat (dg_paths d)) ds)),
     Also = diag_also,
     At = (\<lambda>l. map_option (map (\<lambda>d. d\<lparr>dg_level := l\<rparr>))),
     Filter = diag_filter,
     ViaField = (\<lambda>f. map_paths (\<lambda>p. f @ ''.'' @ p)),
     ViaFieldIndex = (\<lambda>f i. map_paths (\<lambda>p. f @ ''['' @ show_nat i @ ''].'' @ p)),
     ViaIndex = (\<lambda>i. map_paths (\<lambda>p. ''['' @ show_nat i @ ''].'' @ p))\<rparr>"

lemma diag_filter_None_iff:
  "diag_filter l e = None \<longleftrightarrow> (\<forall>ds. e = Some ds \<longrightarrow> (\<forall>d \<in> set ds. dg_level d \<noteq> l))"
  by (cases e) (simp_all add: diag_filter_def filter_empty_conv)

lemma diag_level_cases: "l = ErrorLevel \<or> l = WarningLevel"
  by (cases l) auto

lemma diag_filter_At:
  "diag_filter l (map_option (map (\<lambda>d. d\<lparr>dg_level := k\<rparr>)) e) = None \<longleftrightarrow>
     l \<noteq> k \<or> (diag_filter ErrorLevel e = None \<and> diag_filter WarningLevel e = None)"
  by (cases e) (use diag_level_cases in \<open>fastforce simp: diag_filter_None_iff\<close>)+

lemma diag_filter_also:
  "diag_filter l (diag_also a b) = None \<longleftrightarrow> diag_filter l a = None \<and> diag_filter l b = None"
  by (auto simp: diag_filter_None_iff diag_also_def split: option.splits)

interpretation dl: field_error_laws diag_api
  by unfold_locales
     (simp_all add: diag_api_def mk_diag_def diag_filter_At diag_filter_also,
      auto simp: diag_filter_None_iff map_paths_def diag_also_def, blast+)

end
