(* ===== verification/Regex.thy ===== *)
theory Regex
  imports PC_Prelude
begin

text \<open>
  The part of Go's \<open>regexp\<close> package the sources rely on: character classes, concatenation,
  alternation and repetition, matched against a whole string (every expression of the
  sources is anchored with \<open>^\<close> and \<open>$\<close>). Matching is by derivatives; \<open>rx_lang\<close> is the
  usual language of an expression and \<open>rx_match_iff\<close> ties the two together.
\<close>

section \<open>Expressions\<close>

text \<open>
  \<open>RIn cs\<close> matches one byte of \<open>cs\<close>, \<open>RNotIn cs\<close> one byte outside it. Bytes of a
  multi-byte character are never in the ASCII sets used here, so a star over such a class
  accepts the same strings whether it runs over bytes or over code points.
\<close>

datatype rx =
    RNone
  | REps
  | RIn "char list"
  | RNotIn "char list"
  | RSeq rx rx
  | RAlt rx rx
  | RStar rx

definition RDot :: rx where
  \<comment> \<open>\<open>.\<close> without the \<open>s\<close> flag: any character but a newline\<close>
  "RDot = RNotIn [CHR 0x0A]"

fun RStr :: "string \<Rightarrow> rx" where
  "RStr [] = REps"
| "RStr (c # cs) = RSeq (RIn [c]) (RStr cs)"

definition ROpt :: "rx \<Rightarrow> rx" where "ROpt r = RAlt r REps"

definition RPlus :: "rx \<Rightarrow> rx" where "RPlus r = RSeq r (RStar r)"

fun RPow :: "nat \<Rightarrow> rx \<Rightarrow> rx" where
  "RPow 0 r = REps"
| "RPow (Suc n) r = RSeq r (RPow n r)"

fun RCat :: "rx list \<Rightarrow> rx" where
  "RCat [] = REps"
| "RCat (r # rs) = RSeq r (RCat rs)"

section \<open>Matching\<close>

fun nullable :: "rx \<Rightarrow> bool" where
  "nullable RNone = False"
| "nullable REps = True"
| "nullable (RIn cs) = False"
| "nullable (RNotIn cs) = False"
| "nullable (RSeq r s) = (nullable r \<and> nullable s)"
| "nullable (RAlt r s) = (nullable r \<or> nullable s)"
| "nullable (RStar r) = True"

text \<open>Smart constructors keep derivatives small.\<close>

fun mk_seq :: "rx \<Rightarrow> rx \<Rightarrow> rx" where
  "mk_seq RNone s = RNone"
| "mk_seq REps s = s"
| "mk_seq r s = (if s = RNone then RNone else RSeq r s)"

fun mk_alt :: "rx \<Rightarrow> rx \<Rightarrow> rx" where
  "mk_alt RNone s = s"
| "mk_alt r s = (if s = RNone \<or> r = s then r else RAlt r s)"

fun deriv :: "char \<Rightarrow> rx \<Rightarrow> rx" where
  "deriv c RNone = RNone"
| "deriv c REps = RNone"
| "deriv c (RIn cs) = (if c \<in> set cs then REps else RNone)"
| "deriv c (RNotIn cs) = (if c \<in> set cs then RNone else REps)"
| "deriv c (RSeq r s) =
     (if nullable r then mk_alt (mk_seq (deriv c r) s) (deriv c s) else mk_seq (deriv c r) s)"
| "deriv c (RAlt r s) = mk_alt (deriv c r) (deriv c s)"
| "deriv c (RStar r) = mk_seq (deriv c r) (RStar r)"

fun rx_match :: "rx \<Rightarrow> string \<Rightarrow> bool" where
  "rx_match r [] = nullable r"
| "rx_match r (c # cs) = rx_match (deriv c r) cs"

section \<open>Languages\<close>

inductive star_lang :: "(string \<Rightarrow> bool) \<Rightarrow> string \<Rightarrow> bool" for L where
  star_Nil: "star_lang L []"
| star_Step: "L u \<Longrightarrow> star_lang L v \<Longrightarrow> star_lang L (u @ v)"

fun rx_lang :: "rx \<Rightarrow> string \<Rightarrow> bool" where
  "rx_lang RNone s = False"
| "rx_lang REps s = (s = [])"
| "rx_lang (RIn cs) s = (\<exists>c \<in> set cs. s = [c])"
| "rx_lang (RNotIn cs) s = (\<exists>c. c \<notin> set cs \<and> s = [c])"
| "rx_lang (RSeq r t) s = (\<exists>u v. s = u @ v \<and> rx_lang r u \<and> rx_lang t v)"
| "rx_lang (RAlt r t) s = (rx_lang r s \<or> rx_lang t s)"
| "rx_lang (RStar r) s = star_lang (rx_lang r) s"

lemma nullable_iff: "nullable r \<longleftrightarrow> rx_lang r []"
  by (induction r) (auto intro: star_Nil)

lemma lang_mk_seq [simp]: "rx_lang (mk_seq r s) w \<longleftrightarrow> rx_lang (RSeq r s) w"
  by (cases "(r, s)" rule: mk_seq.cases) auto

lemma lang_mk_alt [simp]: "rx_lang (mk_alt r s) w \<longleftrightarrow> rx_lang (RAlt r s) w"
  by (cases "(r, s)" rule: mk_alt.cases) auto

lemma star_lang_Cons:
  "star_lang L (c # w) \<longleftrightarrow> (\<exists>u v. w = u @ v \<and> L (c # u) \<and> star_lang L v)"
proof
  show "star_lang L (c # w) \<Longrightarrow> \<exists>u v. w = u @ v \<and> L (c # u) \<and> star_lang L v"
    by (induction "c # w" rule: star_lang.induct) (auto simp: append_eq_Cons_conv)
next
  assume "\<exists>u v. w = u @ v \<and> L (c # u) \<and> star_lang L v"
  then obtain u v where "w = u @ v" "L (c # u)" "star_lang L v" by blast
  then show "star_lang L (c # w)" using star_Step [of L "c # u" v] by simp
qed

lemma lang_deriv: "rx_lang (deriv c r) w \<longleftrightarrow> rx_lang r (c # w)"
  by (induction r arbitrary: w)
     (auto simp: nullable_iff star_lang_Cons Cons_eq_append_conv)

theorem rx_match_iff: "rx_match r s \<longleftrightarrow> rx_lang r s"
  by (induction s arbitrary: r) (auto simp: nullable_iff lang_deriv)

section \<open>The derived forms\<close>

lemma star_single: "star_lang (\<lambda>s. \<exists>c. P c \<and> s = [c]) w \<longleftrightarrow> (\<forall>c \<in> set w. P c)"
proof
  show "star_lang (\<lambda>s. \<exists>c. P c \<and> s = [c]) w \<Longrightarrow> \<forall>c \<in> set w. P c"
    by (induction rule: star_lang.induct) auto
next
  show "\<forall>c \<in> set w. P c \<Longrightarrow> star_lang (\<lambda>s. \<exists>c. P c \<and> s = [c]) w"
  proof (induction w)
    case Nil
    show ?case by (rule star_Nil)
  next
    case (Cons c w)
    then show ?case
      using star_Step [of "\<lambda>s. \<exists>c. P c \<and> s = [c]" "[c]" w] by auto
  qed
qed

lemma lang_RIn_fun: "rx_lang (RIn cs) = (\<lambda>s. \<exists>c. c \<in> set cs \<and> s = [c])"
  by (auto simp: fun_eq_iff)

lemma lang_RNotIn_fun: "rx_lang (RNotIn cs) = (\<lambda>s. \<exists>c. c \<notin> set cs \<and> s = [c])"
  by (auto simp: fun_eq_iff)

lemma lang_star_RIn [simp]: "rx_lang (RStar (RIn cs)) w \<longleftrightarrow> set w \<subseteq> set cs"
  by (auto simp: lang_RIn_fun star_single)

lemma lang_star_RNotIn [simp]: "rx_lang (RStar (RNotIn cs)) w \<longleftrightarrow> set w \<inter> set cs = {}"
  by (auto simp: lang_RNotIn_fun star_single)

lemma lang_seq_RIn:
  "rx_lang (RSeq (RIn cs) r) w \<longleftrightarrow> (\<exists>c v. w = c # v \<and> c \<in> set cs \<and> rx_lang r v)"
proof
  assume "\<exists>c v. w = c # v \<and> c \<in> set cs \<and> rx_lang r v"
  then obtain c v where "w = [c] @ v" "rx_lang (RIn cs) [c]" "rx_lang r v" by auto
  then show "rx_lang (RSeq (RIn cs) r) w" unfolding rx_lang.simps(5) by blast
qed auto

lemma lang_plus_RIn [simp]: "rx_lang (RPlus (RIn cs)) w \<longleftrightarrow> w \<noteq> [] \<and> set w \<subseteq> set cs"
  unfolding RPlus_def lang_seq_RIn lang_star_RIn by (cases w) auto

lemma lang_RStr [simp]: "rx_lang (RStr t) w \<longleftrightarrow> w = t"
  by (induction t arbitrary: w) auto

lemma lang_RCat_Cons [simp]:
  "rx_lang (RCat (r # rs)) w \<longleftrightarrow> (\<exists>u v. w = u @ v \<and> rx_lang r u \<and> rx_lang (RCat rs) v)"
  by simp

end
