(* ===== verification/Glob.thy ===== *)
theory Glob
  imports Regex
begin

text \<open>
  \<open>pkg/apis/glob/glob.go\<close>: globs over image names. \<open>Compile\<close> rewrites the glob into the
  text of an anchored regular expression and hands it to \<open>regexp.Compile\<close>; the model
  performs the same textual replacements and then reads the resulting text
  (\<open>regexp_compile\<close> covers the fragment of the syntax \<open>Compile\<close> can produce). The
  correctness statement relates the compiled expression to the documented meaning of a
  glob: \<open>*\<close> stands for any run without a slash and \<open>**\<close> for any run at all.
\<close>

section \<open>Image references\<close>

text \<open>
  \<open>name.Reference\<close> of go-containerregistry is used through its methods only; a reference is
  modelled by what they return. Parsing is a parameter of the definitions that parse.
\<close>

datatype ref_kind = TagRef | DigestRef

record reference =
  ref_Name :: string
  ref_String :: string
  ref_Kind :: ref_kind
  ref_DigestStr :: string
  ref_Context :: string

type_synonym ref_parser = "string \<Rightarrow> reference go_result"

section \<open>Compile\<close>

definition lower_letters :: string where "lower_letters = ''abcdefghijklmnopqrstuvwxyz''"
definition upper_letters :: string where "upper_letters = ''ABCDEFGHIJKLMNOPQRSTUVWXYZ''"
definition digits10 :: string where "digits10 = ''0123456789''"

definition glob_chars :: string where
  "glob_chars = lower_letters @ upper_letters @ digits10 @ ''-_:/*.@''"

definition validGlob :: rx where
  "validGlob = RPlus (RIn glob_chars)"

text \<open>The text of the expression: the replacements of \<open>Compile\<close>, in order.\<close>

definition translate :: "string \<Rightarrow> string" where
  "translate g =
     (let g1 = ReplaceAll g ''.'' [CHR 0x5C, CHR ''.''];
          g2 = ReplaceAll g1 ''**'' ''#'';
          g3 = ReplaceAll g2 ''*'' ''[^/]*'';
          g4 = ReplaceAll g3 ''#'' ''.*''
      in ''^'' @ g4 @ ''$'')"

text \<open>
  Reading the body of such a text: \<open>\.\<close> is a literal dot, \<open>[^/]*\<close> and \<open>.*\<close> are the two
  stars, and the remaining characters a glob may contain stand for themselves.
  Anything else is outside the fragment and reported as an error.
\<close>

fun read_items :: "string \<Rightarrow> rx list go_result" where
  "read_items [] = Ok []"
| "read_items (c # cs) =
     (if c = CHR 0x5C then
        (case cs of
           [] \<Rightarrow> Err ''trailing backslash at end of expression''
         | d # ds \<Rightarrow> (case read_items ds of Inl e \<Rightarrow> Err e | Inr rs \<Rightarrow> Ok (RIn [d] # rs)))
      else if prefix ''[^/]*'' (c # cs) then
        (case read_items (drop 4 cs) of Inl e \<Rightarrow> Err e
         | Inr rs \<Rightarrow> Ok (RStar (RNotIn ''/'') # rs))
      else if prefix ''.*'' (c # cs) then
        (case read_items (drop 1 cs) of Inl e \<Rightarrow> Err e | Inr rs \<Rightarrow> Ok (RStar RDot # rs))
      else if c \<in> set glob_chars - {CHR ''.'', CHR ''*''} then
        (case read_items cs of Inl e \<Rightarrow> Err e | Inr rs \<Rightarrow> Ok (RIn [c] # rs))
      else Err ''error parsing regexp'')"

definition regexp_compile :: "string \<Rightarrow> rx go_result" where
  "regexp_compile t =
     (if prefix ''^'' t \<and> suffix ''$'' t \<and> 2 \<le> length t
      then (case read_items (butlast (tl t)) of Inl e \<Rightarrow> Err e | Inr rs \<Rightarrow> Ok (RCat rs))
      else Err ''error parsing regexp'')"

definition normalize_glob :: "string \<Rightarrow> string" where
  "normalize_glob g =
     (let g1 = (if g = ''*/*'' then ''index.docker.io/*/*'' else g)
      in if g1 = ''*'' then ''index.docker.io/library/*'' else g1)"

definition Compile :: "string \<Rightarrow> rx go_result" where
  "Compile glob =
     (let g = normalize_glob glob
      in if \<not> rx_match validGlob g then Err (''invalid glob '' @ g)
         else regexp_compile (translate g))"

section \<open>Match\<close>

definition Match :: "ref_parser \<Rightarrow> string \<Rightarrow> string \<Rightarrow> bool go_result" where
  "Match parseWeak glob img =
     (case Compile glob of
        Inl e \<Rightarrow> Err e
      | Inr re \<Rightarrow>
          (case parseWeak img of
             Inl e \<Rightarrow> Err e
           | Inr ref \<Rightarrow>
               (let m = rx_match re (ref_Name ref)
                in if \<not> m \<and> ref_Name ref \<noteq> img then Ok (rx_match re img) else Ok m)))"

section \<open>The meaning of a glob\<close>

datatype gtok = GLit char | GStar | GDStar

fun glob_tokens :: "string \<Rightarrow> gtok list" where
  "glob_tokens [] = []"
| "glob_tokens (c # cs) =
     (if c = CHR ''*'' then
        (case cs of
           d # ds \<Rightarrow> if d = CHR ''*'' then GDStar # glob_tokens ds else GStar # glob_tokens cs
         | [] \<Rightarrow> [GStar])
      else GLit c # glob_tokens cs)"

fun glob_sem :: "gtok list \<Rightarrow> string \<Rightarrow> bool" where
  "glob_sem [] s = (s = [])"
| "glob_sem (GLit c # ts) s = (\<exists>v. s = c # v \<and> glob_sem ts v)"
| "glob_sem (GStar # ts) s = (\<exists>u v. s = u @ v \<and> CHR ''/'' \<notin> set u \<and> glob_sem ts v)"
| "glob_sem (GDStar # ts) s = (\<exists>u v. s = u @ v \<and> CHR 0x0A \<notin> set u \<and> glob_sem ts v)"

fun tok_rx :: "gtok \<Rightarrow> rx" where
  "tok_rx (GLit c) = RIn [c]"
| "tok_rx GStar = RStar (RNotIn ''/'')"
| "tok_rx GDStar = RStar RDot"

fun tok_text :: "gtok \<Rightarrow> string" where
  "tok_text (GLit c) = (if c = CHR ''.'' then [CHR 0x5C, CHR ''.''] else [c])"
| "tok_text GStar = ''[^/]*''"
| "tok_text GDStar = ''.*''"

definition body :: "string \<Rightarrow> string" where
  "body g = ReplaceAll (ReplaceAll (ReplaceAll (ReplaceAll g ''.'' [CHR 0x5C, CHR ''.''])
              ''**'' ''#'') ''*'' ''[^/]*'') ''#'' ''.*''"

lemma translate_body: "translate g = ''^'' @ body g @ ''$''"
  by (simp add: translate_def body_def Let_def)

text \<open>The replacements expand the glob token by token.\<close>

lemma body_tokens: "CHR ''#'' \<notin> set g \<Longrightarrow> body g = concat (map tok_text (glob_tokens g))"
proof (induction g rule: glob_tokens.induct)
  case 1
  show ?case by (simp add: body_def)
next
  case (2 c cs)
  show ?case
  proof (cases "c = CHR ''*''")
    case True
    then show ?thesis
    proof (cases cs)
      case Nil
      with True show ?thesis by (simp add: body_def ReplaceAll_char)
    next
      case (Cons d ds)
      with True "2.IH" "2.prems" show ?thesis
        by (cases "d = CHR ''*''") (auto simp: body_def ReplaceAll_char)
    qed
  next
    case False
    with "2.IH" "2.prems" show ?thesis
      by (auto simp: body_def ReplaceAll_char)
  qed
qed

lemma glob_tokens_lits: "GLit c \<in> set (glob_tokens g) \<Longrightarrow> c \<in> set g \<and> c \<noteq> CHR ''*''"
  by (induction g rule: glob_tokens.induct) (auto split: if_splits list.splits)

lemma read_items_tokens:
  assumes "\<forall>c. GLit c \<in> set ts \<longrightarrow> c \<in> set glob_chars \<and> c \<noteq> CHR ''*''"
  shows "read_items (concat (map tok_text ts)) = Ok (map tok_rx ts)"
  using assms
proof (induction ts)
  case Nil
  show ?case by simp
next
  case (Cons t ts)
  then have IH: "read_items (concat (map tok_text ts)) = Ok (map tok_rx ts)" by simp
  show ?case
  proof (cases t)
    case (GLit c)
    with Cons.prems have "c \<in> set glob_chars" "c \<noteq> CHR ''*''" by auto
    moreover from this have "c \<noteq> CHR ''['' \<and> c \<noteq> CHR 0x5C"
      by (auto simp: glob_chars_def lower_letters_def upper_letters_def digits10_def)
    ultimately show ?thesis using GLit IH by auto
  qed (use IH in simp_all)
qed

lemma lang_tokens: "rx_lang (RCat (map tok_rx ts)) s \<longleftrightarrow> glob_sem ts s"
proof (induction ts arbitrary: s)
  case (Cons t ts)
  then show ?case
    by (cases t) (auto simp: RDot_def simp del: rx_lang.simps(7))
qed simp

lemma valid_glob_iff: "rx_match validGlob g \<longleftrightarrow> g \<noteq> [] \<and> set g \<subseteq> set glob_chars"
  by (simp add: validGlob_def rx_match_iff)

lemma hash_not_glob_char: "CHR ''#'' \<notin> set glob_chars"
  by (simp add: glob_chars_def lower_letters_def upper_letters_def digits10_def)

theorem Compile_tokens:
  "Compile g =
     (if normalize_glob g \<noteq> [] \<and> set (normalize_glob g) \<subseteq> set glob_chars
      then Ok (RCat (map tok_rx (glob_tokens (normalize_glob g))))
      else Err (''invalid glob '' @ normalize_glob g))"
proof (cases "normalize_glob g \<noteq> [] \<and> set (normalize_glob g) \<subseteq> set glob_chars")
  case True
  let ?n = "normalize_glob g"
  from True have hash: "CHR ''#'' \<notin> set ?n" using hash_not_glob_char by blast
  have "\<forall>c. GLit c \<in> set (glob_tokens ?n) \<longrightarrow> c \<in> set glob_chars \<and> c \<noteq> CHR ''*''"
    using True glob_tokens_lits by blast
  then have "read_items (body ?n) = Ok (map tok_rx (glob_tokens ?n))"
    by (simp add: body_tokens [OF hash] read_items_tokens)
  with True show ?thesis
    by (simp add: Compile_def valid_glob_iff Let_def regexp_compile_def translate_body butlast_append
        suffix_def)
next
  case False
  then show ?thesis by (auto simp: Compile_def valid_glob_iff Let_def)
qed

lemma literal_prefix:
  "CHR ''*'' \<notin> set p \<Longrightarrow> glob_sem (glob_tokens (p @ g)) (p @ s) \<longleftrightarrow> glob_sem (glob_tokens g) s"
  by (induction p) auto

lemma official_images_match:
  assumes "CHR ''/'' \<notin> set name"
  shows "glob_sem (glob_tokens (normalize_glob ''*'')) (''index.docker.io/library/'' @ name)"
  using assms literal_prefix [of "''index.docker.io/library/''" "''*''" name] by (simp add: normalize_glob_def)

lemma user_images_match:
  assumes "CHR ''/'' \<notin> set user" "CHR ''/'' \<notin> set name"
  shows "glob_sem (glob_tokens (normalize_glob ''*/*'')) (''index.docker.io/'' @ user @ ''/'' @ name)"
proof -
  have "glob_sem (glob_tokens ''*/*'') (user @ ''/'' @ name)" using assms by auto
  then show ?thesis
    using literal_prefix [of "''index.docker.io/''" "''*/*''" "user @ ''/'' @ name"] by (simp add: normalize_glob_def)
qed

text \<open>
  C9 Matching an image against a glob. The globs \<open>*\<close> and \<open>*/*\<close> alone stand for
  \<open>index.docker.io/library/*\<close> and \<open>index.docker.io/*/*\<close>; a glob with a character outside the
  permitted set is an error; an image that does not parse is the parser's error; and otherwise
  the answer is whether the reference's full name or the image as written is in the language of
  the glob (\<open>*\<close> for a run without a slash, \<open>**\<close> for any run, every other character for itself).
  So \<open>*\<close> matches an image that resolves to an official image of Docker Hub, such as \<open>ubuntu\<close>, and
  \<open>*/*\<close> matches \<open>myuser/myapp\<close>, as the tests of the package expect, whereas the comment of
  \<open>Match\<close> says that they do not.
\<close>

theorem Match_meaning:
  "Match parseWeak glob img =
     (let g = (if glob = ''*'' then ''index.docker.io/library/*''
               else if glob = ''*/*'' then ''index.docker.io/*/*'' else glob)
      in if g \<noteq> [] \<and> set g \<subseteq> set glob_chars then
           case parseWeak img of
             Inl e \<Rightarrow> Err e
           | Inr ref \<Rightarrow> Ok (glob_sem (glob_tokens g) (ref_Name ref) \<or> glob_sem (glob_tokens g) img)
         else Err (''invalid glob '' @ g)) \<and>
   (\<forall>ref name. parseWeak img = Ok ref \<and> ref_Name ref = ''index.docker.io/library/'' @ name \<and> CHR ''/'' \<notin> set name \<longrightarrow>
      Match parseWeak ''*'' img = Ok True) \<and>
   (\<forall>ref user name. parseWeak img = Ok ref \<and> ref_Name ref = ''index.docker.io/'' @ user @ ''/'' @ name \<and>
      CHR ''/'' \<notin> set user \<and> CHR ''/'' \<notin> set name \<longrightarrow> Match parseWeak ''*/*'' img = Ok True)"
proof (intro conjI allI impI)
  have m: "Match parseWeak h img =
     (if normalize_glob h \<noteq> [] \<and> set (normalize_glob h) \<subseteq> set glob_chars then
           case parseWeak img of
             Inl e \<Rightarrow> Err e
           | Inr ref \<Rightarrow> Ok (glob_sem (glob_tokens (normalize_glob h)) (ref_Name ref) \<or> glob_sem (glob_tokens (normalize_glob h)) img)
         else Err (''invalid glob '' @ normalize_glob h))" for h
    by (auto simp: Match_def Compile_tokens rx_match_iff lang_tokens Let_def split: sum.splits)
  have n: "normalize_glob glob = (if glob = ''*'' then ''index.docker.io/library/*''
      else if glob = ''*/*'' then ''index.docker.io/*/*'' else glob)" by (simp add: normalize_glob_def Let_def)
  show "Match parseWeak glob img =
     (let g = (if glob = ''*'' then ''index.docker.io/library/*''
               else if glob = ''*/*'' then ''index.docker.io/*/*'' else glob)
      in if g \<noteq> [] \<and> set g \<subseteq> set glob_chars then
           case parseWeak img of
             Inl e \<Rightarrow> Err e
           | Inr ref \<Rightarrow> Ok (glob_sem (glob_tokens g) (ref_Name ref) \<or> glob_sem (glob_tokens g) img)
         else Err (''invalid glob '' @ g))"
    unfolding m n Let_def ..
  have v: "normalize_glob ''*'' \<noteq> [] \<and> set (normalize_glob ''*'') \<subseteq> set glob_chars"
    "normalize_glob ''*/*'' \<noteq> [] \<and> set (normalize_glob ''*/*'') \<subseteq> set glob_chars"
    by (simp_all add: normalize_glob_def glob_chars_def lower_letters_def upper_letters_def digits10_def)
  fix ref name
  show "Match parseWeak ''*'' img = Ok True"
    if r: "parseWeak img = Ok ref \<and> ref_Name ref = ''index.docker.io/library/'' @ name \<and> CHR ''/'' \<notin> set name"
  proof -
    have "glob_sem (glob_tokens (normalize_glob ''*'')) (ref_Name ref)" using official_images_match [of name] r by (simp only: simp_thms)
    with r v(1) show ?thesis by (simp only: m if_True sum.case simp_thms)
  qed
  fix user
  show "Match parseWeak ''*/*'' img = Ok True"
    if r: "parseWeak img = Ok ref \<and> ref_Name ref = ''index.docker.io/'' @ user @ ''/'' @ name \<and>
      CHR ''/'' \<notin> set user \<and> CHR ''/'' \<notin> set name"
  proof -
    have "glob_sem (glob_tokens (normalize_glob ''*/*'')) (ref_Name ref)" using user_images_match [of user name] r by (simp only: simp_thms)
    with r v(2) show ?thesis by (simp only: m if_True sum.case simp_thms)
  qed
qed

theorem Match_meaning_witness:
  "Match (\<lambda>_. Ok \<lparr>ref_Name = ''index.docker.io/library/ubuntu:latest'', ref_String = ''ubuntu'', ref_Kind = TagRef,
     ref_DigestStr = '''', ref_Context = ''index.docker.io/library/ubuntu''\<rparr>) ''*'' ''ubuntu'' = Ok True"
proof -
  let ?r = "\<lparr>ref_Name = ''index.docker.io/library/ubuntu:latest'', ref_String = ''ubuntu'', ref_Kind = TagRef,
     ref_DigestStr = '''', ref_Context = ''index.docker.io/library/ubuntu''\<rparr>"
  have "?r = ?r \<and> ref_Name ?r = ''index.docker.io/library/'' @ ''ubuntu:latest'' \<and> CHR ''/'' \<notin> set ''ubuntu:latest''" by simp
  with Match_meaning [of "\<lambda>_. Ok ?r" "''*''" "''ubuntu''"] show ?thesis by (metis (no_types))
qed

end
