(* ===== verification/Common.thy ===== *)
theory Common
  imports FieldErrors Regex Glob
begin

text \<open>
  \<open>pkg/apis/policy/common/validation.go\<close>: the checks shared by the two versions of the
  policy resource (OCI sources and KMS references) and the sets of accepted words. Functions
  of packages outside the repository are collected in the record \<open>externals\<close>, a parameter
  of every validator.
\<close>

section \<open>Keys and external functions\<close>

text \<open>The shapes of \<open>crypto.PublicKey\<close> the sources distinguish, with the raw key.\<close>

datatype curve = P256 | P384 | P521 | OtherCurve

datatype pubkey = EcdsaKey curve string | RsaKey nat string | OtherKey string

text \<open>
  External functions: each field is named after the function it stands for. An
  \<open>_err\<close> field returns the text of the error the call yields, if any.
\<close>

record externals =
  x_UnmarshalPEMToPublicKey :: "string \<Rightarrow> pubkey option go_result"
  x_system_Namespace :: string
  x_NewRepository_err :: "string \<Rightarrow> string option"
  x_NewRegistry_err :: "string \<Rightarrow> string option"
  x_arn_Parse_Resource :: "string \<Rightarrow> string go_result"
  x_SplitHostPort_err :: "string \<Rightarrow> string option"
  x_ParseRequestURI_err :: "string \<Rightarrow> string option"
  x_url_Parse_HostScheme :: "string \<Rightarrow> (string \<times> string) go_result"
  x_regexp_Compile_err :: "string \<Rightarrow> string option"
  x_filepath_Match_err :: "string \<Rightarrow> string option"
  x_aws_ReferenceScheme :: string
  x_azure_ReferenceScheme :: string
  x_hashivault_ReferenceScheme :: string
  x_gcp_ReferenceScheme :: string

text \<open>External functions that accept every argument; a PEM text is a key when it is not empty.\<close>

definition sample_externals :: externals where
  "sample_externals = \<lparr>
     x_UnmarshalPEMToPublicKey = (\<lambda>d. if d = '''' then Err ''no PEM data'' else Ok (Some (OtherKey d))),
     x_system_Namespace = ''cosign-system'',
     x_NewRepository_err = (\<lambda>_. None), x_NewRegistry_err = (\<lambda>_. None),
     x_arn_Parse_Resource = Ok, x_SplitHostPort_err = (\<lambda>_. None),
     x_ParseRequestURI_err = (\<lambda>_. None),
     x_url_Parse_HostScheme = (\<lambda>_. Ok (''example.com'', ''https'')),
     x_regexp_Compile_err = (\<lambda>_. None), x_filepath_Match_err = (\<lambda>_. None),
     x_aws_ReferenceScheme = ''awskms://'', x_azure_ReferenceScheme = ''azurekms://'',
     x_hashivault_ReferenceScheme = ''hashivault://'', x_gcp_ReferenceScheme = ''gcpkms://''\<rparr>"

section \<open>Accepted words\<close>

definition SupportedKMSProviders :: "externals \<Rightarrow> string list" where
  "SupportedKMSProviders x =
     [x_aws_ReferenceScheme x, x_azure_ReferenceScheme x, x_hashivault_ReferenceScheme x,
      x_gcp_ReferenceScheme x]"

definition ValidPredicateTypes :: "string list" where
  "ValidPredicateTypes =
     [''custom'', ''slsaprovenance'', ''spdx'', ''spdxjson'', ''cyclonedx'', ''link'', ''vuln'']"

definition ValidStaticRefTypes :: "string list" where
  "ValidStaticRefTypes = [''fail'', ''pass'']"

definition ValidModes :: "string list" where
  "ValidModes = [''enforce'', ''warn'']"

section \<open>OCI sources\<close>

definition ValidateOCI :: "externals \<Rightarrow> string \<Rightarrow> string option" where
  "ValidateOCI x oci =
     (let parts = splitN2 CHR ''/'' oci
      in if length parts = 2 \<and>
            (ContainsRune (hd parts) CHR ''.'' \<or> ContainsRune (hd parts) CHR '':'')
         then x_NewRepository_err x oci
         else x_NewRegistry_err x oci)"

section \<open>KMS references\<close>

definition errKMSReference :: string where
  "errKMSReference =
     ''kms key should be in the format awskms://[ENDPOINT]/[ID/ALIAS/ARN] (endpoint optional)''"

definition hexRE :: rx where "hexRE = RIn ''ABCDEFabcdef0123456789''"

definition uuidRE :: rx where
  "uuidRE = RCat [ROpt (RStr ''m''), ROpt (RStr ''r''), ROpt (RStr ''k''), ROpt (RStr ''-''),
     RPow 8 hexRE, ROpt (RStr ''-''), RPow 4 hexRE, ROpt (RStr ''-''), RPow 4 hexRE,
     ROpt (RStr ''-''), RPow 4 hexRE, ROpt (RStr ''-''), RPow 12 hexRE]"

definition arnRE :: rx where
  "arnRE = RCat [RStr ''arn:'', RAlt (RStr ''aws'') (RAlt (RStr ''aws-us-gov'') (RStr ''aws-cn'')),
     RStr '':kms:'', RPlus (RIn (lower_letters @ digits10 @ ''-'')), RStr '':'',
     RPow 12 (RIn digits10), RStr '':'']"

definition hostRE :: rx where
  "hostRE = RSeq (RStar (RNotIn ''/'')) (RStr ''/'')"

definition keyIDRE :: rx where
  "keyIDRE = RCat [RStr ''awskms://'', hostRE, uuidRE]"

definition keyARNRE :: rx where
  "keyARNRE = RCat [RStr ''awskms://'', hostRE, arnRE, RStr ''key/'', uuidRE]"

definition aliasNameRE :: rx where
  "aliasNameRE = RCat [RStr ''awskms://'', hostRE, RStr ''alias/'', RStar RDot]"

definition aliasARNRE :: rx where
  "aliasARNRE = RCat [RStr ''awskms://'', hostRE, arnRE, RStr ''alias/'', RStar RDot]"

definition allREs :: "rx list" where
  "allREs = [keyIDRE, keyARNRE, aliasNameRE, aliasARNRE]"

definition validAWSKMSRegex :: "string \<Rightarrow> string option" where
  "validAWSKMSRegex ref =
     (if \<exists>re \<in> set allREs. rx_match re ref then None else Some errKMSReference)"

definition validateAWSKMS :: "'fe fe_api \<Rightarrow> externals \<Rightarrow> string \<Rightarrow> 'fe option" where
  "validateAWSKMS api x kms =
     (let parts = split_on CHR ''/'' kms; invalid = (\<lambda>d. Some (ErrInvalidValue api kms CurrentField [d]))
      in if length parts < 4
         then invalid ''malformed AWS KMS format 'awskms://$ENDPOINT/$KEYID', should be conformant with KMS standard documented here: https://docs.aws.amazon.com/kms/latest/developerguide/concepts.html#key-id''
         else (case validAWSKMSRegex kms of
           Some e \<Rightarrow> invalid e
         | None \<Rightarrow>
             (let endpoint = parts ! 2
              in if endpoint \<noteq> '''' \<and> (HasPrefix endpoint ''arn'' \<or> HasPrefix endpoint ''alias'')
                 then invalid errKMSReference
                 else (case (if endpoint \<noteq> '''' then x_SplitHostPort_err x endpoint else None) of
                   Some e \<Rightarrow> invalid (''malformed endpoint: '' @ e)
                 | None \<Rightarrow>
                     (case x_arn_Parse_Resource x (parts ! 3) of
                        Inl e \<Rightarrow> invalid (''failed to parse either key or alias arn: '' @ e)
                      | Inr res \<Rightarrow>
                          if res \<noteq> ''key'' \<and> res \<noteq> ''alias''
                          then invalid (''Got ARN: Resource: '' @ res)
                          else None)))))"

definition ValidateKMS :: "'fe fe_api \<Rightarrow> externals \<Rightarrow> string \<Rightarrow> 'fe option" where
  "ValidateKMS api x kms =
     (if \<not> (\<exists>p \<in> set (SupportedKMSProviders x). HasPrefix kms p)
      then Some (ErrInvalidValue api kms CurrentField
        [''malformed KMS format, should be prefixed by any of the supported providers: ''
           @ concat (SupportedKMSProviders x)])
      else also_if api (HasPrefix kms (x_aws_ReferenceScheme x)) (validateAWSKMS api x kms) None)"

section \<open>Which KMS references are accepted\<close>

text \<open>The declarative counterpart of \<open>ValidateKMS\<close>.\<close>

definition kms_ok :: "externals \<Rightarrow> string \<Rightarrow> bool" where
  "kms_ok x kms =
     ((\<exists>p \<in> set (SupportedKMSProviders x). HasPrefix kms p) \<and>
      (HasPrefix kms (x_aws_ReferenceScheme x) \<longrightarrow>
        (let parts = split_on CHR ''/'' kms in
           4 \<le> length parts \<and> (\<exists>re \<in> set allREs. rx_match re kms) \<and>
           \<not> HasPrefix (parts ! 2) ''arn'' \<and> \<not> HasPrefix (parts ! 2) ''alias'' \<and>
           (parts ! 2 \<noteq> '''' \<longrightarrow> x_SplitHostPort_err x (parts ! 2) = None) \<and>
           x_arn_Parse_Resource x (parts ! 3) \<in> {Ok ''key'', Ok ''alias''})))"

context field_error_laws
begin

lemma blocks_validateAWSKMS:
  "blocks api (validateAWSKMS api x kms) \<longleftrightarrow> validateAWSKMS api x kms \<noteq> None"
  by (simp add: validateAWSKMS_def Let_def split: option.splits sum.splits)

lemma blocks_ValidateKMS: "blocks api (ValidateKMS api x kms) \<longleftrightarrow> \<not> kms_ok x kms"
proof -
  have e: "HasPrefix '''' ''arn'' = False" "HasPrefix '''' ''alias'' = False"
    by (simp_all add: HasPrefix_def)
  have "validateAWSKMS api x kms = None \<longleftrightarrow>
      (let parts = split_on CHR ''/'' kms in
           4 \<le> length parts \<and> (\<exists>re \<in> set allREs. rx_match re kms) \<and>
           \<not> HasPrefix (parts ! 2) ''arn'' \<and> \<not> HasPrefix (parts ! 2) ''alias'' \<and>
           (parts ! 2 \<noteq> '''' \<longrightarrow> x_SplitHostPort_err x (parts ! 2) = None) \<and>
           x_arn_Parse_Resource x (parts ! 3) \<in> {Ok ''key'', Ok ''alias''})"
    unfolding validateAWSKMS_def Let_def validAWSKMSRegex_def
    by (cases "length (split_on CHR ''/'' kms) < 4"; cases "\<exists>re \<in> set allREs. rx_match re kms";
        cases "split_on CHR ''/'' kms ! 2 = ''''"; auto simp: e split: option.splits sum.splits)
  then show ?thesis
    by (auto simp: ValidateKMS_def kms_ok_def blocks_validateAWSKMS)
qed

end

end
