(* ===== verification/SignatureAlgo.thy ===== *)
theory SignatureAlgo
  imports PC_Prelude
begin

text \<open>
  \<open>pkg/apis/signaturealgo/signature_digest.go\<close>: the digest algorithms an authority may name,
  and their \<open>crypto.Hash\<close> codes.
\<close>

datatype crypto_hash = SHA224 | SHA256 | SHA384 | SHA512

definition DefaultSignatureAlgorithm :: string where
  "DefaultSignatureAlgorithm = ''sha256''"

definition supportedSignatureAlgorithms :: "(string \<times> crypto_hash) list" where
  "supportedSignatureAlgorithms =
     [(''sha224'', SHA224), (''sha256'', SHA256), (''sha384'', SHA384), (''sha512'', SHA512)]"

text \<open>
  The function returns a code together with an error, and on an unknown name the code is
  \<open>SHA256\<close>; callers that ignore the error see that code. Lower-casing is modelled on ASCII:
  no code point outside ASCII lower-cases to a letter of the four names.
\<close>

definition HashAlgorithm :: "string \<Rightarrow> crypto_hash \<times> string option" where
  "HashAlgorithm algorithmName =
     (if algorithmName = '''' then (SHA256, None)
      else (case map_of supportedSignatureAlgorithms (ToLower (TrimSpace algorithmName)) of
              None \<Rightarrow> (SHA256, Some (''unknown digest algorithm: '' @ algorithmName))
            | Some algo \<Rightarrow> (algo, None)))"

lemma HashAlgorithm_error_code:
  "snd (HashAlgorithm n) \<noteq> None \<Longrightarrow> fst (HashAlgorithm n) = SHA256"
  by (auto simp: HashAlgorithm_def split: if_splits option.splits)

end
