(* ===== verification/ControllerConfig.thy ===== *)
theory ControllerConfig
  imports PC_Prelude
begin

text \<open>
  \<open>pkg/config/store.go\<close>: the controller-wide configuration read from the
  \<open>config-policy-controller\<close> ConfigMap, its defaults, and its retrieval from a context.
\<close>

definition DenyAll :: string where "DenyAll = ''deny''"
definition AllowAll :: string where "AllowAll = ''allow''"
definition WarnAll :: string where "WarnAll = ''warn''"
definition NoMatchPolicyKey :: string where "NoMatchPolicyKey = ''no-match-policy''"
definition FailOnEmptyAuthoritiesKey :: string where
  "FailOnEmptyAuthoritiesKey = ''fail-on-empty-authorities''"
definition EnableOCI11Key :: string where "EnableOCI11Key = ''enable-oci11''"

record PolicyControllerConfig =
  pcc_NoMatchPolicy :: string
  pcc_FailOnEmptyAuthorities :: bool
  pcc_EnableOCI11 :: bool

text \<open>
  The result is the configuration built so far together with an optional error. On a parse
  error \<open>strconv.ParseBool\<close> returns \<open>false\<close>, which is stored before the function returns.
\<close>

definition NewPolicyControllerConfigFromMap ::
    "(string \<rightharpoonup> string) \<Rightarrow> PolicyControllerConfig \<times> string option" where
  "NewPolicyControllerConfigFromMap data =
     (let v = (case data NoMatchPolicyKey of None \<Rightarrow> '''' | Some v \<Rightarrow> v);
          nm = (if v = DenyAll then DenyAll else if v = AllowAll then AllowAll
                else if v = WarnAll then WarnAll else DenyAll);
          ret0 = \<lparr>pcc_NoMatchPolicy = nm, pcc_FailOnEmptyAuthorities = True,
                  pcc_EnableOCI11 = False\<rparr>;
          oci = (\<lambda>ret. case data EnableOCI11Key of
                   None \<Rightarrow> (ret, None)
                 | Some val \<Rightarrow>
                     (case ParseBool val of
                        Inl e \<Rightarrow> (ret\<lparr>pcc_EnableOCI11 := False\<rparr>, Some e)
                      | Inr b \<Rightarrow> (ret\<lparr>pcc_EnableOCI11 := b\<rparr>, None)))
      in (case data FailOnEmptyAuthoritiesKey of
            None \<Rightarrow> oci ret0
          | Some val \<Rightarrow>
              (case ParseBool val of
                 Inl e \<Rightarrow> (ret0\<lparr>pcc_FailOnEmptyAuthorities := False\<rparr>, Some e)
               | Inr b \<Rightarrow> oci (ret0\<lparr>pcc_FailOnEmptyAuthorities := b\<rparr>))))"

definition default_PolicyControllerConfig :: PolicyControllerConfig where
  "default_PolicyControllerConfig =
     \<lparr>pcc_NoMatchPolicy = DenyAll, pcc_FailOnEmptyAuthorities = True, pcc_EnableOCI11 = False\<rparr>"

text \<open>\<open>FromContextOrDefaults\<close>: the context holds at most one configuration.\<close>

definition FromContextOrDefaults :: "PolicyControllerConfig option \<Rightarrow> PolicyControllerConfig" where
  "FromContextOrDefaults c =
     (case c of Some cfg \<Rightarrow> cfg | None \<Rightarrow> default_PolicyControllerConfig)"

lemma NewPolicyControllerConfig_NoMatch:
  "pcc_NoMatchPolicy (fst (NewPolicyControllerConfigFromMap data)) \<in> {DenyAll, AllowAll, WarnAll}"
  by (auto simp: NewPolicyControllerConfigFromMap_def Let_def split: option.splits sum.splits)

text \<open>
  C22 The empty ConfigMap yields the documented defaults, whatever the map holds the policy
  for unmatched images is one of the three known values, and it is "allow" or "warn" only
  if the map says exactly that: an unknown or missing value denies.
\<close>

theorem controller_config_fails_closed:
  "NewPolicyControllerConfigFromMap Map.empty = (default_PolicyControllerConfig, None) \<and>
   (pcc_NoMatchPolicy (fst (NewPolicyControllerConfigFromMap data)) \<noteq> DenyAll \<longrightarrow>
      data NoMatchPolicyKey = Some (pcc_NoMatchPolicy (fst (NewPolicyControllerConfigFromMap data))) \<and>
      pcc_NoMatchPolicy (fst (NewPolicyControllerConfigFromMap data)) \<in> {AllowAll, WarnAll})"
  by (auto simp: NewPolicyControllerConfigFromMap_def default_PolicyControllerConfig_def Let_def
      DenyAll_def AllowAll_def WarnAll_def split: option.splits sum.splits if_splits)

theorem controller_config_fails_closed_witness:
  "pcc_NoMatchPolicy (fst (NewPolicyControllerConfigFromMap [NoMatchPolicyKey \<mapsto> ''allow''])) = AllowAll"
  using controller_config_fails_closed [of "[NoMatchPolicyKey \<mapsto> ''allow'']"]
  by (simp add: NewPolicyControllerConfigFromMap_def Let_def AllowAll_def DenyAll_def WarnAll_def
      FailOnEmptyAuthoritiesKey_def EnableOCI11Key_def NoMatchPolicyKey_def)

end
