(* ===== verification/V1alpha1.thy ===== *)
theory V1alpha1
  imports Common SignatureAlgo ControllerConfig
begin

text \<open>
  \<open>pkg/apis/policy/v1alpha1\<close>: the ClusterImagePolicy resource in its storage version: its
  types (\<open>clusterimagepolicy_types.go\<close>), defaulting (\<open>clusterimagepolicy_defaults.go\<close>) and
  validation (\<open>clusterimagepolicy_validation.go\<close>). Struct fields keep their names behind a
  short prefix; pointers are options; an \<open>apis.URL\<close> is its string form. For each validator a
  predicate states which values it accepts, and a lemma inside \<open>field_error_laws\<close> says the
  validator blocks exactly the others.
\<close>

section \<open>Types of the Kubernetes API the resource embeds\<close>

record SecretReference =
  sr_Name :: string
  sr_Namespace :: string

type_synonym LocalObjectReference = string

record LabelSelectorRequirement =
  lsr_Key :: string
  lsr_Operator :: string
  lsr_Values :: "string list"

record LabelSelector =
  ls_MatchLabels :: "(string \<times> string) list"
  ls_MatchExpressions :: "LabelSelectorRequirement list"

record GroupVersionResource =
  gvr_Group :: string
  gvr_Version :: string
  gvr_Resource :: string

text \<open>The part of \<open>metav1.ObjectMeta\<close> the sources read.\<close>

record ObjectMeta =
  om_Name :: string
  om_Namespace :: string
  om_UID :: string
  om_ResourceVersion :: string
  om_Generation :: int
  om_Labels :: "(string \<times> string) list"
  om_DeletionTimestamp :: "string option"
  om_Finalizers :: "string list"

section \<open>Types of the resource\<close>

record ImagePattern =
  ip_Glob :: string

record KeyRef =
  kr_SecretRef :: "SecretReference option"
  kr_Data :: string
  kr_KMS :: string
  kr_HashAlgorithm :: string

record StaticRef =
  st_Action :: string
  st_Message :: string

record Source =
  so_OCI :: string
  so_SignaturePullSecrets :: "LocalObjectReference list"
  so_TagPrefix :: "string option"

record TLog =
  tl_URL :: "string option"
  tl_TrustRootRef :: string

record Identity =
  id_Issuer :: string
  id_Subject :: string
  id_IssuerRegExp :: string
  id_SubjectRegExp :: string

record KeylessRef =
  kl_URL :: "string option"
  kl_Identities :: "Identity list"
  kl_CACert :: "KeyRef option"
  kl_TrustRootRef :: string
  kl_InsecureIgnoreSCT :: "bool option"

record RemotePolicy =
  rp_URL :: string
  rp_Sha256sum :: string

record ConfigMapReference =
  cr_Name :: string
  cr_Namespace :: string
  cr_Key :: string

record Policy =
  po_Type :: string
  po_Data :: string
  po_Remote :: "RemotePolicy option"
  po_ConfigMapRef :: "ConfigMapReference option"
  po_FetchConfigFile :: "bool option"
  po_IncludeSpec :: "bool option"
  po_IncludeObjectMeta :: "bool option"
  po_IncludeTypeMeta :: "bool option"

record Attestation =
  at_Name :: string
  at_PredicateType :: string
  at_Policy :: "Policy option"

record MatchResource =
  mr_GVR :: GroupVersionResource
  mr_ResourceSelector :: "LabelSelector option"

record RFC3161Timestamp =
  ts_TrustRootRef :: string

record GMSignerRef =
  gs_AppID :: string
  gs_NodeID :: string
  gs_UserID :: string

record GMSignatureRef =
  gm_VerifyURL :: string
  gm_TenantID :: string
  gm_Signer :: GMSignerRef
  gm_RequestTimeoutMs :: int

record Authority =
  au_Name :: string
  au_Key :: "KeyRef option"
  au_Keyless :: "KeylessRef option"
  au_Static :: "StaticRef option"
  au_Sources :: "Source list"
  au_CTLog :: "TLog option"
  au_Attestations :: "Attestation list"
  au_RFC3161Timestamp :: "RFC3161Timestamp option"
  au_GMSignature :: "GMSignatureRef option"
  au_SignatureFormat :: string

record ClusterImagePolicySpec =
  cs_Images :: "ImagePattern list"
  cs_Authorities :: "Authority list"
  cs_Policy :: "Policy option"
  cs_Mode :: string
  cs_Match :: "MatchResource list"

text \<open>
  The resource itself; its status (\<open>duckv1.Status\<close>) stays abstract here. Its \<open>TypeMeta\<close>, which is the same for
  all policies and which no modelled function reads, is left out.
\<close>

record 'st ClusterImagePolicy =
  cip_ObjectMeta :: ObjectMeta
  cip_Spec :: ClusterImagePolicySpec
  cip_Status :: 'st

section \<open>Defaulting\<close>

definition default_fulcio_url :: string where
  "default_fulcio_url = ''https://fulcio.sigstore.dev''"

text \<open>
  The body of the loop: the name is written to the slice element, the URL through the
  pointer the loop variable shares with it, so both changes reach the specification.
\<close>

definition default_authority :: "nat \<Rightarrow> Authority \<Rightarrow> Authority" where
  "default_authority i authority =
     (let a1 = (if au_Name authority = '''' then authority\<lparr>au_Name := ''authority-'' @ show_nat i\<rparr>
                else authority)
      in case au_Keyless authority of
           None \<Rightarrow> a1
         | Some kl \<Rightarrow>
             if au_Key authority = None \<and> au_Static authority = None \<and>
                kl_CACert kl = None \<and> kl_URL kl = None
             then a1\<lparr>au_Keyless := Some (kl\<lparr>kl_URL := Some default_fulcio_url\<rparr>)\<rparr>
             else a1)"

definition ClusterImagePolicySpec_SetDefaults :: "ClusterImagePolicySpec \<Rightarrow> ClusterImagePolicySpec" where
  "ClusterImagePolicySpec_SetDefaults spec =
     (let s1 = (if cs_Mode spec = '''' then spec\<lparr>cs_Mode := ''enforce''\<rparr> else spec)
      in s1\<lparr>cs_Authorities := map (\<lambda>p. default_authority (fst p) (snd p)) (indexed (cs_Authorities s1))\<rparr>)"

definition ClusterImagePolicy_SetDefaults :: "'st ClusterImagePolicy \<Rightarrow> 'st ClusterImagePolicy" where
  "ClusterImagePolicy_SetDefaults c = c\<lparr>cip_Spec := ClusterImagePolicySpec_SetDefaults (cip_Spec c)\<rparr>"

section \<open>Validation\<close>

text \<open>
  What the validators read from the context: the kind of request, whether they run inside
  the \<open>spec\<close> (\<open>apis.WithinSpec\<close>), and the controller configuration. The package variable
  \<open>common.ValidResourceNames\<close>, empty until \<open>main\<close> fills it, is passed along with them.
\<close>

record val_ctx =
  vc_InStatusUpdate :: bool
  vc_InSpec :: bool
  vc_Config :: "PolicyControllerConfig option"
  vc_ValidResourceNames :: "string list"

definition ValidateGlob :: "'fe fe_api \<Rightarrow> externals \<Rightarrow> string \<Rightarrow> 'fe option" where
  "ValidateGlob api x g =
     (case x_filepath_Match_err x g of
        Some e \<Rightarrow> Some (ErrInvalidValue api g CurrentField [''glob is invalid: '' @ e])
      | None \<Rightarrow>
          (case Compile g of
             Inl e \<Rightarrow> Some (ErrInvalidValue api g CurrentField [''glob is invalid: '' @ e])
           | Inr _ \<Rightarrow> None))"

definition ValidateRegex :: "'fe fe_api \<Rightarrow> externals \<Rightarrow> string \<Rightarrow> 'fe option" where
  "ValidateRegex api x r =
     (case x_regexp_Compile_err x r of
        Some e \<Rightarrow> Some (ErrInvalidValue api r CurrentField [''regex is invalid: '' @ e])
      | None \<Rightarrow> None)"

definition ImagePattern_Validate :: "'fe fe_api \<Rightarrow> externals \<Rightarrow> ImagePattern \<Rightarrow> 'fe option" where
  "ImagePattern_Validate api x img =
     (if ip_Glob img = '''' then Some (ErrMissingField api [''glob''])
      else ViaField api ''glob'' (ValidateGlob api x (ip_Glob img)))"

definition StaticRef_Validate :: "'fe fe_api \<Rightarrow> StaticRef \<Rightarrow> 'fe option" where
  "StaticRef_Validate api s =
     (if st_Action s = '''' then Also api None (Some (ErrMissingField api [''action'']))
      else also_if api (st_Action s \<notin> set ValidStaticRefTypes)
             (Some (ErrInvalidValue api (st_Action s) ''action'' [''unsupported action''])) None)"

definition MatchResource_Validate :: "'fe fe_api \<Rightarrow> val_ctx \<Rightarrow> MatchResource \<Rightarrow> 'fe option" where
  "MatchResource_Validate api ctx m =
     (let g = mr_GVR m;
          e1 = also_if api (gvr_Resource g \<noteq> '''' \<and> vc_ValidResourceNames ctx \<noteq> [] \<and>
                            gvr_Resource g \<notin> set (vc_ValidResourceNames ctx))
                 (Some (ErrInvalidValue api (gvr_Resource g) ''resource'' [''unsupported resource name'']))
                 None
      in also_if api (mr_ResourceSelector m \<noteq> None \<and> gvr_Resource g = '''' \<and>
                      gvr_Version g = '''' \<and> gvr_Group g = '''')
           (Some (ErrInvalidValue api (gvr_Resource g) ''selector''
              [''selector requires a resource type to match the labels''])) e1)"

definition KeyRef_Validate :: "'fe fe_api \<Rightarrow> externals \<Rightarrow> KeyRef \<Rightarrow> 'fe option" where
  "KeyRef_Validate api x key =
     (let several = Some (ErrMultipleOneOf api [''data'', ''kms'', ''secretref'']);
          e1 = also_if api (kr_Data key = '''' \<and> kr_KMS key = '''' \<and> kr_SecretRef key = None)
                 (Some (ErrMissingOneOf api [''data'', ''kms'', ''secretref''])) None;
          e2 = also_if api (kr_HashAlgorithm key \<noteq> '''' \<and> snd (HashAlgorithm (kr_HashAlgorithm key)) \<noteq> None)
                 (Some (ErrInvalidValue api (kr_HashAlgorithm key) ''hashAlgorithm'' [])) e1;
          e3 = (if kr_Data key \<noteq> '''' then
                  also_if api (case x_UnmarshalPEMToPublicKey x (kr_Data key) of
                                 Inl _ \<Rightarrow> True | Inr pk \<Rightarrow> pk = None)
                    (Some (ErrInvalidValue api (kr_Data key) ''data'' []))
                    (also_if api (kr_KMS key \<noteq> '''' \<or> kr_SecretRef key \<noteq> None) several e2)
                else also_if api (kr_KMS key \<noteq> '''' \<and> kr_SecretRef key \<noteq> None) several e2);
          e4 = also_if api (kr_KMS key \<noteq> '''') (ViaField api ''kms'' (ValidateKMS api x (kr_KMS key))) e3
      in (case kr_SecretRef key of
            None \<Rightarrow> e4
          | Some sr \<Rightarrow>
              also_if api (sr_Namespace sr \<noteq> '''' \<and> sr_Namespace sr \<noteq> x_system_Namespace x)
                (Some (ErrInvalidValue api (sr_Namespace sr) ''secretref.namespace''
                  [''secretref.namespace is invalid. If set, it should use the same namespace where the policy-controller was deployed'']))
                e4))"

definition Identity_Validate :: "'fe fe_api \<Rightarrow> externals \<Rightarrow> Identity \<Rightarrow> 'fe option" where
  "Identity_Validate api x i =
     (let e1 = also_if api (id_Issuer i \<noteq> '''' \<and> id_IssuerRegExp i \<noteq> '''')
                 (Some (ErrMultipleOneOf api [''issuer'', ''issuerRegExp''])) None;
          e2 = also_if api (id_Subject i \<noteq> '''' \<and> id_SubjectRegExp i \<noteq> '''')
                 (Some (ErrMultipleOneOf api [''subject'', ''subjectRegExp''])) e1;
          e3 = also_if api (id_IssuerRegExp i \<noteq> '''')
                 (ViaField api ''issuerRegExp'' (ValidateRegex api x (id_IssuerRegExp i))) e2;
          e4 = also_if api (id_SubjectRegExp i \<noteq> '''')
                 (ViaField api ''subjectRegExp'' (ValidateRegex api x (id_SubjectRegExp i))) e3;
          e5 = also_if api (id_SubjectRegExp i = '''' \<and> id_Subject i = '''')
                 (Some (ErrMissingField api [''subject'', ''subjectRegExp''])) e4
      in also_if api (id_IssuerRegExp i = '''' \<and> id_Issuer i = '''')
           (Some (ErrMissingField api [''issuer'', ''issuerRegExp''])) e5)"

definition KeylessRef_Validate :: "'fe fe_api \<Rightarrow> externals \<Rightarrow> KeylessRef \<Rightarrow> 'fe option" where
  "KeylessRef_Validate api x kl =
     (let e1 = also_if api (kl_URL kl = None \<and> kl_CACert kl = None)
                 (Some (ErrMissingOneOf api [''url'', ''ca-cert''])) None;
          e2 = also_if api (kl_URL kl \<noteq> None \<and> kl_CACert kl \<noteq> None)
                 (Some (ErrMultipleOneOf api [''url'', ''ca-cert''])) e1;
          e3 = (case kl_CACert kl of None \<Rightarrow> e2
                | Some k \<Rightarrow> Also api e2 (ViaField api ''ca-cert'' (KeyRef_Validate api x k)));
          e4 = also_if api (kl_Identities kl = []) (Some (ErrMissingField api [''identities''])) e3
      in also_each api ''identities'' (Identity_Validate api x) (kl_Identities kl) e4)"

definition Source_Validate :: "'fe fe_api \<Rightarrow> externals \<Rightarrow> Source \<Rightarrow> 'fe option" where
  "Source_Validate api x s =
     (let e1 = (if so_OCI s \<noteq> '''' then
                  (case ValidateOCI x (so_OCI s) of None \<Rightarrow> None
                   | Some e \<Rightarrow> Also api None (Some (ErrInvalidValue api (so_OCI s) ''oci'' [e])))
                else None)
      in foldl (\<lambda>errs p. if snd p = '''' then
                 ViaFieldIndex api ''signaturePullSecrets'' (fst p)
                   (Also api errs (Some (ErrMissingField api [''name''])))
               else errs)
           e1 (indexed (so_SignaturePullSecrets s)))"

definition ConfigMapReference_Validate :: "'fe fe_api \<Rightarrow> ConfigMapReference \<Rightarrow> 'fe option" where
  "ConfigMapReference_Validate api c =
     (let e1 = also_if api (cr_Name c = '''') (Some (ErrMissingField api [''name''])) None
      in also_if api (cr_Key c = '''') (Some (ErrMissingField api [''key''])) e1)"

definition RemotePolicy_Validate :: "'fe fe_api \<Rightarrow> externals \<Rightarrow> RemotePolicy \<Rightarrow> 'fe option" where
  "RemotePolicy_Validate api x r =
     (let bad = (case x_url_Parse_HostScheme x (rp_URL r) of
                   Inl _ \<Rightarrow> True
                 | Inr (host, scheme) \<Rightarrow> host = '''' \<or> scheme = '''' \<or> scheme \<noteq> ''https'');
          e1 = also_if api bad (Some (ErrInvalidValue api (rp_URL r) ''url''
                 [''url valid is invalid. host and https scheme are expected''])) None
      in also_if api (rp_Sha256sum r = '''') (Some (ErrMissingField api [''sha256sum''])) e1)"

definition Policy_Validate :: "'fe fe_api \<Rightarrow> externals \<Rightarrow> val_ctx \<Rightarrow> Policy option \<Rightarrow> 'fe option" where
  "Policy_Validate api x ctx pol =
     (case pol of None \<Rightarrow> None | Some p \<Rightarrow>
       (let d = (po_Data p \<noteq> ''''); c = (po_ConfigMapRef p \<noteq> None); r = (po_Remote p \<noteq> None);
            three = [''data'', ''configMapRef'', ''remote''];
            e1 = also_if api (po_Type p \<noteq> ''cue'' \<and> po_Type p \<noteq> ''rego'')
                   (Some (ErrInvalidValue api (po_Type p) ''type''
                     [''only [cue,rego] are supported at the moment''])) None;
            e2 = also_if api (\<not> d \<and> \<not> c \<and> \<not> r) (Some (ErrMissingField api three)) e1;
            e3 = also_if api (d \<and> c \<and> r) (Some (ErrMultipleOneOf api three)) e2;
            e4 = also_if api (d \<and> c \<or> d \<and> r \<or> c \<and> r) (Some (ErrMultipleOneOf api three)) e3;
            e5 = (case po_Remote p of None \<Rightarrow> e4
                  | Some rp \<Rightarrow> Also api e4 (ViaField api ''remote'' (RemotePolicy_Validate api x rp)));
            e6 = (case po_ConfigMapRef p of None \<Rightarrow> e5
                  | Some cm \<Rightarrow> Also api e5 (ViaField api ''configMapRef'' (ConfigMapReference_Validate api cm)));
            out = \<not> vc_InSpec ctx;
            e7 = also_if api (out \<and> po_FetchConfigFile p \<noteq> None)
                   (Some (ErrDisallowedFields api [''fetchConfigFile''])) e6;
            e8 = also_if api (out \<and> po_IncludeSpec p \<noteq> None)
                   (Some (ErrDisallowedFields api [''includeSpec''])) e7;
            e9 = also_if api (out \<and> po_IncludeObjectMeta p \<noteq> None)
                   (Some (ErrDisallowedFields api [''includeObjectMeta''])) e8
        in also_if api (out \<and> po_IncludeTypeMeta p \<noteq> None)
             (Some (ErrDisallowedFields api [''includeTypeMeta''])) e9))"

definition Attestation_Validate :: "'fe fe_api \<Rightarrow> externals \<Rightarrow> val_ctx \<Rightarrow> Attestation \<Rightarrow> 'fe option" where
  "Attestation_Validate api x ctx a =
     (let deprecated = At api WarningLevel (Some (ErrInvalidValue api (at_PredicateType a) ''predicateType''
            [''deprecated value, please use RFC 3986 conformant values'']));
          e1 = also_if api (at_Name a = '''') (Some (ErrMissingField api [''name''])) None;
          e2 = (if at_PredicateType a = '''' then Also api e1 (Some (ErrMissingField api [''predicateType'']))
                else if at_PredicateType a \<in> set ValidPredicateTypes then Also api e1 deprecated
                else also_if api (x_ParseRequestURI_err x (at_PredicateType a) \<noteq> None) deprecated e1)
      in Also api e2 (ViaField api ''policy'' (Policy_Validate api x ctx (at_Policy a))))"

definition GMSignatureRef_Validate :: "'fe fe_api \<Rightarrow> GMSignatureRef \<Rightarrow> 'fe option" where
  "GMSignatureRef_Validate api g =
     (let e1 = also_if api (gm_VerifyURL g = '''') (Some (ErrMissingField api [''verifyUrl''])) None;
          e2 = also_if api (gm_TenantID g = '''') (Some (ErrMissingField api [''tenantId''])) e1;
          e3 = also_if api (gs_AppID (gm_Signer g) = '''') (Some (ErrMissingField api [''signer.appId''])) e2;
          e4 = also_if api (gs_NodeID (gm_Signer g) = '''') (Some (ErrMissingField api [''signer.nodeId''])) e3
      in also_if api (gm_RequestTimeoutMs g < 0)
           (Some (ErrInvalidValue api (show_int (gm_RequestTimeoutMs g)) ''requestTimeoutMs''
             [''must be >= 0 (0 = use default)''])) e4)"

definition verifier_count :: "Authority \<Rightarrow> nat" where
  "verifier_count a =
     (if au_Key a \<noteq> None then 1 else 0) + (if au_Keyless a \<noteq> None then 1 else 0) +
     (if au_Static a \<noteq> None then 1 else 0) + (if au_GMSignature a \<noteq> None then 1 else 0)"

definition Authority_Validate :: "'fe fe_api \<Rightarrow> externals \<Rightarrow> val_ctx \<Rightarrow> Authority \<Rightarrow> 'fe option" where
  "Authority_Validate api x ctx a =
     (let kinds = [''key'', ''keyless'', ''static'', ''gmSignature''];
          both = (\<lambda>k f. Some (ErrMultipleOneOf api [k, f]))
      in if verifier_count a = 0 then Also api None (Some (ErrMissingOneOf api kinds))
         else if verifier_count a > 1 then Also api None (Some (ErrMultipleOneOf api kinds))
         else
           (let e1 = (case au_Key a of None \<Rightarrow> None
                      | Some k \<Rightarrow> Also api None (ViaField api ''key'' (KeyRef_Validate api x k)));
                e2 = (case au_Keyless a of None \<Rightarrow> e1
                      | Some k \<Rightarrow> Also api e1 (ViaField api ''keyless'' (KeylessRef_Validate api x k)));
                e3 = (case au_GMSignature a of None \<Rightarrow> e2
                      | Some g \<Rightarrow>
                          also_if api (au_RFC3161Timestamp a \<noteq> None) (both ''gmSignature'' ''rfc3161timestamp'')
                          (also_if api (au_CTLog a \<noteq> None) (both ''gmSignature'' ''ctlog'')
                          (also_if api (au_Attestations a \<noteq> []) (both ''gmSignature'' ''attestations'')
                          (Also api e2 (ViaField api ''gmSignature'' (GMSignatureRef_Validate api g))))));
                e4 = (case au_Static a of None \<Rightarrow> e3
                      | Some s \<Rightarrow>
                          also_if api (au_RFC3161Timestamp a \<noteq> None) (both ''static'' ''rfc3161timestamp'')
                          (also_if api (au_CTLog a \<noteq> None) (both ''static'' ''ctlog'')
                          (also_if api (au_Sources a \<noteq> []) (both ''static'' ''source'')
                          (also_if api (au_Attestations a \<noteq> []) (both ''static'' ''attestations'')
                          (Also api e3 (ViaField api ''static'' (StaticRef_Validate api s)))))));
                e5 = (if length (au_Sources a) > 1
                      then Also api e4 (Some (ErrInvalidValue api ''source'' ''source''
                             [''only single source is supported'']))
                      else also_each api ''source'' (Source_Validate api x) (au_Sources a) e4)
            in foldl (\<lambda>errs att. Also api errs (ViaField api ''attestations'' (Attestation_Validate api x ctx att)))
                 e5 (au_Attestations a)))"

definition ClusterImagePolicySpec_Validate ::
    "'fe fe_api \<Rightarrow> externals \<Rightarrow> val_ctx \<Rightarrow> ClusterImagePolicySpec \<Rightarrow> 'fe option" where
  "ClusterImagePolicySpec_Validate api x ctx spec =
     (let pcConfig = FromContextOrDefaults (vc_Config ctx);
          e1 = also_if api (cs_Images spec = []) (Some (ErrMissingField api [''images''])) None;
          e2 = also_each api ''images'' (ImagePattern_Validate api x) (cs_Images spec) e1;
          e3 = also_if api (cs_Authorities spec = [] \<and> pcc_FailOnEmptyAuthorities pcConfig)
                 (Some (ErrMissingField api [''authorities''])) e2;
          e4 = also_each api ''authorities'' (Authority_Validate api x ctx) (cs_Authorities spec) e3;
          e5 = also_if api (cs_Mode spec \<noteq> '''' \<and> cs_Mode spec \<notin> set ValidModes)
                 (Some (ErrInvalidValue api (cs_Mode spec) ''mode'' [''unsupported mode''])) e4;
          e6 = also_each api ''match'' (MatchResource_Validate api ctx) (cs_Match spec) e5
      in Also api e6 (Policy_Validate api x (ctx\<lparr>vc_InSpec := True\<rparr>) (cs_Policy spec)))"

definition ClusterImagePolicy_Validate ::
    "'fe fe_api \<Rightarrow> externals \<Rightarrow> val_ctx \<Rightarrow> 'st ClusterImagePolicy \<Rightarrow> 'fe option" where
  "ClusterImagePolicy_Validate api x ctx c =
     (if vc_InStatusUpdate ctx then None
      else ViaField api ''spec'' (ClusterImagePolicySpec_Validate api x ctx (cip_Spec c)))"

section \<open>Which policies are accepted\<close>

text \<open>
  The rules, stated without the order and the texts of the error messages. A key names
  exactly one source, which must be usable; an identity fixes issuer and subject, each by a
  literal or by an expression that compiles; an authority has exactly one verifier and none
  of the settings its verifier excludes.
\<close>

definition key_ok :: "externals \<Rightarrow> KeyRef \<Rightarrow> bool" where
  "key_ok x k =
     (length (filter id [kr_Data k \<noteq> '''', kr_KMS k \<noteq> '''', kr_SecretRef k \<noteq> None]) = 1 \<and>
      (kr_HashAlgorithm k \<noteq> '''' \<longrightarrow> snd (HashAlgorithm (kr_HashAlgorithm k)) = None) \<and>
      (kr_Data k \<noteq> '''' \<longrightarrow> (\<exists>pk. x_UnmarshalPEMToPublicKey x (kr_Data k) = Ok (Some pk))) \<and>
      (kr_KMS k \<noteq> '''' \<longrightarrow> kms_ok x (kr_KMS k)) \<and>
      (\<forall>sr. kr_SecretRef k = Some sr \<longrightarrow> sr_Namespace sr \<in> {'''', x_system_Namespace x}))"

definition literal_or_regex :: "externals \<Rightarrow> string \<Rightarrow> string \<Rightarrow> bool" where
  "literal_or_regex x lit r =
     ((lit = '''') \<noteq> (r = '''') \<and> (r \<noteq> '''' \<longrightarrow> x_regexp_Compile_err x r = None))"

definition identity_ok :: "externals \<Rightarrow> Identity \<Rightarrow> bool" where
  "identity_ok x i =
     (literal_or_regex x (id_Issuer i) (id_IssuerRegExp i) \<and>
      literal_or_regex x (id_Subject i) (id_SubjectRegExp i))"

definition keyless_ok :: "externals \<Rightarrow> KeylessRef \<Rightarrow> bool" where
  "keyless_ok x k =
     ((kl_URL k = None) \<noteq> (kl_CACert k = None) \<and>
      (\<forall>c. kl_CACert k = Some c \<longrightarrow> key_ok x c) \<and>
      kl_Identities k \<noteq> [] \<and> (\<forall>i \<in> set (kl_Identities k). identity_ok x i))"

definition source_ok :: "externals \<Rightarrow> Source \<Rightarrow> bool" where
  "source_ok x s =
     ((so_OCI s \<noteq> '''' \<longrightarrow> ValidateOCI x (so_OCI s) = None) \<and>
      '''' \<notin> set (so_SignaturePullSecrets s))"

definition remote_ok :: "externals \<Rightarrow> RemotePolicy \<Rightarrow> bool" where
  "remote_ok x r =
     ((\<exists>host. host \<noteq> '''' \<and> x_url_Parse_HostScheme x (rp_URL r) = Ok (host, ''https'')) \<and>
      rp_Sha256sum r \<noteq> '''')"

definition policy_ok :: "externals \<Rightarrow> bool \<Rightarrow> Policy \<Rightarrow> bool" where
  "policy_ok x in_spec p =
     (po_Type p \<in> {''cue'', ''rego''} \<and>
      length (filter id [po_Data p \<noteq> '''', po_ConfigMapRef p \<noteq> None, po_Remote p \<noteq> None]) = 1 \<and>
      (\<forall>r. po_Remote p = Some r \<longrightarrow> remote_ok x r) \<and>
      (\<forall>c. po_ConfigMapRef p = Some c \<longrightarrow> cr_Name c \<noteq> '''' \<and> cr_Key c \<noteq> '''') \<and>
      (in_spec \<or> po_FetchConfigFile p = None \<and> po_IncludeSpec p = None \<and>
         po_IncludeObjectMeta p = None \<and> po_IncludeTypeMeta p = None))"

definition attestation_ok :: "externals \<Rightarrow> bool \<Rightarrow> Attestation \<Rightarrow> bool" where
  "attestation_ok x in_spec a =
     (at_Name a \<noteq> '''' \<and> at_PredicateType a \<noteq> '''' \<and>
      (\<forall>p. at_Policy a = Some p \<longrightarrow> policy_ok x in_spec p))"

definition gm_ok :: "GMSignatureRef \<Rightarrow> bool" where
  "gm_ok g =
     (gm_VerifyURL g \<noteq> '''' \<and> gm_TenantID g \<noteq> '''' \<and> gs_AppID (gm_Signer g) \<noteq> '''' \<and>
      gs_NodeID (gm_Signer g) \<noteq> '''' \<and> 0 \<le> gm_RequestTimeoutMs g)"

definition match_ok :: "string list \<Rightarrow> MatchResource \<Rightarrow> bool" where
  "match_ok names m =
     ((gvr_Resource (mr_GVR m) = '''' \<or> names = [] \<or> gvr_Resource (mr_GVR m) \<in> set names) \<and>
      (mr_ResourceSelector m = None \<or>
         \<not> (gvr_Resource (mr_GVR m) = '''' \<and> gvr_Version (mr_GVR m) = '''' \<and> gvr_Group (mr_GVR m) = '''')))"

definition authority_ok :: "externals \<Rightarrow> bool \<Rightarrow> Authority \<Rightarrow> bool" where
  "authority_ok x in_spec a =
     (verifier_count a = 1 \<and>
      (\<forall>k. au_Key a = Some k \<longrightarrow> key_ok x k) \<and>
      (\<forall>k. au_Keyless a = Some k \<longrightarrow> keyless_ok x k) \<and>
      (\<forall>g. au_GMSignature a = Some g \<longrightarrow> gm_ok g \<and> au_Attestations a = [] \<and>
         au_CTLog a = None \<and> au_RFC3161Timestamp a = None) \<and>
      (\<forall>s. au_Static a = Some s \<longrightarrow> st_Action s \<in> {''fail'', ''pass''} \<and> au_Attestations a = [] \<and>
         au_Sources a = [] \<and> au_CTLog a = None \<and> au_RFC3161Timestamp a = None) \<and>
      length (au_Sources a) \<le> 1 \<and> (\<forall>s \<in> set (au_Sources a). source_ok x s) \<and>
      (\<forall>t \<in> set (au_Attestations a). attestation_ok x in_spec t))"

definition glob_ok :: "externals \<Rightarrow> string \<Rightarrow> bool" where
  "glob_ok x g =
     (g \<noteq> '''' \<and> x_filepath_Match_err x g = None \<and> set g \<subseteq> set glob_chars)"

definition spec_ok :: "externals \<Rightarrow> val_ctx \<Rightarrow> ClusterImagePolicySpec \<Rightarrow> bool" where
  "spec_ok x ctx s =
     (cs_Images s \<noteq> [] \<and> (\<forall>i \<in> set (cs_Images s). glob_ok x (ip_Glob i)) \<and>
      (cs_Authorities s = [] \<longrightarrow> \<not> pcc_FailOnEmptyAuthorities (FromContextOrDefaults (vc_Config ctx))) \<and>
      (\<forall>a \<in> set (cs_Authorities s). authority_ok x (vc_InSpec ctx) a) \<and>
      cs_Mode s \<in> {'''', ''enforce'', ''warn''} \<and>
      (\<forall>m \<in> set (cs_Match s). match_ok (vc_ValidResourceNames ctx) m) \<and>
      (\<forall>p. cs_Policy s = Some p \<longrightarrow> policy_ok x True p))"

lemma normalize_glob_chars:
  "g \<noteq> [] \<Longrightarrow> (normalize_glob g \<noteq> [] \<and> set (normalize_glob g) \<subseteq> set glob_chars) \<longleftrightarrow> set g \<subseteq> set glob_chars"
  by (auto simp: normalize_glob_def Let_def glob_chars_def lower_letters_def upper_letters_def
      digits10_def)

context field_error_laws
begin

lemma blocks_ImagePattern_Validate [blocks_simps]:
  "blocks api (ImagePattern_Validate api x i) \<longleftrightarrow> \<not> glob_ok x (ip_Glob i)"
  using normalize_glob_chars [of "ip_Glob i"]
  by (auto simp: ImagePattern_Validate_def ValidateGlob_def glob_ok_def Compile_tokens
      split: option.splits sum.splits if_splits)

lemma blocks_StaticRef_Validate [blocks_simps]:
  "blocks api (StaticRef_Validate api s) \<longleftrightarrow> st_Action s \<notin> {''fail'', ''pass''}"
  by (auto simp: StaticRef_Validate_def ValidStaticRefTypes_def)

lemma blocks_MatchResource_Validate [blocks_simps]:
  "blocks api (MatchResource_Validate api ctx m) \<longleftrightarrow> \<not> match_ok (vc_ValidResourceNames ctx) m"
  by (auto simp: MatchResource_Validate_def match_ok_def Let_def)

lemma blocks_KeyRef_Validate [blocks_simps]: "blocks api (KeyRef_Validate api x k) \<longleftrightarrow> \<not> key_ok x k"
  by (cases "kr_Data k = ''''"; cases "kr_KMS k = ''''"; cases "kr_SecretRef k")
     (auto simp: KeyRef_Validate_def key_ok_def Let_def blocks_ValidateKMS split: sum.splits)

lemma blocks_ValidateRegex [blocks_simps]:
  "blocks api (ValidateRegex api x r) \<longleftrightarrow> x_regexp_Compile_err x r \<noteq> None"
  by (auto simp: ValidateRegex_def split: option.splits)

lemma blocks_Identity_Validate [blocks_simps]:
  "blocks api (Identity_Validate api x i) \<longleftrightarrow> \<not> identity_ok x i"
  by (auto simp: Identity_Validate_def identity_ok_def literal_or_regex_def Let_def blocks_simps)

lemma blocks_KeylessRef_Validate [blocks_simps]:
  "blocks api (KeylessRef_Validate api x k) \<longleftrightarrow> \<not> keyless_ok x k"
  by (cases "kl_CACert k"; cases "kl_URL k")
     (auto simp: KeylessRef_Validate_def keyless_ok_def Let_def blocks_simps)

lemma blocks_pull_secrets:
  "blocks api (foldl (\<lambda>errs p. if snd p = '''' then ViaFieldIndex api f (fst p)
       (Also api errs (Some (ErrMissingField api fs))) else errs) e ps) \<longleftrightarrow>
     blocks api e \<or> (\<exists>p \<in> set ps. snd p = '''')"
  by (induction ps arbitrary: e) auto

lemma blocks_Source_Validate [blocks_simps]:
  "blocks api (Source_Validate api x s) \<longleftrightarrow> \<not> source_ok x s"
  using ball_indexed [where P = "\<lambda>n. n \<noteq> ''''" and xs = "so_SignaturePullSecrets s"]
  by (auto simp: Source_Validate_def source_ok_def Let_def blocks_pull_secrets split: option.splits)

lemma blocks_RemotePolicy_Validate [blocks_simps]:
  "blocks api (RemotePolicy_Validate api x r) \<longleftrightarrow> \<not> remote_ok x r"
  by (auto simp: RemotePolicy_Validate_def remote_ok_def Let_def split: sum.splits prod.splits)

lemma blocks_ConfigMapReference_Validate [blocks_simps]:
  "blocks api (ConfigMapReference_Validate api c) \<longleftrightarrow> cr_Name c = '''' \<or> cr_Key c = ''''"
  by (auto simp: ConfigMapReference_Validate_def Let_def)

lemma blocks_Policy_Validate [blocks_simps]:
  "blocks api (Policy_Validate api x ctx pol) \<longleftrightarrow>
     (\<exists>p. pol = Some p \<and> \<not> policy_ok x (vc_InSpec ctx) p)"
proof (cases pol)
  case (Some p)
  then show ?thesis
    by (cases "po_Data p = ''''"; cases "po_ConfigMapRef p"; cases "po_Remote p")
       (auto simp: Policy_Validate_def policy_ok_def Let_def blocks_simps)
qed (simp add: Policy_Validate_def)

lemma blocks_Attestation_Validate [blocks_simps]:
  "blocks api (Attestation_Validate api x ctx a) \<longleftrightarrow> \<not> attestation_ok x (vc_InSpec ctx) a"
  by (auto simp: Attestation_Validate_def attestation_ok_def Let_def blocks_simps)

lemma blocks_GMSignatureRef_Validate [blocks_simps]:
  "blocks api (GMSignatureRef_Validate api g) \<longleftrightarrow> \<not> gm_ok g"
  by (auto simp: GMSignatureRef_Validate_def gm_ok_def Let_def)

lemma blocks_Authority_Validate [blocks_simps]:
  "blocks api (Authority_Validate api x ctx a) \<longleftrightarrow> \<not> authority_ok x (vc_InSpec ctx) a"
proof (cases "verifier_count a = 1")
  case True
  then have one: "\<not> verifier_count a = 0" "\<not> verifier_count a > 1" by auto
  show ?thesis
    unfolding Authority_Validate_def Let_def authority_ok_def
    by (cases "au_Key a"; cases "au_Keyless a"; cases "au_GMSignature a"; cases "au_Static a";
        cases "length (au_Sources a) > 1")
       (use True one in \<open>auto simp: blocks_foldl_Also blocks_simps not_less\<close>)
next
  case False
  then show ?thesis by (auto simp: Authority_Validate_def authority_ok_def Let_def)
qed

lemma blocks_Spec_Validate [blocks_simps]:
  "blocks api (ClusterImagePolicySpec_Validate api x ctx s) \<longleftrightarrow> \<not> spec_ok x ctx s"
  by (auto simp: ClusterImagePolicySpec_Validate_def spec_ok_def Let_def ValidModes_def blocks_simps)

end

end
