(* ===== verification/Encodings.thy ===== *)
theory Encodings
  imports PC_Prelude
begin

text \<open>
  The parts of \<open>encoding/json\<close>, \<open>encoding/base64\<close> and \<open>encoding/hex\<close> the sources use. JSON is
  modelled from the value tree on: turning text into a tree is a parameter of the functions
  that read JSON text, while the rules by which \<open>json.Unmarshal\<close> fills Go values from a tree
  are written out. A number carries the \<open>int64\<close> it denotes, if it is such a literal, and
  whether its \<open>float64\<close> value is zero, if it is in range.
\<close>

section \<open>JSON values\<close>

datatype json = JNull | JBool bool | JNum "int option" "bool option" | JStr string
  | JArr "json list" | JObj "(string \<times> json) list"

type_synonym json_parser = "string \<Rightarrow> json go_result"

text \<open>
  Field names match up to \<open>foldName\<close>: letters regardless of case, the Kelvin sign as \<open>k\<close> and
  the long s as \<open>s\<close>.
\<close>

definition foldName :: "string \<Rightarrow> string" where
  "foldName s = ToLower (ReplaceAll (ReplaceAll s [CHR 0xE2, CHR 0x84, CHR 0xAA] ''k'')
                  [CHR 0xC5, CHR 0xBF] ''s'')"

text \<open>
  Decoding into a struct: every member whose name matches a field is decoded into that
  field, in order; other members are skipped; null leaves the field as it is. A type
  mismatch is an error of the whole call (the decoder goes on, but reports it at the end).
\<close>

fun into_fields :: "(string \<Rightarrow> ('a \<Rightarrow> json \<Rightarrow> 'a go_result) option) \<Rightarrow> (string \<times> json) list \<Rightarrow>
    'a \<Rightarrow> 'a go_result" where
  "into_fields dec [] acc = Ok acc"
| "into_fields dec ((k, v) # ms) acc =
     (case dec (foldName k) of
        None \<Rightarrow> into_fields dec ms acc
      | Some f \<Rightarrow> (case (if v = JNull then Ok acc else f acc v) of
                    Inl e \<Rightarrow> Err e | Inr acc' \<Rightarrow> into_fields dec ms acc'))"

definition type_mismatch :: "'a go_result" where
  "type_mismatch = Err ''json: cannot unmarshal value into Go value''"

definition into_struct :: "(string \<Rightarrow> ('a \<Rightarrow> json \<Rightarrow> 'a go_result) option) \<Rightarrow> 'a \<Rightarrow> json \<Rightarrow> 'a go_result" where
  "into_struct dec acc v =
     (case v of JNull \<Rightarrow> Ok acc | JObj ms \<Rightarrow> into_fields dec ms acc | _ \<Rightarrow> type_mismatch)"

fun into_string :: "string \<Rightarrow> json \<Rightarrow> string go_result" where
  "into_string acc (JStr s) = Ok s"
| "into_string acc JNull = Ok acc"
| "into_string acc _ = type_mismatch"

fun into_int :: "int \<Rightarrow> json \<Rightarrow> int go_result" where
  "into_int acc (JNum (Some i) z) = Ok i"
| "into_int acc JNull = Ok acc"
| "into_int acc _ = type_mismatch"

text \<open>Decoding into an \<open>any\<close> fails only for a number outside the range of \<open>float64\<close>.\<close>

fun any_ok :: "json \<Rightarrow> bool" where
  "any_ok (JNum i z) = (z \<noteq> None)"
| "any_ok (JArr vs) = (\<forall>v \<in> set vs. any_ok v)"
| "any_ok (JObj ms) = (\<forall>m \<in> set ms. any_ok (snd m))"
| "any_ok _ = True"

text \<open>Decoding into a \<open>map[string]any\<close>: exact names, later members replace earlier ones.\<close>

definition into_any_map :: "(string \<rightharpoonup> json) \<Rightarrow> json \<Rightarrow> (string \<rightharpoonup> json) go_result" where
  "into_any_map acc v =
     (case v of
        JNull \<Rightarrow> Ok Map.empty
      | JObj ms \<Rightarrow> if any_ok v then Ok (foldl (\<lambda>m kv. m(fst kv \<mapsto> snd kv)) acc ms) else type_mismatch
      | _ \<Rightarrow> type_mismatch)"

section \<open>Objects of strings\<close>

text \<open>
  \<open>json.Unmarshal\<close> into a \<open>map[string]string\<close>: the value must be an object (or null, which
  leaves the map empty) whose members are strings; a null member is the empty string; a
  later member replaces an earlier one of the same name.
\<close>

fun string_members :: "(string \<times> json) list \<Rightarrow> (string \<rightharpoonup> string) \<Rightarrow> (string \<rightharpoonup> string) go_result" where
  "string_members [] m = Ok m"
| "string_members ((k, v) # ms) m =
     (case v of
        JStr s \<Rightarrow> string_members ms (m(k \<mapsto> s))
      | JNull \<Rightarrow> string_members ms (m(k \<mapsto> ''''))
      | _ \<Rightarrow> type_mismatch)"

fun unmarshal_string_map :: "json \<Rightarrow> (string \<rightharpoonup> string) go_result" where
  "unmarshal_string_map (JObj ms) = string_members ms Map.empty"
| "unmarshal_string_map JNull = Ok Map.empty"
| "unmarshal_string_map _ = type_mismatch"

text \<open>Indexing a Go map: a missing key reads as the empty string.\<close>

definition map_str :: "(string \<rightharpoonup> string) \<Rightarrow> string \<Rightarrow> string" where
  "map_str m k = (case m k of None \<Rightarrow> '''' | Some v \<Rightarrow> v)"

section \<open>Base64 and hexadecimal\<close>

definition b64_alphabet :: string where
  "b64_alphabet = ''ABCDEFGHIJKLMNOPQRSTUVWXYZabcdefghijklmnopqrstuvwxyz0123456789+/''"

definition b64_val :: "char \<Rightarrow> nat option" where
  "b64_val c = map_of (zip b64_alphabet [0..<64]) c"

text \<open>
  \<open>StdEncoding.DecodeString\<close>: carriage returns and line feeds are skipped, the rest comes in
  groups of four with padding in the last group; unused trailing bits are ignored.
\<close>

fun b64_groups :: "string \<Rightarrow> string option" where
  "b64_groups [] = Some []"
| "b64_groups [a] = None"
| "b64_groups [a, b] = None"
| "b64_groups [a, b, c] = None"
| "b64_groups (a # b # c # d # rest) =
     (case (b64_val a, b64_val b) of
        (Some va, Some vb) \<Rightarrow>
          (let x = char_of (va * 4 + vb div 16)
           in if c = CHR ''='' then (if d = CHR ''='' \<and> rest = [] then Some [x] else None)
              else (case b64_val c of
                      None \<Rightarrow> None
                    | Some vc \<Rightarrow>
                        (let y = char_of (vb mod 16 * 16 + vc div 4)
                         in if d = CHR ''='' then (if rest = [] then Some [x, y] else None)
                            else (case b64_val d of
                                    None \<Rightarrow> None
                                  | Some vd \<Rightarrow> map_option (\<lambda>r. x # y # char_of (vc mod 4 * 64 + vd) # r)
                                                (b64_groups rest)))))
      | _ \<Rightarrow> None)"

definition base64_DecodeString :: "string \<Rightarrow> string go_result" where
  "base64_DecodeString s =
     (case b64_groups (filter (\<lambda>c. c \<noteq> CHR 0x0D \<and> c \<noteq> CHR 0x0A) s) of
        None \<Rightarrow> Err ''illegal base64 data'' | Some bs \<Rightarrow> Ok bs)"

fun base64_EncodeToString :: "string \<Rightarrow> string" where
  "base64_EncodeToString [] = []"
| "base64_EncodeToString [x] =
     (let x = of_char x in [b64_alphabet ! (x div 4), b64_alphabet ! (x mod 4 * 16), CHR ''='', CHR ''=''])"
| "base64_EncodeToString [x, y] =
     (let x = of_char x; y = of_char y
      in [b64_alphabet ! (x div 4), b64_alphabet ! (x mod 4 * 16 + y div 16), b64_alphabet ! (y mod 16 * 4), CHR ''=''])"
| "base64_EncodeToString (x # y # z # rest) =
     (let x = of_char x; y = of_char y; z = of_char z
      in [b64_alphabet ! (x div 4), b64_alphabet ! (x mod 4 * 16 + y div 16),
          b64_alphabet ! (y mod 16 * 4 + z div 64), b64_alphabet ! (z mod 64)]
         @ base64_EncodeToString rest)"

definition hex_digit :: "nat \<Rightarrow> char" where
  "hex_digit n = ''0123456789abcdef'' ! n"

definition hex_EncodeToString :: "string \<Rightarrow> string" where
  "hex_EncodeToString bs = concat (map (\<lambda>c. [hex_digit (of_char c div 16), hex_digit (of_char c mod 16)]) bs)"

subsection \<open>Base64 round trip\<close>

lemma b64_alphabet_length: "length b64_alphabet = 64"
  by (simp add: b64_alphabet_def)

lemma b64_alphabet_distinct: "distinct b64_alphabet"
  by (simp add: b64_alphabet_def)

lemma b64_val_nth [simp]: "i < 64 \<Longrightarrow> b64_val (b64_alphabet ! i) = Some i"
  using map_of_zip_nth [of b64_alphabet "[0..<64]" i]
  by (simp add: b64_val_def b64_alphabet_length b64_alphabet_distinct)

lemma b64_nth_plain:
  "i < 64 \<Longrightarrow> b64_alphabet ! i \<noteq> CHR ''='' \<and> b64_alphabet ! i \<noteq> CHR ''-'' \<and>
     b64_alphabet ! i \<noteq> CHR 0x0D \<and> b64_alphabet ! i \<noteq> CHR 0x0A"
proof -
  assume "i < 64"
  then have "b64_alphabet ! i \<in> set b64_alphabet" by (simp add: b64_alphabet_length)
  moreover have "CHR ''='' \<notin> set b64_alphabet" "CHR ''-'' \<notin> set b64_alphabet" "CHR 0x0D \<notin> set b64_alphabet" "CHR 0x0A \<notin> set b64_alphabet"
    by (simp_all add: b64_alphabet_def)
  ultimately show ?thesis by metis
qed

lemma byte_lt [simp]: "(of_char c :: nat) < 256"
  using of_char_mod_256 [of c, where 'a = nat] by (metis mod_less_divisor zero_less_numeral)

lemma pack_digits: "b < (n::nat) \<Longrightarrow> (a * n + b) div n = a" "b < n \<Longrightarrow> (a * n + b) mod n = b"
  by (simp_all add: div_mult_self3)

lemma byte_div: "(of_char c :: nat) div 4 < 64" "(of_char c :: nat) div 16 < 16" "(of_char c :: nat) div 64 < 4"
  using byte_lt [of c] by linarith+

lemma digit_sum: "a < 4 \<Longrightarrow> b < 16 \<Longrightarrow> a * 16 + b < (64::nat)" "a < 16 \<Longrightarrow> b < 4 \<Longrightarrow> a * 4 + b < (64::nat)"
  "a < 4 \<Longrightarrow> a * 16 < (64::nat)" "a < 16 \<Longrightarrow> a * 4 < (64::nat)"
  by linarith+

lemmas byte_arith = byte_div digit_sum pack_digits

lemma b64_groups_encode: "b64_groups (base64_EncodeToString bs) = Some bs"
  by (induction bs rule: base64_EncodeToString.induct)
     (simp_all add: Let_def byte_arith b64_nth_plain char_of_char)

lemma b64_encode_plain:
  "c \<in> set (base64_EncodeToString bs) \<Longrightarrow> c \<noteq> CHR 0x0D \<and> c \<noteq> CHR 0x0A \<and> c \<noteq> CHR ''-''"
  by (induction bs rule: base64_EncodeToString.induct)
     (auto simp: Let_def b64_nth_plain byte_arith)

lemma base64_round_trip: "base64_DecodeString (base64_EncodeToString bs) = Ok bs"
proof -
  have "filter (\<lambda>c. c \<noteq> CHR 0x0D \<and> c \<noteq> CHR 0x0A) (base64_EncodeToString bs) = base64_EncodeToString bs"
    using b64_encode_plain by (intro filter_True) blast
  then show ?thesis by (simp add: base64_DecodeString_def b64_groups_encode)
qed

subsection \<open>Hexadecimal text determines the bytes\<close>

lemma hex_digit_inj: "i < 16 \<Longrightarrow> j < 16 \<Longrightarrow> hex_digit i = hex_digit j \<longleftrightarrow> i = j"
  using nth_eq_iff_index_eq [of "''0123456789abcdef''" i j] by (simp add: hex_digit_def)

lemma hex_inj: "hex_EncodeToString a = hex_EncodeToString b \<longleftrightarrow> a = b"
proof
  show "hex_EncodeToString a = hex_EncodeToString b \<Longrightarrow> a = b"
  proof (induction a arbitrary: b)
    case Nil
    then show ?case by (cases b) (simp_all add: hex_EncodeToString_def)
  next
    case (Cons c a)
    then obtain d b' where b: "b = d # b'" by (cases b) (auto simp: hex_EncodeToString_def)
    with Cons.prems have digits: "hex_digit (of_char c div 16) = hex_digit (of_char d div 16)"
      "hex_digit (of_char c mod 16) = hex_digit (of_char d mod 16)"
      and rest: "hex_EncodeToString a = hex_EncodeToString b'"
      by (simp_all add: hex_EncodeToString_def)
    then have "(of_char c :: nat) div 16 = of_char d div 16" "(of_char c :: nat) mod 16 = of_char d mod 16"
      by (simp_all add: hex_digit_inj byte_div)
    then have "(of_char c :: nat) = of_char d" by (metis div_mult_mod_eq)
    with Cons.IH [OF rest] b show ?case by simp
  qed
qed simp

end
