(* ===== verification/Signatures.thy ===== *)
theory Signatures
  imports Encodings
begin

text \<open>
  Signatures as the webhook sees them. \<open>oci.Signature\<close> and \<open>x509.Certificate\<close> are used
  through their methods, so each is a record of what the methods return. The results a
  policy is evaluated on are those of \<open>pkg/webhook/validator_result.go\<close>, and the conversions
  are \<open>signatureID\<close>, \<open>ociSignatureToPolicySignature\<close> and \<open>attestationToPolicyAttestations\<close> of
  \<open>pkg/webhook/validator.go\<close>. SHA-256 is a parameter.
\<close>

record certificate =
  ct_PEM :: "string go_result"
  ct_SANs :: "string list"
  ct_GetIssuer :: string
  ct_Trigger :: string
  ct_Sha :: string
  ct_Workflow :: string
  ct_Repository :: string
  ct_Ref :: string
  ct_IsCA :: bool
  ct_RawSubject :: string
  ct_RawIssuer :: string

record oci_signature =
  os_Annotations :: "(string \<rightharpoonup> string) go_result"
  os_Payload :: "string go_result"
  os_Base64Signature :: "string go_result"
  os_Signature :: "string go_result"
  os_Cert :: "certificate option go_result"
  os_Digest :: "string go_result"

section \<open>Results\<close>

record GithubExtensions =
  gx_WorkflowTrigger :: string
  gx_WorkflowSHA :: string
  gx_WorkflowName :: string
  gx_WorkflowRepo :: string
  gx_WorkflowRef :: string

record PolicySignature =
  ps_ID :: string
  ps_Subject :: string
  ps_Issuer :: string
  ps_GithubExtensions :: GithubExtensions

record PolicyAttestation =
  pa_PolicySignature :: PolicySignature
  pa_PredicateType :: string
  pa_Payload :: string
  pa_Digest :: string

record AuthorityMatch =
  am_Signatures :: "PolicySignature list"
  am_Attestations :: "(string \<times> PolicyAttestation list) list"
  am_Static :: bool

text \<open>The parts taken from the image and the resource are passed through unchanged.\<close>

record ('cfg, 'v) PolicyResult =
  pr_AuthorityMatches :: "(string \<times> AuthorityMatch) list"
  pr_Config :: "(string \<times> 'cfg) list"
  pr_Spec :: "'v option"
  pr_ObjectMeta :: "'v option"
  pr_TypeMeta :: "'v option"

section \<open>Conversions\<close>

definition signatureID :: "(string \<Rightarrow> string) \<Rightarrow> oci_signature \<Rightarrow> string go_result" where
  "signatureID sha256 sig =
     (case os_Signature sig of
        Inl e \<Rightarrow> Err e
      | Inr s \<Rightarrow>
          (case os_Cert sig of
             Inl e \<Rightarrow> Err e
           | Inr None \<Rightarrow> Ok (hex_EncodeToString (sha256 s))
           | Inr (Some cert) \<Rightarrow>
               (case ct_PEM cert of
                  Inl e \<Rightarrow> Err e
                | Inr c \<Rightarrow> Ok (hex_EncodeToString (sha256 (s @ c))))))"

definition no_extensions :: GithubExtensions where
  "no_extensions = \<lparr>gx_WorkflowTrigger = '''', gx_WorkflowSHA = '''', gx_WorkflowName = '''',
                    gx_WorkflowRepo = '''', gx_WorkflowRef = ''''\<rparr>"

text \<open>The record for one signature whose identifier is known.\<close>

definition policy_signature :: "string \<Rightarrow> oci_signature \<Rightarrow> PolicySignature" where
  "policy_signature sigID sig =
     (case os_Cert sig of
        Inr (Some cert) \<Rightarrow>
          \<lparr>ps_ID = sigID,
           ps_Subject = (case ct_SANs cert of [] \<Rightarrow> '''' | san # _ \<Rightarrow> san),
           ps_Issuer = ct_GetIssuer cert,
           ps_GithubExtensions = \<lparr>gx_WorkflowTrigger = ct_Trigger cert, gx_WorkflowSHA = ct_Sha cert,
             gx_WorkflowName = ct_Workflow cert, gx_WorkflowRepo = ct_Repository cert,
             gx_WorkflowRef = ct_Ref cert\<rparr>\<rparr>
      | _ \<Rightarrow> \<lparr>ps_ID = sigID, ps_Subject = '''', ps_Issuer = '''', ps_GithubExtensions = no_extensions\<rparr>)"

fun ociSignatureToPolicySignature :: "(string \<Rightarrow> string) \<Rightarrow> oci_signature list \<Rightarrow> PolicySignature list" where
  "ociSignatureToPolicySignature sha256 [] = []"
| "ociSignatureToPolicySignature sha256 (sig # sigs) =
     (case signatureID sha256 sig of
        Inl e \<Rightarrow> ociSignatureToPolicySignature sha256 sigs
      | Inr sigID \<Rightarrow> policy_signature sigID sig # ociSignatureToPolicySignature sha256 sigs)"

record attestation =
  att_Signature :: oci_signature
  att_PredicateType :: string
  att_Payload :: string
  att_Digest :: string

fun attestationToPolicyAttestations :: "(string \<Rightarrow> string) \<Rightarrow> attestation list \<Rightarrow> PolicyAttestation list" where
  "attestationToPolicyAttestations sha256 [] = []"
| "attestationToPolicyAttestations sha256 (a # as) =
     (case signatureID sha256 (att_Signature a) of
        Inl e \<Rightarrow> attestationToPolicyAttestations sha256 as
      | Inr sigID \<Rightarrow>
          \<lparr>pa_PolicySignature = policy_signature sigID (att_Signature a),
           pa_PredicateType = att_PredicateType a, pa_Payload = att_Payload a,
           pa_Digest = att_Digest a\<rparr> # attestationToPolicyAttestations sha256 as)"

section \<open>Identifiers\<close>

lemma ociSignatureToPolicySignature_ids:
  "map ps_ID (ociSignatureToPolicySignature sha256 sigs) =
     map projr (filter is_ok (map (signatureID sha256) sigs))"
  by (induction sigs) (auto simp: policy_signature_def split: sum.splits option.splits)

lemma ociSignature_empty_iff:
  "ociSignatureToPolicySignature sha256 sigs = [] \<longleftrightarrow> (\<forall>s \<in> set sigs. \<not> is_ok (signatureID sha256 s))"
  by (induction sigs) (auto split: sum.splits)

end
