(* ===== verification/Paths.thy ===== *)
theory Paths
  imports PC_Prelude
begin

text \<open>
  Go's slash separated paths, as \<open>path/filepath\<close> (on Unix), \<open>path\<close> and \<open>io/fs\<close> treat them:
  \<open>Clean\<close>, \<open>Join\<close> and \<open>ValidPath\<close>, with the lemmas the file trees of the TUF package need.
\<close>

section \<open>Elements of a path\<close>

abbreviation slash :: char where "slash \<equiv> CHR ''/''"

fun slash_join :: "string list \<Rightarrow> string" where
  "slash_join [] = []"
| "slash_join [e] = e"
| "slash_join (e # f # es) = e @ slash # slash_join (f # es)"

definition good_elem :: "string \<Rightarrow> bool" where
  "good_elem e = (e \<noteq> [] \<and> e \<noteq> ''.'' \<and> e \<noteq> ''..'' \<and> slash \<notin> set e)"

lemma split_on_append: "split_on d (a @ d # b) = split_on d a @ split_on d b"
  by (induction a) (auto split: list.splits)

lemma split_on_free: "d \<notin> set e \<Longrightarrow> split_on d e = [e]"
  by (induction e) auto

lemma split_on_no_sep: "e \<in> set (split_on d s) \<Longrightarrow> d \<notin> set e"
  by (induction s arbitrary: e) (auto split: list.splits if_splits)

lemma slash_join_cons: "es \<noteq> [] \<Longrightarrow> slash_join (e # es) = e @ slash # slash_join es"
  by (cases es) auto

lemma slash_join_append: "es \<noteq> [] \<Longrightarrow> fs \<noteq> [] \<Longrightarrow> slash_join (es @ fs) = slash_join es @ slash # slash_join fs"
  by (induction es rule: slash_join.induct) (auto simp: slash_join_cons)

lemma split_slash_join: "\<forall>e \<in> set es. slash \<notin> set e \<Longrightarrow> es \<noteq> [] \<Longrightarrow> split_on slash (slash_join es) = es"
  by (induction es rule: slash_join.induct) (auto simp: split_on_append split_on_free)

lemma slash_join_split [simp]: "slash_join (split_on slash s) = s"
proof (induction s)
  case (Cons c s)
  then show ?case
    by (cases "split_on slash s"; cases "tl (split_on slash s)") (auto simp: slash_join_cons)
qed simp

lemma good_slash_free: "\<forall>e \<in> set es. good_elem e \<Longrightarrow> \<forall>e \<in> set es. slash \<notin> set e"
  by (simp add: good_elem_def)

lemma slash_join_Nil: "\<forall>e \<in> set es. good_elem e \<Longrightarrow> slash_join es = [] \<longleftrightarrow> es = []"
  by (cases es rule: slash_join.cases) (simp_all add: good_elem_def)

lemma slash_join_inj:
  assumes "\<forall>e \<in> set es. good_elem e" "\<forall>e \<in> set fs. good_elem e" "slash_join es = slash_join fs"
  shows "es = fs"
proof (cases "es = [] \<or> fs = []")
  case True
  with slash_join_Nil [OF assms(1)] slash_join_Nil [OF assms(2)] assms(3) show ?thesis by (elim disjE) simp_all
next
  case False
  then have "es = split_on slash (slash_join es)" "split_on slash (slash_join fs) = fs"
    by (simp_all add: split_slash_join [OF good_slash_free [OF assms(1)]] split_slash_join [OF good_slash_free [OF assms(2)]])
  then show ?thesis unfolding assms(3) by (rule trans)
qed

section \<open>Clean and Join\<close>

definition clean_step :: "bool \<Rightarrow> string list \<Rightarrow> string \<Rightarrow> string list" where
  "clean_step rooted out e =
     (if e = [] \<or> e = ''.'' then out
      else if e = ''..''
        then (case out of [] \<Rightarrow> if rooted then [] else [''..''] | up # rest \<Rightarrow> if up = ''..'' then ''..'' # out else rest)
      else e # out)"

definition clean_elems :: "bool \<Rightarrow> string list \<Rightarrow> string list" where
  "clean_elems rooted es = rev (foldl (clean_step rooted) [] es)"

definition Clean :: "string \<Rightarrow> string" where
  "Clean s =
     (let rooted = HasPrefix s [slash]; es = clean_elems rooted (split_on slash s)
      in if rooted then slash # slash_join es else if es = [] then ''.'' else slash_join es)"

text \<open>\<open>filepath.Join\<close> of two elements.\<close>

definition Join :: "string \<Rightarrow> string \<Rightarrow> string" where
  "Join d t = (if d \<noteq> [] then Clean (d @ slash # t) else if t \<noteq> [] then Clean t else [])"

lemma clean_step_good: "good_elem e \<Longrightarrow> clean_step r out e = e # out"
  by (simp add: clean_step_def good_elem_def)

lemma foldl_clean_good: "\<forall>e \<in> set es. good_elem e \<Longrightarrow> foldl (clean_step r) out es = rev es @ out"
  by (induction es arbitrary: out) (auto simp: clean_step_good)

lemma foldl_clean_rooted:
  "\<forall>e \<in> set es. slash \<notin> set e \<Longrightarrow> \<forall>e \<in> set out. good_elem e \<Longrightarrow> \<forall>e \<in> set (foldl (clean_step True) out es). good_elem e"
proof (induction es arbitrary: out)
  case (Cons e es)
  have "set (clean_step True out e) \<subseteq> (if good_elem e then insert e (set out) else set out)"
    using Cons.prems(1) Cons.prems(2) by (cases out) (auto simp: clean_step_def good_elem_def)
  then have "\<forall>e' \<in> set (clean_step True out e). good_elem e'" using Cons.prems(2) by (auto split: if_splits)
  with Cons.IH Cons.prems(1) show ?case by simp
qed simp

lemma clean_elems_rooted: "\<forall>e \<in> set es. slash \<notin> set e \<Longrightarrow> e \<in> set (clean_elems True es) \<Longrightarrow> good_elem e"
  using foldl_clean_rooted [of es "[]"] by (simp add: clean_elems_def)

text \<open>A cleaned rooted path goes up nowhere.\<close>

lemma Clean_rooted:
  obtains es where "Clean (slash # s) = slash # slash_join es" "\<forall>e \<in> set es. good_elem e"
proof -
  let ?es = "clean_elems True (split_on slash (slash # s))"
  have "\<forall>e \<in> set ?es. good_elem e" using clean_elems_rooted split_on_no_sep by blast
  then show thesis by (rule that [rotated]) (simp add: Clean_def HasPrefix_def Let_def)
qed

lemma split_on_join_cases:
  "\<forall>e \<in> set es. good_elem e \<Longrightarrow> split_on slash (slash_join es) = (if es = [] then [[]] else es)"
  by (auto simp: split_slash_join good_elem_def)

lemma clean_elems_good: "\<forall>e \<in> set es. good_elem e \<Longrightarrow> clean_elems r es = es"
  by (simp add: clean_elems_def foldl_clean_good)

lemma clean_elems_skip: "clean_elems r ([] # es) = clean_elems r es"
  by (simp add: clean_elems_def clean_step_def)

lemma clean_elems_join: "\<forall>e \<in> set es. good_elem e \<Longrightarrow> clean_elems r (split_on slash (slash_join es)) = es"
  by (cases "es = []") (simp_all add: split_on_join_cases clean_elems_good, simp add: clean_elems_def clean_step_def)

lemma Clean_good_rooted: "\<forall>e \<in> set es. good_elem e \<Longrightarrow> Clean (slash # slash_join es) = slash # slash_join es"
  by (simp add: Clean_def HasPrefix_def Let_def clean_elems_skip clean_elems_join)

lemma Clean_good: "\<forall>e \<in> set es. good_elem e \<Longrightarrow> es \<noteq> [] \<Longrightarrow> Clean (slash_join es) = slash_join es"
proof -
  assume g: "\<forall>e \<in> set es. good_elem e" and n: "es \<noteq> []"
  then obtain c e es' where es: "es = (c # e) # es'" and "c \<noteq> slash"
    by (cases es; cases "hd es") (auto simp: good_elem_def)
  then have "\<not> HasPrefix (slash_join es) [slash]" by (cases es') (simp_all add: HasPrefix_def)
  with g n show ?thesis by (simp add: Clean_def Let_def clean_elems_join)
qed

lemma Join_root: "\<forall>e \<in> set es. good_elem e \<Longrightarrow> Join [slash] (slash_join es) = slash # slash_join es"
  by (simp add: Join_def Clean_def HasPrefix_def Let_def clean_elems_skip clean_elems_join)

lemma Join_good:
  assumes "\<forall>e \<in> set es. good_elem e" "es \<noteq> []" "good_elem n"
  shows "Join (slash_join es) n = slash_join (es @ [n])"
proof -
  have "slash_join es \<noteq> []" using assms by (cases es rule: slash_join.cases) (auto simp: good_elem_def)
  moreover have "slash_join es @ slash # n = slash_join (es @ [n])" using assms(2) by (simp add: slash_join_append)
  ultimately show ?thesis using Clean_good [of "es @ [n]"] assms by (simp add: Join_def)
qed

section \<open>Valid paths\<close>

text \<open>\<open>utf8.ValidString\<close>.\<close>

definition cont_byte :: "nat \<Rightarrow> nat \<Rightarrow> char \<Rightarrow> bool" where
  "cont_byte lo hi c = (lo \<le> of_char c \<and> (of_char c :: nat) \<le> hi)"

text \<open>The bytes that follow a first byte: the range of the second, and how many come after it.\<close>

definition utf8_tail :: "char \<Rightarrow> (nat \<times> nat \<times> nat) option" where
  "utf8_tail c =
     (let b = (of_char c :: nat)
      in if 0xC2 \<le> b \<and> b \<le> 0xDF then Some (0x80, 0xBF, 0)
         else if b = 0xE0 then Some (0xA0, 0xBF, 1)
         else if b = 0xED then Some (0x80, 0x9F, 1)
         else if 0xE1 \<le> b \<and> b \<le> 0xEF then Some (0x80, 0xBF, 1)
         else if b = 0xF0 then Some (0x90, 0xBF, 2)
         else if 0xF1 \<le> b \<and> b \<le> 0xF3 then Some (0x80, 0xBF, 2)
         else if b = 0xF4 then Some (0x80, 0x8F, 2)
         else None)"

fun utf8_from :: "(nat \<times> nat \<times> nat) option \<Rightarrow> string \<Rightarrow> bool" where
  "utf8_from st [] = (st = None)"
| "utf8_from None (c # cs) =
     (if (of_char c :: nat) < 0x80 then utf8_from None cs
      else (case utf8_tail c of None \<Rightarrow> False | Some t \<Rightarrow> utf8_from (Some t) cs))"
| "utf8_from (Some (lo, hi, n)) (c # cs) =
     (cont_byte lo hi c \<and> utf8_from (case n of 0 \<Rightarrow> None | Suc m \<Rightarrow> Some (0x80, 0xBF, m)) cs)"

definition utf8_ValidString :: "string \<Rightarrow> bool" where
  "utf8_ValidString s = utf8_from None s"

lemma utf8_from_append: "utf8_from st a \<Longrightarrow> utf8_from None b \<Longrightarrow> utf8_from st (a @ b)"
  by (induction st a rule: utf8_from.induct) (auto split: option.splits nat.splits if_splits)

lemma utf8_append: "utf8_ValidString a \<Longrightarrow> utf8_ValidString b \<Longrightarrow> utf8_ValidString (a @ b)"
  by (simp add: utf8_ValidString_def utf8_from_append)

lemma utf8_slash_join: "\<forall>e \<in> set es. utf8_ValidString e \<Longrightarrow> utf8_ValidString (slash_join es)"
proof (induction es rule: slash_join.induct)
  case (3 e f es)
  have "utf8_ValidString [slash]" by (simp add: utf8_ValidString_def)
  with 3 have "utf8_ValidString (e @ [slash] @ slash_join (f # es))" by (intro utf8_append) simp_all
  then show ?case by simp
qed (simp_all add: utf8_ValidString_def)

text \<open>\<open>fs.ValidPath\<close>.\<close>

definition good_path :: "string \<Rightarrow> bool" where
  "good_path s = list_all good_elem (split_on slash s)"

definition ValidPath :: "string \<Rightarrow> bool" where
  "ValidPath s = (utf8_ValidString s \<and> (s = ''.'' \<or> good_path s))"

lemma good_path_join: "\<forall>e \<in> set es. good_elem e \<Longrightarrow> es \<noteq> [] \<Longrightarrow> good_path (slash_join es)"
  by (simp add: good_path_def split_on_join_cases list_all_iff)

text \<open>What remains of a clean rooted path after a prefix that ends in a slash.\<close>

lemma good_path_rest:
  assumes "slash # slash_join es = a @ slash # rest" "\<forall>e \<in> set es. good_elem e" "rest \<noteq> []"
  shows "good_path rest"
proof -
  have "split_on slash (slash # slash_join es) = split_on slash a @ split_on slash rest"
    unfolding assms(1) by (rule split_on_append)
  then have s: "[] # split_on slash (slash_join es) = split_on slash a @ split_on slash rest" by simp
  obtain x xs where x: "split_on slash a = x # xs" by (cases "split_on slash a") simp_all
  have r: "split_on slash rest \<noteq> [[]]" using assms(3) slash_join_split [of rest] by fastforce
  show ?thesis
  proof (cases "es = []")
    case True
    with s x have "xs @ split_on slash rest = [[]]" by simp
    with r show ?thesis by (cases xs) auto
  next
    case False
    with s x assms(2) have "es = xs @ split_on slash rest" by (simp add: split_on_join_cases)
    with assms(2) show ?thesis by (simp add: good_path_def list_all_iff)
  qed
qed

end
