(* ===== verification/TufRepo.thy ===== *)
theory TufRepo
  imports Paths
begin

text \<open>
  \<open>pkg/tuf/repo.go\<close>: compressed TUF repositories. \<open>CompressFS\<close> walks a file tree and writes a
  tar archive, \<open>Uncompress\<close> unpacks one to disk and \<open>UncompressMemFS\<close> into memory, where
  \<open>fsFetcher\<close> serves it to the TUF client. An archive is the sequence of its entries; gzip
  and the byte format of tar appear through the errors reading and writing may yield.
\<close>

section \<open>File trees and archives\<close>

text \<open>
  A tree as \<open>io/fs\<close> shows it: a file with its permissions, modification time and what opening and
  copying it yields; a directory with what reading it yields, in the order of \<open>ReadDir\<close>.
\<close>

datatype file_content = Content string | OpenErr string | CopyErr string

datatype fs_tree =
    FileT int int file_content
  | DirT int int "(string \<times> fs_tree) list go_result"

datatype tar_type = TypeDir | TypeReg | TypeOther

text \<open>
  An entry of an archive; the length of the contents is the header's size. A stream is what
  a reader finds: an error of gzip, the entries with an error at the end, and for the entry of each
  name how many bytes its first \<open>Read\<close> delivers and the error reading it returns, the end of the
  entry aside.
\<close>

record tar_entry =
  te_Name :: string
  te_Typeflag :: tar_type
  te_Mode :: int
  te_ModTime :: int
  te_Data :: string

record tar_stream =
  ts_gzip_err :: "string option"
  ts_entries :: "tar_entry list"
  ts_end_err :: "string option"
  ts_first_read :: "string \<Rightarrow> nat"
  ts_read_err :: "string \<Rightarrow> string option"

section \<open>Compressing\<close>

record walk_env =
  we_Stat_err :: "string \<Rightarrow> string option"
  we_FileInfoHeader_err :: "string \<Rightarrow> string option"
  we_WriteHeader_err :: "string \<Rightarrow> string option"
  we_tw_Close_err :: "string option"
  we_zr_Close_err :: "string option"

definition tar_header :: "string \<Rightarrow> tar_type \<Rightarrow> int \<Rightarrow> int \<Rightarrow> string \<Rightarrow> tar_entry" where
  "tar_header file t mode modtime data =
     \<lparr>te_Name = file, te_Typeflag = t, te_Mode = mode, te_ModTime = modtime, te_Data = data\<rparr>"

text \<open>The part of the callback that writes the header.\<close>

definition write_header :: "walk_env \<Rightarrow> string \<Rightarrow> string option" where
  "write_header env file =
     (case we_Stat_err env file of
        Some e \<Rightarrow> Some (wrap_err (''fs.Stat '' @ file) e)
      | None \<Rightarrow>
          (case we_FileInfoHeader_err env file of
             Some e \<Rightarrow> Some (wrap_err (''FileInfoHeader '' @ file) e)
           | None \<Rightarrow> we_WriteHeader_err env file))"

text \<open>
  The callback on a file, and \<open>fs.WalkDir\<close> with the callback: what is written for one node, and for the
  entries of a directory. \<open>SkipDir\<close> leaves out a directory with all below it.
\<close>

definition compress_file :: "walk_env \<Rightarrow> string \<Rightarrow> int \<Rightarrow> int \<Rightarrow> file_content \<Rightarrow> tar_entry list go_result" where
  "compress_file env file mode modtime content =
     (case write_header env file of
        Some e \<Rightarrow> Err e
      | None \<Rightarrow>
          (case content of
             OpenErr e \<Rightarrow> Err (wrap_err (''opening '' @ file) e)
           | CopyErr e \<Rightarrow> Err (wrap_err (''copying '' @ file) e)
           | Content data \<Rightarrow> Ok [tar_header file TypeReg mode modtime data]))"

fun walkDir :: "walk_env \<Rightarrow> (string \<Rightarrow> bool) \<Rightarrow> string \<Rightarrow> string \<Rightarrow> fs_tree \<Rightarrow> tar_entry list go_result"
  and walk_entries :: "walk_env \<Rightarrow> (string \<Rightarrow> bool) \<Rightarrow> string \<Rightarrow> (string \<times> fs_tree) list \<Rightarrow> tar_entry list go_result" where
  "walkDir env skipDirs file name (FileT mode modtime content) = compress_file env file mode modtime content"
| "walkDir env skipDirs file name (DirT mode modtime listing) =
     (if skipDirs name then Ok []
      else (case write_header env file of
              Some e \<Rightarrow> Err e
            | None \<Rightarrow>
                (case listing of
                   Inl e \<Rightarrow> Err e
                 | Inr dirs \<Rightarrow>
                     (case walk_entries env skipDirs file dirs of
                        Inl e \<Rightarrow> Err e
                      | Inr es \<Rightarrow> Ok (tar_header file TypeDir mode modtime [] # es)))))"
| "walk_entries env skipDirs file [] = Ok []"
| "walk_entries env skipDirs file ((name, t) # dirs) =
     (case walkDir env skipDirs (Join file name) name t of
        Inl e \<Rightarrow> Err e
      | Inr es \<Rightarrow> (case walk_entries env skipDirs file dirs of Inl e \<Rightarrow> Err e | Inr es' \<Rightarrow> Ok (es @ es')))"

text \<open>The tree at \<open>repository\<close>, or the error of its \<open>Stat\<close>.\<close>

definition CompressFS :: "walk_env \<Rightarrow> fs_tree go_result \<Rightarrow> (string \<Rightarrow> bool) \<Rightarrow> tar_entry list go_result" where
  "CompressFS env fsys skipDirs =
     (case (case fsys of Inl e \<Rightarrow> Err e | Inr t \<Rightarrow> walkDir env skipDirs ''repository'' ''repository'' t) of
        Inl e \<Rightarrow> Err (wrap_err ''WalkDir'' e)
      | Inr es \<Rightarrow>
          (case we_tw_Close_err env of
             Some e \<Rightarrow> Err (wrap_err ''tar.NewWriter Close()'' e)
           | None \<Rightarrow> (case we_zr_Close_err env of Some e \<Rightarrow> Err e | None \<Rightarrow> Ok es)))"

section \<open>Unpacking\<close>

definition sanitizeArchivePath :: "string \<Rightarrow> string \<Rightarrow> string go_result" where
  "sanitizeArchivePath d t =
     (let v = Join d t
      in if HasPrefix v (Clean d) then Ok v else Err (''content filepath is tainted: '' @ t))"

text \<open>\<open>header.Mode < 0 && int64(uint32(header.Mode)) != header.Mode\<close>, for a 64 bit value.\<close>

definition invalid_mode :: "int \<Rightarrow> bool" where
  "invalid_mode m = (m < 0 \<and> m mod 2 ^ 32 \<noteq> m)"

lemma invalid_mode_iff: "invalid_mode m \<longleftrightarrow> m < 0"
  using pos_mod_sign [of "2 ^ 32" m] unfolding invalid_mode_def by auto

text \<open>A file system in memory (\<open>fstest.MapFS\<close>): contents and mode by path.\<close>

record MapFile =
  mf_Data :: string
  mf_Mode :: int
  mf_ModTime :: int

definition ModeDir :: int where "ModeDir = 2 ^ 31"

definition is_dir_mode :: "int \<Rightarrow> bool" where
  "is_dir_mode m = odd (m div ModeDir)"

type_synonym map_fs = "(string \<times> MapFile) list"

text \<open>
  The buffer after one \<open>Read\<close>: what was delivered, and zero bytes where nothing was written.
\<close>

definition read_once :: "tar_stream \<Rightarrow> tar_entry \<Rightarrow> string" where
  "read_once src e =
     (let n = ts_first_read src (te_Name e)
      in take n (te_Data e) @ replicate (length (te_Data e) - n) (CHR 0x00))"

text \<open>The body of the loop.\<close>

definition mem_target :: "string \<Rightarrow> string \<Rightarrow> string" where
  "mem_target stripPrefix v = TrimPrefix (TrimPrefix v stripPrefix) [slash]"

definition unpack_mem :: "tar_stream \<Rightarrow> string \<Rightarrow> tar_entry \<Rightarrow> map_fs \<Rightarrow> map_fs go_result" where
  "unpack_mem src stripPrefix e fsys =
     (case sanitizeArchivePath [slash] (te_Name e) of
        Inl err \<Rightarrow> Err err
      | Inr v \<Rightarrow>
          (let target = mem_target stripPrefix v
           in case te_Typeflag e of
                TypeDir \<Rightarrow> Ok (map_assign target \<lparr>mf_Data = [], mf_Mode = ModeDir, mf_ModTime = te_ModTime e\<rparr> fsys)
              | TypeReg \<Rightarrow>
                  (case ts_read_err src (te_Name e) of
                     Some err \<Rightarrow> Err (wrap_err (''reading file '' @ te_Name e @ '' '') err)
                   | None \<Rightarrow>
                       if invalid_mode (te_Mode e) then Err ''invalid mode value in tar header''
                       else Ok (map_assign target \<lparr>mf_Data = read_once src e, mf_Mode = te_Mode e mod 2 ^ 32, mf_ModTime = te_ModTime e\<rparr> fsys))
              | TypeOther \<Rightarrow> Ok fsys))"

fun unpack_all :: "(tar_entry \<Rightarrow> 'f \<Rightarrow> 'f go_result) \<Rightarrow> tar_entry list \<Rightarrow> 'f \<Rightarrow> 'f go_result" where
  "unpack_all step [] fsys = Ok fsys"
| "unpack_all step (e # es) fsys = (case step e fsys of Inl err \<Rightarrow> Err err | Inr fsys' \<Rightarrow> unpack_all step es fsys')"

definition UncompressMemFS :: "tar_stream \<Rightarrow> string \<Rightarrow> map_fs go_result" where
  "UncompressMemFS src stripPrefix =
     (case ts_gzip_err src of
        Some e \<Rightarrow> Err e
      | None \<Rightarrow>
          (case unpack_all (unpack_mem src stripPrefix) (ts_entries src) [] of
             Inl e \<Rightarrow> Err e
           | Inr fsys \<Rightarrow> (case ts_end_err src of Some e \<Rightarrow> Err e | None \<Rightarrow> Ok fsys)))"

text \<open>
  Unpacking to disk: the operations performed, in order, and the error that ended them, if
  any. A file is written in pieces of 1024 bytes until the entry is exhausted; of a copy that
  fails only the creation of the file is recorded.
\<close>

datatype disk_op = MkdirAll string | WriteFile string int "string list"

record disk_env =
  de_Stat_err :: "disk_op list \<Rightarrow> string \<Rightarrow> string option"
  de_MkdirAll_err :: "string \<Rightarrow> string option"
  de_OpenFile_err :: "string \<Rightarrow> string option"
  de_CopyN_err :: "string \<Rightarrow> string option"
  de_Close_err :: "string \<Rightarrow> string option"

function copy_chunks :: "string \<Rightarrow> string list" where
  "copy_chunks data = (if length data < 1024 then [data] else take 1024 data # copy_chunks (drop 1024 data))"
  by pat_completeness auto
termination by (relation "measure length") auto

declare copy_chunks.simps [simp del]

lemma concat_copy_chunks: "concat (copy_chunks data) = data"
proof (induction data rule: copy_chunks.induct)
  case (1 data)
  then show ?case by (subst copy_chunks.simps) simp
qed

definition unpack_disk :: "disk_env \<Rightarrow> string \<Rightarrow> tar_entry \<Rightarrow> disk_op list \<Rightarrow> disk_op list \<times> string option" where
  "unpack_disk env dst e ops =
     (case sanitizeArchivePath dst (te_Name e) of
        Inl err \<Rightarrow> (ops, Some err)
      | Inr target \<Rightarrow>
          (case te_Typeflag e of
             TypeDir \<Rightarrow>
               if de_Stat_err env ops target = None then (ops, None)
               else (case de_MkdirAll_err env target of
                       Some err \<Rightarrow> (ops, Some err)
                     | None \<Rightarrow> (ops @ [MkdirAll target], None))
           | TypeReg \<Rightarrow>
               if invalid_mode (te_Mode e) then (ops, Some ''invalid mode value in tar header'')
               else (case de_OpenFile_err env target of
                       Some err \<Rightarrow> (ops, Some err)
                     | None \<Rightarrow>
                         (case de_CopyN_err env target of
                            Some err \<Rightarrow> (ops @ [WriteFile target (te_Mode e mod 2 ^ 32) []], Some err)
                          | None \<Rightarrow>
                              (ops @ [WriteFile target (te_Mode e mod 2 ^ 32) (copy_chunks (te_Data e))],
                               map_option (wrap_err (''failed to close file '' @ target)) (de_Close_err env target))))
           | TypeOther \<Rightarrow> (ops, None)))"

fun unpack_disk_all :: "disk_env \<Rightarrow> string \<Rightarrow> tar_entry list \<Rightarrow> disk_op list \<Rightarrow> disk_op list \<times> string option" where
  "unpack_disk_all env dst [] ops = (ops, None)"
| "unpack_disk_all env dst (e # es) ops =
     (case unpack_disk env dst e ops of
        (ops', Some err) \<Rightarrow> (ops', Some err)
      | (ops', None) \<Rightarrow> unpack_disk_all env dst es ops')"

definition Uncompress :: "disk_env \<Rightarrow> tar_stream \<Rightarrow> string \<Rightarrow> disk_op list \<times> string option" where
  "Uncompress env src dst =
     (case ts_gzip_err src of
        Some e \<Rightarrow> ([], Some e)
      | None \<Rightarrow>
          (case unpack_disk_all env dst (ts_entries src) [] of
             (ops, Some e) \<Rightarrow> (ops, Some e)
           | (ops, None) \<Rightarrow> (ops, ts_end_err src)))"

text \<open>The test for path traversal compares texts, so a sibling that extends the target's name passes.\<close>

lemma sanitize_accepts_sibling: "sanitizeArchivePath ''/tmp/repo'' ''../repo-evil/x'' = Ok ''/tmp/repo-evil/x''"
  by (simp add: sanitizeArchivePath_def Join_def Clean_def HasPrefix_def clean_elems_def clean_step_def Let_def)

section \<open>Serving the repository\<close>

datatype fs_err = ErrNotExist | OtherFsErr string

text \<open>\<open>fs.ReadFile\<close> on a \<open>MapFS\<close>: directories may exist only through the files below them.\<close>

definition fs_ReadFile :: "map_fs \<Rightarrow> string \<Rightarrow> fs_err + string" where
  "fs_ReadFile fsys name =
     (if \<not> ValidPath name then Inl ErrNotExist
      else (case map_of fsys name of
              Some f \<Rightarrow>
                if is_dir_mode (mf_Mode f) then Inl (OtherFsErr ''invalid argument'') else Inr (mf_Data f)
            | None \<Rightarrow>
                if name = ''.'' \<or> (\<exists>p \<in> set fsys. HasPrefix (fst p) (name @ [slash]))
                then Inl (OtherFsErr ''invalid argument'') else Inl ErrNotExist))"

record fsFetcher =
  ff_fsys :: map_fs
  ff_baseURL :: string

datatype download_err = ErrDownloadHTTP int string | ErrDownload string | ErrDownloadLengthMismatch string

definition DownloadFile :: "fsFetcher \<Rightarrow> string \<Rightarrow> int \<Rightarrow> download_err + string" where
  "DownloadFile f urlPath maxLength =
     (let path = TrimPrefix (TrimPrefix urlPath (ff_baseURL f)) [slash]
      in case fs_ReadFile (ff_fsys f) path of
           Inl ErrNotExist \<Rightarrow> Inl (ErrDownloadHTTP 404 urlPath)
         | Inl (OtherFsErr e) \<Rightarrow> Inl (ErrDownload (''reading '' @ path @ '': '' @ e))
         | Inr data \<Rightarrow>
             if 0 < maxLength \<and> maxLength < int (length data)
             then Inl (ErrDownloadLengthMismatch
               (''file '' @ path @ '' is '' @ show_nat (length data) @ '' bytes, max '' @ show_int maxLength))
             else Inr data)"

section \<open>Names in memory stay below the root\<close>

lemma sanitize_root:
  obtains es where "sanitizeArchivePath [slash] t = Ok (slash # slash_join es)" "\<forall>e \<in> set es. good_elem e"
proof -
  obtain es where "Clean (slash # slash # t) = slash # slash_join es" "\<forall>e \<in> set es. good_elem e" by (rule Clean_rooted)
  moreover have "Clean [slash] = [slash]" using Clean_good_rooted [of "[]"] by simp
  ultimately show thesis by (intro that) (simp_all add: sanitizeArchivePath_def Join_def HasPrefix_def Let_def)
qed

lemma mem_target_good:
  assumes "\<forall>e \<in> set es. good_elem e" "stripPrefix = '''' \<or> HasSuffix stripPrefix [slash]"
  shows "mem_target stripPrefix (slash # slash_join es) = [] \<or> good_path (mem_target stripPrefix (slash # slash_join es))"
proof -
  have cut: "mem_target p (slash # slash_join es) = [] \<or> good_path (mem_target p (slash # slash_join es))"
    if "\<not> prefix p (slash # slash_join es) \<or> p = ''''" for p
    using that assms(1) by (cases "es = []") (auto simp: mem_target_def TrimPrefix_def good_path_join)
  show ?thesis
  proof (cases "prefix stripPrefix (slash # slash_join es) \<and> stripPrefix \<noteq> ''''")
    case False
    then show ?thesis by (intro cut) blast
  next
    case True
    with assms(2) obtain a where a: "stripPrefix = a @ [slash]" by (auto simp: HasSuffix_def suffix_def)
    with True obtain rest where rest: "slash # slash_join es = a @ slash # rest" by (auto simp: prefix_def)
    then have t: "mem_target stripPrefix (slash # slash_join es) = TrimPrefix rest [slash]"
      by (simp add: mem_target_def TrimPrefix_def a)
    show ?thesis
    proof (cases "rest = []")
      case True
      then show ?thesis by (simp add: t TrimPrefix_def)
    next
      case False
      from good_path_rest [OF rest assms(1) False] have g: "good_path rest" .
      then have "\<not> prefix [slash] rest" by (cases rest) (auto simp: good_path_def good_elem_def)
      then show ?thesis by (simp add: t TrimPrefix_def g)
    qed
  qed
qed

lemma unpack_mem_names:
  assumes "unpack_mem src p e fsys = Ok fsys'" "map_of fsys' k \<noteq> None"
  shows "map_of fsys k \<noteq> None \<or> (\<exists>v. sanitizeArchivePath [slash] (te_Name e) = Ok v \<and> k = mem_target p v)"
  using assms
  by (auto simp: unpack_mem_def Let_def split: sum.splits file_content.splits tar_type.splits option.splits if_splits)

lemma unpack_all_names:
  assumes "unpack_all (unpack_mem src p) es fsys = Ok fsys'" "map_of fsys' k \<noteq> None"
  shows "map_of fsys k \<noteq> None \<or> (\<exists>t v. sanitizeArchivePath [slash] t = Ok v \<and> k = mem_target p v)"
  using assms
proof (induction es arbitrary: fsys)
  case (Cons e es)
  then obtain f1 where "unpack_mem src p e fsys = Ok f1" "unpack_all (unpack_mem src p) es f1 = Ok fsys'"
    by (auto split: sum.splits file_content.splits)
  with Cons.IH [of f1] Cons.prems(2) unpack_mem_names [of src p e fsys f1 k] show ?case by blast
qed simp

text \<open>
  C39 Whatever names an archive has, unpacking it into memory with the prefix the controller
  uses (or any prefix that ends in a slash) yields only names below the root: the empty name of
  the root itself, or slash separated elements none of which is empty, a dot or two dots.
\<close>

theorem unpacked_names_below_root:
  assumes "UncompressMemFS src stripPrefix = Ok fsys" "stripPrefix = '''' \<or> HasSuffix stripPrefix [slash]"
    and "map_of fsys k = Some f"
  shows "k = [] \<or> good_path k"
proof -
  from assms(1) have "unpack_all (unpack_mem src stripPrefix) (ts_entries src) [] = Ok fsys"
    by (auto simp: UncompressMemFS_def split: option.splits sum.splits file_content.splits)
  from unpack_all_names [OF this, of k] assms(3) obtain t v where
    v: "sanitizeArchivePath [slash] t = Ok v" "k = mem_target stripPrefix v" by auto
  obtain es where "sanitizeArchivePath [slash] t = Ok (slash # slash_join es)" "\<forall>e \<in> set es. good_elem e"
    by (rule sanitize_root)
  with v mem_target_good [OF _ assms(2)] show ?thesis by auto
qed

section \<open>A repository survives compression\<close>

text \<open>
  The nodes of a tree that are not skipped: the elements of the path to each below the root,
  with the type, permissions, time and contents of its entry.
\<close>

type_synonym node_info = "tar_type \<times> int \<times> int \<times> string"

fun nodes :: "(string \<Rightarrow> bool) \<Rightarrow> string \<Rightarrow> fs_tree \<Rightarrow> (string list \<times> node_info) list"
  and nodes_in :: "(string \<Rightarrow> bool) \<Rightarrow> (string \<times> fs_tree) list \<Rightarrow> (string list \<times> node_info) list" where
  "nodes skip name (FileT mode modtime content) =
     (case content of Content data \<Rightarrow> [([], TypeReg, mode, modtime, data)] | _ \<Rightarrow> [])"
| "nodes skip name (DirT mode modtime listing) =
     (if skip name then []
      else (case listing of Inl e \<Rightarrow> [] | Inr dirs \<Rightarrow> ([], TypeDir, mode, modtime, []) # nodes_in skip dirs))"
| "nodes_in skip [] = []"
| "nodes_in skip ((name, t) # dirs) = map (apfst (Cons name)) (nodes skip name t) @ nodes_in skip dirs"

text \<open>Names as file systems have them.\<close>

definition good_name :: "string \<Rightarrow> bool" where
  "good_name n = (good_elem n \<and> utf8_ValidString n)"

fun good_tree :: "fs_tree \<Rightarrow> bool" and good_listing :: "(string \<times> fs_tree) list \<Rightarrow> bool" where
  "good_tree (FileT mode modtime content) = (0 \<le> mode \<and> mode < 2 ^ 31)"
| "good_tree (DirT mode modtime listing) = (case listing of Inl e \<Rightarrow> True | Inr dirs \<Rightarrow> good_listing dirs)"
| "good_listing [] = True"
| "good_listing ((name, t) # dirs) = (good_name name \<and> name \<notin> fst ` set dirs \<and> good_tree t \<and> good_listing dirs)"

definition node_entry :: "string list \<Rightarrow> string list \<times> node_info \<Rightarrow> tar_entry" where
  "node_entry base n = (case n of (path, t, mode, modtime, data) \<Rightarrow> tar_header (slash_join (base @ path)) t mode modtime data)"

lemma walk_nodes:
  "walkDir env skip (slash_join base) name t = Ok es \<Longrightarrow> good_tree t \<Longrightarrow> \<forall>e \<in> set base. good_elem e \<Longrightarrow> base \<noteq> [] \<Longrightarrow>
     es = map (node_entry base) (nodes skip name t)"
  "walk_entries env skip (slash_join base) dirs = Ok es \<Longrightarrow> good_listing dirs \<Longrightarrow> \<forall>e \<in> set base. good_elem e \<Longrightarrow> base \<noteq> [] \<Longrightarrow>
     es = map (node_entry base) (nodes_in skip dirs)"
proof (induction skip name t and skip dirs arbitrary: base es and base es rule: nodes_nodes_in.induct)
  case (1 skip name mode modtime content)
  then show ?case by (auto simp: compress_file_def node_entry_def split: option.splits sum.splits file_content.splits)
next
  case (2 skip name mode modtime listing)
  then show ?case by (auto simp: node_entry_def split: option.splits sum.splits file_content.splits if_splits)
next
  case (3 skip)
  then show ?case by simp
next
  case (4 skip name t dirs)
  have "node_entry (base @ [name]) = node_entry base \<circ> apfst (Cons name)" by (auto simp: node_entry_def fun_eq_iff)
  moreover from 4 have "Join (slash_join base) name = slash_join (base @ [name])"
    by (intro Join_good) (auto simp: good_name_def)
  ultimately show ?case using 4 "4.IH"(1) [of "base @ [name]"] "4.IH"(2) [of base]
    by (auto simp: good_name_def split: sum.splits file_content.splits)
qed

lemma nodes_in_paths: "n \<in> set (nodes_in skip dirs) \<Longrightarrow> \<exists>d \<in> fst ` set dirs. \<exists>p. fst n = d # p"
  by (induction dirs) (auto simp: apfst_def)

lemma nodes_distinct:
  "good_tree t \<Longrightarrow> distinct (map fst (nodes skip name t))"
  "good_listing dirs \<Longrightarrow> distinct (map fst (nodes_in skip dirs))"
proof (induction skip name t and skip dirs rule: nodes_nodes_in.induct)
  case (2 skip name mode modtime listing)
  then show ?case using nodes_in_paths by (fastforce split: sum.splits file_content.splits)
next
  case (4 skip name t dirs)
  let ?ns = "nodes skip name t" and ?ms = "nodes_in skip dirs"
  have m: "map fst (map (apfst (Cons name)) ?ns) = map (Cons name) (map fst ?ns)" by simp
  have "distinct (map fst (map (apfst (Cons name)) ?ns))"
    unfolding m distinct_map [of "Cons name"] using 4 by (simp add: inj_on_def)
  moreover have "set (map (Cons name) (map fst ?ns)) \<inter> set (map fst ?ms) = {}"
  proof -
    have "fst n \<noteq> name # p" if "n \<in> set ?ms" for n p
      using nodes_in_paths [OF that] 4(3) by (auto simp: image_iff)
    then show ?thesis by force
  qed
  ultimately show ?case using 4 unfolding nodes_in.simps map_append distinct_append m by simp
qed (auto split: sum.splits file_content.splits)

lemma nodes_good:
  "good_tree t \<Longrightarrow> (p, ty, mode, mt, d) \<in> set (nodes skip name t) \<Longrightarrow>
     (\<forall>e \<in> set p. good_name e) \<and> (ty = TypeDir \<or> ty = TypeReg \<and> 0 \<le> mode \<and> mode < 2 ^ 31)"
  "good_listing dirs \<Longrightarrow> (p, ty, mode, mt, d) \<in> set (nodes_in skip dirs) \<Longrightarrow>
     (\<forall>e \<in> set p. good_name e) \<and> (ty = TypeDir \<or> ty = TypeReg \<and> 0 \<le> mode \<and> mode < 2 ^ 31)"
  by (induction skip name t and skip dirs arbitrary: p and p rule: nodes_nodes_in.induct)
    (auto split: sum.splits file_content.splits if_splits)

text \<open>What one node becomes in memory.\<close>

definition node_key :: "string list \<times> node_info \<Rightarrow> string" where
  "node_key n = (if fst n = [] then ''repository'' else slash_join (fst n))"

definition node_file :: "string list \<times> node_info \<Rightarrow> MapFile" where
  "node_file n = (case n of (p, t, mode, modtime, data) \<Rightarrow>
     if t = TypeDir then \<lparr>mf_Data = [], mf_Mode = ModeDir, mf_ModTime = modtime\<rparr>
     else \<lparr>mf_Data = data, mf_Mode = mode, mf_ModTime = modtime\<rparr>)"

definition full_reads :: "tar_stream \<Rightarrow> bool" where
  "full_reads src =
     (\<forall>e \<in> set (ts_entries src). ts_read_err src (te_Name e) = None \<and> length (te_Data e) \<le> ts_first_read src (te_Name e))"

lemma good_repository: "good_elem ''repository''" "utf8_ValidString ''repository''"
  by (simp_all add: good_elem_def utf8_ValidString_def)

lemma mem_target_repository:
  assumes "\<forall>e \<in> set p. good_elem e"
  shows "mem_target ''/repository/'' (slash # slash_join (''repository'' # p)) = (if p = [] then ''repository'' else slash_join p)"
proof (cases "p = []")
  case False
  then have "\<not> prefix [slash] (slash_join p)"
    using good_path_join [OF assms] by (cases "slash_join p") (auto simp: good_path_def good_elem_def)
  with False show ?thesis by (simp add: mem_target_def TrimPrefix_def slash_join_cons)
qed (simp add: mem_target_def TrimPrefix_def)

lemma unpack_node:
  assumes "\<forall>e \<in> set (fst n). good_name e" "case n of (p, ty, mode, mt, d) \<Rightarrow> ty = TypeDir \<or> ty = TypeReg \<and> 0 \<le> mode \<and> mode < 2 ^ 31"
    and "ts_read_err src (te_Name e) = None" "length (te_Data e) \<le> ts_first_read src (te_Name e)"
    and "e = node_entry [''repository''] n"
  shows "unpack_mem src ''/repository/'' e fsys = Ok (map_assign (node_key n) (node_file n) fsys)"
proof -
  obtain p ty mode mt d where n: "n = (p, ty, mode, mt, d)" by (cases n)
  have p: "\<forall>e \<in> set p. good_elem e" "\<forall>e \<in> set (''repository'' # p). good_elem e"
    using assms(1) good_repository by (auto simp: n good_name_def)
  have "Clean [slash] = [slash]" using Clean_good_rooted [of "[]"] by simp
  then have "sanitizeArchivePath [slash] (te_Name e) = Ok (slash # slash_join (''repository'' # p))"
    using Join_root [OF p(2)] by (simp add: sanitizeArchivePath_def assms(5) n node_entry_def tar_header_def HasPrefix_def)
  then show ?thesis
    using assms(2-4) mem_target_repository [OF p(1)]
    by (auto simp: unpack_mem_def Let_def assms(5) n node_entry_def tar_header_def node_key_def node_file_def read_once_def
        invalid_mode_iff)
qed

lemma unpack_nodes:
  assumes "\<forall>n \<in> set ns. (\<forall>e \<in> set (fst n). good_name e) \<and>
      (case n of (p, ty, mode, mt, d) \<Rightarrow> ty = TypeDir \<or> ty = TypeReg \<and> 0 \<le> mode \<and> mode < 2 ^ 31)"
    and "\<forall>e \<in> set (map (node_entry [''repository'']) ns).
      ts_read_err src (te_Name e) = None \<and> length (te_Data e) \<le> ts_first_read src (te_Name e)"
  shows "unpack_all (unpack_mem src ''/repository/'') (map (node_entry [''repository'']) ns) fsys =
    Ok (foldl (\<lambda>f n. map_assign (node_key n) (node_file n) f) fsys ns)"
  using assms
proof (induction ns arbitrary: fsys)
  case (Cons n ns)
  then have "unpack_mem src ''/repository/'' (node_entry [''repository''] n) fsys = Ok (map_assign (node_key n) (node_file n) fsys)"
    by (intro unpack_node) simp_all
  with Cons show ?case by simp
qed simp

lemma foldl_assign_other: "k \<notin> key ` set ns \<Longrightarrow> map_of (foldl (\<lambda>f n. map_assign (key n) (file n) f) fsys ns) k = map_of fsys k"
  by (induction ns arbitrary: fsys) auto

lemma foldl_assign:
  "distinct (map key ns) \<Longrightarrow> n \<in> set ns \<Longrightarrow>
     map_of (foldl (\<lambda>f n. map_assign (key n) (file n) f) fsys ns) (key n) = Some (file n)"
proof (induction ns arbitrary: fsys)
  case (Cons m ns)
  show ?case
  proof (cases "n \<in> set ns")
    case False
    with Cons.prems have "m = n" "key n \<notin> key ` set ns" by auto
    then show ?thesis by (simp add: foldl_assign_other)
  qed (use Cons in simp)
qed simp

lemma served_file:
  assumes "good_tree t" "n \<in> set (nodes skip ''repository'' t)" "fst n \<noteq> []"
  shows "map_of (foldl (\<lambda>f n. map_assign (node_key n) (node_file n) f) fsys (nodes skip ''repository'' t)) (slash_join (fst n)) =
    Some (node_file n)"
proof -
  let ?ns = "nodes skip ''repository'' t"
  from assms(2,3) obtain r rs where ns: "?ns = r # rs" and r: "fst r = []"
    by (cases t) (auto split: sum.splits file_content.splits if_splits)
  have g: "\<forall>e \<in> set (fst m). good_elem e" if "m \<in> set ?ns" for m
    using nodes_good(1) [OF assms(1), of "fst m" "fst (snd m)"] that by (cases m) (auto simp: good_name_def)
  have d: "fst m \<noteq> []" if "m \<in> set rs" for m
  proof
    assume "fst m = []"
    then have "[] \<in> set (map fst rs)" using that by (simp add: image_iff) (metis)
    then show False using nodes_distinct(1) [OF assms(1), of skip "''repository''"] r by (simp add: ns)
  qed
  have "inj_on node_key (set rs)"
  proof (rule inj_onI)
    fix a b
    assume a: "a \<in> set rs" and b: "b \<in> set rs" and "node_key a = node_key b"
    then have "slash_join (fst a) = slash_join (fst b)" using d [OF a] d [OF b] by (simp add: node_key_def)
    then have "fst a = fst b" using slash_join_inj [OF g g] a b by (simp add: ns)
    then show "a = b"
      using nodes_distinct(1) [OF assms(1), of skip "''repository''"] a b unfolding ns distinct_map by (auto dest: inj_onD)
  qed
  moreover have "distinct rs" using nodes_distinct(1) [OF assms(1), of skip "''repository''"] by (simp add: ns distinct_map)
  ultimately have "distinct (map node_key rs)" by (simp add: distinct_map)
  moreover have "n \<in> set rs" using assms(2,3) r by (auto simp: ns)
  ultimately show ?thesis
    using foldl_assign [of node_key rs n node_file "map_assign (node_key r) (node_file r) fsys"] assms(3)
    by (simp add: ns node_key_def)
qed

text \<open>
  C38 A repository that was compressed, shipped as \<open>mirrorFS\<close> and unpacked by the controller serves
  what it was made of: every file below \<open>repository\<close> that is in no skipped directory is found at
  its path, with its contents, as long as the reader delivers the contents of an entry in one
  read and they do not exceed the length the TUF client permits.
\<close>

theorem mirror_round_trip:
  assumes "CompressFS env (Ok t) skipDirs = Ok es" "good_tree t"
    and "ts_gzip_err src = None" "ts_end_err src = None" "ts_entries src = es" "full_reads src"
    and "(p, TypeReg, mode, modtime, data) \<in> set (nodes skipDirs ''repository'' t)" "p \<noteq> []"
    and "maxLength \<le> 0 \<or> int (length data) \<le> maxLength"
  shows "\<exists>fsys. UncompressMemFS src ''/repository/'' = Ok fsys \<and>
    DownloadFile \<lparr>ff_fsys = fsys, ff_baseURL = base\<rparr> (base @ slash_join p) maxLength = Inr data"
proof -
  let ?ns = "nodes skipDirs ''repository'' t" and ?n = "(p, TypeReg, mode, modtime, data)"
  let ?fsys = "foldl (\<lambda>f n. map_assign (node_key n) (node_file n) f) [] ?ns"
  from assms(1) have "walkDir env skipDirs (slash_join [''repository'']) ''repository'' t = Ok es"
    by (auto simp: CompressFS_def split: sum.splits file_content.splits option.splits)
  from walk_nodes(1) [OF this assms(2)] have es: "es = map (node_entry [''repository'']) ?ns" by (simp add: good_repository)
  have g: "\<forall>n \<in> set ?ns. (\<forall>e \<in> set (fst n). good_name e) \<and>
      (case n of (p, ty, mode, mt, d) \<Rightarrow> ty = TypeDir \<or> ty = TypeReg \<and> 0 \<le> mode \<and> mode < 2 ^ 31)"
    using nodes_good(1) [OF assms(2)] by fastforce
  have u: "UncompressMemFS src ''/repository/'' = Ok ?fsys"
    using unpack_nodes [OF g, of src "[]"] assms(3-6) by (simp add: UncompressMemFS_def es full_reads_def)
  have m: "map_of ?fsys (slash_join p) = Some (node_file ?n)" using served_file [OF assms(2,7)] assms(8) by simp
  have p: "\<forall>e \<in> set p. good_elem e" "\<forall>e \<in> set p. utf8_ValidString e" "0 \<le> mode" "mode < 2 ^ 31"
    using bspec [OF g assms(7)] by (auto simp: good_name_def)
  have "ValidPath (slash_join p)"
    using good_path_join [OF p(1) assms(8)] utf8_slash_join [OF p(2)] by (simp add: ValidPath_def)
  with m p(3,4) have r: "fs_ReadFile ?fsys (slash_join p) = Inr data"
    by (simp add: fs_ReadFile_def node_file_def is_dir_mode_def ModeDir_def)
  have "\<not> prefix [slash] (slash_join p)"
    using good_path_join [OF p(1) assms(8)] by (cases "slash_join p") (auto simp: good_path_def good_elem_def)
  then have "TrimPrefix (TrimPrefix (base @ slash_join p) base) [slash] = slash_join p" by (simp add: TrimPrefix_def)
  with u r assms(9) show ?thesis by (auto simp: DownloadFile_def Let_def)
qed

text \<open>A repository with one metadata file, a target and a directory of keys that is skipped.\<close>

definition sample_tree :: fs_tree where
  "sample_tree = DirT 493 7 (Ok
     [(''keys'', DirT 448 7 (Ok [(''root'', FileT 384 7 (Content ''secret''))])),
      (''root.json'', FileT 420 7 (Content ''{}'')),
      (''targets'', DirT 493 7 (Ok [(''rekor.pub'', FileT 420 7 (Content ''pem''))]))])"

definition sample_skip :: "string \<Rightarrow> bool" where
  "sample_skip n = (n = ''keys'' \<or> n = ''staged'')"

definition sample_walk :: walk_env where
  "sample_walk = \<lparr>we_Stat_err = (\<lambda>_. None), we_FileInfoHeader_err = (\<lambda>_. None), we_WriteHeader_err = (\<lambda>_. None),
     we_tw_Close_err = None, we_zr_Close_err = None\<rparr>"

definition sample_archive :: "tar_entry list" where
  "sample_archive =
     [tar_header ''repository'' TypeDir 493 7 '''', tar_header ''repository/root.json'' TypeReg 420 7 ''{}'',
      tar_header ''repository/targets'' TypeDir 493 7 '''', tar_header ''repository/targets/rekor.pub'' TypeReg 420 7 ''pem'']"

definition sample_stream :: "nat \<Rightarrow> tar_stream" where
  "sample_stream n = \<lparr>ts_gzip_err = None, ts_entries = sample_archive, ts_end_err = None,
     ts_first_read = (\<lambda>_. n), ts_read_err = (\<lambda>_. None)\<rparr>"

lemma sample_compressed: "CompressFS sample_walk (Ok sample_tree) sample_skip = Ok sample_archive"
  by (simp add: CompressFS_def sample_walk_def sample_tree_def sample_skip_def sample_archive_def write_header_def
      compress_file_def Join_def Clean_def HasPrefix_def clean_elems_def clean_step_def Let_def)

theorem mirror_round_trip_witness:
  "\<exists>fsys. UncompressMemFS (sample_stream 512) ''/repository/'' = Ok fsys \<and>
     DownloadFile \<lparr>ff_fsys = fsys, ff_baseURL = ''mem://repo/''\<rparr> (''mem://repo/'' @ slash_join [''targets'', ''rekor.pub'']) 100 =
       Inr ''pem''"
proof (rule mirror_round_trip [OF sample_compressed])
  show "good_tree sample_tree"
    by (simp add: sample_tree_def good_name_def good_elem_def utf8_ValidString_def)
  show "full_reads (sample_stream 512)"
    by (simp add: full_reads_def sample_stream_def sample_archive_def tar_header_def)
  show "([''targets'', ''rekor.pub''], TypeReg, 420, 7, ''pem'') \<in> set (nodes sample_skip ''repository'' sample_tree)"
    by (simp add: sample_tree_def sample_skip_def)
qed (simp_all add: sample_stream_def)

lemma sample_unpacked:
  "UncompressMemFS (sample_stream 2) ''/repository/'' =
     Ok [(''repository'', \<lparr>mf_Data = '''', mf_Mode = ModeDir, mf_ModTime = 7\<rparr>),
         (''root.json'', \<lparr>mf_Data = ''{}'', mf_Mode = 420, mf_ModTime = 7\<rparr>),
         (''targets'', \<lparr>mf_Data = '''', mf_Mode = ModeDir, mf_ModTime = 7\<rparr>),
         (''targets/rekor.pub'', \<lparr>mf_Data = ''pe'' @ [CHR 0x00], mf_Mode = 420, mf_ModTime = 7\<rparr>)]"
  by (simp add: UncompressMemFS_def sample_stream_def sample_archive_def tar_header_def unpack_mem_def sanitizeArchivePath_def
      Join_def Clean_def HasPrefix_def clean_elems_def clean_step_def Let_def mem_target_def TrimPrefix_def invalid_mode_iff
      read_once_def map_assign_def)

theorem unpacked_names_below_root_witness: "''targets/rekor.pub'' = [] \<or> good_path ''targets/rekor.pub''"
  by (rule unpacked_names_below_root [OF sample_unpacked]) (simp_all add: HasSuffix_def suffix_def)

text \<open>
  A file is read with a single \<open>Read\<close>: when that delivers less than the whole entry, the rest of
  the file in memory is zero bytes, and no error is reported.
\<close>

lemma short_read_keeps_zeroes:
  "\<exists>src fsys. UncompressMemFS src ''/repository/'' = Ok fsys \<and> CompressFS sample_walk (Ok sample_tree) sample_skip = Ok (ts_entries src) \<and>
     DownloadFile \<lparr>ff_fsys = fsys, ff_baseURL = ''''\<rparr> ''targets/rekor.pub'' 0 = Inr (''pe'' @ [CHR 0x00])"
proof (rule exI [of _ "sample_stream 2"], rule exI, intro conjI, rule sample_unpacked)
  show "CompressFS sample_walk (Ok sample_tree) sample_skip = Ok (ts_entries (sample_stream 2))"
    by (simp add: sample_compressed sample_stream_def)
qed (simp add: DownloadFile_def TrimPrefix_def fs_ReadFile_def ValidPath_def utf8_ValidString_def good_path_def good_elem_def
      is_dir_mode_def ModeDir_def Let_def)

end
