(* ===== verification/TufClient.thy ===== *)
theory TufClient
  imports TufRepo
begin

text \<open>
  The TUF clients of \<open>pkg/tuf/repo.go\<close> and \<open>pkg/tuf/context.go\<close>: construction from a
  serialized mirror or a remote one, the updater that is made on first use, and
  \<open>GetTrustedRoot\<close>, which keeps the trusted root of the public instance for a period. The TUF
  libraries are parameters.
\<close>

section \<open>Clients\<close>

datatype tuf_fetcher = FSFetcher fsFetcher | HTTPFetcher string int

text \<open>The custom metadata of a target, if it has any.\<close>

type_synonym target_files = "(string \<times> string option) list"

record tuf_env =
  tv_open :: "string \<Rightarrow> tar_stream"
  tv_uaString :: string
  tv_New :: "string option \<Rightarrow> string \<Rightarrow> tuf_fetcher \<Rightarrow> (string \<Rightarrow> string go_result) go_result"
  tv_config_New_err :: "string \<Rightarrow> string option \<Rightarrow> string option"
  tv_updater_New_err :: "string \<Rightarrow> string option \<Rightarrow> string \<Rightarrow> tuf_fetcher \<Rightarrow> string option"
  tv_Refresh_err :: "string \<Rightarrow> string option \<Rightarrow> string \<Rightarrow> tuf_fetcher \<Rightarrow> string option"
  tv_TopLevelTargets :: "string \<Rightarrow> string option \<Rightarrow> string \<Rightarrow> tuf_fetcher \<Rightarrow> target_files"

text \<open>
  A client: how it gets targets, and the fields for the updater. \<open>tc_once\<close> is what the function
  guarded by \<open>sync.Once\<close> left, the refreshed updater (as its top-level targets) or the error, or nothing
  before the first use.
\<close>

record TUFClient =
  tc_client :: "string \<Rightarrow> string go_result"
  tc_once :: "target_files go_result option"
  tc_metadataURL :: string
  tc_rootJSON :: "string option"
  tc_targetsURL :: string
  tc_fetcher :: tuf_fetcher

definition GetTarget :: "TUFClient \<Rightarrow> string \<Rightarrow> string go_result" where
  "GetTarget c target = tc_client c target"

definition newRawUpdater :: "tuf_env \<Rightarrow> string \<Rightarrow> string option \<Rightarrow> string \<Rightarrow> tuf_fetcher \<Rightarrow> target_files go_result" where
  "newRawUpdater env metadataURL rootJSON targetsURL f =
     (case tv_config_New_err env metadataURL rootJSON of
        Some e \<Rightarrow> Err e
      | None \<Rightarrow>
          (case tv_updater_New_err env metadataURL rootJSON targetsURL f of
             Some e \<Rightarrow> Err e
           | None \<Rightarrow>
               (case tv_Refresh_err env metadataURL rootJSON targetsURL f of
                  Some e \<Rightarrow> Err e
                | None \<Rightarrow> Ok (tv_TopLevelTargets env metadataURL rootJSON targetsURL f))))"

definition GetTopLevelTargets :: "tuf_env \<Rightarrow> TUFClient \<Rightarrow> TUFClient \<times> target_files go_result" where
  "GetTopLevelTargets env c =
     (case tc_once c of
        Some r \<Rightarrow> (c, r)
      | None \<Rightarrow>
          (let r = newRawUpdater env (tc_metadataURL c) (tc_rootJSON c) (tc_targetsURL c) (tc_fetcher c)
           in (c\<lparr>tc_once := Some r\<rparr>, r)))"

text \<open>The updater is made once: later calls return what the first one did, whatever changed since.\<close>

lemma GetTopLevelTargets_once:
  "GetTopLevelTargets env c = (c', r) \<Longrightarrow> GetTopLevelTargets env' c' = (c', r)"
  by (auto simp: GetTopLevelTargets_def Let_def split: option.splits)

definition ClientFromSerializedMirror :: "tuf_env \<Rightarrow> string \<Rightarrow> string option \<Rightarrow> string \<Rightarrow> string \<Rightarrow> TUFClient go_result" where
  "ClientFromSerializedMirror env repo rootJSON targets stripPrefix =
     (case UncompressMemFS (tv_open env repo) stripPrefix of
        Inl e \<Rightarrow> Err (wrap_err ''failed to uncompress'' e)
      | Inr tufFS \<Rightarrow>
          (let baseURL = ''mem://repo/''; f = FSFetcher \<lparr>ff_fsys = tufFS, ff_baseURL = baseURL\<rparr>
           in case tv_New env rootJSON baseURL f of
                Inl e \<Rightarrow> Err (wrap_err ''failed to create TUF client'' e)
              | Inr client \<Rightarrow>
                  Ok \<lparr>tc_client = client, tc_once = None, tc_metadataURL = baseURL, tc_rootJSON = rootJSON,
                      tc_targetsURL = baseURL @ targets @ ''/'', tc_fetcher = f\<rparr>))"

definition ClientFromRemote :: "tuf_env \<Rightarrow> string \<Rightarrow> string option \<Rightarrow> string \<Rightarrow> TUFClient go_result" where
  "ClientFromRemote env mirror rootJSON targets =
     (let f = HTTPFetcher (tv_uaString env) 30
      in case tv_New env rootJSON mirror f of
           Inl e \<Rightarrow> Err (wrap_err ''failed to create TUF client'' e)
         | Inr client \<Rightarrow>
             Ok \<lparr>tc_client = client, tc_once = None, tc_metadataURL = mirror, tc_rootJSON = rootJSON,
                 tc_targetsURL = mirror @ ''/'' @ targets @ ''/'', tc_fetcher = f\<rparr>)"

section \<open>The period of the context\<close>

text \<open>A context as the value it carries for the key of the package; durations in nanoseconds.\<close>

definition TUF_ToContext :: "int option \<Rightarrow> int \<Rightarrow> int option" where
  "TUF_ToContext ctx duration = Some duration"

text \<open>\<open>controller.DefaultResyncPeriod\<close> is ten hours.\<close>

definition TUF_FromContextOrDefaults :: "int option \<Rightarrow> int" where
  "TUF_FromContextOrDefaults ctx = (case ctx of Some x \<Rightarrow> x | None \<Rightarrow> 10 * 3600 * 10 ^ 9)"

section \<open>The trusted root\<close>

text \<open>
  The package variables: the time of the last successful refresh (nothing for the zero time) and the root,
  which may be nil. One attempt to refresh is given by what its calls yield.
\<close>

record 'r root_state =
  gt_timestamp :: "int option"
  gt_trustedRoot :: "'r option"

record 'r attempt =
  at_NewFromEnv_err :: "string option"
  at_Target :: "string go_result"
  at_NewTrustedRootFromJSON :: "string \<Rightarrow> 'r go_result"

definition stale :: "int \<Rightarrow> int \<Rightarrow> 'r root_state \<Rightarrow> bool" where
  "stale period now st = (case gt_timestamp st of None \<Rightarrow> True | Some t \<Rightarrow> t + period < now)"

text \<open>The part under the write lock. A text that does not parse sets the root to nil.\<close>

definition refresh_root :: "'r attempt \<Rightarrow> int \<Rightarrow> 'r root_state \<Rightarrow> 'r root_state \<times> 'r option go_result" where
  "refresh_root a now st =
     (case at_NewFromEnv_err a of
        Some e \<Rightarrow> (st, Err (wrap_err ''initializing tuf'' e))
      | None \<Rightarrow>
          (case at_Target a of
             Inl e \<Rightarrow> (st, Err (wrap_err ''error getting targets'' e))
           | Inr targetBytes \<Rightarrow>
               (case at_NewTrustedRootFromJSON a targetBytes of
                  Inl e \<Rightarrow> (st\<lparr>gt_trustedRoot := None\<rparr>, Err (wrap_err ''error creating trusted root'' e))
                | Inr r \<Rightarrow> (st\<lparr>gt_trustedRoot := Some r, gt_timestamp := Some now\<rparr>, Ok (Some r)))))"

definition GetTrustedRoot :: "int option \<Rightarrow> 'r attempt \<Rightarrow> int \<Rightarrow> 'r root_state \<Rightarrow> 'r root_state \<times> 'r option go_result" where
  "GetTrustedRoot ctx a now st =
     (if stale (TUF_FromContextOrDefaults ctx) now st then refresh_root a now st else (st, Ok (gt_trustedRoot st)))"

subsection \<open>Calls one after the other\<close>

fun root_calls :: "int option \<Rightarrow> (int \<times> 'r attempt) list \<Rightarrow> 'r root_state \<Rightarrow> 'r option go_result list" where
  "root_calls ctx [] st = []"
| "root_calls ctx ((now, a) # cs) st = (let (st', r) = GetTrustedRoot ctx a now st in r # root_calls ctx cs st')"

definition fresh_state :: "'r root_state" where
  "fresh_state = \<lparr>gt_timestamp = None, gt_trustedRoot = None\<rparr>"

text \<open>What an attempt would give.\<close>

definition attempt_root :: "'r attempt \<Rightarrow> 'r option" where
  "attempt_root a =
     (case at_NewFromEnv_err a of
        Some e \<Rightarrow> None
      | None \<Rightarrow> (case at_Target a of Inl e \<Rightarrow> None
                 | Inr b \<Rightarrow> (case at_NewTrustedRootFromJSON a b of Inl e \<Rightarrow> None | Inr r \<Rightarrow> Some r)))"

text \<open>
  What the variables say after some calls, at a time no later than the next call: a nil root is stale, and
  a root that is not stale was fetched by one of the calls at the recorded time.
\<close>

definition root_inv :: "int \<Rightarrow> (int \<times> 'r attempt) list \<Rightarrow> int \<Rightarrow> 'r root_state \<Rightarrow> bool" where
  "root_inv period past now st =
     (\<not> stale period now st \<longrightarrow>
        (\<exists>t a r. (t, a) \<in> set past \<and> gt_timestamp st = Some t \<and> gt_trustedRoot st = Some r \<and> attempt_root a = Some r))"

lemma stale_later: "stale period now st \<Longrightarrow> now \<le> now' \<Longrightarrow> stale period now' st"
  by (auto simp: stale_def split: option.splits)

lemma root_inv_later: "root_inv period past now st \<Longrightarrow> now \<le> now' \<Longrightarrow> root_inv period past now' st"
  using stale_later unfolding root_inv_def by blast

lemma refresh_root_cases [consumes 1, case_names refreshed failed]:
  assumes "refresh_root a now st = (st', res)"
  obtains r where "attempt_root a = Some r" "st' = st\<lparr>gt_trustedRoot := Some r, gt_timestamp := Some now\<rparr>" "res = Ok (Some r)"
  | e where "res = Err e" "gt_timestamp st' = gt_timestamp st"
  using assms by (auto simp: refresh_root_def attempt_root_def split: option.splits sum.splits)

lemma GetTrustedRoot_step:
  assumes "root_inv (TUF_FromContextOrDefaults ctx) past now st" "GetTrustedRoot ctx a now st = (st', res)"
  shows "root_inv (TUF_FromContextOrDefaults ctx) (past @ [(now, a)]) now st'"
    and "res = Ok v \<Longrightarrow> \<exists>t b r. (t, b) \<in> set (past @ [(now, a)]) \<and> attempt_root b = Some r \<and> v = Some r \<and>
           (t = now \<or> now \<le> t + TUF_FromContextOrDefaults ctx)"
proof -
  let ?p = "TUF_FromContextOrDefaults ctx"
  have "root_inv ?p (past @ [(now, a)]) now st' \<and>
    (res = Ok v \<longrightarrow> (\<exists>t b r. (t, b) \<in> set (past @ [(now, a)]) \<and> attempt_root b = Some r \<and> v = Some r \<and> (t = now \<or> now \<le> t + ?p)))"
  proof (cases "stale ?p now st")
    case True
    with assms(2) have "refresh_root a now st = (st', res)" by (simp add: GetTrustedRoot_def)
    then show ?thesis
    proof (cases rule: refresh_root_cases)
      case (refreshed r)
      then have "\<exists>b. (now, b) \<in> set (past @ [(now, a)]) \<and> attempt_root b = Some r" by auto
      then show ?thesis using refreshed(2,3) by (simp add: root_inv_def) blast
    next
      case (failed e)
      then have "stale ?p now st'" using True by (auto simp: stale_def)
      then show ?thesis using failed(1) by (simp add: root_inv_def)
    qed
  next
    case False
    then obtain t b r where h: "(t, b) \<in> set past" "gt_timestamp st = Some t" "gt_trustedRoot st = Some r" "attempt_root b = Some r"
      using assms(1) by (auto simp: root_inv_def)
    moreover have "now \<le> t + ?p" using False h(2) by (simp add: stale_def)
    ultimately show ?thesis using False assms(2) by (auto simp: GetTrustedRoot_def root_inv_def)
  qed
  then show "root_inv ?p (past @ [(now, a)]) now st'"
    and "res = Ok v \<Longrightarrow> \<exists>t b r. (t, b) \<in> set (past @ [(now, a)]) \<and> attempt_root b = Some r \<and> v = Some r \<and> (t = now \<or> now \<le> t + ?p)"
    by blast+
qed

lemma root_calls_fresh:
  assumes "root_inv (TUF_FromContextOrDefaults ctx) past (fst (hd cs)) st" "sorted (map fst cs)" "i < length cs"
    and "root_calls ctx cs st ! i = Ok v"
  shows "\<exists>t a r. (t, a) \<in> set (past @ take (Suc i) cs) \<and> attempt_root a = Some r \<and> v = Some r \<and>
    (t = fst (cs ! i) \<or> fst (cs ! i) \<le> t + TUF_FromContextOrDefaults ctx)"
  using assms
proof (induction cs arbitrary: past st i)
  case (Cons c cs)
  obtain now a where c: "c = (now, a)" by (cases c)
  obtain st' res where g: "GetTrustedRoot ctx a now st = (st', res)" by force
  from Cons.prems(1) have inv: "root_inv (TUF_FromContextOrDefaults ctx) past now st" by (simp add: c)
  show ?case
  proof (cases i)
    case 0
    with GetTrustedRoot_step(2) [OF inv g] Cons.prems(4) show ?thesis by (simp add: c g)
  next
    case (Suc j)
    with Cons.prems(3) have j: "j < length cs" by simp
    then have "now \<le> fst (hd cs)" using Cons.prems(2) by (cases cs) (auto simp: c)
    from root_inv_later [OF GetTrustedRoot_step(1) [OF inv g] this]
    have "\<exists>t b r. (t, b) \<in> set ((past @ [(now, a)]) @ take (Suc j) cs) \<and> attempt_root b = Some r \<and> v = Some r \<and>
        (t = fst (cs ! j) \<or> fst (cs ! j) \<le> t + TUF_FromContextOrDefaults ctx)"
      using Cons.prems j by (intro Cons.IH) (auto simp: c g Suc)
    then show ?thesis by (auto simp: c Suc)
  qed
qed simp

text \<open>
  C40 Calls of \<open>GetTrustedRoot\<close> that follow one another, with a clock that does not run backwards: a call
  that reports no error never returns a nil root, and the root it returns was fetched and parsed by
  this call or by an earlier one no more than the resync period ago.
\<close>

theorem trusted_root_fresh:
  assumes "sorted (map fst cs)" "i < length cs" "root_calls ctx cs fresh_state ! i = Ok v"
  shows "\<exists>t a r. (t, a) \<in> set (take (Suc i) cs) \<and> attempt_root a = Some r \<and> v = Some r \<and>
    (t = fst (cs ! i) \<or> fst (cs ! i) \<le> t + TUF_FromContextOrDefaults ctx)"
proof -
  have "root_inv (TUF_FromContextOrDefaults ctx) [] (fst (hd cs)) fresh_state"
    by (simp add: root_inv_def stale_def fresh_state_def)
  from root_calls_fresh [OF this assms] show ?thesis by simp
qed

definition sample_attempt :: "string go_result \<Rightarrow> string attempt" where
  "sample_attempt target = \<lparr>at_NewFromEnv_err = None, at_Target = target,
     at_NewTrustedRootFromJSON = (\<lambda>b. if b = ''broken'' then Err ''invalid JSON'' else Ok b)\<rparr>"

lemma sample_attempt_root [simp]:
  "refresh_root (sample_attempt (Ok b)) now st =
     (if b = ''broken'' then (st\<lparr>gt_trustedRoot := None\<rparr>, Err (wrap_err ''error creating trusted root'' ''invalid JSON''))
      else (st\<lparr>gt_trustedRoot := Some b, gt_timestamp := Some now\<rparr>, Ok (Some b)))"
  "attempt_root (sample_attempt (Ok b)) = (if b = ''broken'' then None else Some b)"
  by (simp_all add: refresh_root_def attempt_root_def sample_attempt_def)

text \<open>The second call comes within the period of the first and is answered from memory.\<close>

theorem trusted_root_fresh_witness:
  "\<exists>t a r. (t, a) \<in> set (take (Suc 1) [(0, sample_attempt (Ok ''root'')), (5, sample_attempt (Ok ''broken''))]) \<and>
     attempt_root a = Some r \<and> Some ''root'' = Some r \<and> (t = (5::int) \<or> 5 \<le> t + TUF_FromContextOrDefaults (Some 10))"
  using trusted_root_fresh [of "[(0, sample_attempt (Ok ''root'')), (5, sample_attempt (Ok ''broken''))]" 1 "Some 10" "Some ''root''"]
  by (simp add: GetTrustedRoot_def stale_def fresh_state_def TUF_FromContextOrDefaults_def)

subsection \<open>Calls at the same time\<close>

text \<open>
  The decision to refresh reads the time stamp before the lock is taken. A process that decided
  waits for the lock with the time it read; the rest of the call runs under the lock. \<open>cc_pending\<close> are
  the waiting processes, \<open>cc_answers\<close> what was returned.
\<close>

record 'r root_calls_state =
  cc_state :: "'r root_state"
  cc_clock :: int
  cc_pending :: "(nat \<times> int) list"
  cc_answers :: "(nat \<times> 'r option go_result) list"

inductive root_step :: "int option \<Rightarrow> 'r root_calls_state \<Rightarrow> 'r root_calls_state \<Rightarrow> bool" for ctx where
  tick: "cc_clock c \<le> now \<Longrightarrow> root_step ctx c (c\<lparr>cc_clock := now\<rparr>)"
| decide: "stale (TUF_FromContextOrDefaults ctx) (cc_clock c) (cc_state c) \<Longrightarrow>
    root_step ctx c (c\<lparr>cc_pending := cc_pending c @ [(g, cc_clock c)]\<rparr>)"
| locked: "cc_pending c = before @ (g, now) # after \<Longrightarrow> refresh_root a now (cc_state c) = (st', res) \<Longrightarrow>
    root_step ctx c (c\<lparr>cc_state := st', cc_pending := before @ after, cc_answers := cc_answers c @ [(g, res)]\<rparr>)"
| from_memory: "\<not> stale (TUF_FromContextOrDefaults ctx) (cc_clock c) (cc_state c) \<Longrightarrow>
    root_step ctx c (c\<lparr>cc_answers := cc_answers c @ [(g, Ok (gt_trustedRoot (cc_state c)))]\<rparr>)"

inductive_cases root_stepE: "root_step ctx c c'"

definition start_calls :: "'r root_calls_state" where
  "start_calls = \<lparr>cc_state = fresh_state, cc_clock = 0, cc_pending = [], cc_answers = []\<rparr>"

text \<open>
  Two processes find the root stale together. The first refreshes it; the second, which does not look at
  the time stamp again, fails to parse what it got and sets the root to nil under the new time
  stamp: every call within the period then returns a nil root and no error.
\<close>

theorem concurrent_refresh_yields_nil:
  "\<exists>c :: string root_calls_state. (root_step (Some 10))\<^sup>*\<^sup>* start_calls c \<and> (2, Ok None) \<in> set (cc_answers c)"
proof -
  let ?c0 = "start_calls :: string root_calls_state"
  let ?c1 = "?c0\<lparr>cc_pending := [(0, 0)]\<rparr>"
  let ?c2 = "?c0\<lparr>cc_pending := [(0, 0), (1, 0)]\<rparr>"
  let ?s3 = "\<lparr>gt_timestamp = Some 0, gt_trustedRoot = Some ''root''\<rparr>"
  let ?c3 = "?c0\<lparr>cc_state := ?s3, cc_pending := [(1, 0)], cc_answers := [(0, Ok (Some ''root''))]\<rparr>"
  let ?e = "Err (wrap_err ''error creating trusted root'' ''invalid JSON'')"
  let ?c4 = "?c3\<lparr>cc_state := ?s3\<lparr>gt_trustedRoot := None\<rparr>, cc_pending := [], cc_answers := [(0, Ok (Some ''root'')), (1, ?e)]\<rparr>"
  let ?c5 = "?c4\<lparr>cc_answers := [(0, Ok (Some ''root'')), (1, ?e), (2, Ok None)]\<rparr>"
  note defs = start_calls_def fresh_state_def stale_def TUF_FromContextOrDefaults_def
  have "root_step (Some 10) ?c0 ?c1" using root_step.decide [of "Some 10" ?c0 0] by (simp add: defs)
  moreover have "root_step (Some 10) ?c1 ?c2" using root_step.decide [of "Some 10" ?c1 1] by (simp add: defs)
  moreover have "root_step (Some 10) ?c2 ?c3"
    using root_step.locked [of ?c2 "[]" 0 0 "[(1, 0)]" "sample_attempt (Ok ''root'')" ?s3 _ "Some 10"] by (simp add: defs)
  moreover have "root_step (Some 10) ?c3 ?c4"
    using root_step.locked [of ?c3 "[]" 1 0 "[]" "sample_attempt (Ok ''broken'')" _ _ "Some 10"] by (simp add: defs)
  moreover have "root_step (Some 10) ?c4 ?c5" using root_step.from_memory [of "Some 10" ?c4 2] by (simp add: defs)
  ultimately have "(root_step (Some 10))\<^sup>*\<^sup>* ?c0 ?c5"
    by (meson rtranclp.rtrancl_refl rtranclp.rtrancl_into_rtrancl)
  then show ?thesis by (intro exI [of _ ?c5]) simp
qed

end
