(* ===== verification/TrustRoot.thy ===== *)
theory TrustRoot
  imports V1alpha1 Encodings Signatures TufClient
begin

text \<open>
  \<open>pkg/apis/policy/v1alpha1/trustroot_*.go\<close>: the TrustRoot resource, which names a TUF
  repository or lists the keys and certificates of a Sigstore instance, and its validation.
  The certificate parser is a parameter, and so are the TUF libraries below the client of \<open>pkg/tuf\<close>.
\<close>

section \<open>Types\<close>

record Remote =
  re_Root :: "string option"
  re_Mirror :: string
  re_Targets :: string
  re_TrustedRootTarget :: string

record Repository =
  ry_Root :: "string option"
  ry_MirrorFS :: string
  ry_Targets :: string
  ry_TrustedRootTarget :: string

record TransparencyLogInstance =
  tli_BaseURL :: string
  tli_HashAlgorithm :: string
  tli_PublicKey :: string

record DistinguishedName =
  dn_Organization :: string
  dn_CommonName :: string

record CertificateAuthority =
  ca_Subject :: DistinguishedName
  ca_URI :: string
  ca_CertChain :: string

record SigstoreKeys =
  sk_CertificateAuthorities :: "CertificateAuthority list"
  sk_TLogs :: "TransparencyLogInstance list"
  sk_CTLogs :: "TransparencyLogInstance list"
  sk_TimeStampAuthorities :: "CertificateAuthority list"

record TrustRootSpec =
  tr_Remote :: "Remote option"
  tr_Repository :: "Repository option"
  tr_SigstoreKeys :: "SigstoreKeys option"

record 'st TrustRoot =
  trt_ObjectMeta :: ObjectMeta
  trt_Spec :: TrustRootSpec
  trt_Status :: 'st

section \<open>Defaulting\<close>

definition TrustRootSpec_SetDefaults :: "TrustRootSpec \<Rightarrow> TrustRootSpec" where
  "TrustRootSpec_SetDefaults spec =
     spec\<lparr>tr_Repository := map_option (\<lambda>r. if ry_Targets r = '''' then r\<lparr>ry_Targets := ''targets''\<rparr> else r)
            (tr_Repository spec),
          tr_Remote := map_option (\<lambda>r. if re_Targets r = '''' then r\<lparr>re_Targets := ''targets''\<rparr> else r)
            (tr_Remote spec)\<rparr>"

section \<open>Certificate chains\<close>

text \<open>
  \<open>cryptoutils.UnmarshalCertificatesFromPEM\<close> is passed in. A certificate that is not a CA is
  a leaf; a CA whose subject is its issuer is a root.
\<close>

definition SplitPEMCertificateChain :: "(string \<Rightarrow> certificate list go_result) \<Rightarrow> string \<Rightarrow>
    (certificate list \<times> certificate list \<times> certificate list) go_result" where
  "SplitPEMCertificateChain unmarshalCerts pem =
     (case unmarshalCerts pem of
        Inl e \<Rightarrow> Err e
      | Inr certs \<Rightarrow>
          Ok (filter (\<lambda>c. \<not> ct_IsCA c) certs,
              filter (\<lambda>c. ct_IsCA c \<and> ct_RawSubject c \<noteq> ct_RawIssuer c) certs,
              filter (\<lambda>c. ct_IsCA c \<and> ct_RawSubject c = ct_RawIssuer c) certs))"

section \<open>Validation\<close>

record trust_env =
  te_parse :: json_parser
  te_certs :: "string \<Rightarrow> certificate list go_result"
  te_tuf :: tuf_env

definition ValidateRoot :: "'fe fe_api \<Rightarrow> trust_env \<Rightarrow> string option \<Rightarrow> 'fe option" where
  "ValidateRoot api te rootJSON =
     (case rootJSON of
        None \<Rightarrow> Some (ErrMissingField api [''root''])
      | Some txt \<Rightarrow>
          (case te_parse te txt of
             Inl e \<Rightarrow> Some (ErrInvalidValue api ''failed to unmarshal'' ''root'' [e])
           | Inr j \<Rightarrow>
               (case into_any_map Map.empty j of
                  Inl e \<Rightarrow> Some (ErrInvalidValue api ''failed to unmarshal'' ''root'' [e])
                | Inr m \<Rightarrow>
                    if m ''signatures'' = None \<or> m ''signatures'' = Some JNull
                    then Some (ErrInvalidValue api ''missing signatures in root.json'' ''root'' [''no signatures''])
                    else None)))"

definition Remote_Validate :: "'fe fe_api \<Rightarrow> trust_env \<Rightarrow> Remote \<Rightarrow> 'fe option" where
  "Remote_Validate api te r =
     (let e1 = also_if api (re_Mirror r = '''') (Some (ErrMissingField api [''mirror''])) None
      in Also api e1 (ValidateRoot api te (re_Root r)))"

definition DefaultTUFRepoPrefix :: string where
  "DefaultTUFRepoPrefix = ''/repository/''"

definition Repository_Validate :: "'fe fe_api \<Rightarrow> trust_env \<Rightarrow> Repository \<Rightarrow> 'fe option" where
  "Repository_Validate api te r =
     (let e1 = also_if api (ry_Targets r = '''') (Some (ErrMissingField api [''targets''])) None;
          e2 = Also api e1 (ValidateRoot api te (ry_Root r))
      in if ry_MirrorFS r = '''' then Also api e2 (Some (ErrMissingField api [''repository'']))
         else if e2 \<noteq> None then e2
         else (case ClientFromSerializedMirror (te_tuf te) (ry_MirrorFS r) (ry_Root r) (ry_Targets r) DefaultTUFRepoPrefix of
                 Inl e \<Rightarrow> Also api e2 (Some (ErrInvalidValue api ''failed to construct a TUF client'' ''mirrorFS'' [e]))
               | Inr c \<Rightarrow>
                   (case snd (GetTopLevelTargets (te_tuf te) c) of
                      Inl e \<Rightarrow> Also api e2 (Some (ErrInvalidValue api ''failed to get targets from a TUF client'' ''mirrorFS'' [e]))
                    | Inr targetFiles \<Rightarrow> e2)))"

definition ValidateDistinguishedName :: "'fe fe_api \<Rightarrow> DistinguishedName \<Rightarrow> 'fe option" where
  "ValidateDistinguishedName api dn =
     (let e1 = also_if api (dn_Organization dn = '''') (Some (ErrMissingField api [''organization''])) None
      in also_if api (dn_CommonName dn = '''') (Some (ErrMissingField api [''commonName''])) e1)"

definition ValidateCertificateAuthority :: "'fe fe_api \<Rightarrow> CertificateAuthority \<Rightarrow> 'fe option" where
  "ValidateCertificateAuthority api ca =
     (let e1 = ViaField api ''subject'' (Also api None (ValidateDistinguishedName api (ca_Subject ca)));
          e2 = also_if api (ca_URI ca = '''') (Some (ErrMissingField api [''uri''])) e1
      in also_if api (ca_CertChain ca = '''') (Some (ErrMissingField api [''certchain''])) e2)"

definition ValidateTimeStampAuthority :: "'fe fe_api \<Rightarrow> trust_env \<Rightarrow> CertificateAuthority \<Rightarrow> 'fe option" where
  "ValidateTimeStampAuthority api te ca =
     (let e3 = ValidateCertificateAuthority api ca
      in case SplitPEMCertificateChain (te_certs te) (ca_CertChain ca) of
           Inl e \<Rightarrow> Also api e3 (Some (ErrInvalidValue api ''error splitting the certificates'' ''certChain'' [e]))
         | Inr (leaves, _, _) \<Rightarrow>
             also_if api (length leaves > 1)
               (Some (ErrInvalidValue api ''certificate chain must contain at most one TSA certificate'' ''certChain'' [])) e3)"

definition ValidateTransparencyLogInstance :: "'fe fe_api \<Rightarrow> TransparencyLogInstance \<Rightarrow> 'fe option" where
  "ValidateTransparencyLogInstance api t =
     (let e1 = also_if api (tli_BaseURL t = '''') (Some (ErrMissingField api [''baseURL''])) None;
          e2 = also_if api (tli_HashAlgorithm t = '''') (Some (ErrMissingField api [''hashAlgorithm''])) e1
      in also_if api (tli_PublicKey t = '''') (Some (ErrMissingField api [''publicKey''])) e2)"

text \<open>
  The loops of \<open>SigstoreKeys.Validate\<close> assign to \<open>errors\<close> instead of collecting into it: each
  element replaces what was there before.
\<close>

definition assign_each :: "'fe fe_api \<Rightarrow> string \<Rightarrow> ('a \<Rightarrow> 'fe option) \<Rightarrow> 'a list \<Rightarrow> 'fe option \<Rightarrow> 'fe option" where
  "assign_each api field f xs errs =
     foldl (\<lambda>acc p. ViaFieldIndex api field (fst p) (f (snd p))) errs (indexed xs)"

definition SigstoreKeys_Validate :: "'fe fe_api \<Rightarrow> trust_env \<Rightarrow> SigstoreKeys \<Rightarrow> 'fe option" where
  "SigstoreKeys_Validate api te k =
     (let e1 = (if sk_CertificateAuthorities k = [] \<and> sk_TimeStampAuthorities k = []
                then Also api None (Some (ErrMissingOneOf api [''certificateAuthority'', ''timestampAuthorities'']))
                else assign_each api ''certificateAuthority'' (ValidateCertificateAuthority api)
                       (sk_CertificateAuthorities k) None);
          e2 = assign_each api ''timestampAuthorities'' (ValidateTimeStampAuthority api te) (sk_TimeStampAuthorities k) e1;
          e3 = assign_each api ''ctLogs'' (ValidateTransparencyLogInstance api) (sk_CTLogs k) e2
      in assign_each api ''tLogs'' (ValidateTransparencyLogInstance api) (sk_TLogs k) e3)"

definition TrustRootSpec_Validate :: "'fe fe_api \<Rightarrow> trust_env \<Rightarrow> TrustRootSpec \<Rightarrow> 'fe option" where
  "TrustRootSpec_Validate api te spec =
     (let three = [''repository'', ''remote'', ''sigstoreKeys'']
      in case (tr_Repository spec, tr_Remote spec, tr_SigstoreKeys spec) of
           (None, None, None) \<Rightarrow> Some (ErrMissingOneOf api three)
         | (Some repo, rem, sk) \<Rightarrow>
             if rem \<noteq> None \<or> sk \<noteq> None then Some (ErrMultipleOneOf api three)
             else ViaField api ''repository'' (Repository_Validate api te repo)
         | (None, Some rem, sk) \<Rightarrow>
             if sk \<noteq> None then Some (ErrMultipleOneOf api three)
             else ViaField api ''remote'' (Remote_Validate api te rem)
         | (None, None, Some sk) \<Rightarrow> ViaField api ''sigstoreKeys'' (SigstoreKeys_Validate api te sk))"

definition TrustRoot_Validate :: "'fe fe_api \<Rightarrow> trust_env \<Rightarrow> val_ctx \<Rightarrow> 'st TrustRoot \<Rightarrow> 'fe option" where
  "TrustRoot_Validate api te ctx t =
     (if vc_InStatusUpdate ctx then None
      else ViaField api ''spec'' (TrustRootSpec_Validate api te (trt_Spec t)))"

section \<open>Which trust roots are accepted\<close>

definition dn_ok :: "DistinguishedName \<Rightarrow> bool" where
  "dn_ok dn = (dn_Organization dn \<noteq> '''' \<and> dn_CommonName dn \<noteq> '''')"

definition ca_ok :: "CertificateAuthority \<Rightarrow> bool" where
  "ca_ok ca = (dn_ok (ca_Subject ca) \<and> ca_URI ca \<noteq> '''' \<and> ca_CertChain ca \<noteq> '''')"

definition tsa_ok :: "trust_env \<Rightarrow> CertificateAuthority \<Rightarrow> bool" where
  "tsa_ok te ca = (ca_ok ca \<and> (case te_certs te (ca_CertChain ca) of Inl _ \<Rightarrow> False
     | Inr certs \<Rightarrow> length (filter (\<lambda>c. \<not> ct_IsCA c) certs) \<le> 1))"

definition tlog_ok :: "TransparencyLogInstance \<Rightarrow> bool" where
  "tlog_ok t = (tli_BaseURL t \<noteq> '''' \<and> tli_HashAlgorithm t \<noteq> '''' \<and> tli_PublicKey t \<noteq> '''')"

definition root_ok :: "trust_env \<Rightarrow> string option \<Rightarrow> bool" where
  "root_ok te r = (case r of None \<Rightarrow> False | Some txt \<Rightarrow>
     (case te_parse te txt of Inl _ \<Rightarrow> False
      | Inr j \<Rightarrow> (case into_any_map Map.empty j of Inl _ \<Rightarrow> False
                  | Inr m \<Rightarrow> m ''signatures'' \<noteq> None \<and> m ''signatures'' \<noteq> Some JNull)))"

text \<open>
  The element whose check decides about listed keys: the last transparency log, or without
  one the last certificate transparency log, or the last timestamp authority, or the last
  certificate authority.
\<close>

definition deciding_key_ok :: "trust_env \<Rightarrow> SigstoreKeys \<Rightarrow> bool" where
  "deciding_key_ok te k =
     (if sk_TLogs k \<noteq> [] then tlog_ok (last (sk_TLogs k))
      else if sk_CTLogs k \<noteq> [] then tlog_ok (last (sk_CTLogs k))
      else if sk_TimeStampAuthorities k \<noteq> [] then tsa_ok te (last (sk_TimeStampAuthorities k))
      else if sk_CertificateAuthorities k \<noteq> [] then ca_ok (last (sk_CertificateAuthorities k))
      else False)"

context field_error_laws
begin

lemma blocks_assign_each [simp]:
  "blocks api (assign_each api field f xs errs) \<longleftrightarrow> (if xs = [] then blocks api errs else blocks api (f (last xs)))"
proof (cases xs rule: rev_cases)
  case (snoc ys y)
  then show ?thesis by (simp add: assign_each_def indexed_def)
qed (simp add: assign_each_def indexed_def)

lemma blocks_ValidateDistinguishedName [blocks_simps]:
  "blocks api (ValidateDistinguishedName api dn) \<longleftrightarrow> \<not> dn_ok dn"
  by (auto simp: ValidateDistinguishedName_def dn_ok_def Let_def)

lemma blocks_ValidateCertificateAuthority [blocks_simps]:
  "blocks api (ValidateCertificateAuthority api ca) \<longleftrightarrow> \<not> ca_ok ca"
  by (auto simp: ValidateCertificateAuthority_def ca_ok_def Let_def blocks_simps)

lemma blocks_ValidateTimeStampAuthority [blocks_simps]:
  "blocks api (ValidateTimeStampAuthority api te ca) \<longleftrightarrow> \<not> tsa_ok te ca"
  by (auto simp: ValidateTimeStampAuthority_def tsa_ok_def SplitPEMCertificateChain_def Let_def blocks_simps
      split: sum.splits)

lemma blocks_ValidateTransparencyLogInstance [blocks_simps]:
  "blocks api (ValidateTransparencyLogInstance api t) \<longleftrightarrow> \<not> tlog_ok t"
  by (auto simp: ValidateTransparencyLogInstance_def tlog_ok_def Let_def)

lemma blocks_ValidateRoot [blocks_simps]: "blocks api (ValidateRoot api te r) \<longleftrightarrow> \<not> root_ok te r"
  by (auto simp: ValidateRoot_def root_ok_def split: option.splits sum.splits)

lemma ValidateRoot_None: "ValidateRoot api te r = None \<longleftrightarrow> root_ok te r"
  by (auto simp: ValidateRoot_def root_ok_def split: option.splits sum.splits)

lemma blocks_SigstoreKeys_Validate [blocks_simps]:
  "blocks api (SigstoreKeys_Validate api te k) \<longleftrightarrow> \<not> deciding_key_ok te k"
  by (simp add: SigstoreKeys_Validate_def deciding_key_ok_def Let_def blocks_simps)

end

text \<open>
  Validation of listed keys in a TrustRoot: the resource is rejected exactly when the one
  deciding element (the last transparency log, else the last CT log, else the last timestamp
  authority, else the last certificate authority) is malformed or nothing is listed. Errors
  in every other element are discarded, since the loops assign to the collected error
  instead of adding to it.
\<close>

theorem trustroot_keys_last_element_decides:
  assumes "field_error_laws api" "tr_SigstoreKeys spec = Some k" "tr_Repository spec = None" "tr_Remote spec = None"
  shows "blocks api (TrustRootSpec_Validate api te spec) \<longleftrightarrow> \<not> deciding_key_ok te k"
  using assms field_error_laws.blocks_SigstoreKeys_Validate [OF assms(1)] field_error_laws.blocks_basic [OF assms(1)]
  by (simp add: TrustRootSpec_Validate_def)

text \<open>A certificate authority without a URI and a chain passes when a good log follows it.\<close>

definition sample_tuf :: tuf_env where
  "sample_tuf = \<lparr>tv_open = (\<lambda>_. sample_stream 512), tv_uaString = ''cosign/v3'',
     tv_New = (\<lambda>_ _ _. Ok (\<lambda>t. if t = ''trusted_root.json'' then Ok ''{}'' else Err ''target not found'')),
     tv_config_New_err = (\<lambda>_ _. None), tv_updater_New_err = (\<lambda>_ _ _ _. None), tv_Refresh_err = (\<lambda>_ _ _ _. None),
     tv_TopLevelTargets = (\<lambda>_ _ _ _. [])\<rparr>"

definition sample_trust_env :: trust_env where
  "sample_trust_env = \<lparr>te_parse = (\<lambda>_. Ok JNull), te_certs = (\<lambda>_. Ok []), te_tuf = sample_tuf\<rparr>"

definition sample_trust_keys :: SigstoreKeys where
  "sample_trust_keys = \<lparr>
     sk_CertificateAuthorities = [\<lparr>ca_Subject = \<lparr>dn_Organization = '''', dn_CommonName = ''''\<rparr>,
                                   ca_URI = '''', ca_CertChain = ''''\<rparr>],
     sk_TLogs = [\<lparr>tli_BaseURL = ''u'', tli_HashAlgorithm = ''sha256'', tli_PublicKey = ''k''\<rparr>],
     sk_CTLogs = [], sk_TimeStampAuthorities = []\<rparr>"

theorem trustroot_keys_last_element_decides_witness:
  "\<not> blocks diag_api (TrustRootSpec_Validate diag_api sample_trust_env
      \<lparr>tr_Remote = None, tr_Repository = None, tr_SigstoreKeys = Some sample_trust_keys\<rparr>)"
  using trustroot_keys_last_element_decides [OF dl.field_error_laws_axioms,
      of "\<lparr>tr_Remote = None, tr_Repository = None, tr_SigstoreKeys = Some sample_trust_keys\<rparr>"
         sample_trust_keys sample_trust_env]
  by (simp add: deciding_key_ok_def tlog_ok_def sample_trust_keys_def)

end
