(* ===== verification/SigstoreConfig.thy ===== *)
theory SigstoreConfig
  imports TrustRoot
begin

text \<open>
  \<open>pkg/apis/config/sigstore_keys.go\<close>: the keys and certificates of a Sigstore instance in
  the form the webhook reads from the \<open>config-sigstore-keys\<close> ConfigMap, and their conversion
  from a TrustRoot. \<open>encoding/pem\<close> is used through the interface \<open>pem_api\<close>, whose law
  \<open>pem_laws\<close> is that decoding returns the block just encoded and the text after it; a decoder
  for the text \<open>EncodeToMemory\<close> writes satisfies it.
\<close>

section \<open>PEM\<close>

text \<open>\<open>pem.EncodeToMemory\<close> for a block without headers: base64 in lines of 64 characters.\<close>

function b64_lines :: "string \<Rightarrow> string" where
  "b64_lines s = (if s = [] then [] else take 64 s @ [CHR 0x0A] @ b64_lines (drop 64 s))"
  by pat_completeness auto
termination by (relation "measure length") auto

declare b64_lines.simps [simp del]

definition pem_begin :: "string \<Rightarrow> string" where
  "pem_begin t = ''-----BEGIN '' @ t @ ''-----'' @ [CHR 0x0A]"

definition pem_end :: "string \<Rightarrow> string" where
  "pem_end t = ''-----END '' @ t @ ''-----'' @ [CHR 0x0A]"

definition pem_EncodeToMemory :: "string \<Rightarrow> string \<Rightarrow> string" where
  "pem_EncodeToMemory t bs = pem_begin t @ b64_lines (base64_EncodeToString bs) @ pem_end t"

text \<open>\<open>pem.Decode\<close> yields the block's type and bytes and the remaining text, or nothing.\<close>

type_synonym pem_decoder = "string \<Rightarrow> ((string \<times> string) \<times> string) option"

locale pem_laws =
  fixes decode :: pem_decoder
  assumes decode_encode: "t \<in> {''CERTIFICATE'', ''PUBLIC KEY''} \<Longrightarrow>
            decode (pem_EncodeToMemory t bs @ rest) = Some ((t, bs), rest)"
    and decode_shrinks: "decode s = Some (b, rest) \<Longrightarrow> length rest < length s"

section \<open>Types of the stored form\<close>

datatype hash_algorithm = SHA2_256 | SHA2_384 | SHA2_512 | HASH_ALGORITHM_UNSPECIFIED

datatype key_details = PKIX_ECDSA_P256_SHA_256 | PKIX_ECDSA_P384_SHA_384 | PKIX_ECDSA_P521_SHA_512
  | PKIX_RSA_PSS_2048_SHA256 | PKIX_RSA_PSS_3072_SHA256 | PKIX_RSA_PSS_4096_SHA256
  | PUBLIC_KEY_DETAILS_UNSPECIFIED

record pb_PublicKey =
  pk_RawBytes :: string
  pk_KeyDetails :: key_details
  pk_ValidFrom :: int

record pb_TransparencyLogInstance =
  pt_BaseUrl :: string
  pt_HashAlgorithm :: hash_algorithm
  pt_PublicKey :: pb_PublicKey
  pt_KeyId :: string

record pb_CertificateAuthority =
  pc_Organization :: string
  pc_CommonName :: string
  pc_Uri :: string
  pc_CertChain :: "string list"
  pc_ValidFrom :: int

record pb_TrustedRoot =
  pr_MediaType :: string
  pr_CertificateAuthorities :: "pb_CertificateAuthority list"
  pr_Tlogs :: "pb_TransparencyLogInstance list"
  pr_Ctlogs :: "pb_TransparencyLogInstance list"
  pr_TimestampAuthorities :: "pb_CertificateAuthority list"

type_synonym SigstoreKeysMap = "string \<rightharpoonup> pb_TrustedRoot"

section \<open>Reading the ConfigMap\<close>

fun NewSigstoreKeysFromMap :: "(string \<Rightarrow> pb_TrustedRoot go_result) \<Rightarrow> (string \<times> string) list \<Rightarrow>
    SigstoreKeysMap go_result" where
  "NewSigstoreKeysFromMap parse [] = Ok Map.empty"
| "NewSigstoreKeysFromMap parse ((k, v) # data) =
     (if k = ''_example'' then NewSigstoreKeysFromMap parse data
      else if v = '''' then Err (''configmap has an entry '' @ k @ '' but no value'')
      else (case parse v of
              Inl e \<Rightarrow> Err (''failed to parse the entry '' @ k @ '' : '' @ v @ '' : '' @ e)
            | Inr sk \<Rightarrow>
                (case NewSigstoreKeysFromMap parse data of
                   Inl e \<Rightarrow> Err e | Inr m \<Rightarrow> Ok (m(k \<mapsto> sk)))))"

text \<open>\<open>parseSigstoreKeys\<close> over the YAML converter and \<open>protojson\<close>.\<close>

definition parseSigstoreKeys :: "(string \<Rightarrow> string go_result) \<Rightarrow> (string \<Rightarrow> pb_TrustedRoot go_result) \<Rightarrow>
    string \<Rightarrow> pb_TrustedRoot go_result" where
  "parseSigstoreKeys yamlToJSON unmarshal entry =
     (case yamlToJSON entry of
        Inl e \<Rightarrow> Err (''config's value could not be converted to JSON: '' @ e @ '' : '' @ entry)
      | Inr j \<Rightarrow> unmarshal j)"

section \<open>Conversion from a TrustRoot\<close>

definition HashStringToHashAlgorithm :: "string \<Rightarrow> hash_algorithm" where
  "HashStringToHashAlgorithm h =
     (if h = ''sha-256'' \<or> h = ''sha256'' then SHA2_256
      else if h = ''sha-384'' \<or> h = ''sha384'' then SHA2_384
      else if h = ''sha-512'' \<or> h = ''sha512'' then SHA2_512
      else HASH_ALGORITHM_UNSPECIFIED)"

definition SerializeCertChain :: "string list \<Rightarrow> string" where
  "SerializeCertChain certs = concat (map (pem_EncodeToMemory ''CERTIFICATE'') certs)"

definition SerializePublicKey :: "pb_PublicKey \<Rightarrow> string" where
  "SerializePublicKey k = pem_EncodeToMemory ''PUBLIC KEY'' (pk_RawBytes k)"

text \<open>
  The loop of \<open>DeserializeCertChain\<close>. Each round removes a block from the text, so as many
  rounds as the text has bytes are enough.
\<close>

fun cert_blocks :: "pem_decoder \<Rightarrow> nat \<Rightarrow> string \<Rightarrow> string list go_result" where
  "cert_blocks decode fuel [] = Ok []"
| "cert_blocks decode 0 (c # cs) = Err ''out of fuel''"
| "cert_blocks decode (Suc n) (c # cs) =
     (case decode (c # cs) of
        None \<Rightarrow> Err ''failed to decode certificate chain PEM''
      | Some ((t, bs), rest) \<Rightarrow>
          (case cert_blocks decode n rest of Inl e \<Rightarrow> Err e | Inr certs \<Rightarrow> Ok (bs # certs)))"

definition DeserializeCertChain :: "pem_decoder \<Rightarrow> string \<Rightarrow> string list go_result" where
  "DeserializeCertChain decode chain = cert_blocks decode (length chain) chain"

text \<open>For an RSA key, \<open>RsaKey n\<close> carries \<open>k.Size()\<close>, the size of the modulus in bytes.\<close>

definition details_of :: "pubkey option \<Rightarrow> key_details" where
  "details_of pk =
     (case pk of
        Some (EcdsaKey P256 _) \<Rightarrow> PKIX_ECDSA_P256_SHA_256
      | Some (EcdsaKey P384 _) \<Rightarrow> PKIX_ECDSA_P384_SHA_384
      | Some (EcdsaKey P521 _) \<Rightarrow> PKIX_ECDSA_P521_SHA_512
      | Some (RsaKey n _) \<Rightarrow>
          if n = 2048 then PKIX_RSA_PSS_2048_SHA256
          else if n = 3072 then PKIX_RSA_PSS_3072_SHA256
          else if n = 4096 then PKIX_RSA_PSS_4096_SHA256
          else PUBLIC_KEY_DETAILS_UNSPECIFIED
      | _ \<Rightarrow> PUBLIC_KEY_DETAILS_UNSPECIFIED)"

definition DeserializePublicKey :: "pem_decoder \<Rightarrow> externals \<Rightarrow> string \<Rightarrow>
    (pb_PublicKey \<times> pubkey option) go_result" where
  "DeserializePublicKey decode x publicKey =
     (case decode publicKey of
        None \<Rightarrow> Err ''failed to decode public key''
      | Some ((t, bs), _) \<Rightarrow>
          (case x_UnmarshalPEMToPublicKey x publicKey of
             Inl e \<Rightarrow> Err (wrap_err ''failed to unmarshal public key'' e)
           | Inr pk \<Rightarrow> Ok (\<lparr>pk_RawBytes = bs, pk_KeyDetails = details_of pk, pk_ValidFrom = 0\<rparr>, pk)))"

definition ConvertCertificateAuthority :: "pem_decoder \<Rightarrow> CertificateAuthority \<Rightarrow> pb_CertificateAuthority go_result" where
  "ConvertCertificateAuthority decode source =
     (case DeserializeCertChain decode (ca_CertChain source) of
        Inl e \<Rightarrow> Err e
      | Inr chain \<Rightarrow>
          Ok \<lparr>pc_Organization = dn_Organization (ca_Subject source),
              pc_CommonName = dn_CommonName (ca_Subject source),
              pc_Uri = ca_URI source, pc_CertChain = chain, pc_ValidFrom = 0\<rparr>)"

text \<open>\<open>cosign.GetTransparencyLogID\<close> is passed in.\<close>

definition ConvertTransparencyLogInstance :: "pem_decoder \<Rightarrow> externals \<Rightarrow> (pubkey option \<Rightarrow> string go_result) \<Rightarrow>
    TransparencyLogInstance \<Rightarrow> pb_TransparencyLogInstance go_result" where
  "ConvertTransparencyLogInstance decode x getLogID source =
     (case DeserializePublicKey decode x (tli_PublicKey source) of
        Inl e \<Rightarrow> Err e
      | Inr (pbpk, pk) \<Rightarrow>
          (case getLogID pk of
             Inl e \<Rightarrow> Err e
           | Inr logID \<Rightarrow>
               Ok \<lparr>pt_BaseUrl = tli_BaseURL source,
                   pt_HashAlgorithm = HashStringToHashAlgorithm (tli_HashAlgorithm source),
                   pt_PublicKey = pbpk, pt_KeyId = logID\<rparr>))"

definition ConvertSigstoreKeys :: "pem_decoder \<Rightarrow> externals \<Rightarrow> (pubkey option \<Rightarrow> string go_result) \<Rightarrow>
    SigstoreKeys \<Rightarrow> pb_TrustedRoot go_result" where
  "ConvertSigstoreKeys decode x getLogID source =
     (case mapM (ConvertCertificateAuthority decode) (sk_CertificateAuthorities source) of
        Inl e \<Rightarrow> Err (wrap_err ''failed to convert certificate authority'' e)
      | Inr cas \<Rightarrow>
          (case mapM (ConvertTransparencyLogInstance decode x getLogID) (sk_TLogs source) of
             Inl e \<Rightarrow> Err (wrap_err ''failed to convert transparency log instance'' e)
           | Inr tlogs \<Rightarrow>
               (case mapM (ConvertTransparencyLogInstance decode x getLogID) (sk_CTLogs source) of
                  Inl e \<Rightarrow> Err (wrap_err ''failed to convert ct log instance'' e)
                | Inr ctlogs \<Rightarrow>
                    (case mapM (ConvertCertificateAuthority decode) (sk_TimeStampAuthorities source) of
                       Inl e \<Rightarrow> Err (wrap_err ''failed to convert timestamp authority'' e)
                     | Inr tsas \<Rightarrow>
                         Ok \<lparr>pr_MediaType = ''application/vnd.dev.sigstore.trustedroot+json;version=0.1'',
                             pr_CertificateAuthorities = cas, pr_Tlogs = tlogs, pr_Ctlogs = ctlogs,
                             pr_TimestampAuthorities = tsas\<rparr>))))"

section \<open>Chains survive serialization\<close>

context pem_laws
begin

lemma pem_nonempty: "pem_EncodeToMemory t bs @ r \<noteq> []"
  by (simp add: pem_EncodeToMemory_def pem_begin_def)

text \<open>Enough fuel: any amount from the length of the text on gives the same result.\<close>

lemma cert_blocks_fuel:
  "length s \<le> n \<Longrightarrow> length s \<le> m \<Longrightarrow> cert_blocks decode n s = cert_blocks decode m s"
proof (induction "length s" arbitrary: s n m rule: less_induct)
  case less
  show ?case
  proof (cases s)
    case (Cons c cs)
    with less.prems obtain n' m' where nm: "n = Suc n'" "m = Suc m'" by (metis length_Cons Suc_le_D)
    show ?thesis
    proof (cases "decode s")
      case (Some r)
      then obtain t bs rest where r: "decode s = Some ((t, bs), rest)" by (metis surj_pair)
      note short = decode_shrinks [OF r]
      then have "cert_blocks decode n' rest = cert_blocks decode m' rest"
        using less.hyps [OF short] less.prems nm by simp
      then show ?thesis using r Cons nm by simp
    qed (use Cons nm in simp)
  qed simp
qed

lemma Deserialize_Cons:
  "DeserializeCertChain decode (pem_EncodeToMemory ''CERTIFICATE'' bs @ rest) =
     (case DeserializeCertChain decode rest of Inl e \<Rightarrow> Err e | Inr certs \<Rightarrow> Ok (bs # certs))"
proof -
  let ?s = "pem_EncodeToMemory ''CERTIFICATE'' bs @ rest"
  obtain c cs where s: "?s = c # cs" using pem_nonempty by (metis list.exhaust)
  have d: "decode ?s = Some ((''CERTIFICATE'', bs), rest)" by (rule decode_encode) simp
  have "length rest \<le> length cs" using decode_shrinks [OF d] s by simp
  then have "cert_blocks decode (length cs) rest = cert_blocks decode (length rest) rest"
    by (intro cert_blocks_fuel) simp_all
  then show ?thesis using s d by (simp add: DeserializeCertChain_def)
qed

lemma Deserialize_Serialize: "DeserializeCertChain decode (SerializeCertChain certs) = Ok certs"
proof (induction certs)
  case Nil
  show ?case by (simp add: SerializeCertChain_def DeserializeCertChain_def)
next
  case (Cons c cs)
  then show ?case using Deserialize_Cons [of c "SerializeCertChain cs"] by (simp add: SerializeCertChain_def)
qed

end

section \<open>A decoder for the encoded text\<close>

text \<open>
  The decoder reads exactly what \<open>EncodeToMemory\<close> writes: the begin line, base64 up to the
  next hyphen, and the matching end line.
\<close>

definition decode_block :: "string \<Rightarrow> pem_decoder" where
  "decode_block t s =
     (if prefix (pem_begin t) s then
        (let body = drop (length (pem_begin t)) s;
             txt = takeWhile (\<lambda>c. c \<noteq> CHR ''-'') body;
             rest = dropWhile (\<lambda>c. c \<noteq> CHR ''-'') body
         in if prefix (pem_end t) rest then
              (case base64_DecodeString txt of
                 Inl _ \<Rightarrow> None
               | Inr bs \<Rightarrow> Some ((t, bs), drop (length (pem_end t)) rest))
            else None)
      else None)"

definition pem_decode :: pem_decoder where
  "pem_decode s =
     (case decode_block ''CERTIFICATE'' s of Some r \<Rightarrow> Some r | None \<Rightarrow> decode_block ''PUBLIC KEY'' s)"

lemma b64_lines_filter: "CHR 0x0A \<notin> set s \<Longrightarrow> filter (\<lambda>c. c \<noteq> CHR 0x0A) (b64_lines s) = s"
proof (induction s rule: b64_lines.induct)
  case (1 s)
  show ?case
  proof (cases "s = []")
    case False
    have "CHR 0x0A \<notin> set (take 64 s)" "CHR 0x0A \<notin> set (drop 64 s)"
      using "1.prems" in_set_takeD in_set_dropD by metis+
    moreover from this have "filter (\<lambda>c. c \<noteq> CHR 0x0A) (take 64 s) = take 64 s"
      by (intro filter_True) blast
    ultimately show ?thesis using False "1.IH" by (subst b64_lines.simps) simp
  qed (simp add: b64_lines.simps)
qed

lemma b64_lines_set: "set (b64_lines s) \<subseteq> insert (CHR 0x0A) (set s)"
proof (induction s rule: b64_lines.induct)
  case (1 s)
  show ?case
  proof (cases "s = []")
    case False
    then show ?thesis using "1.IH" set_take_subset [of 64 s] set_drop_subset [of 64 s]
      by (subst b64_lines.simps) auto
  qed (simp add: b64_lines.simps)
qed

lemma decode_b64_lines: "base64_DecodeString (b64_lines (base64_EncodeToString bs)) = Ok bs"
proof -
  let ?e = "base64_EncodeToString bs"
  have nl: "CHR 0x0A \<notin> set ?e" and cr: "CHR 0x0D \<notin> set ?e" using b64_encode_plain by blast+
  have "\<forall>c \<in> set (b64_lines ?e). c \<noteq> CHR 0x0D" using b64_lines_set [of ?e] cr by auto
  then have "filter (\<lambda>c. c \<noteq> CHR 0x0D \<and> c \<noteq> CHR 0x0A) (b64_lines ?e) =
      filter (\<lambda>c. c \<noteq> CHR 0x0A) (b64_lines ?e)"
    by (intro filter_cong) auto
  then show ?thesis using b64_lines_filter [OF nl] by (simp add: base64_DecodeString_def b64_groups_encode)
qed

lemma decode_block_encode: "decode_block t (pem_EncodeToMemory t bs @ rest) = Some ((t, bs), rest)"
proof -
  let ?e = "b64_lines (base64_EncodeToString bs)"
  have "\<forall>c \<in> set ?e. c \<noteq> CHR ''-''" using b64_lines_set b64_encode_plain by fastforce
  then have "takeWhile (\<lambda>c. c \<noteq> CHR ''-'') (?e @ pem_end t @ rest) = ?e"
    "dropWhile (\<lambda>c. c \<noteq> CHR ''-'') (?e @ pem_end t @ rest) = pem_end t @ rest"
    by (simp_all add: takeWhile_append2 dropWhile_append2 pem_end_def)
  then show ?thesis by (simp add: decode_block_def pem_EncodeToMemory_def decode_b64_lines)
qed

lemma decode_block_shrinks: "decode_block t s = Some (b, rest) \<Longrightarrow> length rest < length s"
proof -
  assume "decode_block t s = Some (b, rest)"
  then have p: "prefix (pem_begin t) s" and r: "rest = drop (length (pem_end t))
      (dropWhile (\<lambda>c. c \<noteq> CHR ''-'') (drop (length (pem_begin t)) s))"
    by (auto simp: decode_block_def Let_def split: if_splits sum.splits)
  have "length rest \<le> length (dropWhile (\<lambda>c. c \<noteq> CHR ''-'') (drop (length (pem_begin t)) s))"
    unfolding r by simp
  also have "\<dots> \<le> length (drop (length (pem_begin t)) s)" by (rule length_dropWhile_le)
  finally have "length rest \<le> length s - length (pem_begin t)" by simp
  moreover have "0 < length (pem_begin t)" by (simp add: pem_begin_def)
  moreover have "length (pem_begin t) \<le> length s" using p by (rule prefix_length_le)
  ultimately show ?thesis by linarith
qed

lemma decode_block_other:
  "decode_block ''CERTIFICATE'' (pem_EncodeToMemory ''PUBLIC KEY'' bs @ rest) = None"
  by (simp add: decode_block_def pem_EncodeToMemory_def pem_begin_def)

interpretation pem: pem_laws pem_decode
proof
  show "pem_decode (pem_EncodeToMemory t bs @ rest) = Some ((t, bs), rest)"
    if "t \<in> {''CERTIFICATE'', ''PUBLIC KEY''}" for t bs rest
    using that by (auto simp: pem_decode_def decode_block_encode decode_block_other)
  show "length rest < length s" if "pem_decode s = Some (b, rest)" for s b rest
    using that by (auto simp: pem_decode_def split: option.splits dest: decode_block_shrinks)
qed

text \<open>
  C19 A certificate chain survives the trip through the ConfigMap: serializing it to PEM, as
  the webhook does before it parses the certificates, and deserializing it, as the
  reconciler does when it reads the TrustRoot, returns the same certificates in the same
  order, for every PEM decoder that returns the block just encoded and the text after it.
\<close>

theorem cert_chain_round_trip:
  assumes "pem_laws decode"
  shows "DeserializeCertChain decode (SerializeCertChain certs) = Ok certs"
  by (rule pem_laws.Deserialize_Serialize [OF assms])

theorem cert_chain_round_trip_witness:
  "DeserializeCertChain pem_decode (SerializeCertChain [''ab'', ''c'']) = Ok [''ab'', ''c'']"
  by (rule cert_chain_round_trip [OF pem.pem_laws_axioms])

text \<open>
  The size of an RSA key is compared in bytes against numbers of bits, so the details of the
  usual RSA keys are never recorded: a 2048-bit key has size 256.
\<close>

lemma rsa_details_unspecified:
  "n \<in> {256, 384, 512} \<Longrightarrow> details_of (Some (RsaKey n raw)) = PUBLIC_KEY_DETAILS_UNSPECIFIED"
  by (auto simp: details_of_def)

end
