(* ===== verification/WebhookCIP.thy ===== *)
theory WebhookCIP
  imports V1alpha1 Encodings
begin

text \<open>
  \<open>pkg/webhook/clusterimagepolicy/clusterimagepolicy_types.go\<close>: the form of a
  ClusterImagePolicy the admission webhook works with. The reconciler converts a v1alpha1
  policy into it and stores it as JSON in a ConfigMap; the webhook reads it back, and two
  \<open>UnmarshalJSON\<close> methods recompute the fields that JSON does not carry (the parsed public
  keys, the hash code and the options for remote registries).
\<close>

section \<open>Types\<close>

record WGMSignerRef =
  wgs_AppID :: string
  wgs_NodeID :: string
  wgs_UserID :: string

record WGMSignatureRef =
  wg_VerifyURL :: string
  wg_TenantID :: string
  wg_Signer :: WGMSignerRef
  wg_RequestTimeoutMs :: int

record WKeyRef =
  wk_Data :: string
  wk_HashAlgorithm :: string
  wk_HashAlgorithmCode :: crypto_hash
  wk_PublicKeys :: "pubkey option list"

record WKeylessRef =
  wl_URL :: "string option"
  wl_Identities :: "Identity list"
  wl_CACert :: "WKeyRef option"
  wl_TrustRootRef :: string
  wl_InsecureIgnoreSCT :: "bool option"

record WStaticRef =
  ws_Action :: string
  ws_Message :: string

record AttestationPolicy =
  ap_Name :: string
  ap_PredicateType :: string
  ap_Type :: string
  ap_Data :: string
  ap_FetchConfigFile :: "bool option"
  ap_IncludeSpec :: "bool option"
  ap_IncludeObjectMeta :: "bool option"
  ap_IncludeTypeMeta :: "bool option"

record WRFC3161Timestamp =
  wt_TrustRootRef :: string

text \<open>The \<open>ociremote.Option\<close> values the program builds, each by the call that makes it.\<close>

datatype remote_opt =
    WithTargetRepository string
  | WithPrefix string
  | WithPullSecrets string "string list"
  | WithDefaultRemoteOptions
  | WithOtherRemoteOptions string

record WAuthority =
  wa_Name :: string
  wa_Key :: "WKeyRef option"
  wa_Keyless :: "WKeylessRef option"
  wa_Static :: "WStaticRef option"
  wa_Sources :: "Source list"
  wa_CTLog :: "TLog option"
  wa_RemoteOpts :: "remote_opt list"
  wa_Attestations :: "AttestationPolicy list"
  wa_RFC3161Timestamp :: "WRFC3161Timestamp option"
  wa_GMSignature :: "WGMSignatureRef option"
  wa_SignatureFormat :: string

record WClusterImagePolicy =
  wc_UID :: string
  wc_ResourceVersion :: string
  wc_Images :: "ImagePattern list"
  wc_Authorities :: "WAuthority list"
  wc_Policy :: "AttestationPolicy option"
  wc_Mode :: string
  wc_Match :: "MatchResource list"

section \<open>Reading the stored form\<close>

definition KeyRef_UnmarshalJSON :: "externals \<Rightarrow> WKeyRef \<Rightarrow> json \<Rightarrow> WKeyRef go_result" where
  "KeyRef_UnmarshalJSON x k data =
     (case unmarshal_string_map data of
        Inl e \<Rightarrow> Err e
      | Inr ret \<Rightarrow>
          (let dat = map_str ret ''data''; alg = map_str ret ''hashAlgorithm'';
               k1 = k\<lparr>wk_Data := dat, wk_HashAlgorithmCode := SHA256,
                      wk_HashAlgorithm := DefaultSignatureAlgorithm\<rparr>;
               k2 = (if alg \<noteq> ''''
                     then (case HashAlgorithm alg of
                             (code, Some e) \<Rightarrow> Err e
                           | (code, None) \<Rightarrow>
                               Ok (k1\<lparr>wk_HashAlgorithm := alg, wk_HashAlgorithmCode := code\<rparr>))
                     else Ok k1)
           in case k2 of
                Inl e \<Rightarrow> Err e
              | Inr k3 \<Rightarrow>
                  if dat \<noteq> ''''
                  then (case x_UnmarshalPEMToPublicKey x dat of
                          Inl e \<Rightarrow> Err (''failed to unmarshal PEM public key '' @ e)
                        | Inr pk \<Rightarrow> Ok (k3\<lparr>wk_PublicKeys := [pk]\<rparr>))
                  else Ok (k3\<lparr>wk_PublicKeys := []\<rparr>)))"

text \<open>
  \<open>Authority.UnmarshalJSON\<close>, from the authority as the plain decoder reads it. A repository
  is its name; the zero \<open>name.Repository\<close> is the empty name.
\<close>

definition source_opts :: "(string \<Rightarrow> string go_result) \<Rightarrow> Source \<Rightarrow> remote_opt list go_result" where
  "source_opts newRepository source =
     (let pre = (case so_TagPrefix source of
                   Some p \<Rightarrow> if p \<noteq> '''' then [WithPrefix p] else []
                 | None \<Rightarrow> [])
      in if so_OCI source \<noteq> ''''
         then (case newRepository (so_OCI source) of
                 Inl e \<Rightarrow> Err (wrap_err ''failed to determine source'' e)
               | Inr repo \<Rightarrow> Ok ((if repo \<noteq> '''' then [WithTargetRepository repo] else []) @ pre))
         else Ok pre)"

definition Authority_UnmarshalJSON ::
    "(string \<Rightarrow> string go_result) \<Rightarrow> WAuthority go_result \<Rightarrow> WAuthority go_result" where
  "Authority_UnmarshalJSON newRepository raw =
     (case raw of
        Inl e \<Rightarrow> Err e
      | Inr a \<Rightarrow>
          (case mapM (source_opts newRepository) (wa_Sources a) of
             Inl e \<Rightarrow> Err e
           | Inr opts \<Rightarrow> Ok (a\<lparr>wa_RemoteOpts := wa_RemoteOpts a @ concat opts\<rparr>)))"

text \<open>
  \<open>registryauth.NewK8sKeychain\<close> is passed in: it yields an error or a keychain for the
  namespace and the named secrets (\<open>kubernetes.NoServiceAccount\<close> is fixed).
\<close>

definition secret_opts ::
    "(string \<Rightarrow> string list \<Rightarrow> string option) \<Rightarrow> string \<Rightarrow> Source \<Rightarrow> remote_opt list go_result" where
  "secret_opts keychain_err namespace source =
     (if so_SignaturePullSecrets source \<noteq> []
      then (case keychain_err namespace (so_SignaturePullSecrets source) of
              Some e \<Rightarrow> Err e
            | None \<Rightarrow> Ok [WithPullSecrets namespace (so_SignaturePullSecrets source)])
      else Ok [])"

definition SourceSignaturePullSecretsOpts ::
    "(string \<Rightarrow> string list \<Rightarrow> string option) \<Rightarrow> WAuthority \<Rightarrow> string \<Rightarrow> remote_opt list go_result" where
  "SourceSignaturePullSecretsOpts keychain_err a namespace =
     (case mapM (secret_opts keychain_err namespace) (wa_Sources a) of
        Inl e \<Rightarrow> Err e | Inr opts \<Rightarrow> Ok (concat opts))"

section \<open>Conversion from v1alpha1\<close>

definition convertKeyRefV1Alpha1ToWebhook :: "KeyRef option \<Rightarrow> WKeyRef option" where
  "convertKeyRefV1Alpha1ToWebhook k =
     map_option (\<lambda>k.
       \<lparr>wk_Data = kr_Data k,
        wk_HashAlgorithm = (if kr_HashAlgorithm k \<noteq> '''' then kr_HashAlgorithm k else DefaultSignatureAlgorithm),
        wk_HashAlgorithmCode = (if kr_HashAlgorithm k \<noteq> '''' then fst (HashAlgorithm (kr_HashAlgorithm k)) else SHA256),
        wk_PublicKeys = []\<rparr>) k"

definition convertKeylessRefV1Alpha1ToWebhook :: "KeylessRef option \<Rightarrow> WKeylessRef option" where
  "convertKeylessRefV1Alpha1ToWebhook k =
     map_option (\<lambda>k. \<lparr>wl_URL = kl_URL k, wl_Identities = kl_Identities k,
        wl_CACert = convertKeyRefV1Alpha1ToWebhook (kl_CACert k),
        wl_TrustRootRef = kl_TrustRootRef k, wl_InsecureIgnoreSCT = kl_InsecureIgnoreSCT k\<rparr>) k"

definition convertStaticRefV1Alpha1ToWebhook :: "StaticRef option \<Rightarrow> WStaticRef option" where
  "convertStaticRefV1Alpha1ToWebhook s =
     map_option (\<lambda>s. \<lparr>ws_Action = st_Action s, ws_Message = st_Message s\<rparr>) s"

definition convertAttestationsV1Alpha1ToWebhook :: "Attestation list \<Rightarrow> AttestationPolicy list" where
  "convertAttestationsV1Alpha1ToWebhook as =
     map (\<lambda>a. case at_Policy a of
            None \<Rightarrow> \<lparr>ap_Name = at_Name a, ap_PredicateType = at_PredicateType a, ap_Type = '''',
                    ap_Data = '''', ap_FetchConfigFile = None, ap_IncludeSpec = None,
                    ap_IncludeObjectMeta = None, ap_IncludeTypeMeta = None\<rparr>
          | Some p \<Rightarrow> \<lparr>ap_Name = at_Name a, ap_PredicateType = at_PredicateType a, ap_Type = po_Type p,
                      ap_Data = po_Data p, ap_FetchConfigFile = po_FetchConfigFile p,
                      ap_IncludeSpec = po_IncludeSpec p,
                      ap_IncludeObjectMeta = po_IncludeObjectMeta p,
                      ap_IncludeTypeMeta = po_IncludeTypeMeta p\<rparr>) as"

definition convertRFC3161TimestampV1Alpha1ToWebhook :: "RFC3161Timestamp option \<Rightarrow> WRFC3161Timestamp option" where
  "convertRFC3161TimestampV1Alpha1ToWebhook t = map_option (\<lambda>t. \<lparr>wt_TrustRootRef = ts_TrustRootRef t\<rparr>) t"

definition convertGMSignatureRefV1Alpha1ToWebhook :: "GMSignatureRef option \<Rightarrow> WGMSignatureRef option" where
  "convertGMSignatureRefV1Alpha1ToWebhook g =
     map_option (\<lambda>g. \<lparr>wg_VerifyURL = gm_VerifyURL g, wg_TenantID = gm_TenantID g,
        wg_Signer = \<lparr>wgs_AppID = gs_AppID (gm_Signer g), wgs_NodeID = gs_NodeID (gm_Signer g),
                     wgs_UserID = gs_UserID (gm_Signer g)\<rparr>,
        wg_RequestTimeoutMs = gm_RequestTimeoutMs g\<rparr>) g"

definition convertAuthorityV1Alpha1ToWebhook :: "Authority \<Rightarrow> WAuthority" where
  "convertAuthorityV1Alpha1ToWebhook a =
     \<lparr>wa_Name = au_Name a,
      wa_Key = convertKeyRefV1Alpha1ToWebhook (au_Key a),
      wa_Keyless = convertKeylessRefV1Alpha1ToWebhook (au_Keyless a),
      wa_Static = convertStaticRefV1Alpha1ToWebhook (au_Static a),
      wa_Sources = au_Sources a,
      wa_CTLog = au_CTLog a,
      wa_RemoteOpts = [],
      wa_Attestations = convertAttestationsV1Alpha1ToWebhook (au_Attestations a),
      wa_RFC3161Timestamp = convertRFC3161TimestampV1Alpha1ToWebhook (au_RFC3161Timestamp a),
      wa_GMSignature = convertGMSignatureRefV1Alpha1ToWebhook (au_GMSignature a),
      wa_SignatureFormat = au_SignatureFormat a\<rparr>"

definition ConvertClusterImagePolicyV1alpha1ToWebhook :: "'st ClusterImagePolicy \<Rightarrow> WClusterImagePolicy" where
  "ConvertClusterImagePolicyV1alpha1ToWebhook c =
     \<lparr>wc_UID = om_UID (cip_ObjectMeta c),
      wc_ResourceVersion = om_ResourceVersion (cip_ObjectMeta c),
      wc_Images = cs_Images (cip_Spec c),
      wc_Authorities = map convertAuthorityV1Alpha1ToWebhook (cs_Authorities (cip_Spec c)),
      wc_Policy = map_option (\<lambda>p. \<lparr>ap_Name = '''', ap_PredicateType = '''', ap_Type = po_Type p,
                      ap_Data = po_Data p, ap_FetchConfigFile = po_FetchConfigFile p,
                      ap_IncludeSpec = po_IncludeSpec p,
                      ap_IncludeObjectMeta = po_IncludeObjectMeta p,
                      ap_IncludeTypeMeta = po_IncludeTypeMeta p\<rparr>) (cs_Policy (cip_Spec c)),
      wc_Mode = cs_Mode (cip_Spec c),
      wc_Match = cs_Match (cip_Spec c)\<rparr>"

section \<open>Storing and reading back\<close>

text \<open>
  \<open>json.Marshal\<close> of a \<open>KeyRef\<close>: the tagged string fields, omitted when empty; the fields
  tagged \<open>-\<close> are left out.
\<close>

definition omit_empty :: "string \<Rightarrow> string \<Rightarrow> (string \<times> json) list" where
  "omit_empty k v = (if v = '''' then [] else [(k, JStr v)])"

definition KeyRef_MarshalJSON :: "WKeyRef \<Rightarrow> json" where
  "KeyRef_MarshalJSON k =
     JObj (omit_empty ''data'' (wk_Data k) @ omit_empty ''hashAlgorithm'' (wk_HashAlgorithm k))"

lemma marshalled_members:
  "\<exists>m. unmarshal_string_map (KeyRef_MarshalJSON k) = Ok m \<and>
       map_str m ''data'' = wk_Data k \<and> map_str m ''hashAlgorithm'' = wk_HashAlgorithm k"
  by (auto simp: KeyRef_MarshalJSON_def omit_empty_def map_str_def)

text \<open>
  C18 A key reference of an accepted policy survives the trip through the ConfigMap: the
  reconciler converts it (inlined data, valid hash algorithm) and marshals it, and
  unmarshalling in the webhook succeeds and yields the same data, algorithm name and hash
  code, now with the parsed public key.
\<close>

theorem keyref_config_round_trip:
  assumes "kr_HashAlgorithm k \<noteq> '''' \<Longrightarrow> snd (HashAlgorithm (kr_HashAlgorithm k)) = None"
    and "x_UnmarshalPEMToPublicKey x (kr_Data k) = Ok pk"
    and "kr_Data k \<noteq> ''''"
    and "convertKeyRefV1Alpha1ToWebhook (Some k) = Some w"
  shows "KeyRef_UnmarshalJSON x dest (KeyRef_MarshalJSON w) =
           Ok (dest\<lparr>wk_Data := wk_Data w, wk_HashAlgorithm := wk_HashAlgorithm w,
                    wk_HashAlgorithmCode := wk_HashAlgorithmCode w, wk_PublicKeys := [pk]\<rparr>)"
proof -
  from assms(4) have w: "wk_Data w = kr_Data k"
    "wk_HashAlgorithm w = (if kr_HashAlgorithm k \<noteq> '''' then kr_HashAlgorithm k else DefaultSignatureAlgorithm)"
    "wk_HashAlgorithmCode w = (if kr_HashAlgorithm k \<noteq> '''' then fst (HashAlgorithm (kr_HashAlgorithm k)) else SHA256)"
    by (auto simp: convertKeyRefV1Alpha1ToWebhook_def)
  have default: "HashAlgorithm DefaultSignatureAlgorithm = (SHA256, None)"
    by code_simp
  have "wk_HashAlgorithm w \<noteq> ''''"
    using w(2) by (simp add: DefaultSignatureAlgorithm_def)
  moreover have "HashAlgorithm (wk_HashAlgorithm w) = (wk_HashAlgorithmCode w, None)"
    using assms(1) w default by (cases "HashAlgorithm (kr_HashAlgorithm k)") auto
  moreover obtain m where "unmarshal_string_map (KeyRef_MarshalJSON w) = Ok m"
    "map_str m ''data'' = wk_Data w" "map_str m ''hashAlgorithm'' = wk_HashAlgorithm w"
    using marshalled_members by blast
  ultimately show ?thesis
    using assms(2,3) w(1) by (simp add: KeyRef_UnmarshalJSON_def Let_def)
qed

theorem keyref_config_round_trip_witness:
  "KeyRef_UnmarshalJSON sample_externals
       \<lparr>wk_Data = '''', wk_HashAlgorithm = '''', wk_HashAlgorithmCode = SHA224, wk_PublicKeys = []\<rparr>
       (KeyRef_MarshalJSON \<lparr>wk_Data = ''pem'', wk_HashAlgorithm = ''sha512'',
          wk_HashAlgorithmCode = SHA512, wk_PublicKeys = []\<rparr>) =
     Ok \<lparr>wk_Data = ''pem'', wk_HashAlgorithm = ''sha512'', wk_HashAlgorithmCode = SHA512,
         wk_PublicKeys = [Some (OtherKey ''pem'')]\<rparr>"
proof -
  have alg: "HashAlgorithm ''sha512'' = (SHA512, None)" by code_simp
  show ?thesis
    using keyref_config_round_trip [of "\<lparr>kr_SecretRef = None, kr_Data = ''pem'', kr_KMS = '''',
        kr_HashAlgorithm = ''sha512''\<rparr>" sample_externals "Some (OtherKey ''pem'')"
        "\<lparr>wk_Data = ''pem'', wk_HashAlgorithm = ''sha512'', wk_HashAlgorithmCode = SHA512, wk_PublicKeys = []\<rparr>"
        "\<lparr>wk_Data = '''', wk_HashAlgorithm = '''', wk_HashAlgorithmCode = SHA224, wk_PublicKeys = []\<rparr>"]
    by (simp add: alg sample_externals_def convertKeyRefV1Alpha1ToWebhook_def)
qed

section \<open>Dispatch\<close>

definition webhook_verifier_count :: "WAuthority \<Rightarrow> nat" where
  "webhook_verifier_count a =
     length (filter id [wa_Key a \<noteq> None, wa_Keyless a \<noteq> None, wa_Static a \<noteq> None, wa_GMSignature a \<noteq> None])"

lemma webhook_verifier_count_convert:
  "webhook_verifier_count (convertAuthorityV1Alpha1ToWebhook a) = verifier_count a"
  by (simp add: webhook_verifier_count_def verifier_count_def convertAuthorityV1Alpha1ToWebhook_def
      convertKeyRefV1Alpha1ToWebhook_def convertKeylessRefV1Alpha1ToWebhook_def
      convertStaticRefV1Alpha1ToWebhook_def convertGMSignatureRefV1Alpha1ToWebhook_def)

end
