(* ===== verification/ImagePolicies.thy ===== *)
theory ImagePolicies
  imports WebhookCIP
begin

text \<open>
  \<open>pkg/apis/config/image_policies.go\<close>: the policies read from the \<open>config-image-policies\<close>
  ConfigMap and the selection of those that apply to an image of a resource. A Go map is an
  association list with distinct keys in the order one iteration visits it; the properties
  hold for every such order. Kubernetes API machinery (group versions, kind to resource,
  label selectors) and the YAML conversion are parameters.
\<close>

section \<open>The configuration\<close>

record ImagePolicyConfig =
  Policies :: "(string \<times> WClusterImagePolicy) list"

definition parseEntry :: "(string \<Rightarrow> string go_result) \<Rightarrow> (string \<Rightarrow> WClusterImagePolicy go_result) \<Rightarrow>
    string \<Rightarrow> WClusterImagePolicy go_result" where
  "parseEntry yamlToJSON unmarshal entry =
     (case yamlToJSON entry of
        Inl e \<Rightarrow> Err (''config's value could not be converted to JSON: '' @ e @ '' : '' @ entry)
      | Inr j \<Rightarrow> unmarshal j)"

fun policies_loop :: "(string \<Rightarrow> WClusterImagePolicy go_result) \<Rightarrow> (string \<times> string) list \<Rightarrow>
    (string \<times> WClusterImagePolicy) list \<Rightarrow> (string \<times> WClusterImagePolicy) list go_result" where
  "policies_loop parse [] ret = Ok ret"
| "policies_loop parse ((k, v) # data) ret =
     (if k = ''_example'' then policies_loop parse data ret
      else if v = '''' then Err (''configmap has an entry '' @ k @ '' but no value'')
      else (case parse v of
              Inl e \<Rightarrow> Err (''failed to parse the entry '' @ k @ '' : '' @ v @ '' : '' @ e)
            | Inr p \<Rightarrow> policies_loop parse data (map_assign k p ret)))"

definition NewImagePoliciesConfigFromMap ::
    "(string \<Rightarrow> WClusterImagePolicy go_result) \<Rightarrow> (string \<times> string) list \<Rightarrow> ImagePolicyConfig go_result" where
  "NewImagePoliciesConfigFromMap parse data =
     (case policies_loop parse data [] of Inl e \<Rightarrow> Err e | Inr ps \<Rightarrow> Ok \<lparr>Policies = ps\<rparr>)"

section \<open>Matching\<close>

record kube_api =
  ka_ParseGroupVersion :: "string \<Rightarrow> (string \<times> string) go_result"
  ka_KindToResource :: "string \<Rightarrow> string \<Rightarrow> string \<Rightarrow> GroupVersionResource"
  ka_LabelSelectorMatches :: "LabelSelector \<Rightarrow> ((string \<times> string) list \<Rightarrow> bool) go_result"

text \<open>The inner loop over the match criteria: an error, or whether one of them applies.\<close>

fun match_loop :: "kube_api \<Rightarrow> GroupVersionResource \<Rightarrow> (string \<times> string) list \<Rightarrow>
    MatchResource list \<Rightarrow> bool go_result" where
  "match_loop ka gvr labels [] = Ok False"
| "match_loop ka gvr labels (m # ms) =
     (if gvr_Resource (mr_GVR m) \<noteq> gvr_Resource gvr then match_loop ka gvr labels ms
      else if gvr_Version (mr_GVR m) \<noteq> gvr_Version gvr \<and> gvr_Version (mr_GVR m) \<noteq> ''*''
        then match_loop ka gvr labels ms
      else if gvr_Group (mr_GVR m) \<noteq> gvr_Group gvr then match_loop ka gvr labels ms
      else (case mr_ResourceSelector m of
              None \<Rightarrow> Ok True
            | Some sel \<Rightarrow>
                (case ka_LabelSelectorMatches ka sel of
                   Inl e \<Rightarrow> Err ''policy with wrong match label selector''
                 | Inr matches \<Rightarrow> if \<not> matches labels then match_loop ka gvr labels ms else Ok True)))"

text \<open>The loop over the patterns: the error of the last pattern that failed, and the map.\<close>

fun pattern_loop :: "ref_parser \<Rightarrow> string \<Rightarrow> string \<Rightarrow> WClusterImagePolicy \<Rightarrow> ImagePattern list \<Rightarrow>
    (string \<times> WClusterImagePolicy) list \<times> string option \<Rightarrow>
    (string \<times> WClusterImagePolicy) list \<times> string option" where
  "pattern_loop pr img k v [] st = st"
| "pattern_loop pr img k v (p # ps) (ret, lastError) =
     (if ip_Glob p \<noteq> '''' then
        (case Match pr (ip_Glob p) img of
           Inl e \<Rightarrow> pattern_loop pr img k v ps (ret, Some e)
         | Inr matched \<Rightarrow>
             if matched then pattern_loop pr img k v ps (map_assign k v ret, lastError)
             else pattern_loop pr img k v ps (ret, lastError))
      else pattern_loop pr img k v ps (ret, lastError))"

fun select_loop :: "kube_api \<Rightarrow> ref_parser \<Rightarrow> string \<Rightarrow> GroupVersionResource \<Rightarrow> (string \<times> string) list \<Rightarrow>
    (string \<times> WClusterImagePolicy) list \<Rightarrow> (string \<times> WClusterImagePolicy) list \<times> string option \<Rightarrow>
    (string \<times> WClusterImagePolicy) list option \<times> string option" where
  "select_loop ka pr img gvr labels [] (ret, lastError) = (Some ret, lastError)"
| "select_loop ka pr img gvr labels ((k, v) # ps) st =
     (if wc_Match v \<noteq> [] then
        (case match_loop ka gvr labels (wc_Match v) of
           Inl e \<Rightarrow> (None, Some e)
         | Inr foundMatch \<Rightarrow>
             if \<not> foundMatch then select_loop ka pr img gvr labels ps st
             else select_loop ka pr img gvr labels ps (pattern_loop pr img k v (wc_Images v) st))
      else select_loop ka pr img gvr labels ps (pattern_loop pr img k v (wc_Images v) st))"

text \<open>
  The function returns a map and an error that are not exclusive: a glob that fails to match
  records its error and the search goes on.
\<close>

definition GetMatchingPolicies :: "kube_api \<Rightarrow> ref_parser \<Rightarrow> ImagePolicyConfig option \<Rightarrow> string \<Rightarrow>
    string \<Rightarrow> string \<Rightarrow> (string \<times> string) list \<Rightarrow>
    (string \<times> WClusterImagePolicy) list option \<times> string option" where
  "GetMatchingPolicies ka pr config img kind apiVersion labels =
     (case config of
        None \<Rightarrow> (None, Some ''config is nil'')
      | Some p \<Rightarrow>
          (case ka_ParseGroupVersion ka apiVersion of
             Inl e \<Rightarrow> (None, Some e)
           | Inr (grp, version) \<Rightarrow>
               select_loop ka pr img (ka_KindToResource ka grp version kind) labels
                 (Policies p) ([], None)))"

section \<open>Which policies apply\<close>

definition criterion_applies :: "kube_api \<Rightarrow> GroupVersionResource \<Rightarrow> (string \<times> string) list \<Rightarrow> MatchResource \<Rightarrow> bool" where
  "criterion_applies ka gvr labels m =
     (gvr_Resource (mr_GVR m) = gvr_Resource gvr \<and> gvr_Group (mr_GVR m) = gvr_Group gvr \<and>
      gvr_Version (mr_GVR m) \<in> {gvr_Version gvr, ''*''} \<and>
      (case mr_ResourceSelector m of None \<Rightarrow> True
       | Some sel \<Rightarrow> (case ka_LabelSelectorMatches ka sel of Inl _ \<Rightarrow> False | Inr f \<Rightarrow> f labels)))"

definition resource_applies :: "kube_api \<Rightarrow> GroupVersionResource \<Rightarrow> (string \<times> string) list \<Rightarrow> WClusterImagePolicy \<Rightarrow> bool" where
  "resource_applies ka gvr labels v =
     (wc_Match v = [] \<or> (\<exists>m \<in> set (wc_Match v). criterion_applies ka gvr labels m))"

definition glob_hits :: "ref_parser \<Rightarrow> string \<Rightarrow> ImagePattern \<Rightarrow> bool" where
  "glob_hits pr img p = (ip_Glob p \<noteq> '''' \<and> Match pr (ip_Glob p) img = Ok True)"

definition glob_fails :: "ref_parser \<Rightarrow> string \<Rightarrow> ImagePattern \<Rightarrow> bool" where
  "glob_fails pr img p = (ip_Glob p \<noteq> '''' \<and> \<not> is_ok (Match pr (ip_Glob p) img))"

definition policy_applies :: "kube_api \<Rightarrow> ref_parser \<Rightarrow> string \<Rightarrow> GroupVersionResource \<Rightarrow> (string \<times> string) list \<Rightarrow>
    WClusterImagePolicy \<Rightarrow> bool" where
  "policy_applies ka pr img gvr labels v =
     (resource_applies ka gvr labels v \<and> (\<exists>p \<in> set (wc_Images v). glob_hits pr img p))"

lemma match_loop_Ok: "match_loop ka gvr labels ms = Ok b \<Longrightarrow> b = (\<exists>m \<in> set ms. criterion_applies ka gvr labels m)"
  by (induction ms) (auto simp: criterion_applies_def split: option.splits sum.splits if_splits)

lemma map_assign_same: "map_assign k v (map_assign k v m) = map_assign k v m"
proof -
  have "map_assign k v (map_assign k v m) = map (\<lambda>p. if fst p = k then (k, v) else p) (map_assign k v m)"
    using keys_map_assign [of k v m] by (simp add: map_assign_def [of k v "map_assign k v m"])
  also have "\<dots> = map_assign k v m"
    by (auto simp: map_assign_def comp_def image_iff intro!: map_idI)
  finally show ?thesis .
qed

lemma pattern_loop_map:
  "fst (pattern_loop pr img k v ps (ret, e)) =
     (if \<exists>p \<in> set ps. glob_hits pr img p then map_assign k v ret else ret)"
  by (induction ps arbitrary: ret e)
     (auto simp: glob_hits_def map_assign_same split: sum.splits)

lemma pattern_loop_err:
  "snd (pattern_loop pr img k v ps (ret, e)) = None \<longleftrightarrow>
     e = None \<and> \<not> (\<exists>p \<in> set ps. glob_fails pr img p)"
  by (induction ps arbitrary: ret e) (auto simp: glob_fails_def split: sum.splits)

lemma map_assign_new: "k \<notin> fst ` set m \<Longrightarrow> map_assign k v m = m @ [(k, v)]"
  by (simp add: map_assign_def)

lemma select_loop_map:
  assumes "distinct (map fst ps)" "fst ` set ps \<inter> fst ` set ret = {}"
    and "select_loop ka pr img gvr labels ps (ret, e) = (Some sel, err)"
  shows "sel = ret @ filter (\<lambda>kv. policy_applies ka pr img gvr labels (snd kv)) ps"
  using assms
proof (induction ps arbitrary: ret e)
  case (Cons kv ps)
  obtain k v where kv: "kv = (k, v)" by force
  obtain ret' e' where st: "pattern_loop pr img k v (wc_Images v) (ret, e) = (ret', e')" by force
  have new: "k \<notin> fst ` set ret" using Cons.prems(2) kv by auto
  have ret': "ret' = (if \<exists>p \<in> set (wc_Images v). glob_hits pr img p then ret @ [(k, v)] else ret)"
    using pattern_loop_map [of pr img k v "wc_Images v" ret e] st new by (simp add: map_assign_new)
  have disj: "fst ` set ps \<inter> fst ` set ret' = {}" "fst ` set ps \<inter> fst ` set ret = {}"
    using Cons.prems(1,2) ret' kv by auto
  have dist: "distinct (map fst ps)" using Cons.prems(1) by simp
  show ?case
  proof (cases "resource_applies ka gvr labels v")
    case True
    then have "select_loop ka pr img gvr labels ps (ret', e') = (Some sel, err)"
      using Cons.prems(3) kv st match_loop_Ok [of ka gvr labels "wc_Match v"]
      by (fastforce simp: resource_applies_def split: if_splits sum.splits)
    from Cons.IH [OF dist disj(1) this] ret' kv True show ?thesis
      by (simp add: policy_applies_def)
  next
    case False
    then have "select_loop ka pr img gvr labels ps (ret, e) = (Some sel, err)"
      using Cons.prems(3) kv match_loop_Ok [of ka gvr labels "wc_Match v"]
      by (fastforce simp: resource_applies_def split: if_splits sum.splits)
    from Cons.IH [OF dist disj(2) this] kv False show ?thesis
      by (simp add: policy_applies_def)
  qed
qed simp

lemma select_loop_err:
  assumes "select_loop ka pr img gvr labels ps (ret, e) = (Some sel, err)"
  shows "err = None \<longleftrightarrow> e = None \<and>
           \<not> (\<exists>kv \<in> set ps. resource_applies ka gvr labels (snd kv) \<and>
                  (\<exists>p \<in> set (wc_Images (snd kv)). glob_fails pr img p))"
  using assms
proof (induction ps arbitrary: ret e)
  case (Cons kv ps)
  obtain k v where kv: "kv = (k, v)" by force
  obtain ret' e' where st: "pattern_loop pr img k v (wc_Images v) (ret, e) = (ret', e')" by force
  have e': "e' = None \<longleftrightarrow> e = None \<and> \<not> (\<exists>p \<in> set (wc_Images v). glob_fails pr img p)"
    using pattern_loop_err [of pr img k v "wc_Images v" ret e] st by simp
  show ?case
  proof (cases "resource_applies ka gvr labels v")
    case True
    then have "select_loop ka pr img gvr labels ps (ret', e') = (Some sel, err)"
      using Cons.prems kv st match_loop_Ok [of ka gvr labels "wc_Match v"]
      by (fastforce simp: resource_applies_def split: if_splits sum.splits)
    from Cons.IH [OF this] e' kv True show ?thesis by auto
  next
    case False
    then have "select_loop ka pr img gvr labels ps (ret, e) = (Some sel, err)"
      using Cons.prems kv match_loop_Ok [of ka gvr labels "wc_Match v"]
      by (fastforce simp: resource_applies_def split: if_splits sum.splits)
    from Cons.IH [OF this] kv False show ?thesis by auto
  qed
qed simp

text \<open>
  C6 Selection of policies, for every iteration order of the policy map: when
  \<open>GetMatchingPolicies\<close> returns a map, it holds exactly the policies whose match criteria
  accept the resource (or that have none) and one of whose globs matches the image; an error
  is reported alongside exactly when a glob of a policy for this resource could not be
  matched, and it never hides a policy that does apply.
\<close>

theorem GetMatchingPolicies_exact:
  assumes "distinct (map fst (Policies c))"
    and "ka_ParseGroupVersion ka apiVersion = Ok (grp, ver)"
    and "GetMatchingPolicies ka pr (Some c) img kind apiVersion labels = (Some sel, err)"
  shows "sel = filter (\<lambda>kv. policy_applies ka pr img (ka_KindToResource ka grp ver kind) labels (snd kv))
                 (Policies c) \<and>
         (err \<noteq> None \<longleftrightarrow> (\<exists>kv \<in> set (Policies c).
             resource_applies ka (ka_KindToResource ka grp ver kind) labels (snd kv) \<and>
             (\<exists>p \<in> set (wc_Images (snd kv)). glob_fails pr img p)))"
proof -
  from assms(2,3) have loop: "select_loop ka pr img (ka_KindToResource ka grp ver kind) labels
      (Policies c) ([], None) = (Some sel, err)"
    by (simp add: GetMatchingPolicies_def)
  from select_loop_map [OF assms(1) _ loop] select_loop_err [OF loop] show ?thesis by auto
qed

definition sample_kube :: kube_api where
  "sample_kube = \<lparr>ka_ParseGroupVersion = (\<lambda>v. Ok ('''', v)),
     ka_KindToResource = (\<lambda>g v k. \<lparr>gvr_Group = g, gvr_Version = v, gvr_Resource = (if k = ''Pod'' then ''pods'' else k)\<rparr>),
     ka_LabelSelectorMatches = (\<lambda>sel. Ok (\<lambda>labels. set (ls_MatchLabels sel) \<subseteq> set labels))\<rparr>"

definition sample_parser :: ref_parser where
  "sample_parser s = Ok \<lparr>ref_Name = s, ref_String = s, ref_Kind = DigestRef, ref_DigestStr = '''', ref_Context = s\<rparr>"

definition sample_webhook_cip :: WClusterImagePolicy where
  "sample_webhook_cip = \<lparr>wc_UID = ''uid-1'', wc_ResourceVersion = ''7'', wc_Images = [\<lparr>ip_Glob = ''a*''\<rparr>],
     wc_Authorities = [], wc_Policy = None, wc_Mode = ''enforce'',
     wc_Match = [\<lparr>mr_GVR = \<lparr>gvr_Group = '''', gvr_Version = ''*'', gvr_Resource = ''pods''\<rparr>,
                  mr_ResourceSelector = None\<rparr>]\<rparr>"

theorem GetMatchingPolicies_exact_witness:
  "[(''cip'', sample_webhook_cip)] =
     filter (\<lambda>kv. policy_applies sample_kube sample_parser ''ab''
        (ka_KindToResource sample_kube '''' ''v1'' ''Pod'') [] (snd kv)) [(''cip'', sample_webhook_cip)]"
proof -
  have run: "GetMatchingPolicies sample_kube sample_parser (Some \<lparr>Policies = [(''cip'', sample_webhook_cip)]\<rparr>)
      ''ab'' ''Pod'' ''v1'' [] = (Some [(''cip'', sample_webhook_cip)], None)"
  proof -
    have "Match sample_parser ''a*'' ''ab'' = Ok True"
      by (simp add: Match_def Compile_tokens normalize_glob_def sample_parser_def rx_match_iff lang_tokens
          glob_chars_def lower_letters_def Let_def
          del: tok_rx.simps list.map)
    then show ?thesis
      by (simp add: GetMatchingPolicies_def sample_kube_def sample_webhook_cip_def map_assign_def)
  qed
  have "distinct (map fst (Policies \<lparr>Policies = [(''cip'', sample_webhook_cip)]\<rparr>))"
    and "ka_ParseGroupVersion sample_kube ''v1'' = Ok ('''', ''v1'')"
    by (simp_all add: sample_kube_def)
  from GetMatchingPolicies_exact [OF this run] show ?thesis
    by (simp only: ImagePolicyConfig.simps)
qed

end
