(* ===== verification/GMClient.thy ===== *)
theory GMClient
  imports WebhookCIP "HOL-Library.Word"
begin

text \<open>
  \<open>pkg/webhook/gm\<close>, part one: the checks on a policy's GM signature settings (\<open>cip.go\<close>), the
  annotation names (\<open>constants.go\<close>) and the client of the HSM verification service
  (\<open>client.go\<close>). The HTTP round trip and the JSON text parser are parameters.
\<close>

section \<open>Constants\<close>

definition SigAnnAlg :: string where "SigAnnAlg = ''zjrcu.gm/alg''"
definition SigAnnSignature :: string where "SigAnnSignature = ''zjrcu.gm/signature''"
definition SigAnnUserID :: string where "SigAnnUserID = ''zjrcu.gm/user-id''"
definition SigAnnSignerAppID :: string where "SigAnnSignerAppID = ''zjrcu.gm/signer-app-id''"
definition SigAnnSignerNodeID :: string where "SigAnnSignerNodeID = ''zjrcu.gm/signer-node-id''"
definition AlgorithmSM2SM3 :: string where "AlgorithmSM2SM3 = ''SM2-with-SM3''"
definition DefaultRequestTimeoutMS :: int where "DefaultRequestTimeoutMS = 5000"

lemmas gm_annotation_defs = SigAnnAlg_def SigAnnSignature_def SigAnnUserID_def SigAnnSignerAppID_def
  SigAnnSignerNodeID_def AlgorithmSM2SM3_def

section \<open>Settings and signer\<close>

definition GM_Validate :: "WGMSignatureRef option \<Rightarrow> string option" where
  "GM_Validate ref =
     (case ref of
        None \<Rightarrow> Some ''GMSignature is nil''
      | Some r \<Rightarrow>
          if wg_VerifyURL r = '''' then Some ''GMSignature.verifyUrl is required''
          else if wg_TenantID r = '''' then Some ''GMSignature.tenantId is required''
          else if wgs_AppID (wg_Signer r) = '''' then Some ''GMSignature.signer.appId is required''
          else if wgs_NodeID (wg_Signer r) = '''' then Some ''GMSignature.signer.nodeId is required''
          else None)"

definition MatchSigner :: "WGMSignatureRef \<Rightarrow> (string \<rightharpoonup> string) \<Rightarrow> string option" where
  "MatchSigner ref ann =
     (if map_str ann SigAnnAlg \<noteq> AlgorithmSM2SM3
      then Some (''sig annotation '' @ SigAnnAlg @ ''='' @ map_str ann SigAnnAlg)
      else if map_str ann SigAnnSignerAppID \<noteq> wgs_AppID (wg_Signer ref)
      then Some (''sig annotation '' @ SigAnnSignerAppID @ '' does not match GMSignature.signer.appId'')
      else if map_str ann SigAnnSignerNodeID \<noteq> wgs_NodeID (wg_Signer ref)
      then Some (''sig annotation '' @ SigAnnSignerNodeID @ '' does not match GMSignature.signer.nodeId'')
      else if wgs_UserID (wg_Signer ref) \<noteq> '''' \<and> map_str ann SigAnnUserID \<noteq> wgs_UserID (wg_Signer ref)
      then Some (''sig annotation '' @ SigAnnUserID @ '' does not match GMSignature.signer.userId'')
      else None)"

section \<open>Requests\<close>

record SignerTriple =
  tr_AppID :: string
  tr_NodeID :: string
  tr_UserID :: string

record VerifyRequest =
  vr_URLTemplate :: string
  vr_TenantID :: string
  vr_Signer :: SignerTriple
  vr_SM3Hash :: string
  vr_Signature :: string
  vr_TimeoutMS :: int

record http_request =
  hr_URL :: string
  hr_Headers :: "(string \<times> string) list"
  hr_Body :: json
  hr_TimeoutNS :: int

record http_response =
  hs_StatusCode :: int
  hs_Body :: "string go_result"

text \<open>
  The world the client talks to: whether \<open>http.NewRequestWithContext\<close> accepts the URL, the
  round trip, the random number of the trace header, and the JSON text parser.
\<close>

record http_env =
  he_NewRequest_err :: "string \<Rightarrow> string option"
  he_Do :: "http_request \<Rightarrow> http_response go_result"
  he_rand :: nat
  he_parse :: json_parser

text \<open>
  \<open>strings.NewReplacer(old1, new1, old2, new2).Replace\<close>: one pass from left to right; at each
  position the first of the two non-empty keys that matches is replaced.
\<close>

function replace2 :: "string \<Rightarrow> string \<Rightarrow> string \<Rightarrow> string \<Rightarrow> string \<Rightarrow> string" where
  "replace2 o1 n1 o2 n2 [] = []"
| "replace2 o1 n1 o2 n2 (c # cs) =
     (if o1 \<noteq> [] \<and> prefix o1 (c # cs) then n1 @ replace2 o1 n1 o2 n2 (drop (length o1) (c # cs))
      else if o2 \<noteq> [] \<and> prefix o2 (c # cs) then n2 @ replace2 o1 n1 o2 n2 (drop (length o2) (c # cs))
      else c # replace2 o1 n1 o2 n2 cs)"
  by pat_completeness auto
termination
  by (relation "measure (\<lambda>(_, _, _, _, s). length s)") auto

definition request_url :: "VerifyRequest \<Rightarrow> string" where
  "request_url req =
     replace2 ''{tenantId}'' (vr_TenantID req) ''{appId}'' (tr_AppID (vr_Signer req)) (vr_URLTemplate req)"

text \<open>
  \<open>time.Duration(ms) * time.Millisecond\<close> is a product of two \<open>int64\<close> values and wraps
  around; a result that is not positive selects the default.
\<close>

definition duration_ms :: "int \<Rightarrow> int" where
  "duration_ms ms = sint ((word_of_int ms :: 64 word) * 1000000)"

definition request_timeout :: "VerifyRequest \<Rightarrow> int" where
  "request_timeout req =
     (let timeout = duration_ms (vr_TimeoutMS req)
      in if timeout \<le> 0 then DefaultRequestTimeoutMS * 1000000 else timeout)"

text \<open>\<open>fmt.Sprintf("%s_%08d", appId, n)\<close>.\<close>

definition trace_id :: "string \<Rightarrow> nat \<Rightarrow> string" where
  "trace_id app n = app @ ''_'' @ replicate (8 - length (show_nat n)) CHR ''0'' @ show_nat n"

text \<open>\<open>json.Marshal\<close> writes the members of a map in the order of their names.\<close>

definition request_body :: "VerifyRequest \<Rightarrow> json" where
  "request_body req =
     JObj [(''requestData'', JObj
       ([(''appId'', JStr (tr_AppID (vr_Signer req))),
         (''data'', JStr (base64_EncodeToString (vr_SM3Hash req))),
         (''nodeId'', JStr (tr_NodeID (vr_Signer req))),
         (''signature'', JStr (base64_EncodeToString (vr_Signature req)))] @
        (if tr_UserID (vr_Signer req) \<noteq> ''''
         then [(''userId'', JStr (tr_UserID (vr_Signer req)))] else [])))]"

definition http_of :: "nat \<Rightarrow> VerifyRequest \<Rightarrow> http_request" where
  "http_of rnd req =
     \<lparr>hr_URL = request_url req,
      hr_Headers = [(''Content-Type'', ''application/json''), (''Tenant-Id'', vr_TenantID req),
                    (''TRACE_ID'', trace_id (tr_AppID (vr_Signer req)) rnd)],
      hr_Body = request_body req,
      hr_TimeoutNS = request_timeout req\<rparr>"

section \<open>Responses\<close>

definition truncate_text :: "string \<Rightarrow> nat \<Rightarrow> string" where
  "truncate_text s n = (if length s \<le> n then s else take n s @ ''...'')"

record sm2_response =
  sm_Code :: int
  sm_Message :: string
  sm_Result :: "string \<rightharpoonup> json"

definition sm2_field :: "string \<Rightarrow> (sm2_response \<Rightarrow> json \<Rightarrow> sm2_response go_result) option" where
  "sm2_field k =
     (if k = ''code'' then Some (\<lambda>r v. case into_int (sm_Code r) v of
                                    Inl e \<Rightarrow> Err e | Inr i \<Rightarrow> Ok (r\<lparr>sm_Code := i\<rparr>))
      else if k = ''message'' then Some (\<lambda>r v. case into_string (sm_Message r) v of
                                    Inl e \<Rightarrow> Err e | Inr s \<Rightarrow> Ok (r\<lparr>sm_Message := s\<rparr>))
      else if k = ''result'' then Some (\<lambda>r v. case into_any_map (sm_Result r) v of
                                    Inl e \<Rightarrow> Err e | Inr m \<Rightarrow> Ok (r\<lparr>sm_Result := m\<rparr>))
      else None)"

text \<open>
  What a decoded answer means: a non-zero code is an error; then \<open>verified\<close>, if it is a
  boolean, decides; then \<open>success\<close>, if it is a number, with zero for success; an answer with
  neither counts as verified.
\<close>

definition sm2_verdict :: "sm2_response \<Rightarrow> bool go_result" where
  "sm2_verdict r =
     (if sm_Code r \<noteq> 0
      then Err (''sm2/verify rejected: code='' @ show_int (sm_Code r) @ '' message='' @ sm_Message r)
      else (case sm_Result r ''verified'' of
              Some (JBool v) \<Rightarrow> Ok v
            | _ \<Rightarrow> (case sm_Result r ''success'' of
                      Some (JNum i z) \<Rightarrow> Ok (z = Some True)
                    | _ \<Rightarrow> Ok True)))"

definition SM2Verify :: "http_env \<Rightarrow> VerifyRequest \<Rightarrow> bool go_result" where
  "SM2Verify env req =
     (case he_NewRequest_err env (request_url req) of
        Some e \<Rightarrow> Err (wrap_err ''build sm2/verify request'' e)
      | None \<Rightarrow>
          (case he_Do env (http_of (he_rand env) req) of
             Inl e \<Rightarrow> Err (wrap_err ''sm2/verify HTTP call'' e)
           | Inr resp \<Rightarrow>
               (case hs_Body resp of
                  Inl e \<Rightarrow> Err (wrap_err ''read sm2/verify response'' e)
                | Inr bod \<Rightarrow>
                    if hs_StatusCode resp \<noteq> 200
                    then Err (''sm2/verify HTTP '' @ show_int (hs_StatusCode resp) @ '': '' @ truncate_text bod 200)
                    else (case he_parse env bod of
                            Inl e \<Rightarrow> Err (wrap_err ''decode sm2/verify response'' e)
                          | Inr j \<Rightarrow>
                              (case into_struct sm2_field \<lparr>sm_Code = 0, sm_Message = '''', sm_Result = Map.empty\<rparr> j of
                                 Inl e \<Rightarrow> Err (wrap_err ''decode sm2/verify response'' e)
                               | Inr parsed \<Rightarrow> sm2_verdict parsed)))))"

section \<open>Properties of the client\<close>

lemma GM_Validate_None_iff:
  "GM_Validate (Some r) = None \<longleftrightarrow>
     wg_VerifyURL r \<noteq> '''' \<and> wg_TenantID r \<noteq> '''' \<and>
     wgs_AppID (wg_Signer r) \<noteq> '''' \<and> wgs_NodeID (wg_Signer r) \<noteq> ''''"
  by (simp add: GM_Validate_def)

lemma MatchSigner_None_iff:
  "MatchSigner r ann = None \<longleftrightarrow>
     map_str ann SigAnnAlg = AlgorithmSM2SM3 \<and>
     map_str ann SigAnnSignerAppID = wgs_AppID (wg_Signer r) \<and>
     map_str ann SigAnnSignerNodeID = wgs_NodeID (wg_Signer r) \<and>
     (wgs_UserID (wg_Signer r) = '''' \<or> map_str ann SigAnnUserID = wgs_UserID (wg_Signer r))"
  by (auto simp: MatchSigner_def)

text \<open>
  C21 The timeout of an HSM request is always positive and, for every number of milliseconds
  a policy can hold without overflowing the product, it is the configured number; zero, a
  negative number and a product that wraps to a non-positive one select five seconds.
\<close>

theorem request_timeout_positive:
  "0 < request_timeout req \<and>
   (0 < vr_TimeoutMS req \<and> vr_TimeoutMS req * 1000000 < 2 ^ 63 \<longrightarrow>
      request_timeout req = vr_TimeoutMS req * 1000000) \<and>
   (duration_ms (vr_TimeoutMS req) \<le> 0 \<longrightarrow> request_timeout req = 5000000000)"
proof -
  have "duration_ms ms = ms * 1000000" if "0 < ms" "ms * 1000000 < 2 ^ 63" for ms
  proof -
    have "duration_ms ms = signed_take_bit 63 (ms * 1000000)"
    proof -
      have "(word_of_int ms :: 64 word) * 1000000 = word_of_int (ms * 1000000)" by simp
      then show ?thesis by (simp only: duration_ms_def) (simp only: signed_of_int, simp)
    qed
    also have "\<dots> = ms * 1000000"
      using that by (intro signed_take_bit_int_eq_self) auto
    finally show ?thesis .
  qed
  then show ?thesis by (auto simp: request_timeout_def Let_def DefaultRequestTimeoutMS_def)
qed

theorem request_timeout_positive_witness:
  "request_timeout \<lparr>vr_URLTemplate = '''', vr_TenantID = '''',
      vr_Signer = \<lparr>tr_AppID = '''', tr_NodeID = '''', tr_UserID = ''''\<rparr>,
      vr_SM3Hash = '''', vr_Signature = '''', vr_TimeoutMS = 250\<rparr> = 250000000"
  using request_timeout_positive [of "\<lparr>vr_URLTemplate = '''', vr_TenantID = '''',
      vr_Signer = \<lparr>tr_AppID = '''', tr_NodeID = '''', tr_UserID = ''''\<rparr>,
      vr_SM3Hash = '''', vr_Signature = '''', vr_TimeoutMS = 250\<rparr>"]
  by simp

end
