(* ===== verification/GMCache.thy ===== *)
theory GMCache
  imports GMClient
begin

text \<open>
  \<open>pkg/webhook/gm/cache.go\<close>: the memory of positive HSM answers. The expiring LRU of
  \<open>golang-lru\<close> is a parameter; what the cache relies on is that a hit is a key somebody added
  and that reading never adds keys (\<open>lru_laws\<close>; entries may vanish at any time, by eviction or
  expiry). What the verifier relies on is the interface \<open>positive_memo\<close>, which the cache
  provides over every such LRU.
\<close>

section \<open>Keys\<close>

text \<open>Four bytes of the length, most significant first, then the bytes.\<close>

definition writeLen :: "string \<Rightarrow> string" where
  "writeLen b =
     [char_of (length b div 2 ^ 24), char_of (length b div 2 ^ 16), char_of (length b div 2 ^ 8),
      char_of (length b)] @ b"

definition key_preimage :: "string \<Rightarrow> SignerTriple \<Rightarrow> string" where
  "key_preimage sig signer =
     sig @ writeLen (tr_AppID signer) @ writeLen (tr_NodeID signer) @ writeLen (tr_UserID signer)"

definition cacheKey :: "(string \<Rightarrow> string) \<Rightarrow> string \<Rightarrow> SignerTriple \<Rightarrow> string" where
  "cacheKey sha256 sig signer = hex_EncodeToString (sha256 (key_preimage sig signer))"

section \<open>The cache\<close>

record 'c lru_ops =
  lru_NewLRU :: "int \<Rightarrow> int \<Rightarrow> 'c"
  lru_Get :: "string \<Rightarrow> 'c \<Rightarrow> bool \<times> 'c"
  lru_Add :: "string \<Rightarrow> 'c \<Rightarrow> 'c"

record 'c Cache =
  ca_c :: "'c option"
  ca_hits :: "64 word"
  ca_misses :: "64 word"

text \<open>A cache is used through a pointer that may be nil: \<open>'c Cache option\<close>.\<close>

definition NewCache :: "'c lru_ops \<Rightarrow> int \<Rightarrow> int \<Rightarrow> 'c Cache" where
  "NewCache ops capacity defaultTTL =
     (if capacity \<le> 0 \<or> defaultTTL \<le> 0 then \<lparr>ca_c = None, ca_hits = 0, ca_misses = 0\<rparr>
      else \<lparr>ca_c = Some (lru_NewLRU ops capacity defaultTTL), ca_hits = 0, ca_misses = 0\<rparr>)"

definition Lookup :: "'c lru_ops \<Rightarrow> (string \<Rightarrow> string) \<Rightarrow> 'c Cache option \<Rightarrow> string \<Rightarrow> SignerTriple \<Rightarrow>
    bool \<times> 'c Cache option" where
  "Lookup ops sha256 ch sig signer =
     (case ch of
        None \<Rightarrow> (False, None)
      | Some cc \<Rightarrow>
          (case ca_c cc of
             None \<Rightarrow> (False, Some (cc\<lparr>ca_misses := ca_misses cc + 1\<rparr>))
           | Some l \<Rightarrow>
               (case lru_Get ops (cacheKey sha256 sig signer) l of
                  (hit, l') \<Rightarrow>
                    if hit then (True, Some (cc\<lparr>ca_c := Some l', ca_hits := ca_hits cc + 1\<rparr>))
                    else (False, Some (cc\<lparr>ca_c := Some l', ca_misses := ca_misses cc + 1\<rparr>)))))"

definition Store :: "'c lru_ops \<Rightarrow> (string \<Rightarrow> string) \<Rightarrow> 'c Cache option \<Rightarrow> string \<Rightarrow> SignerTriple \<Rightarrow>
    'c Cache option" where
  "Store ops sha256 ch sig signer =
     (case ch of
        None \<Rightarrow> None
      | Some cc \<Rightarrow>
          (case ca_c cc of
             None \<Rightarrow> Some cc
           | Some l \<Rightarrow> Some (cc\<lparr>ca_c := Some (lru_Add ops (cacheKey sha256 sig signer) l)\<rparr>)))"

definition Stats :: "'c Cache option \<Rightarrow> 64 word \<times> 64 word" where
  "Stats ch = (case ch of None \<Rightarrow> (0, 0) | Some cc \<Rightarrow> (ca_hits cc, ca_misses cc))"

section \<open>Contracts\<close>

locale lru_laws =
  fixes ops :: "'c lru_ops" and lkeys :: "'c \<Rightarrow> string set"
  assumes get_hit: "fst (lru_Get ops k l) \<Longrightarrow> k \<in> lkeys l"
    and get_keys: "lkeys (snd (lru_Get ops k l)) \<subseteq> lkeys l"
    and add_keys: "lkeys (lru_Add ops k l) \<subseteq> insert k (lkeys l)"
    and new_keys: "lkeys (lru_NewLRU ops n t) = {}"

text \<open>
  A memory of signatures and signers as the verifier sees it: \<open>holds m\<close> is the set of keys it
  could answer positively.
\<close>

locale positive_memo =
  fixes lookup :: "'m \<Rightarrow> string \<Rightarrow> SignerTriple \<Rightarrow> bool \<times> 'm"
    and store :: "'m \<Rightarrow> string \<Rightarrow> SignerTriple \<Rightarrow> 'm"
    and key :: "string \<Rightarrow> SignerTriple \<Rightarrow> string"
    and holds :: "'m \<Rightarrow> string set"
  assumes lookup_hit: "fst (lookup m sig signer) \<Longrightarrow> key sig signer \<in> holds m"
    and lookup_holds: "holds (snd (lookup m sig signer)) \<subseteq> holds m"
    and store_holds: "holds (store m sig signer) \<subseteq> insert (key sig signer) (holds m)"

definition cache_holds :: "('c \<Rightarrow> string set) \<Rightarrow> 'c Cache option \<Rightarrow> string set" where
  "cache_holds lkeys ch =
     (case ch of None \<Rightarrow> {} | Some cc \<Rightarrow> (case ca_c cc of None \<Rightarrow> {} | Some l \<Rightarrow> lkeys l))"

sublocale lru_laws \<subseteq> memo: positive_memo "Lookup ops sha256" "Store ops sha256" "cacheKey sha256" "cache_holds lkeys"
  for sha256
proof
  fix m sig signer
  show "fst (Lookup ops sha256 m sig signer) \<Longrightarrow> cacheKey sha256 sig signer \<in> cache_holds lkeys m"
    using get_hit by (auto simp: Lookup_def cache_holds_def split: option.splits prod.splits if_splits)
  show "cache_holds lkeys (snd (Lookup ops sha256 m sig signer)) \<subseteq> cache_holds lkeys m"
    using get_keys [of "cacheKey sha256 sig signer"]
    by (cases m) (auto simp: Lookup_def cache_holds_def split: option.splits prod.splits if_splits, (metis snd_conv subset_eq)+)
  show "cache_holds lkeys (Store ops sha256 m sig signer) \<subseteq> insert (cacheKey sha256 sig signer) (cache_holds lkeys m)"
    using add_keys by (auto simp: Store_def cache_holds_def split: option.splits)
qed

context lru_laws
begin

lemma cache_is_memo:
  "positive_memo (Lookup ops sha256) (Store ops sha256) (cacheKey sha256) (cache_holds lkeys)"
  by unfold_locales

end

section \<open>A bounded least-recently-used list\<close>

text \<open>
  The LRU as a list, most recent first, with its capacity; a key that is read moves to the
  front and an insertion beyond the capacity evicts the last. (Expiry removes further keys
  and only shrinks the set.)
\<close>

type_synonym lru_list = "nat \<times> string list"

definition list_lru :: "lru_list lru_ops" where
  "list_lru = \<lparr>lru_NewLRU = (\<lambda>n t. (nat n, [])),
     lru_Get = (\<lambda>k (n, ks). if k \<in> set ks then (True, (n, k # remove1 k ks)) else (False, (n, ks))),
     lru_Add = (\<lambda>k (n, ks). (n, take n (k # removeAll k ks)))\<rparr>"

interpretation ll: lru_laws list_lru "\<lambda>l. set (snd l)"
proof
  fix k l
  show "fst (lru_Get list_lru k l) \<Longrightarrow> k \<in> set (snd l)"
    by (auto simp: list_lru_def split: prod.splits if_splits)
  show "set (snd (snd (lru_Get list_lru k l))) \<subseteq> set (snd l)"
    using set_remove1_subset by (auto simp: list_lru_def split: prod.splits) fast
  show "set (snd (lru_Add list_lru k l)) \<subseteq> insert k (set (snd l))"
    by (auto simp: list_lru_def split: prod.splits dest: in_set_takeD)
  show "set (snd (lru_NewLRU list_lru n t)) = {}" for n t
    by (simp add: list_lru_def)
qed

section \<open>When keys are equal\<close>

lemma byte_of_nat: "(of_char (char_of n :: char) :: nat) = n mod 256"
  by simp

lemma horner256:
  "(q::nat) = p \<Longrightarrow> n2 = p * 256 + r2 \<Longrightarrow> n1 = n2 * 256 + r1 \<Longrightarrow> n = n1 * 256 + r0 \<Longrightarrow>
     n = q * 2 ^ 24 + r2 * 2 ^ 16 + r1 * 2 ^ 8 + r0"
  by simp

lemma be32_recover:
  fixes n :: nat
  assumes "n < 2 ^ 32"
  shows "n = (n div 2 ^ 24 mod 256) * 2 ^ 24 + (n div 2 ^ 16 mod 256) * 2 ^ 16
             + (n div 2 ^ 8 mod 256) * 2 ^ 8 + n mod 256"
proof -
  have a: "n div 2 ^ 24 mod 256 = n div 2 ^ 24" using assms by (intro mod_less) (simp add: less_mult_imp_div_less)
  have b: "n div 2 ^ 16 = n div 2 ^ 24 * 256 + n div 2 ^ 16 mod 256"
    using div_mult_mod_eq [of "n div 2 ^ 16" 256] by (simp add: div_mult2_eq [symmetric])
  have c: "n div 2 ^ 8 = n div 2 ^ 16 * 256 + n div 2 ^ 8 mod 256"
    using div_mult_mod_eq [of "n div 2 ^ 8" 256] by (simp add: div_mult2_eq [symmetric])
  have d: "n = n div 2 ^ 8 * 256 + n mod 256"
    using div_mult_mod_eq [of n 256] by simp
  show ?thesis by (rule horner256 [OF a b c d])
qed

lemma writeLen_prefix_free:
  assumes "length a < 2 ^ 32" "length b < 2 ^ 32" "writeLen a @ r = writeLen b @ s"
  shows "a = b \<and> r = s"
proof -
  let ?n = "length a" and ?m = "length b"
  from assms(3) have bytes: "(char_of (?n div 2 ^ 24) :: char) = char_of (?m div 2 ^ 24)"
    "(char_of (?n div 2 ^ 16) :: char) = char_of (?m div 2 ^ 16)"
    "(char_of (?n div 2 ^ 8) :: char) = char_of (?m div 2 ^ 8)" "(char_of ?n :: char) = char_of ?m"
    and rest: "a @ r = b @ s"
    by (simp_all add: writeLen_def)
  have "?n div 2 ^ 24 mod 256 = ?m div 2 ^ 24 mod 256" "?n div 2 ^ 16 mod 256 = ?m div 2 ^ 16 mod 256"
    "?n div 2 ^ 8 mod 256 = ?m div 2 ^ 8 mod 256" "?n mod 256 = ?m mod 256"
    using bytes by (metis byte_of_nat)+
  then have "?n = ?m"
    using be32_recover [OF assms(1)] be32_recover [OF assms(2)] by metis
  with rest show ?thesis by simp
qed

definition triple_sized :: "SignerTriple \<Rightarrow> bool" where
  "triple_sized t = (length (tr_AppID t) < 2 ^ 32 \<and> length (tr_NodeID t) < 2 ^ 32 \<and> length (tr_UserID t) < 2 ^ 32)"

lemma key_preimage_inj:
  assumes "triple_sized t" "triple_sized u" "length s = length r" "key_preimage s t = key_preimage r u"
  shows "s = r \<and> t = u"
proof -
  have s: "s = r" and w1: "writeLen (tr_AppID t) @ writeLen (tr_NodeID t) @ writeLen (tr_UserID t) =
      writeLen (tr_AppID u) @ writeLen (tr_NodeID u) @ writeLen (tr_UserID u)"
    using assms(3,4) by (simp_all add: key_preimage_def)
  note sized = assms(1,2) [unfolded triple_sized_def]
  have a: "tr_AppID t = tr_AppID u \<and> writeLen (tr_NodeID t) @ writeLen (tr_UserID t) =
      writeLen (tr_NodeID u) @ writeLen (tr_UserID u)"
    using writeLen_prefix_free [OF _ _ w1] sized by blast
  then have b: "tr_NodeID t = tr_NodeID u \<and> writeLen (tr_UserID t) = writeLen (tr_UserID u)"
    using writeLen_prefix_free sized by blast
  then have "tr_UserID t = tr_UserID u"
    using writeLen_prefix_free [of "tr_UserID t" "tr_UserID u" "[]" "[]"] sized by simp
  with s a b show ?thesis by simp
qed

text \<open>
  C17 For signatures of one length the cache key separates everything it is given: if the
  hash does not collide on the two inputs, equal keys mean the same signature bytes and the
  same application, node and user, whatever bytes the three names contain (below four
  gigabytes each, the range of the length prefix).
\<close>

theorem cacheKey_separates:
  assumes "triple_sized t" "triple_sized u" "length s = length r"
    and "sha256 (key_preimage s t) = sha256 (key_preimage r u) \<Longrightarrow> key_preimage s t = key_preimage r u"
    and "cacheKey sha256 s t = cacheKey sha256 r u"
  shows "s = r \<and> t = u"
proof -
  have "sha256 (key_preimage s t) = sha256 (key_preimage r u)"
    using assms(5) by (simp add: cacheKey_def hex_inj)
  then have "key_preimage s t = key_preimage r u" by (rule assms(4))
  with key_preimage_inj [OF assms(1-3)] show ?thesis by blast
qed

theorem cacheKey_separates_witness:
  "cacheKey (\<lambda>b. b) ''s'' \<lparr>tr_AppID = ''ab'', tr_NodeID = ''cd'', tr_UserID = ''''\<rparr> \<noteq>
   cacheKey (\<lambda>b. b) ''s'' \<lparr>tr_AppID = ''abc'', tr_NodeID = ''d'', tr_UserID = ''''\<rparr>"
proof
  let ?t = "\<lparr>tr_AppID = ''ab'', tr_NodeID = ''cd'', tr_UserID = ''''\<rparr>"
  let ?u = "\<lparr>tr_AppID = ''abc'', tr_NodeID = ''d'', tr_UserID = ''''\<rparr>"
  assume "cacheKey (\<lambda>b. b) ''s'' ?t = cacheKey (\<lambda>b. b) ''s'' ?u"
  from cacheKey_separates [OF _ _ _ _ this] have "?t = ?u" by (simp add: triple_sized_def)
  then show False by simp
qed

text \<open>
  The signature itself has no length prefix, so across lengths keys do coincide, for every
  hash: the bytes of a signer's names can be moved between the signature and the user.
\<close>

lemma cacheKey_ambiguous:
  assumes "x = writeLen a @ writeLen n @ writeLen u"
  shows "cacheKey sha256 (s @ writeLen a' @ writeLen n' @ take 4 (writeLen x)) \<lparr>tr_AppID = a, tr_NodeID = n, tr_UserID = u\<rparr> =
         cacheKey sha256 s \<lparr>tr_AppID = a', tr_NodeID = n', tr_UserID = x\<rparr>"
proof -
  have "writeLen x = take 4 (writeLen x) @ x" by (simp add: writeLen_def)
  then show ?thesis using assms by (simp add: cacheKey_def key_preimage_def)
qed

end
