(* ===== verification/GMVerify.thy ===== *)
theory GMVerify
  imports GMCache Signatures Glob
begin

text \<open>
  \<open>pkg/webhook/gm/verify.go\<close>: verification of the SM2 signatures of an image. For each
  signature the loop checks the signer named in the annotations, decodes the signature
  bytes, checks that the payload claims the image's digest, and then asks the cache or the
  HSM. The registry, SM3, SHA-256, the JSON text parser and the HSM client are parameters;
  the client is a function of the call's index, since two calls need not agree.
\<close>

section \<open>Claims\<close>

definition digestString :: "reference \<Rightarrow> string" where
  "digestString ref = (case ref_Kind ref of DigestRef \<Rightarrow> ref_DigestStr ref | TagRef \<Rightarrow> '''')"

text \<open>The three nested structs of a Simple Signing payload.\<close>

definition digest_field :: "string \<Rightarrow> (string \<Rightarrow> json \<Rightarrow> string go_result) option" where
  "digest_field k = (if k = ''docker-manifest-digest'' then Some into_string else None)"

definition image_field :: "string \<Rightarrow> (string \<Rightarrow> json \<Rightarrow> string go_result) option" where
  "image_field k = (if k = ''image'' then Some (into_struct digest_field) else None)"

definition critical_field :: "string \<Rightarrow> (string \<Rightarrow> json \<Rightarrow> string go_result) option" where
  "critical_field k = (if k = ''critical'' then Some (into_struct image_field) else None)"

definition extractDockerManifestDigest :: "json_parser \<Rightarrow> string \<Rightarrow> string go_result" where
  "extractDockerManifestDigest parse payload =
     (case parse payload of
        Inl e \<Rightarrow> Err (wrap_err ''parse Simple Signing payload'' e)
      | Inr j \<Rightarrow>
          (case into_struct critical_field '''' j of
             Inl e \<Rightarrow> Err (wrap_err ''parse Simple Signing payload'' e)
           | Inr d \<Rightarrow> if d = '''' then Err ''payload missing critical.image.docker-manifest-digest'' else Ok d))"

definition verifyClaim :: "json_parser \<Rightarrow> string \<Rightarrow> string \<Rightarrow> string option" where
  "verifyClaim parse payload expectedDigest =
     (case extractDockerManifestDigest parse payload of
        Inl e \<Rightarrow> Some e
      | Inr embedded \<Rightarrow>
          if embedded \<noteq> expectedDigest
          then Some (''payload digest '' @ embedded @ '' != image digest '' @ expectedDigest @ '' (possible replay)'')
          else None)"

section \<open>The loop\<close>

record 'c gm_env =
  ge_SM3 :: "string \<Rightarrow> string"
  ge_sha256 :: "string \<Rightarrow> string"
  ge_parse :: json_parser
  ge_lru :: "'c lru_ops"
  ge_client :: "(nat \<Rightarrow> VerifyRequest \<Rightarrow> bool go_result) option"
  ge_fetch :: "reference \<Rightarrow> oci_signature list go_result"

definition expected_signer :: "WGMSignatureRef \<Rightarrow> SignerTriple" where
  "expected_signer cipGM =
     \<lparr>tr_AppID = wgs_AppID (wg_Signer cipGM), tr_NodeID = wgs_NodeID (wg_Signer cipGM),
      tr_UserID = wgs_UserID (wg_Signer cipGM)\<rparr>"

text \<open>Steps (a) to (c): the signature bytes and the payload, or the error of the first failing step.\<close>

definition gm_gate :: "json_parser \<Rightarrow> WGMSignatureRef \<Rightarrow> string \<Rightarrow> oci_signature \<Rightarrow> (string \<times> string) go_result" where
  "gm_gate parse cipGM imageDigest sig =
     (case os_Annotations sig of
        Inl e \<Rightarrow> Err (wrap_err ''read annotations'' e)
      | Inr ann \<Rightarrow>
          (case MatchSigner cipGM ann of
             Some e \<Rightarrow> Err (wrap_err ''signer mismatch'' e)
           | None \<Rightarrow>
               (let b64 = (if map_str ann SigAnnSignature = '''' then os_Base64Signature sig
                           else Ok (map_str ann SigAnnSignature))
                in case b64 of
                     Inl e \<Rightarrow> Err (''missing '' @ SigAnnSignature @ '' annotation and base64 sig'')
                   | Inr sigB64 \<Rightarrow>
                       if sigB64 = '''' then Err (''missing '' @ SigAnnSignature @ '' annotation and base64 sig'')
                       else (case base64_DecodeString sigB64 of
                               Inl e \<Rightarrow> Err (wrap_err ''decode base64 signature'' e)
                             | Inr sigBytes \<Rightarrow>
                                 (case os_Payload sig of
                                    Inl e \<Rightarrow> Err (wrap_err ''read payload'' e)
                                  | Inr payload \<Rightarrow>
                                      if imageDigest \<noteq> ''''
                                      then (case verifyClaim parse payload imageDigest of
                                              Some e \<Rightarrow> Err (wrap_err ''claim verify'' e)
                                            | None \<Rightarrow> Ok (sigBytes, payload))
                                      else Ok (sigBytes, payload))))))"

definition gm_request :: "('c, 'm) gm_env_scheme \<Rightarrow> WGMSignatureRef \<Rightarrow> string \<Rightarrow> string \<Rightarrow> VerifyRequest" where
  "gm_request env cipGM sigBytes payload =
     \<lparr>vr_URLTemplate = wg_VerifyURL cipGM, vr_TenantID = wg_TenantID cipGM,
      vr_Signer = expected_signer cipGM, vr_SM3Hash = ge_SM3 env payload,
      vr_Signature = sigBytes, vr_TimeoutMS = wg_RequestTimeoutMs cipGM\<rparr>"

record 'c gm_state =
  gv_verified :: "oci_signature list"
  gv_lastErr :: "string option"
  gv_cache :: "'c Cache option"

definition sig_err :: "nat \<Rightarrow> string \<Rightarrow> string option" where
  "sig_err i e = Some (''sig['' @ show_nat i @ ''] '' @ e)"

definition gm_step :: "'c gm_env \<Rightarrow> (nat \<Rightarrow> VerifyRequest \<Rightarrow> bool go_result) \<Rightarrow> WGMSignatureRef \<Rightarrow> string \<Rightarrow>
    'c gm_state \<Rightarrow> nat \<times> oci_signature \<Rightarrow> 'c gm_state" where
  "gm_step env client cipGM imageDigest st isig =
     (case isig of (i, sig) \<Rightarrow>
       (case gm_gate (ge_parse env) cipGM imageDigest sig of
          Inl e \<Rightarrow> st\<lparr>gv_lastErr := sig_err i e\<rparr>
        | Inr (sigBytes, payload) \<Rightarrow>
            (case Lookup (ge_lru env) (ge_sha256 env) (gv_cache st) sigBytes (expected_signer cipGM) of
               (hit, ch) \<Rightarrow>
                 if hit then st\<lparr>gv_verified := gv_verified st @ [sig], gv_cache := ch\<rparr>
                 else (case client i (gm_request env cipGM sigBytes payload) of
                         Inl e \<Rightarrow> st\<lparr>gv_lastErr := sig_err i (wrap_err ''HSM call'' e), gv_cache := ch\<rparr>
                       | Inr ok \<Rightarrow>
                           if \<not> ok then st\<lparr>gv_lastErr := sig_err i ''HSM returned not-verified'', gv_cache := ch\<rparr>
                           else st\<lparr>gv_verified := gv_verified st @ [sig],
                                   gv_cache := Store (ge_lru env) (ge_sha256 env) ch sigBytes (expected_signer cipGM)\<rparr>))))"

definition gm_loop :: "'c gm_env \<Rightarrow> (nat \<Rightarrow> VerifyRequest \<Rightarrow> bool go_result) \<Rightarrow> WGMSignatureRef \<Rightarrow> string \<Rightarrow>
    'c Cache option \<Rightarrow> oci_signature list \<Rightarrow> 'c gm_state" where
  "gm_loop env client cipGM imageDigest ch sigs =
     foldl (gm_step env client cipGM imageDigest)
       \<lparr>gv_verified = [], gv_lastErr = None, gv_cache = ch\<rparr> (indexed sigs)"

text \<open>
  \<open>Verify\<close> returns its result together with the cache, which it may have changed. A nil
  client is the packaging error the source describes.
\<close>

definition Verify :: "'c gm_env \<Rightarrow> 'c Cache option \<Rightarrow> reference \<Rightarrow> WGMSignatureRef option \<Rightarrow>
    oci_signature list go_result \<times> 'c Cache option" where
  "Verify env ch ref gm =
     (case GM_Validate gm of
        Some e \<Rightarrow> (Err (wrap_err ''CIP misconfigured'' e), ch)
      | None \<Rightarrow>
          (case ge_client env of
             None \<Rightarrow> (Err ''GM verifier: HSM Client missing from admission request context'', ch)
           | Some client \<Rightarrow>
               (case ge_fetch env ref of
                  Inl e \<Rightarrow> (Err (''fetch signatures for '' @ ref_Name ref @ '': '' @ e), ch)
                | Inr sigs \<Rightarrow>
                    if sigs = [] then (Err (''no signatures found for '' @ ref_Name ref), ch)
                    else (let st = gm_loop env client (the gm) (digestString ref) ch sigs
                          in if gv_verified st = []
                             then (case gv_lastErr st of
                                     Some e \<Rightarrow> (Err (''no GM signature verified for '' @ ref_Name ref @ ''; last error: '' @ e), gv_cache st)
                                   | None \<Rightarrow> (Err (''no GM signature verified for '' @ ref_Name ref), gv_cache st))
                             else (Ok (gv_verified st), gv_cache st)))))"

section \<open>What a verified signature guarantees\<close>

text \<open>
  The signature passed the gate and the HSM confirmed, in this call, the SM3 digest of its
  own payload.
\<close>

definition hsm_accepts :: "'c gm_env \<Rightarrow> (nat \<Rightarrow> VerifyRequest \<Rightarrow> bool go_result) \<Rightarrow> WGMSignatureRef \<Rightarrow> string \<Rightarrow>
    nat \<times> oci_signature \<Rightarrow> bool" where
  "hsm_accepts env client cipGM imageDigest isig =
     (case gm_gate (ge_parse env) cipGM imageDigest (snd isig) of
        Inl _ \<Rightarrow> False
      | Inr (sigBytes, payload) \<Rightarrow> client (fst isig) (gm_request env cipGM sigBytes payload) = Ok True)"

lemma gm_gate_Ok:
  assumes "gm_gate parse cipGM d sig = Ok (b, p)"
  shows "(\<exists>ann. os_Annotations sig = Ok ann \<and> MatchSigner cipGM ann = None) \<and> os_Payload sig = Ok p \<and>
         (d \<noteq> '''' \<longrightarrow> extractDockerManifestDigest parse p = Ok d)"
  using assms
  by (auto simp: gm_gate_def verifyClaim_def Let_def split: sum.splits option.splits if_splits)

definition cache_off :: "'c Cache option \<Rightarrow> bool" where
  "cache_off ch = (case ch of None \<Rightarrow> True | Some cc \<Rightarrow> ca_c cc = None)"

lemma Lookup_off: "cache_off ch \<Longrightarrow> Lookup ops sha ch s t = (hit, ch') \<Longrightarrow> \<not> hit \<and> cache_off ch'"
  by (auto simp: Lookup_def cache_off_def split: option.splits)

lemma Store_off: "cache_off ch \<Longrightarrow> cache_off (Store ops sha ch s t)"
  by (auto simp: Store_def cache_off_def split: option.splits)

lemma gm_step_off:
  assumes "cache_off (gv_cache st)"
  shows "cache_off (gv_cache (gm_step env client cipGM d st isig)) \<and>
         gv_verified (gm_step env client cipGM d st isig) =
           gv_verified st @ (if hsm_accepts env client cipGM d isig then [snd isig] else [])"
  using assms
  by (auto simp: gm_step_def hsm_accepts_def Store_off split: prod.splits sum.splits
      dest!: Lookup_off [OF assms])

lemma gm_foldl_off:
  "cache_off (gv_cache st) \<Longrightarrow>
   gv_verified (foldl (gm_step env client cipGM d) st xs) =
     gv_verified st @ map snd (filter (hsm_accepts env client cipGM d) xs)"
proof (induction xs arbitrary: st)
  case (Cons x xs)
  from gm_step_off [OF Cons.prems, of env client cipGM d x] Cons.IH [of "gm_step env client cipGM d st x"]
  show ?case by auto
qed simp

lemma gm_loop_off:
  assumes "cache_off ch"
  shows "gv_verified (gm_loop env client cipGM d ch fetched) = map snd (filter (hsm_accepts env client cipGM d) (indexed fetched))"
  using gm_foldl_off [of "\<lparr>gv_verified = [], gv_lastErr = None, gv_cache = ch\<rparr>"] assms by (simp add: gm_loop_def)

lemma Verify_Ok_parts:
  assumes "fst (Verify env ch ref gm) = Ok sigs"
  shows "\<exists>cipGM client fetched. gm = Some cipGM \<and> ge_client env = Some client \<and> ge_fetch env ref = Ok fetched \<and>
     sigs = gv_verified (gm_loop env client cipGM (digestString ref) ch fetched) \<and> sigs \<noteq> []"
  using assms by (cases gm) (auto simp: Verify_def GM_Validate_def Let_def split: option.splits sum.splits if_splits)

text \<open>
  C5 Without a cache (nil, or disabled by a zero capacity or lifetime) GM verification is
  exact: it succeeds precisely when the settings are complete, a client is present and the
  registry answers with signatures of which at least one is accepted by the HSM, and it then
  returns precisely the accepted ones, in order. A signature is accepted only if its
  annotations name the expected signer, its payload claims the image's digest and the HSM
  confirmed the SM3 digest of that payload.
\<close>

theorem gm_verify_exact:
  assumes "cache_off ch"
  shows "fst (Verify env ch ref gm) = Ok sigs \<longleftrightarrow>
    (\<exists>cipGM client fetched. gm = Some cipGM \<and> GM_Validate gm = None \<and> ge_client env = Some client \<and>
       ge_fetch env ref = Ok fetched \<and> sigs \<noteq> [] \<and>
       sigs = map snd (filter (hsm_accepts env client cipGM (digestString ref)) (indexed fetched)))"
proof -
  have empty: "indexed [] = []" by (simp add: indexed_def)
  show ?thesis
    by (cases gm) (auto simp: Verify_def GM_Validate_def Let_def gm_loop_off [OF assms] empty
        split: option.splits sum.splits if_splits)
qed

section \<open>With a cache\<close>

text \<open>The cache keys of the signatures the HSM confirmed among the given ones.\<close>

definition confirmed_keys :: "'c gm_env \<Rightarrow> (nat \<Rightarrow> VerifyRequest \<Rightarrow> bool go_result) \<Rightarrow> WGMSignatureRef \<Rightarrow> string \<Rightarrow>
    (nat \<times> oci_signature) list \<Rightarrow> string set" where
  "confirmed_keys env client cipGM d xs =
     {cacheKey (ge_sha256 env) b (expected_signer cipGM) | b p i s.
        (i, s) \<in> set xs \<and> gm_gate (ge_parse env) cipGM d s = Ok (b, p) \<and>
        client i (gm_request env cipGM b p) = Ok True}"

text \<open>
  What the loop maintains, relative to the keys \<open>K\<close> the cache held at the start: the cache
  holds nothing but \<open>K\<close> and confirmed keys, and every verified signature passed the gate and
  has such a key.
\<close>

definition gm_inv :: "('c Cache option \<Rightarrow> string set) \<Rightarrow> 'c gm_env \<Rightarrow> (nat \<Rightarrow> VerifyRequest \<Rightarrow> bool go_result) \<Rightarrow>
    WGMSignatureRef \<Rightarrow> string \<Rightarrow> string set \<Rightarrow> (nat \<times> oci_signature) list \<Rightarrow> 'c gm_state \<Rightarrow> bool" where
  "gm_inv holds env client cipGM d K xs st =
     (holds (gv_cache st) \<subseteq> K \<union> confirmed_keys env client cipGM d xs \<and>
      (\<forall>s \<in> set (gv_verified st). s \<in> snd ` set xs \<and>
         (\<exists>b p. gm_gate (ge_parse env) cipGM d s = Ok (b, p) \<and>
            cacheKey (ge_sha256 env) b (expected_signer cipGM) \<in> K \<union> confirmed_keys env client cipGM d xs)))"

lemma confirmed_keys_snoc:
  "confirmed_keys env client cipGM d xs \<subseteq> confirmed_keys env client cipGM d (xs @ [x])"
  by (auto simp: confirmed_keys_def)

lemma gm_inv_mono:
  assumes "gm_inv holds env client cipGM d K xs st"
    and "holds (gv_cache st') \<subseteq> K \<union> confirmed_keys env client cipGM d (xs @ [x])"
    and "gv_verified st' = gv_verified st \<or>
         (gv_verified st' = gv_verified st @ [snd x] \<and>
          (\<exists>b p. gm_gate (ge_parse env) cipGM d (snd x) = Ok (b, p) \<and>
             cacheKey (ge_sha256 env) b (expected_signer cipGM) \<in>
               K \<union> confirmed_keys env client cipGM d (xs @ [x])))"
  shows "gm_inv holds env client cipGM d K (xs @ [x]) st'"
proof -
  have "\<forall>s \<in> set (gv_verified st). s \<in> snd ` set (xs @ [x]) \<and>
         (\<exists>b p. gm_gate (ge_parse env) cipGM d s = Ok (b, p) \<and>
            cacheKey (ge_sha256 env) b (expected_signer cipGM) \<in> K \<union> confirmed_keys env client cipGM d (xs @ [x]))"
    using assms(1) confirmed_keys_snoc [of env client cipGM d xs x] unfolding gm_inv_def by fastforce
  with assms(2,3) show ?thesis unfolding gm_inv_def by auto
qed

context positive_memo
begin

text \<open>A hit or a store keeps the memory within the keys it had and the key at hand.\<close>

lemma lookup_within:
  "holds m \<subseteq> K \<Longrightarrow> lookup m sig signer = (hit, m') \<Longrightarrow>
     holds m' \<subseteq> K \<and> (hit \<longrightarrow> key sig signer \<in> K)"
  using lookup_hit [of m sig signer] lookup_holds [of m sig signer] by auto

lemma store_within: "holds m \<subseteq> K \<Longrightarrow> holds (store m sig signer) \<subseteq> insert (key sig signer) K"
  using store_holds [of m sig signer] by blast

end

lemma gm_step_inv:
  assumes "lru_laws (ge_lru env) lkeys"
    and inv: "gm_inv (cache_holds lkeys) env client cipGM d K xs st"
  shows "gm_inv (cache_holds lkeys) env client cipGM d K (xs @ [x]) (gm_step env client cipGM d st x)"
proof -
  have memo: "positive_memo (Lookup (ge_lru env) sha) (Store (ge_lru env) sha) (cacheKey sha) (cache_holds lkeys)" for sha
    by (rule lru_laws.cache_is_memo [OF assms(1)])
  note within = positive_memo.lookup_within [OF memo] positive_memo.store_within [OF memo]
  obtain i s where x: "x = (i, s)" by force
  let ?K = "K \<union> confirmed_keys env client cipGM d (xs @ [x])"
  have old: "cache_holds lkeys (gv_cache st) \<subseteq> ?K"
    using inv confirmed_keys_snoc [of env client cipGM d xs x] unfolding gm_inv_def by blast
  show ?thesis
  proof (cases "gm_gate (ge_parse env) cipGM d s")
    case (Inl e)
    then have "gm_step env client cipGM d st x = st\<lparr>gv_lastErr := sig_err i e\<rparr>" by (simp add: gm_step_def x)
    then show ?thesis by (intro gm_inv_mono [OF inv]) (use old in auto)
  next
    case (Inr bp)
    then obtain b p where gate: "gm_gate (ge_parse env) cipGM d s = Ok (b, p)" by (cases bp) auto
    obtain hit ch where look: "Lookup (ge_lru env) (ge_sha256 env) (gv_cache st) b (expected_signer cipGM) = (hit, ch)"
      by force
    note w = within(1) [OF old look]
    have conf: "client i (gm_request env cipGM b p) = Ok True \<Longrightarrow>
        cacheKey (ge_sha256 env) b (expected_signer cipGM) \<in> ?K"
      using gate x unfolding confirmed_keys_def by auto
    show ?thesis
    proof (rule gm_inv_mono [OF inv])
      show "cache_holds lkeys (gv_cache (gm_step env client cipGM d st x)) \<subseteq> ?K"
        using w conf within(2) [of ch ?K "ge_sha256 env" b "expected_signer cipGM"]
        by (auto simp: gm_step_def x gate look split: sum.splits)
      show "gv_verified (gm_step env client cipGM d st x) = gv_verified st \<or>
         (gv_verified (gm_step env client cipGM d st x) = gv_verified st @ [snd x] \<and>
          (\<exists>b p. gm_gate (ge_parse env) cipGM d (snd x) = Ok (b, p) \<and>
             cacheKey (ge_sha256 env) b (expected_signer cipGM) \<in> ?K))"
        using w conf gate by (auto simp: gm_step_def x look split: sum.splits)
    qed
  qed
qed

lemma gm_loop_inv:
  assumes "lru_laws (ge_lru env) lkeys"
  shows "gm_inv (cache_holds lkeys) env client cipGM d (cache_holds lkeys ch) (indexed sigs)
           (gm_loop env client cipGM d ch sigs)"
proof -
  have "gm_inv (cache_holds lkeys) env client cipGM d (cache_holds lkeys ch) xs
          (foldl (gm_step env client cipGM d) \<lparr>gv_verified = [], gv_lastErr = None, gv_cache = ch\<rparr> xs)" for xs
  proof (induction xs rule: rev_induct)
    case Nil
    then show ?case by (simp add: gm_inv_def)
  next
    case (snoc x xs)
    then show ?case using gm_step_inv [OF assms snoc, of x] by simp
  qed
  then show ?thesis by (simp add: gm_loop_def)
qed

lemma gm_loop_sound:
  assumes "lru_laws (ge_lru env) lkeys" "s \<in> set (gv_verified (gm_loop env client cipGM d ch fetched))"
  shows "s \<in> set fetched \<and>
       (\<exists>ann b p. os_Annotations s = Ok ann \<and> MatchSigner cipGM ann = None \<and> os_Payload s = Ok p \<and>
          (d \<noteq> '''' \<longrightarrow> extractDockerManifestDigest (ge_parse env) p = Ok d) \<and>
          gm_gate (ge_parse env) cipGM d s = Ok (b, p) \<and>
          cacheKey (ge_sha256 env) b (expected_signer cipGM) \<in>
            cache_holds lkeys ch \<union> confirmed_keys env client cipGM d (indexed fetched))"
proof -
  have "snd ` set (indexed fetched) = set fetched" by (metis list.set_map snd_indexed)
  with assms(2) gm_loop_inv [OF assms(1), of client cipGM d ch fetched]
  obtain b p where "s \<in> set fetched" "gm_gate (ge_parse env) cipGM d s = Ok (b, p)"
      "cacheKey (ge_sha256 env) b (expected_signer cipGM) \<in>
        cache_holds lkeys ch \<union> confirmed_keys env client cipGM d (indexed fetched)"
    unfolding gm_inv_def by blast
  with gm_gate_Ok [of "ge_parse env" cipGM d s b p] show ?thesis by blast
qed

text \<open>
  C8 With a cache over any LRU that only returns keys it was given: every signature
  \<open>Verify\<close> returns was fetched for the image, names the expected signer and carries a
  payload that claims the image's digest, and its cache key was either remembered before the
  call or belongs to a signature the HSM confirmed during the call; and the call adds only
  such keys to the cache, so negative answers are never remembered.
\<close>

theorem gm_verify_cached_sound:
  assumes "lru_laws (ge_lru env) lkeys"
    and "Verify env ch ref (Some cipGM) = (Ok sigs, ch')"
  shows "\<exists>client fetched. ge_client env = Some client \<and> ge_fetch env ref = Ok fetched \<and>
    (\<forall>s \<in> set sigs. s \<in> set fetched \<and>
       (\<exists>ann b p. os_Annotations s = Ok ann \<and> MatchSigner cipGM ann = None \<and> os_Payload s = Ok p \<and>
          (digestString ref \<noteq> '''' \<longrightarrow> extractDockerManifestDigest (ge_parse env) p = Ok (digestString ref)) \<and>
          gm_gate (ge_parse env) cipGM (digestString ref) s = Ok (b, p) \<and>
          cacheKey (ge_sha256 env) b (expected_signer cipGM) \<in>
            cache_holds lkeys ch \<union> confirmed_keys env client cipGM (digestString ref) (indexed fetched))) \<and>
    cache_holds lkeys ch' \<subseteq>
      cache_holds lkeys ch \<union> confirmed_keys env client cipGM (digestString ref) (indexed fetched)"
proof -
  from assms(2) obtain client fetched where c: "ge_client env = Some client" and f: "ge_fetch env ref = Ok fetched"
    and st: "sigs = gv_verified (gm_loop env client cipGM (digestString ref) ch fetched)"
      "ch' = gv_cache (gm_loop env client cipGM (digestString ref) ch fetched)"
    by (auto simp: Verify_def Let_def split: option.splits sum.splits if_splits)
  have A: "s \<in> set fetched \<and>
       (\<exists>ann b p. os_Annotations s = Ok ann \<and> MatchSigner cipGM ann = None \<and> os_Payload s = Ok p \<and>
          (digestString ref \<noteq> '''' \<longrightarrow> extractDockerManifestDigest (ge_parse env) p = Ok (digestString ref)) \<and>
          gm_gate (ge_parse env) cipGM (digestString ref) s = Ok (b, p) \<and>
          cacheKey (ge_sha256 env) b (expected_signer cipGM) \<in>
            cache_holds lkeys ch \<union> confirmed_keys env client cipGM (digestString ref) (indexed fetched))"
    if "s \<in> set sigs" for s
    using gm_loop_sound [OF assms(1)] that st(1) by blast
  have B: "cache_holds lkeys ch' \<subseteq>
      cache_holds lkeys ch \<union> confirmed_keys env client cipGM (digestString ref) (indexed fetched)"
    using gm_loop_inv [OF assms(1), of client cipGM "digestString ref" ch fetched] by (simp add: st gm_inv_def)
  from c f A B show ?thesis by blast
qed

section \<open>Sample runs\<close>

text \<open>
  Two images signed with the same signature bytes. The payloads are texts that name the
  digest they claim; the HSM confirms the first payload only. SM3 and SHA-256 are the
  identity, which has no collisions.
\<close>

definition sample_payload_json :: json_parser where
  "sample_payload_json p = Ok (JObj [(''critical'', JObj [(''image'', JObj [(''docker-manifest-digest'', JStr p)])])])"

definition sample_gm :: WGMSignatureRef where
  "sample_gm = \<lparr>wg_VerifyURL = ''https://hsm/{tenantId}'', wg_TenantID = ''t'',
     wg_Signer = \<lparr>wgs_AppID = ''app'', wgs_NodeID = ''node'', wgs_UserID = ''''\<rparr>, wg_RequestTimeoutMs = 0\<rparr>"

definition sample_sig :: "string \<Rightarrow> oci_signature" where
  "sample_sig payload = \<lparr>os_Annotations = Ok [SigAnnAlg \<mapsto> AlgorithmSM2SM3, SigAnnSignerAppID \<mapsto> ''app'',
       SigAnnSignerNodeID \<mapsto> ''node'', SigAnnSignature \<mapsto> ''AQID''],
     os_Payload = Ok payload, os_Base64Signature = Ok ''AQID'', os_Signature = Ok ''AQID'', os_Cert = Ok None,
     os_Digest = Ok ''''\<rparr>"

definition sample_ref :: "string \<Rightarrow> reference" where
  "sample_ref d = \<lparr>ref_Name = ''img@'' @ d, ref_String = ''img@'' @ d, ref_Kind = DigestRef, ref_DigestStr = d,
                   ref_Context = ''img''\<rparr>"

definition sample_gm_env :: "lru_list gm_env" where
  "sample_gm_env = \<lparr>ge_SM3 = (\<lambda>p. p), ge_sha256 = (\<lambda>p. p), ge_parse = sample_payload_json, ge_lru = list_lru,
     ge_client = Some (\<lambda>i req. Ok (vr_SM3Hash req = ''sha256:a'')),
     ge_fetch = (\<lambda>ref. Ok [sample_sig (ref_DigestStr ref)])\<rparr>"

definition sample_cache :: "lru_list Cache option" where
  "sample_cache = Some (NewCache list_lru 8 30)"

lemmas sample_gm_defs = sample_payload_json_def sample_gm_def sample_sig_def sample_ref_def
  sample_gm_env_def sample_cache_def

lemma foldName_samples:
  "foldName ''critical'' = ''critical''" "foldName ''image'' = ''image''"
  "foldName ''docker-manifest-digest'' = ''docker-manifest-digest''"
  by code_simp+

lemma sample_digest: "d \<noteq> '''' \<Longrightarrow> extractDockerManifestDigest sample_payload_json d = Ok d"
  by (simp add: extractDockerManifestDigest_def sample_payload_json_def into_struct_def critical_field_def
      image_field_def digest_field_def foldName_samples)

lemma sample_bytes: "base64_DecodeString ''AQID'' = Ok [CHR 0x01, CHR 0x02, CHR 0x03]"
  by code_simp

lemma sample_gate:
  "d \<noteq> '''' \<Longrightarrow> gm_gate sample_payload_json sample_gm d (sample_sig d) = Ok ([CHR 0x01, CHR 0x02, CHR 0x03], d)"
  by (simp add: gm_gate_def sample_sig_def MatchSigner_def map_str_def gm_annotation_defs sample_gm_def
      sample_bytes verifyClaim_def sample_digest)

lemma sample_gm_env_fields [simp]:
  "ge_SM3 sample_gm_env p = p" "ge_sha256 sample_gm_env = (\<lambda>p. p)" "ge_parse sample_gm_env = sample_payload_json"
  "ge_lru sample_gm_env = list_lru" "ge_client sample_gm_env = Some (\<lambda>i req. Ok (vr_SM3Hash req = ''sha256:a''))"
  "ge_fetch sample_gm_env ref = Ok [sample_sig (ref_DigestStr ref)]"
  "GM_Validate (Some sample_gm) = None" "digestString (sample_ref d) = d" "ref_DigestStr (sample_ref d) = d"
  by (simp_all add: sample_gm_env_def GM_Validate_def sample_gm_def digestString_def sample_ref_def)

lemma sample_indexed [simp]: "indexed [s] = [(0, s)]"
  by (simp add: indexed_def)

text \<open>The HSM confirms the first image; the cache remembers the signature bytes.\<close>

lemma sample_first_run:
  "Verify sample_gm_env sample_cache (sample_ref ''sha256:a'') (Some sample_gm) =
     (Ok [sample_sig ''sha256:a''],
      Some \<lparr>ca_c = Some (8, [cacheKey (\<lambda>p. p) [CHR 0x01, CHR 0x02, CHR 0x03] (expected_signer sample_gm)]),
            ca_hits = 0, ca_misses = 1\<rparr>)"
  by (simp add: Verify_def Let_def gm_loop_def gm_step_def sample_gate gm_request_def Lookup_def Store_def
      sample_cache_def NewCache_def list_lru_def)

text \<open>
  The remembered answer is about another payload: an image whose payload the HSM does not
  confirm is rejected without a cache, and accepted after the first run because its
  signature bytes are the ones remembered. The key does not cover the payload.
\<close>

lemma gm_cache_replay:
  "(let ch = snd (Verify sample_gm_env sample_cache (sample_ref ''sha256:a'') (Some sample_gm))
    in fst (Verify sample_gm_env ch (sample_ref ''sha256:b'') (Some sample_gm)) = Ok [sample_sig ''sha256:b'']) \<and>
   \<not> is_ok (fst (Verify sample_gm_env None (sample_ref ''sha256:b'') (Some sample_gm)))"
proof
  show "let ch = snd (Verify sample_gm_env sample_cache (sample_ref ''sha256:a'') (Some sample_gm))
    in fst (Verify sample_gm_env ch (sample_ref ''sha256:b'') (Some sample_gm)) = Ok [sample_sig ''sha256:b'']"
    by (simp add: sample_first_run)
       (simp add: Verify_def Let_def gm_loop_def gm_step_def sample_gate Lookup_def list_lru_def)
  show "\<not> is_ok (fst (Verify sample_gm_env None (sample_ref ''sha256:b'') (Some sample_gm)))"
    by (simp add: Verify_def Let_def gm_loop_def gm_step_def sample_gate gm_request_def Lookup_def sig_err_def)
qed

theorem gm_verify_exact_witness:
  "[sample_sig ''sha256:a''] = map snd (filter (hsm_accepts sample_gm_env
      (\<lambda>i req. Ok (vr_SM3Hash req = ''sha256:a'')) sample_gm ''sha256:a'') (indexed [sample_sig ''sha256:a'']))"
proof -
  have run: "fst (Verify sample_gm_env None (sample_ref ''sha256:a'') (Some sample_gm)) = Ok [sample_sig ''sha256:a'']"
    by (simp add: Verify_def Let_def gm_loop_def gm_step_def sample_gate gm_request_def Lookup_def Store_def)
  have off: "cache_off (None :: lru_list Cache option)" by (simp add: cache_off_def)
  note run_exact = iffD1 [OF gm_verify_exact [OF off] run]
  show ?thesis
    using run_exact by (elim exE conjE) (simp only: sample_gm_env_fields option.inject sum.inject)
qed

theorem gm_verify_cached_sound_witness:
  "\<exists>ann b p. os_Annotations (sample_sig ''sha256:a'') = Ok ann \<and> MatchSigner sample_gm ann = None \<and>
     os_Payload (sample_sig ''sha256:a'') = Ok p \<and>
     extractDockerManifestDigest sample_payload_json p = Ok ''sha256:a''"
proof -
  let ?s = "sample_sig ''sha256:a''"
  have mem: "?s \<in> set [?s]" by simp
  from gm_verify_cached_sound [OF ll.lru_laws_axioms [folded sample_gm_env_fields(4)] sample_first_run]
  obtain ann p where "os_Annotations ?s = Ok ann" "MatchSigner sample_gm ann = None" "os_Payload ?s = Ok p"
    "digestString (sample_ref ''sha256:a'') \<noteq> '''' \<longrightarrow>
       extractDockerManifestDigest (ge_parse sample_gm_env) p = Ok (digestString (sample_ref ''sha256:a''))"
    using mem by blast
  then show ?thesis unfolding sample_gm_env_fields by blast
qed

end
