(* ===== verification/Verification.thy ===== *)
theory Verification
  imports SigstoreConfig ImagePolicies GMVerify
begin

text \<open>
  \<open>pkg/webhook/validation.go\<close> and the verification half of \<open>pkg/webhook/validator.go\<close>: how an
  authority's settings become the options cosign verifies with, and how the signatures or
  attestations of an image are checked against one authority. Cosign, the Fulcio and Rekor
  clients, the registry and the policy evaluator are fields of \<open>verify_env\<close>; what they get
  and what is made of their answers is the program's.
\<close>

section \<open>Options and environment\<close>

type_synonym tlog_keys = "(string \<times> pubkey option) list"

datatype claim_verifier = NoClaimVerifier | SimpleClaimVerifier | IntotoSubjectClaimVerifier

record check_opts =
  co_RegistryClientOpts :: "remote_opt list"
  co_NewBundleFormat :: bool
  co_ExperimentalOCI11 :: bool
  co_Identities :: "Identity list"
  co_TrustedMaterial :: "pb_TrustedRoot option"
  co_IgnoreSCT :: bool
  co_UseSignedTimestamps :: bool
  co_IgnoreTlog :: bool
  co_Offline :: bool
  co_RootCerts :: "certificate list option"
  co_IntermediateCerts :: "certificate list option"
  co_CTLogPubKeys :: "tlog_keys option"
  co_RekorClient :: "string option"
  co_RekorPubKeys :: "tlog_keys option"
  co_TSACertificate :: "certificate option"
  co_TSAIntermediateCertificates :: "certificate list"
  co_TSARootCertificates :: "certificate list"
  co_SigVerifier :: "(pubkey option \<times> crypto_hash) option"
  co_ClaimVerifier :: claim_verifier

text \<open>\<open>config.Config\<close>: the two configurations the webhook's store attaches to a request.\<close>

record webhook_config =
  wcf_ImagePolicyConfig :: "ImagePolicyConfig option"
  wcf_SigstoreKeysConfig :: "SigstoreKeysMap option"

record 'c verify_env =
  ve_Config :: "webhook_config option"
  ve_PCConfig :: "PolicyControllerConfig option"
  ve_x :: externals
  ve_certs :: "string \<Rightarrow> certificate list go_result"
  ve_FulcioRoots :: "certificate list go_result"
  ve_FulcioIntermediates :: "certificate list go_result"
  ve_GetCTLogPubs :: "tlog_keys go_result"
  ve_GetRekorPubs :: "tlog_keys go_result"
  ve_GetRekorClient_err :: "string \<Rightarrow> string option"
  ve_NewTrustedRoot_err :: "pb_TrustedRoot \<Rightarrow> string option"
  ve_GetTrustedRoot :: "pb_TrustedRoot go_result"
  ve_LoadVerifier_err :: "pubkey option \<Rightarrow> crypto_hash \<Rightarrow> string option"
  ve_VerifyImageSignatures :: "reference \<Rightarrow> check_opts \<Rightarrow> oci_signature list go_result"
  ve_VerifyImageAttestations :: "reference \<Rightarrow> check_opts \<Rightarrow> oci_signature list go_result"
  ve_ParseReference :: ref_parser
  ve_ResolveDigest :: "reference \<Rightarrow> remote_opt list \<Rightarrow> reference go_result"
  ve_Referrers :: "reference \<Rightarrow> remote_opt list \<Rightarrow> (string \<times> string) list go_result"
  ve_SignedImageLayers :: "reference \<Rightarrow> remote_opt list \<Rightarrow> string go_result list go_result go_result"
  ve_json :: json_parser
  ve_json_Marshal :: "json \<Rightarrow> string"
  ve_NewSignature :: "string \<Rightarrow> string \<Rightarrow> oci_signature go_result"
  ve_sha256 :: "string \<Rightarrow> string"
  ve_AttestationToPayloadJSON :: "string \<Rightarrow> oci_signature \<Rightarrow> string option \<times> string \<times> string option"
  ve_EvaluatePolicy :: "string \<Rightarrow> string \<Rightarrow> string \<Rightarrow> string \<Rightarrow> string option \<times> string option"
  ve_gm :: "'c gm_env"
  ve_gm_cache :: "'c Cache option"
  ve_keychain_err :: "string \<Rightarrow> string list \<Rightarrow> string option"

section \<open>Keys and certificates of an authority\<close>

definition sigstoreKeysFromContext :: "'c verify_env \<Rightarrow> string \<Rightarrow> SigstoreKeysMap go_result" where
  "sigstoreKeysFromContext env trustRootRef =
     (case ve_Config env of
        None \<Rightarrow> Err (''trustRootRef '' @ trustRootRef @ '' not found, config missing'')
      | Some c \<Rightarrow>
          (case wcf_SigstoreKeysConfig c of
             None \<Rightarrow> Err (''trustRootRef '' @ trustRootRef @ '' not found, SigstoreKeys missing'')
           | Some m \<Rightarrow> Ok m))"

text \<open>The map entry named by a \<open>trustRootRef\<close>.\<close>

definition trust_root :: "SigstoreKeysMap \<Rightarrow> string \<Rightarrow> pb_TrustedRoot go_result" where
  "trust_root m r = (case m r of None \<Rightarrow> Err (''trustRootRef '' @ r @ '' not found'') | Some sk \<Rightarrow> Ok sk)"

definition log_key :: "externals \<Rightarrow> nat \<times> pb_TransparencyLogInstance \<Rightarrow> (string \<times> pubkey option) go_result" where
  "log_key x il =
     (case x_UnmarshalPEMToPublicKey x (SerializePublicKey (pt_PublicKey (snd il))) of
        Inl e \<Rightarrow> Err (''unmarshaling public key '' @ show_nat (fst il) @ '' failed: '' @ e)
      | Inr pk \<Rightarrow> Ok (pt_KeyId (snd il), pk))"

definition key_map :: "(string \<times> pubkey option) list \<Rightarrow> tlog_keys" where
  "key_map kvs = foldl (\<lambda>m kv. map_assign (fst kv) (snd kv) m) [] kvs"

definition fulcioCertsFromAuthority :: "'c verify_env \<Rightarrow> WKeylessRef \<Rightarrow>
    (certificate list \<times> certificate list \<times> tlog_keys option) go_result" where
  "fulcioCertsFromAuthority env kl =
     (if wl_TrustRootRef kl = '''' then
        (case ve_FulcioRoots env of
           Inl e \<Rightarrow> Err (wrap_err ''failed to fetch Fulcio roots'' e)
         | Inr roots \<Rightarrow>
             (case ve_FulcioIntermediates env of
                Inl e \<Rightarrow> Err (wrap_err ''failed to fetch Fulcio intermediates'' e)
              | Inr ints \<Rightarrow>
                  (case ve_GetCTLogPubs env of
                     Inl e \<Rightarrow> Err (wrap_err ''failed to fetch CTLog public keys'' e)
                   | Inr ctPubs \<Rightarrow> Ok (roots, ints, Some ctPubs))))
      else
        (case sigstoreKeysFromContext env (wl_TrustRootRef kl) of
           Inl e \<Rightarrow> Err (wrap_err ''getting SigstoreKeys'' e)
         | Inr m \<Rightarrow>
             (case trust_root m (wl_TrustRootRef kl) of
                Inl e \<Rightarrow> Err e
              | Inr sk \<Rightarrow>
                  (case mapM (\<lambda>ca. ve_certs env (SerializeCertChain (pc_CertChain ca))) (pr_CertificateAuthorities sk) of
                     Inl e \<Rightarrow> Err (wrap_err ''error unmarshalling certificates'' e)
                   | Inr css \<Rightarrow>
                       (case mapM (log_key (ve_x env)) (indexed (pr_Ctlogs sk)) of
                          Inl e \<Rightarrow> Err e
                        | Inr kvs \<Rightarrow>
                            Ok (filter (\<lambda>c. ct_RawSubject c = ct_RawIssuer c) (concat css),
                                filter (\<lambda>c. ct_RawSubject c \<noteq> ct_RawIssuer c) (concat css),
                                if key_map kvs = [] then None else Some (key_map kvs)))))))"

definition ecdsa_log_key :: "externals \<Rightarrow> nat \<times> pb_TransparencyLogInstance \<Rightarrow> (string \<times> pubkey option) go_result" where
  "ecdsa_log_key x il =
     (case log_key x il of
        Inl e \<Rightarrow> Err e
      | Inr (k, pk) \<Rightarrow>
          (case pk of
             Some (EcdsaKey c raw) \<Rightarrow> Ok (k, pk)
           | _ \<Rightarrow> Err (''public key '' @ show_nat (fst il) @ '' is not ecdsa.PublicKey'')))"

definition rekorKeysFromTrustRef :: "'c verify_env \<Rightarrow> string \<Rightarrow> (tlog_keys \<times> string) go_result" where
  "rekorKeysFromTrustRef env trustRootRef =
     (case sigstoreKeysFromContext env trustRootRef of
        Inl e \<Rightarrow> Err (wrap_err ''getting SigstoreKeys'' e)
      | Inr m \<Rightarrow>
          (case trust_root m trustRootRef of
             Inl e \<Rightarrow> Err e
           | Inr sk \<Rightarrow>
               (case mapM (ecdsa_log_key (ve_x env)) (indexed (pr_Tlogs sk)) of
                  Inl e \<Rightarrow> Err e
                | Inr kvs \<Rightarrow> Ok (key_map kvs, if pr_Tlogs sk = [] then '''' else pt_BaseUrl (last (pr_Tlogs sk))))))"

definition rekorClientAndKeysFromAuthority :: "'c verify_env \<Rightarrow> WAuthority \<Rightarrow>
    (string option \<times> tlog_keys option) go_result" where
  "rekorClientAndKeysFromAuthority env a =
     (let pubs = (case ve_GetRekorPubs env of Inl e \<Rightarrow> Err (wrap_err ''getting Rekor public keys'' e) | Inr k \<Rightarrow> Ok k)
      in if (case wa_Keyless a of Some kl \<Rightarrow> wl_TrustRootRef kl = '''' | None \<Rightarrow> False) \<and> wa_CTLog a = None
         then (case pubs of Inl e \<Rightarrow> Err e | Inr k \<Rightarrow> Ok (None, Some k))
         else (case wa_CTLog a of
                 None \<Rightarrow> Ok (None, None)
               | Some tlog \<Rightarrow>
                   if tl_TrustRootRef tlog \<noteq> '''' then
                     (case rekorKeysFromTrustRef env (tl_TrustRootRef tlog) of
                        Inl e \<Rightarrow> Err (wrap_err ''fetching keys for trustRootRef'' e)
                      | Inr (keys, url) \<Rightarrow>
                          (let rekorURL = (case tl_URL tlog of Some u \<Rightarrow> if url = '''' then u else url | None \<Rightarrow> url)
                           in case ve_GetRekorClient_err env rekorURL of
                                Some e \<Rightarrow> Err (wrap_err ''creating Rekor client'' e)
                              | None \<Rightarrow> Ok (Some rekorURL, Some keys)))
                   else (case tl_URL tlog of
                           None \<Rightarrow> Ok (None, None)
                         | Some u \<Rightarrow>
                             (case ve_GetRekorClient_err env u of
                                Some e \<Rightarrow> Err (wrap_err ''creating Rekor client'' e)
                              | None \<Rightarrow> (case pubs of Inl e \<Rightarrow> Err e | Inr k \<Rightarrow> Ok (Some u, Some k))))))"

definition splitPEMCertificateChain :: "(string \<Rightarrow> certificate list go_result) \<Rightarrow> string \<Rightarrow>
    (certificate list \<times> certificate list \<times> certificate list) go_result" where
  "splitPEMCertificateChain unmarshalCerts pem =
     (case unmarshalCerts pem of
        Inl e \<Rightarrow> Err e
      | Inr certs \<Rightarrow>
          Ok (filter (\<lambda>c. \<not> ct_IsCA c) certs,
              filter (\<lambda>c. ct_IsCA c \<and> ct_RawSubject c \<noteq> ct_RawIssuer c) certs,
              filter (\<lambda>c. ct_IsCA c \<and> ct_RawSubject c = ct_RawIssuer c) certs))"

text \<open>The loop over the timestamp authorities: a later one replaces the chain of an earlier one.\<close>

fun tsa_loop :: "'c verify_env \<Rightarrow> pb_CertificateAuthority list \<Rightarrow> check_opts \<Rightarrow> check_opts go_result" where
  "tsa_loop env [] ret = Ok ret"
| "tsa_loop env (t # ts) ret =
     (case splitPEMCertificateChain (ve_certs env) (SerializeCertChain (pc_CertChain t)) of
        Inl e \<Rightarrow> Err (wrap_err ''error splitting certificates'' e)
      | Inr (leaves, intermediates, roots) \<Rightarrow>
          if length leaves > 1 then Err ''certificate chain must contain at most one TSA certificate''
          else tsa_loop env ts
                 (ret\<lparr>co_TSACertificate := (case leaves of [l] \<Rightarrow> Some l | _ \<Rightarrow> co_TSACertificate ret),
                      co_TSAIntermediateCertificates := intermediates,
                      co_TSARootCertificates := roots\<rparr>))"

definition base_opts :: "'c verify_env \<Rightarrow> WAuthority \<Rightarrow> remote_opt list \<Rightarrow> check_opts" where
  "base_opts env a remoteOpts =
     \<lparr>co_RegistryClientOpts = remoteOpts,
      co_NewBundleFormat = (wa_SignatureFormat a = ''bundle''),
      co_ExperimentalOCI11 = pcc_EnableOCI11 (FromContextOrDefaults (ve_PCConfig env)),
      co_Identities = (case wa_Keyless a of None \<Rightarrow> [] | Some kl \<Rightarrow> wl_Identities kl),
      co_TrustedMaterial = None, co_IgnoreSCT = False, co_UseSignedTimestamps = False,
      co_IgnoreTlog = False, co_Offline = False, co_RootCerts = None, co_IntermediateCerts = None,
      co_CTLogPubKeys = None, co_RekorClient = None, co_RekorPubKeys = None,
      co_TSACertificate = None, co_TSAIntermediateCertificates = [], co_TSARootCertificates = [],
      co_SigVerifier = None, co_ClaimVerifier = NoClaimVerifier\<rparr>"

text \<open>The branch for the bundle format, given the options built so far.\<close>

definition bundle_opts :: "'c verify_env \<Rightarrow> WAuthority \<Rightarrow> check_opts \<Rightarrow> check_opts go_result" where
  "bundle_opts env a ret =
     (case wa_Keyless a of
        None \<Rightarrow> Err ''when using the new bundle format, the authority must be keyless''
      | Some kl \<Rightarrow>
          (let material =
             (if wl_TrustRootRef kl \<noteq> '''' then
                (case sigstoreKeysFromContext env (wl_TrustRootRef kl) of
                   Inl e \<Rightarrow> Err (wrap_err ''getting SigstoreKeys'' e)
                 | Inr m \<Rightarrow>
                     (case trust_root m (wl_TrustRootRef kl) of
                        Inl e \<Rightarrow> Err e
                      | Inr sk \<Rightarrow>
                          (case ve_NewTrustedRoot_err env sk of
                             Some e \<Rightarrow> Err (wrap_err ''failed to create trusted root from protobuf'' e)
                           | None \<Rightarrow> Ok sk)))
              else (case ve_GetTrustedRoot env of
                      Inl e \<Rightarrow> Err (wrap_err ''failed to fetch trusted root'' e) | Inr tm \<Rightarrow> Ok tm))
           in case material of
                Inl e \<Rightarrow> Err e
              | Inr tm \<Rightarrow>
                  (let ret1 = ret\<lparr>co_TrustedMaterial := Some tm,
                                  co_IgnoreSCT := (wl_InsecureIgnoreSCT kl = Some True)\<rparr>;
                       tsa_bad = (case wa_RFC3161Timestamp a of None \<Rightarrow> False
                                  | Some t \<Rightarrow> wt_TrustRootRef t \<noteq> wl_TrustRootRef kl);
                       ret2 = (if wa_RFC3161Timestamp a \<noteq> None
                               then ret1\<lparr>co_UseSignedTimestamps := True, co_IgnoreTlog := True\<rparr> else ret1);
                       log_bad = (case wa_CTLog a of None \<Rightarrow> False
                                  | Some l \<Rightarrow> tl_TrustRootRef l \<noteq> wl_TrustRootRef kl)
                   in if tsa_bad then Err ''when using the new bundle format, the trustRootRef for the TSA must be the same as the trustRootRef for the Keyless authority''
                      else if log_bad then Err ''when using the new bundle format, the trustRootRef for the TLog must be the same as the trustRootRef for the Keyless authority''
                      else if wa_CTLog a \<noteq> None \<and> co_UseSignedTimestamps ret2
                      then Ok (ret2\<lparr>co_IgnoreTlog := True\<rparr>)
                      else Ok ret2)))"

text \<open>
  The branch for the older format, in three parts: the Fulcio certificates, the Rekor client
  and keys, and the timestamp authority.
\<close>

definition fulcio_opts :: "'c verify_env \<Rightarrow> WAuthority \<Rightarrow> check_opts \<Rightarrow> check_opts go_result" where
  "fulcio_opts env a ret =
     (case wa_Keyless a of
        None \<Rightarrow> Ok ret
      | Some kl \<Rightarrow>
          (case fulcioCertsFromAuthority env kl of
             Inl e \<Rightarrow> Err (''getting Fulcio certs: '' @ wa_Name a @ '': '' @ e)
           | Inr (roots, ints, ctlogKeys) \<Rightarrow>
               Ok (ret\<lparr>co_RootCerts := Some roots, co_IntermediateCerts := Some ints,
                       co_CTLogPubKeys := ctlogKeys,
                       co_IgnoreSCT := (wl_InsecureIgnoreSCT kl = Some True)\<rparr>)))"

definition rekor_opts :: "'c verify_env \<Rightarrow> WAuthority \<Rightarrow> check_opts \<Rightarrow> check_opts go_result" where
  "rekor_opts env a ret =
     (case rekorClientAndKeysFromAuthority env a of
        Inl e \<Rightarrow> Err (''getting Rekor public keys: '' @ wa_Name a @ '': '' @ e)
      | Inr (client, keys) \<Rightarrow>
          (let ret1 = ret\<lparr>co_RekorClient := client, co_RekorPubKeys := keys\<rparr>
           in if client = None
              then (if keys \<noteq> None then Ok (ret1\<lparr>co_Offline := True\<rparr>) else Ok (ret1\<lparr>co_IgnoreTlog := True\<rparr>))
              else Ok ret1))"

definition tsa_opts :: "'c verify_env \<Rightarrow> WAuthority \<Rightarrow> check_opts \<Rightarrow> check_opts go_result" where
  "tsa_opts env a ret =
     (case wa_RFC3161Timestamp a of
        None \<Rightarrow> Ok ret
      | Some t \<Rightarrow>
          if wt_TrustRootRef t = '''' then Ok ret
          else (case sigstoreKeysFromContext env (wt_TrustRootRef t) of
                  Inl e \<Rightarrow> Err e
                | Inr m \<Rightarrow>
                    (case trust_root m (wt_TrustRootRef t) of
                       Inl e \<Rightarrow> Err e
                     | Inr sk \<Rightarrow>
                         tsa_loop env (pr_TimestampAuthorities sk)
                           (ret\<lparr>co_IgnoreTlog := True, co_UseSignedTimestamps := True\<rparr>))))"

definition checkOptsFromAuthority :: "'c verify_env \<Rightarrow> WAuthority \<Rightarrow> remote_opt list \<Rightarrow> check_opts go_result" where
  "checkOptsFromAuthority env a remoteOpts =
     (let ret = base_opts env a remoteOpts
      in if co_NewBundleFormat ret then bundle_opts env a ret
         else (case fulcio_opts env a ret of
                 Inl e \<Rightarrow> Err e
               | Inr ret1 \<Rightarrow>
                   (case rekor_opts env a ret1 of
                      Inl e \<Rightarrow> Err e
                    | Inr ret2 \<Rightarrow> tsa_opts env a ret2)))"

section \<open>Signatures and attestations\<close>

definition validSignatures :: "'c verify_env \<Rightarrow> reference \<Rightarrow> check_opts \<Rightarrow> oci_signature list go_result" where
  "validSignatures env ref checkOpts =
     ve_VerifyImageSignatures env ref (checkOpts\<lparr>co_ClaimVerifier := SimpleClaimVerifier\<rparr>)"

fun valid_keys :: "'c verify_env \<Rightarrow> reference \<Rightarrow> crypto_hash \<Rightarrow> check_opts \<Rightarrow> pubkey option list \<Rightarrow> string option \<Rightarrow>
    oci_signature list go_result" where
  "valid_keys env ref hashAlgo checkOpts [] lastErr = (case lastErr of None \<Rightarrow> Ok [] | Some e \<Rightarrow> Err e)"
| "valid_keys env ref hashAlgo checkOpts (k # ks) lastErr =
     (case ve_LoadVerifier_err env k hashAlgo of
        Some e \<Rightarrow> valid_keys env ref hashAlgo checkOpts ks (Some e)
      | None \<Rightarrow>
          (case validSignatures env ref (checkOpts\<lparr>co_SigVerifier := Some (k, hashAlgo)\<rparr>) of
             Inl e \<Rightarrow> valid_keys env ref hashAlgo (checkOpts\<lparr>co_SigVerifier := Some (k, hashAlgo)\<rparr>) ks (Some e)
           | Inr sps \<Rightarrow> Ok sps))"

definition valid :: "'c verify_env \<Rightarrow> reference \<Rightarrow> pubkey option list \<Rightarrow> crypto_hash \<Rightarrow> check_opts \<Rightarrow>
    oci_signature list go_result" where
  "valid env ref keys hashAlgo checkOpts =
     (if keys = [] then validSignatures env ref checkOpts
      else valid_keys env ref hashAlgo checkOpts keys None)"

text \<open>
  An attestation artifact of the OCI 1.1 referrers: the first layer is read as a DSSE
  envelope, and every signature in it becomes a signature object over the envelope's
  payload. Nothing is verified here.
\<close>

record dsse_envelope =
  de_Payload :: string
  de_Sigs :: "string list"

definition sig_field :: "string \<Rightarrow> (string \<Rightarrow> json \<Rightarrow> string go_result) option" where
  "sig_field k = (if k = ''sig'' then Some into_string else None)"

definition envelope_field :: "string \<Rightarrow> (dsse_envelope \<Rightarrow> json \<Rightarrow> dsse_envelope go_result) option" where
  "envelope_field k =
     (if k = ''payload'' then Some (\<lambda>d v. case into_string (de_Payload d) v of
                                     Inl e \<Rightarrow> Err e | Inr s \<Rightarrow> Ok (d\<lparr>de_Payload := s\<rparr>))
      else if k = ''signatures'' then Some (\<lambda>d v. case v of
            JArr vs \<Rightarrow> (case mapM (into_struct sig_field '''') vs of
                          Inl e \<Rightarrow> Err e | Inr ss \<Rightarrow> Ok (d\<lparr>de_Sigs := ss\<rparr>))
          | _ \<Rightarrow> type_mismatch)
      else None)"

fun ok_values :: "'a go_result list \<Rightarrow> 'a list" where
  "ok_values [] = []"
| "ok_values (r # rs) = (case r of Inl _ \<Rightarrow> ok_values rs | Inr x \<Rightarrow> x # ok_values rs)"

definition processAttestationArtifact :: "'c verify_env \<Rightarrow> string \<Rightarrow> string \<Rightarrow> remote_opt list \<Rightarrow>
    oci_signature list go_result" where
  "processAttestationArtifact env digest repository registryOpts =
     (case ve_ParseReference env (repository @ ''@'' @ digest) of
        Inl e \<Rightarrow> Err e
      | Inr attRef \<Rightarrow>
          (case ve_SignedImageLayers env attRef registryOpts of
             Inl e \<Rightarrow> Err e
           | Inr (Inl e) \<Rightarrow> Err ''no layers found''
           | Inr (Inr []) \<Rightarrow> Err ''no layers found''
           | Inr (Inr (Inl e # _)) \<Rightarrow> Err e
           | Inr (Inr (Inr layer # _)) \<Rightarrow>
               (case ve_json env layer of
                  Inl e \<Rightarrow> Err e
                | Inr j \<Rightarrow>
                    (case into_struct envelope_field \<lparr>de_Payload = '''', de_Sigs = []\<rparr> j of
                       Inl e \<Rightarrow> Err e
                     | Inr env' \<Rightarrow>
                         Ok (ok_values (map (ve_NewSignature env
                               (ve_json_Marshal env (JObj [(''payload'', JStr (de_Payload env'))]))) (de_Sigs env')))))))"

definition discoverAttestationsOCI11 :: "'c verify_env \<Rightarrow> reference \<Rightarrow> check_opts \<Rightarrow> oci_signature list go_result" where
  "discoverAttestationsOCI11 env ref checkOpts =
     (case ve_ResolveDigest env ref (co_RegistryClientOpts checkOpts) of
        Inl e \<Rightarrow> Err e
      | Inr digest \<Rightarrow>
          (case ve_Referrers env digest (co_RegistryClientOpts checkOpts) of
             Inl e \<Rightarrow> Err e
           | Inr manifests \<Rightarrow>
               (let allSigs = concat (ok_values (map
                      (\<lambda>m. processAttestationArtifact env (snd m) (ref_Context digest) (co_RegistryClientOpts checkOpts))
                      (filter (\<lambda>m. str_contains (fst m) ''in-toto'') manifests)))
                in if allSigs = [] then Err ''no attestations found'' else Ok allSigs)))"

definition validAttestations :: "'c verify_env \<Rightarrow> reference \<Rightarrow> check_opts \<Rightarrow> oci_signature list go_result" where
  "validAttestations env ref checkOpts =
     (let verify = ve_VerifyImageAttestations env ref (checkOpts\<lparr>co_ClaimVerifier := IntotoSubjectClaimVerifier\<rparr>)
      in if pcc_EnableOCI11 (FromContextOrDefaults (ve_PCConfig env))
         then (case discoverAttestationsOCI11 env ref checkOpts of Inr atts \<Rightarrow> Ok atts | Inl _ \<Rightarrow> verify)
         else verify)"

section \<open>One authority\<close>

definition ValidatePolicySignaturesForAuthority :: "'c verify_env \<Rightarrow> reference \<Rightarrow> WAuthority \<Rightarrow> remote_opt list \<Rightarrow>
    PolicySignature list go_result" where
  "ValidatePolicySignaturesForAuthority env ref a remoteOpts =
     (let failed = (\<lambda>what e. Err (what @ '' validation failed for authority '' @ wa_Name a @ '' for '' @ ref_Name ref @ '': '' @ e));
          convert = ociSignatureToPolicySignature (ve_sha256 env)
      in case checkOptsFromAuthority env a remoteOpts of
           Inl e \<Rightarrow> Err (''constructing checkOpts for '' @ wa_Name a @ '': '' @ e)
         | Inr checkOpts \<Rightarrow>
             (case wa_Key a of
                Some key \<Rightarrow>
                  if wk_PublicKeys key = [] then Err (''there are no public keys for authority '' @ wa_Name a)
                  else (case valid env ref (wk_PublicKeys key) (wk_HashAlgorithmCode key) checkOpts of
                          Inl e \<Rightarrow> failed ''signature key'' e | Inr sps \<Rightarrow> Ok (convert sps))
              | None \<Rightarrow>
                  (case wa_Keyless a of
                     Some kl \<Rightarrow>
                       if wl_URL kl \<noteq> None
                       then (case validSignatures env ref checkOpts of
                               Inl e \<Rightarrow> failed ''signature keyless'' e | Inr sps \<Rightarrow> Ok (convert sps))
                       else Err ''no Keyless URL specified''
                   | None \<Rightarrow>
                       if wa_RFC3161Timestamp a \<noteq> None
                       then (case validSignatures env ref checkOpts of
                               Inl e \<Rightarrow> failed ''signature TSA'' e | Inr sps \<Rightarrow> Ok (convert sps))
                       else if wa_GMSignature a \<noteq> None
                       then (case fst (Verify (ve_gm env) (ve_gm_cache env) ref (wa_GMSignature a)) of
                               Inl e \<Rightarrow> failed ''GM signature'' e | Inr sps \<Rightarrow> Ok (convert sps))
                       else Err ''authority has neither key, keyless, or static specified'')))"

text \<open>The verified attestations an authority starts from, or the error that ends the call.\<close>

definition attestations_with_key :: "'c verify_env \<Rightarrow> reference \<Rightarrow> WAuthority \<Rightarrow> crypto_hash \<Rightarrow> check_opts \<Rightarrow>
    pubkey option \<Rightarrow> oci_signature list go_result" where
  "attestations_with_key env ref a h checkOpts k =
     (case ve_LoadVerifier_err env k h of
        Some e \<Rightarrow> Err (wrap_err ''creating verifier'' e)
      | None \<Rightarrow>
          (case validAttestations env ref (checkOpts\<lparr>co_SigVerifier := Some (k, h)\<rparr>) of
             Inl e \<Rightarrow> Err (''attestation key validation failed for authority '' @ wa_Name a @ '' for '' @ ref_Name ref @ '': '' @ e)
           | Inr va \<Rightarrow> Ok va))"

definition verified_attestations :: "'c verify_env \<Rightarrow> reference \<Rightarrow> WAuthority \<Rightarrow> check_opts \<Rightarrow>
    oci_signature list go_result" where
  "verified_attestations env ref a checkOpts =
     (if (case wa_Key a of Some key \<Rightarrow> wk_PublicKeys key \<noteq> [] | None \<Rightarrow> False)
      then (let key = the (wa_Key a)
            in case mapM (attestations_with_key env ref a (wk_HashAlgorithmCode key) checkOpts) (wk_PublicKeys key) of
                 Inl e \<Rightarrow> Err e | Inr vas \<Rightarrow> Ok (concat vas))
      else (case wa_Keyless a of
              Some kl \<Rightarrow>
                if wl_URL kl \<noteq> None
                then (case validAttestations env ref checkOpts of
                        Inl e \<Rightarrow> Err (''attestation keyless validation failed for authority '' @ wa_Name a @ '' for '' @ ref_Name ref @ '': '' @ e)
                      | Inr va \<Rightarrow> Ok va)
                else Ok []
            | None \<Rightarrow>
                if wa_RFC3161Timestamp a \<noteq> None
                then (case validAttestations env ref checkOpts of
                        Inl e \<Rightarrow> Err (''signature TSA validAttestations failed for authority '' @ wa_Name a @ '' for '' @ ref_Name ref @ '': '' @ e)
                      | Inr va \<Rightarrow> Ok va)
                else Ok []))"

text \<open>
  One verified attestation against one wanted attestation: skipped, rejected with an error,
  or accepted. The evaluator's pair is its warning and its error.
\<close>

datatype att_outcome = AttSkip | AttReject string | AttAccept attestation

definition check_attestation :: "'c verify_env \<Rightarrow> AttestationPolicy \<Rightarrow> oci_signature \<Rightarrow> att_outcome" where
  "check_attestation env wanted va =
     (case os_Digest va of
        Inl e \<Rightarrow> AttSkip
      | Inr attDigest \<Rightarrow>
          (case ve_AttestationToPayloadJSON env (ap_PredicateType wanted) va of
             (attBytes, gotPredicateType, err) \<Rightarrow>
               (case err of
                  Some e \<Rightarrow> AttReject e
                | None \<Rightarrow>
                    (case attBytes of
                       None \<Rightarrow> AttSkip
                     | Some payload \<Rightarrow>
                         (let accept = AttAccept \<lparr>att_Signature = va, att_PredicateType = ap_PredicateType wanted,
                                                  att_Payload = payload, att_Digest = attDigest\<rparr>
                          in if ap_Type wanted \<noteq> ''''
                             then (case ve_EvaluatePolicy env (ap_Name wanted) (ap_Type wanted) (ap_Data wanted) payload of
                                     (warn, Some e) \<Rightarrow> AttReject e
                                   | (Some w, None) \<Rightarrow> AttReject w
                                   | (None, None) \<Rightarrow> accept)
                             else accept)))))"

text \<open>The predicate types seen, for the error message; the source keeps them in a map.\<close>

definition seen_type :: "'c verify_env \<Rightarrow> AttestationPolicy \<Rightarrow> oci_signature \<Rightarrow> string list" where
  "seen_type env wanted va =
     (if is_ok (os_Digest va)
      then (let t = fst (snd (ve_AttestationToPayloadJSON env (ap_PredicateType wanted) va))
            in if t \<noteq> '''' then [t] else [])
      else [])"

fun accepted_atts :: "att_outcome list \<Rightarrow> attestation list" where
  "accepted_atts [] = []"
| "accepted_atts (AttAccept a # os) = a # accepted_atts os"
| "accepted_atts (_ # os) = accepted_atts os"

fun first_reject :: "att_outcome list \<Rightarrow> string option" where
  "first_reject [] = None"
| "first_reject (AttReject e # os) = Some e"
| "first_reject (_ # os) = first_reject os"

fun wanted_loop :: "'c verify_env \<Rightarrow> oci_signature list \<Rightarrow> AttestationPolicy list \<Rightarrow> string list \<Rightarrow>
    (string \<times> PolicyAttestation list) list \<Rightarrow> (string \<times> PolicyAttestation list) list go_result" where
  "wanted_loop env vas [] types ret = Ok ret"
| "wanted_loop env vas (w # ws) types ret =
     (let outcomes = map (check_attestation env w) vas;
          types' = types @ concat (map (seen_type env w) vas)
      in if accepted_atts outcomes = []
         then (case first_reject outcomes of
                 Some e \<Rightarrow> Err e
               | None \<Rightarrow> Err (''no matching attestations with type '' @ ap_PredicateType w @
                              '', checked the following predicateTypes: '' @ concat (remdups types')))
         else wanted_loop env vas ws types'
                (map_assign (ap_Name w) (attestationToPolicyAttestations (ve_sha256 env) (accepted_atts outcomes)) ret))"

definition ValidatePolicyAttestationsForAuthority :: "'c verify_env \<Rightarrow> reference \<Rightarrow> WAuthority \<Rightarrow> remote_opt list \<Rightarrow>
    (string \<times> PolicyAttestation list) list go_result" where
  "ValidatePolicyAttestationsForAuthority env ref a remoteOpts =
     (case checkOptsFromAuthority env a remoteOpts of
        Inl e \<Rightarrow> Err (wrap_err ''creating CheckOpts'' e)
      | Inr checkOpts \<Rightarrow>
          (case verified_attestations env ref a checkOpts of
             Inl e \<Rightarrow> Err e
           | Inr vas \<Rightarrow>
               if vas = []
               then Err (''no matching attestations for authority '' @ wa_Name a @ '' for '' @ ref_Name ref)
               else wanted_loop env vas (wa_Attestations a) [] []))"

section \<open>Properties of the options\<close>

lemma tsa_loop_keeps:
  "tsa_loop env ts ret = Ok o' \<Longrightarrow>
     co_Identities o' = co_Identities ret \<and> co_IgnoreSCT o' = co_IgnoreSCT ret \<and>
     co_IgnoreTlog o' = co_IgnoreTlog ret \<and> co_UseSignedTimestamps o' = co_UseSignedTimestamps ret \<and>
     co_RekorPubKeys o' = co_RekorPubKeys ret \<and> co_RekorClient o' = co_RekorClient ret \<and>
     co_Offline o' = co_Offline ret"
  by (induction env ts ret rule: tsa_loop.induct) (auto split: sum.splits prod.splits if_splits)

lemma tsa_opts_keeps:
  assumes "tsa_opts env a ret = Ok o'" "\<not> co_UseSignedTimestamps ret"
  shows "co_Identities o' = co_Identities ret \<and> co_IgnoreSCT o' = co_IgnoreSCT ret \<and>
     co_IgnoreTlog o' = (co_IgnoreTlog ret \<or> co_UseSignedTimestamps o') \<and>
     co_UseSignedTimestamps o' = (\<exists>t. wa_RFC3161Timestamp a = Some t \<and> wt_TrustRootRef t \<noteq> '''')"
  using assms
  by (auto simp: tsa_opts_def split: option.splits sum.splits if_splits dest!: tsa_loop_keeps)

definition wants_timestamps :: "WAuthority \<Rightarrow> bool" where
  "wants_timestamps a = (case wa_RFC3161Timestamp a of None \<Rightarrow> False
     | Some t \<Rightarrow> wa_SignatureFormat a = ''bundle'' \<or> wt_TrustRootRef t \<noteq> '''')"

text \<open>
  The log the code consults: a \<open>ctlog\<close> with neither URL nor trust root counts as none, although
  the documentation of \<open>TLog.URL\<close> says that the URL defaults to the public Rekor instance.
\<close>

definition has_log :: "WAuthority \<Rightarrow> bool" where
  "has_log a = (case wa_CTLog a of
     None \<Rightarrow> (case wa_Keyless a of None \<Rightarrow> False | Some kl \<Rightarrow> wl_TrustRootRef kl = '''')
   | Some l \<Rightarrow> tl_TrustRootRef l \<noteq> '''' \<or> tl_URL l \<noteq> None)"

lemma rekor_has_log:
  "rekorClientAndKeysFromAuthority env a = Ok (client, keys) \<Longrightarrow>
     (keys \<noteq> None \<longleftrightarrow> has_log a) \<and> (client \<noteq> None \<longrightarrow> keys \<noteq> None)"
  by (auto simp: rekorClientAndKeysFromAuthority_def has_log_def Let_def
      split: option.splits sum.splits if_splits prod.splits)

text \<open>
  C10 When the options cosign verifies with relax a check. Whenever they can be built, they
  carry exactly the authority's keyless identities; embedded SCTs are ignored exactly if
  the authority says so; signed timestamps are used exactly if the authority wants them; and the
  transparency log is ignored exactly if signed timestamps replace it or, outside the bundle
  format, the authority has no \<open>ctlog\<close> and is not a keyless one on the public instance, or has a
  \<open>ctlog\<close> with neither URL nor trust root. In this last case the documentation of \<open>TLog.URL\<close>
  promises the public Rekor instance as the default; the code sets no default and skips the log.
\<close>

theorem check_opts_relax_iff:
  assumes "checkOptsFromAuthority env a remoteOpts = Ok opts"
  shows "co_Identities opts = (case wa_Keyless a of None \<Rightarrow> [] | Some kl \<Rightarrow> wl_Identities kl) \<and>
    (co_IgnoreSCT opts \<longleftrightarrow> (\<exists>kl. wa_Keyless a = Some kl \<and> wl_InsecureIgnoreSCT kl = Some True)) \<and>
    (co_UseSignedTimestamps opts \<longleftrightarrow> wants_timestamps a) \<and>
    (co_IgnoreTlog opts \<longleftrightarrow> wants_timestamps a \<or> (wa_SignatureFormat a \<noteq> ''bundle'' \<and>
       (case wa_CTLog a of
          None \<Rightarrow> (case wa_Keyless a of None \<Rightarrow> True | Some kl \<Rightarrow> wl_TrustRootRef kl \<noteq> '''')
        | Some l \<Rightarrow> tl_URL l = None \<and> tl_TrustRootRef l = '''')))"
proof (cases "wa_SignatureFormat a = ''bundle''")
  case True
  then show ?thesis using assms
    by (auto simp: checkOptsFromAuthority_def base_opts_def bundle_opts_def wants_timestamps_def Let_def
        split: option.splits sum.splits if_splits)
next
  case False
  from assms False obtain r1 r2 where 1: "fulcio_opts env a (base_opts env a remoteOpts) = Ok r1"
    and 2: "rekor_opts env a r1 = Ok r2" and 3: "tsa_opts env a r2 = Ok opts"
    by (auto simp: checkOptsFromAuthority_def base_opts_def Let_def split: sum.splits)
  have f: "co_Identities r1 = (case wa_Keyless a of None \<Rightarrow> [] | Some kl \<Rightarrow> wl_Identities kl)"
    "co_IgnoreSCT r1 \<longleftrightarrow> (\<exists>kl. wa_Keyless a = Some kl \<and> wl_InsecureIgnoreSCT kl = Some True)"
    "\<not> co_UseSignedTimestamps r1" "\<not> co_IgnoreTlog r1"
    using 1 by (auto simp: fulcio_opts_def base_opts_def split: option.splits sum.splits prod.splits)
  obtain client keys where rk: "rekorClientAndKeysFromAuthority env a = Ok (client, keys)"
    using 2 by (auto simp: rekor_opts_def split: sum.splits)
  have r: "co_Identities r2 = co_Identities r1" "co_IgnoreSCT r2 = co_IgnoreSCT r1"
    "\<not> co_UseSignedTimestamps r2" "co_IgnoreTlog r2 \<longleftrightarrow> \<not> has_log a"
    using 2 f rk rekor_has_log [OF rk] by (auto simp: rekor_opts_def Let_def split: if_splits)
  show ?thesis
    using tsa_opts_keeps [OF 3 r(3)] f r False by (auto simp: wants_timestamps_def has_log_def split: option.splits)
qed

section \<open>Properties of one authority\<close>

definition key_verifies :: "'c verify_env \<Rightarrow> reference \<Rightarrow> crypto_hash \<Rightarrow> check_opts \<Rightarrow> pubkey option \<Rightarrow>
    oci_signature list option" where
  "key_verifies env ref h opts k =
     (if ve_LoadVerifier_err env k h \<noteq> None then None
      else (case validSignatures env ref (opts\<lparr>co_SigVerifier := Some (k, h)\<rparr>) of Inl _ \<Rightarrow> None | Inr s \<Rightarrow> Some s))"

lemma valid_keys_Ok:
  "ks \<noteq> [] \<or> lastErr \<noteq> None \<Longrightarrow>
   valid_keys env ref h opts ks lastErr = Ok sps \<longleftrightarrow>
     (\<exists>k. List.find (\<lambda>k. key_verifies env ref h opts k \<noteq> None) ks = Some k \<and>
          key_verifies env ref h opts k = Some sps)"
proof (induction ks arbitrary: opts lastErr)
  case (Cons k ks)
  have inner: "key_verifies env ref h (opts\<lparr>co_SigVerifier := v\<rparr>) = key_verifies env ref h opts" for v
    by (rule ext) (simp add: key_verifies_def)
  show ?case
  proof (cases "ve_LoadVerifier_err env k h")
    case (Some e)
    then have "key_verifies env ref h opts k = None" by (simp add: key_verifies_def)
    with Some Cons.IH [of "Some e" opts] show ?thesis by simp
  next
    case None
    show ?thesis
    proof (cases "validSignatures env ref (opts\<lparr>co_SigVerifier := Some (k, h)\<rparr>)")
      case (Inl e)
      with None have "key_verifies env ref h opts k = None" by (simp add: key_verifies_def)
      with None Inl Cons.IH [of "Some e" "opts\<lparr>co_SigVerifier := Some (k, h)\<rparr>"] show ?thesis
        by (simp add: inner)
    next
      case (Inr s)
      with None have "key_verifies env ref h opts k = Some s" by (simp add: key_verifies_def)
      with None Inr show ?thesis by simp
    qed
  qed
qed auto

text \<open>
  Several keys: verification with a list of keys succeeds exactly when one of them loads
  and verifies, and the result is that of the first such key, checked with that key, the
  requested hash and otherwise unchanged options; the failures of earlier keys do not matter.
\<close>

theorem valid_first_key_wins:
  assumes "keys \<noteq> []"
  shows "valid env ref keys h opts = Ok sps \<longleftrightarrow>
     (\<exists>k. List.find (\<lambda>k. key_verifies env ref h opts k \<noteq> None) keys = Some k \<and>
          ve_VerifyImageSignatures env ref
            (opts\<lparr>co_SigVerifier := Some (k, h), co_ClaimVerifier := SimpleClaimVerifier\<rparr>) = Ok sps)"
proof -
  have "key_verifies env ref h opts k = Some sps \<longleftrightarrow>
      ve_VerifyImageSignatures env ref
        (opts\<lparr>co_SigVerifier := Some (k, h), co_ClaimVerifier := SimpleClaimVerifier\<rparr>) = Ok sps"
    if "List.find (\<lambda>k. key_verifies env ref h opts k \<noteq> None) keys = Some k" for k
    using that by (auto simp: key_verifies_def validSignatures_def find_Some_iff split: if_splits sum.splits)
  then show ?thesis using assms by (auto simp: valid_def valid_keys_Ok)
qed

lemma accepted_atts_Nil_iff: "accepted_atts os = [] \<longleftrightarrow> (\<forall>a. AttAccept a \<notin> set os)"
  by (induction os rule: accepted_atts.induct) auto

lemma wanted_loop_ok:
  "is_ok (wanted_loop env vas ws types ret) \<longleftrightarrow>
     (\<forall>w \<in> set ws. \<exists>va \<in> set vas. \<exists>att. check_attestation env w va = AttAccept att)"
proof (induction ws arbitrary: types ret)
  case (Cons w ws)
  have "accepted_atts (map (check_attestation env w) vas) = [] \<longleftrightarrow>
      \<not> (\<exists>va \<in> set vas. \<exists>att. check_attestation env w va = AttAccept att)"
    unfolding accepted_atts_Nil_iff set_map image_iff by metis
  with Cons.IH show ?case by (auto simp: Let_def split: option.splits)
qed simp

text \<open>
  What satisfying an attestation authority means, in terms of cosign and the evaluator alone.
  cosign is asked once per public key, or once with no key of its own for a keyless or a timestamp
  authority; an answer counts only if it checks the in-toto subject.
\<close>

definition attestation_verifiers :: "WAuthority \<Rightarrow> (pubkey option \<times> crypto_hash) option list" where
  "attestation_verifiers a =
     (case wa_Key a of
        Some key \<Rightarrow> map (\<lambda>k. Some (k, wk_HashAlgorithmCode key)) (wk_PublicKeys key)
      | None \<Rightarrow> []) @
     (if \<exists>key. wa_Key a = Some key \<and> wk_PublicKeys key \<noteq> [] then []
      else if (case wa_Keyless a of Some kl \<Rightarrow> wl_URL kl \<noteq> None | None \<Rightarrow> wa_RFC3161Timestamp a \<noteq> None) then [None]
      else [])"

definition cosign_confirms :: "'c verify_env \<Rightarrow> reference \<Rightarrow> check_opts \<Rightarrow> (pubkey option \<times> crypto_hash) option \<Rightarrow>
    oci_signature list \<Rightarrow> bool" where
  "cosign_confirms env ref opts verifier atts =
     (case verifier of
        None \<Rightarrow> ve_VerifyImageAttestations env ref (opts\<lparr>co_ClaimVerifier := IntotoSubjectClaimVerifier\<rparr>) = Ok atts
      | Some (k, h) \<Rightarrow> ve_LoadVerifier_err env k h = None \<and>
          ve_VerifyImageAttestations env ref
            (opts\<lparr>co_SigVerifier := Some (k, h), co_ClaimVerifier := IntotoSubjectClaimVerifier\<rparr>) = Ok atts)"

definition attestation_meets :: "'c verify_env \<Rightarrow> AttestationPolicy \<Rightarrow> oci_signature \<Rightarrow> bool" where
  "attestation_meets env wanted va =
     (\<exists>digest payload gotType. os_Digest va = Ok digest \<and>
        ve_AttestationToPayloadJSON env (ap_PredicateType wanted) va = (Some payload, gotType, None) \<and>
        (ap_Type wanted = '''' \<or>
         ve_EvaluatePolicy env (ap_Name wanted) (ap_Type wanted) (ap_Data wanted) payload = (None, None)))"

lemma check_attestation_meets:
  "(\<exists>att. check_attestation env w va = AttAccept att) \<longleftrightarrow> attestation_meets env w va"
  by (cases "os_Digest va"; cases "ve_AttestationToPayloadJSON env (ap_PredicateType w) va")
    (auto simp: check_attestation_def attestation_meets_def Let_def split: option.splits prod.splits if_splits)

lemma attestations_with_key_Ok:
  assumes "\<not> pcc_EnableOCI11 (FromContextOrDefaults (ve_PCConfig env))"
  shows "attestations_with_key env ref a h opts k = Ok va \<longleftrightarrow> cosign_confirms env ref opts (Some (k, h)) va"
  using assms by (auto simp: attestations_with_key_def cosign_confirms_def validAttestations_def split: option.splits sum.splits)

lemma verified_attestations_Ok:
  assumes "\<not> pcc_EnableOCI11 (FromContextOrDefaults (ve_PCConfig env))"
  shows "verified_attestations env ref a opts = Ok vas \<longleftrightarrow>
    (\<exists>answers. list_all2 (cosign_confirms env ref opts) (attestation_verifiers a) answers \<and> vas = concat answers)"
proof (cases "\<exists>key. wa_Key a = Some key \<and> wk_PublicKeys key \<noteq> []")
  case True
  then obtain key where "wa_Key a = Some key" "wk_PublicKeys key \<noteq> []" by blast
  then have "verified_attestations env ref a opts = Ok vas \<longleftrightarrow>
      (\<exists>answers. mapM (attestations_with_key env ref a (wk_HashAlgorithmCode key) opts) (wk_PublicKeys key) = Ok answers \<and>
        vas = concat answers)"
    and "attestation_verifiers a = map (\<lambda>k. Some (k, wk_HashAlgorithmCode key)) (wk_PublicKeys key)"
    by (auto simp: verified_attestations_def attestation_verifiers_def split: sum.splits)
  then show ?thesis by (simp add: list_all2_map1 mapM_Ok_all2 attestations_with_key_Ok [OF assms])
next
  case False
  then show ?thesis using assms
    by (auto simp: verified_attestations_def attestation_verifiers_def validAttestations_def cosign_confirms_def
        list_all2_Cons1 split: option.splits sum.splits if_splits)
qed

text \<open>
  C11 Without OCI 1.1 discovery, an authority with attestations is satisfied exactly when its
  options can be built; cosign answers without error for each of its public keys (whose verifier
  loads), or once for a keyless authority with a URL or a timestamp authority, with the in-toto
  subject as the claim to check; the answers hold at least one attestation; and every attestation
  the authority asks for is met by one of them: a digest, a readable payload of the wanted
  predicate type and, where a policy is attached, an evaluation without error and without warning.
  With OCI 1.1 discovery on, attestations are taken unverified, see
  \<open>oci11_attestations_not_verified\<close>.
\<close>

theorem attestations_all_required:
  assumes "\<not> pcc_EnableOCI11 (FromContextOrDefaults (ve_PCConfig env))"
  shows "is_ok (ValidatePolicyAttestationsForAuthority env ref a remoteOpts) \<longleftrightarrow>
     (\<exists>opts answers. checkOptsFromAuthority env a remoteOpts = Ok opts \<and>
        list_all2 (cosign_confirms env ref opts) (attestation_verifiers a) answers \<and> concat answers \<noteq> [] \<and>
        (\<forall>w \<in> set (wa_Attestations a). \<exists>va \<in> set (concat answers). attestation_meets env w va))"
proof (cases "checkOptsFromAuthority env a remoteOpts")
  case (Inr opts)
  have "is_ok (ValidatePolicyAttestationsForAuthority env ref a remoteOpts) \<longleftrightarrow>
      (\<exists>vas. verified_attestations env ref a opts = Ok vas \<and> vas \<noteq> [] \<and>
        (\<forall>w \<in> set (wa_Attestations a). \<exists>va \<in> set vas. attestation_meets env w va))"
    by (auto simp: ValidatePolicyAttestationsForAuthority_def wanted_loop_ok check_attestation_meets Inr split: sum.splits)
  then show ?thesis unfolding verified_attestations_Ok [OF assms] Inr by blast
qed (simp add: ValidatePolicyAttestationsForAuthority_def)

text \<open>
  With OCI 1.1 enabled, attestations found through the referrers are taken as verified
  although nothing verifies them: whatever key, identities or trust material the options
  carry, and whatever cosign's verification would answer, the result is the artifacts the
  registry returned.
\<close>

theorem oci11_attestations_not_verified:
  assumes "ve_PCConfig env = Some cfg" "pcc_EnableOCI11 cfg"
    and "discoverAttestationsOCI11 env ref opts = Ok atts"
    and "co_RegistryClientOpts opts' = co_RegistryClientOpts opts"
  shows "validAttestations (env\<lparr>ve_VerifyImageAttestations := verify\<rparr>) ref opts' = Ok atts"
proof -
  have "processAttestationArtifact (env\<lparr>ve_VerifyImageAttestations := verify\<rparr>) = processAttestationArtifact env"
    by (simp add: fun_eq_iff processAttestationArtifact_def split: sum.split list.split)
  then have "discoverAttestationsOCI11 (env\<lparr>ve_VerifyImageAttestations := verify\<rparr>) ref opts' = Ok atts"
    using assms(3,4) by (auto simp: discoverAttestationsOCI11_def Let_def split: sum.splits if_splits)
  with assms(1,2) show ?thesis by (simp add: validAttestations_def FromContextOrDefaults_def)
qed

section \<open>A sample environment\<close>

text \<open>Every external call succeeds; cosign confirms no attestation and one signature.\<close>

definition sample_env :: "lru_list verify_env" where
  "sample_env = \<lparr>
     ve_Config = None,
     ve_PCConfig = Some \<lparr>pcc_NoMatchPolicy = DenyAll, pcc_FailOnEmptyAuthorities = True, pcc_EnableOCI11 = True\<rparr>,
     ve_x = sample_externals, ve_certs = (\<lambda>_. Ok []), ve_FulcioRoots = Ok [], ve_FulcioIntermediates = Ok [],
     ve_GetCTLogPubs = Ok [], ve_GetRekorPubs = Ok [], ve_GetRekorClient_err = (\<lambda>_. None),
     ve_NewTrustedRoot_err = (\<lambda>_. None), ve_GetTrustedRoot = Err ''offline'',
     ve_LoadVerifier_err = (\<lambda>_ _. None),
     ve_VerifyImageSignatures = (\<lambda>ref _. Ok [sample_sig (ref_DigestStr ref)]),
     ve_VerifyImageAttestations = (\<lambda>_ _. Err ''no matching attestations''),
     ve_ParseReference = sample_parser, ve_ResolveDigest = (\<lambda>ref _. Ok ref),
     ve_Referrers = (\<lambda>_ _. Ok [(''application/vnd.in-toto+json'', ''sha256:x'')]),
     ve_SignedImageLayers = (\<lambda>_ _. Ok (Ok [Ok ''dsse''])),
     ve_json = (\<lambda>_. Ok (JObj [(''payload'', JStr ''p''), (''signatures'', JArr [JObj [(''sig'', JStr ''s'')]])])),
     ve_json_Marshal = (\<lambda>_. ''p''), ve_NewSignature = (\<lambda>p s. Ok (sample_sig p)), ve_sha256 = (\<lambda>b. b),
     ve_AttestationToPayloadJSON = (\<lambda>t s. (Some ''{}'', t, None)),
     ve_EvaluatePolicy = (\<lambda>_ _ _ _. (None, None)),
     ve_gm = sample_gm_env, ve_gm_cache = None, ve_keychain_err = (\<lambda>_ _. None)\<rparr>"

definition sample_wauthority :: WAuthority where
  "sample_wauthority = \<lparr>wa_Name = ''authority-0'',
     wa_Key = Some \<lparr>wk_Data = ''pem'', wk_HashAlgorithm = ''sha256'', wk_HashAlgorithmCode = SHA256,
                    wk_PublicKeys = [Some (OtherKey ''pem'')]\<rparr>,
     wa_Keyless = None, wa_Static = None, wa_Sources = [], wa_CTLog = None, wa_RemoteOpts = [],
     wa_Attestations = [], wa_RFC3161Timestamp = None, wa_GMSignature = None, wa_SignatureFormat = ''''\<rparr>"

lemma sample_checkOpts:
  "checkOptsFromAuthority sample_env sample_wauthority ro =
     Ok ((base_opts sample_env sample_wauthority ro)\<lparr>co_RekorClient := None, co_RekorPubKeys := None, co_IgnoreTlog := True\<rparr>)"
  by (simp add: checkOptsFromAuthority_def base_opts_def sample_wauthority_def fulcio_opts_def rekor_opts_def
      rekorClientAndKeysFromAuthority_def tsa_opts_def Let_def)

theorem check_opts_relax_iff_witness:
  "co_IgnoreTlog ((base_opts sample_env sample_wauthority [])\<lparr>co_RekorClient := None, co_RekorPubKeys := None,
      co_IgnoreTlog := True\<rparr>) \<longleftrightarrow>
   wants_timestamps sample_wauthority \<or> (wa_SignatureFormat sample_wauthority \<noteq> ''bundle'' \<and>
       (case wa_CTLog sample_wauthority of
          None \<Rightarrow> (case wa_Keyless sample_wauthority of None \<Rightarrow> True | Some kl \<Rightarrow> wl_TrustRootRef kl \<noteq> '''')
        | Some l \<Rightarrow> tl_URL l = None \<and> tl_TrustRootRef l = ''''))"
  using check_opts_relax_iff [OF sample_checkOpts, of "[]"] by blast

lemma sample_foldNames:
  "foldName ''payload'' = ''payload''" "foldName ''signatures'' = ''signatures''" "foldName ''sig'' = ''sig''"
  by code_simp+

lemma sample_discover:
  "discoverAttestationsOCI11 sample_env (sample_ref ''sha256:a'') (base_opts sample_env sample_wauthority []) =
     Ok [sample_sig ''p'']"
  by (simp add: discoverAttestationsOCI11_def sample_env_def processAttestationArtifact_def sample_parser_def
      into_struct_def envelope_field_def sample_foldNames sig_field_def base_opts_def)

theorem oci11_attestations_not_verified_witness:
  "validAttestations sample_env (sample_ref ''sha256:a'')
      ((base_opts sample_env sample_wauthority [])\<lparr>co_SigVerifier := Some (None, SHA256)\<rparr>) = Ok [sample_sig ''p'']"
  using oci11_attestations_not_verified [OF _ _ sample_discover,
      of _ "(base_opts sample_env sample_wauthority [])\<lparr>co_SigVerifier := Some (None, SHA256)\<rparr>"
         "ve_VerifyImageAttestations sample_env"]
  by (simp add: sample_env_def)

text \<open>cosign confirms one attestation for the key and the in-toto subject, and the policy accepts its payload.\<close>

definition sample_att_env :: "lru_list verify_env" where
  "sample_att_env = sample_env\<lparr>ve_PCConfig := None,
     ve_VerifyImageAttestations := (\<lambda>ref opts.
       if co_SigVerifier opts = Some (Some (OtherKey ''pem''), SHA256) \<and> co_ClaimVerifier opts = IntotoSubjectClaimVerifier
       then Ok [sample_sig ''statement''] else Err ''no matching attestations''),
     ve_AttestationToPayloadJSON := (\<lambda>t s. if t = ''slsaprovenance'' then (Some ''{}'', t, None) else (None, ''custom'', None)),
     ve_EvaluatePolicy := (\<lambda>n t d p. if d = ''accept'' then (None, None) else (Some ''warned'', None))\<rparr>"

definition sample_att_authority :: "string \<Rightarrow> string \<Rightarrow> WAuthority" where
  "sample_att_authority predicate policy = sample_wauthority\<lparr>wa_Attestations := [\<lparr>ap_Name = ''att'',
     ap_PredicateType = predicate, ap_Type = ''cue'', ap_Data = policy, ap_FetchConfigFile = None, ap_IncludeSpec = None,
     ap_IncludeObjectMeta = None, ap_IncludeTypeMeta = None\<rparr>]\<rparr>"

lemma sample_att_meets:
  assumes "list_all2 (cosign_confirms sample_att_env ref opts) (attestation_verifiers (sample_att_authority t d)) answers"
  shows "answers = [[sample_sig ''statement'']]"
  using assms
  by (auto simp: sample_att_authority_def sample_wauthority_def attestation_verifiers_def list_all2_Cons1
      cosign_confirms_def sample_att_env_def)

theorem attestations_all_required_witness:
  "is_ok (ValidatePolicyAttestationsForAuthority sample_att_env (sample_ref ''sha256:a'')
      (sample_att_authority ''slsaprovenance'' ''accept'') []) \<and>
   \<not> is_ok (ValidatePolicyAttestationsForAuthority sample_att_env (sample_ref ''sha256:a'')
      (sample_att_authority ''slsaprovenance'' ''warn'') []) \<and>
   \<not> is_ok (ValidatePolicyAttestationsForAuthority sample_att_env (sample_ref ''sha256:a'')
      (sample_att_authority ''vuln'' ''accept'') [])"
proof -
  have off: "\<not> pcc_EnableOCI11 (FromContextOrDefaults (ve_PCConfig sample_att_env))"
    by (simp add: sample_att_env_def FromContextOrDefaults_def default_PolicyControllerConfig_def)
  note iff = attestations_all_required [OF off, of "sample_ref ''sha256:a''" _ "[]"]
  have yes: "is_ok (ValidatePolicyAttestationsForAuthority sample_att_env (sample_ref ''sha256:a'')
      (sample_att_authority ''slsaprovenance'' ''accept'') [])"
    unfolding iff
    by (rule exI [of _ "(base_opts sample_att_env sample_wauthority [])\<lparr>co_RekorClient := None, co_RekorPubKeys := None, co_IgnoreTlog := True\<rparr>"],
        rule exI [of _ "[[sample_sig ''statement'']]"])
      (simp add: sample_att_authority_def sample_wauthority_def attestation_verifiers_def cosign_confirms_def
        sample_att_env_def attestation_meets_def sample_sig_def checkOptsFromAuthority_def base_opts_def fulcio_opts_def
        rekor_opts_def rekorClientAndKeysFromAuthority_def tsa_opts_def sample_env_def)
  have no: "\<not> is_ok (ValidatePolicyAttestationsForAuthority sample_att_env (sample_ref ''sha256:a'')
      (sample_att_authority t d) [])" if "t \<noteq> ''slsaprovenance'' \<or> d \<noteq> ''accept''" for t d
    unfolding iff using that
    by (auto dest!: sample_att_meets simp: sample_att_env_def sample_att_authority_def attestation_meets_def split: if_splits)
  from yes no show ?thesis by simp
qed

theorem valid_first_key_wins_witness:
  "valid sample_env (sample_ref ''sha256:a'') [Some (OtherKey ''pem'')] SHA256 (base_opts sample_env sample_wauthority []) =
     Ok [sample_sig ''sha256:a'']"
  using valid_first_key_wins [of "[Some (OtherKey ''pem'')]" sample_env "sample_ref ''sha256:a''" SHA256
      "base_opts sample_env sample_wauthority []" "[sample_sig ''sha256:a'']"]
  by (simp add: key_verifies_def validSignatures_def sample_env_def)

end
