(* ===== verification/PolicyEngine.thy ===== *)
theory PolicyEngine
  imports Verification "HOL-Library.Multiset"
begin

text \<open>
  The decision half of \<open>pkg/webhook/validator.go\<close>: evaluating the authorities of a policy
  concurrently (\<open>ValidatePolicy\<close>), evaluating all matching policies concurrently
  (\<open>validatePolicies\<close>), the cache of results (\<open>cache.go\<close>, \<open>nocache.go\<close>), and turning errors
  into the answer of the webhook.

  A group of goroutines that send one result each to a channel, and the loop that receives
  as many results, is modelled by a schedule: the order in which the results arrive and, for
  each round of the loop, whether the \<open>select\<close> took the branch of the cancelled context. A
  round that sees the cancellation leaves its result in the channel.
\<close>

section \<open>Schedules\<close>

record schedule =
  sc_order :: "nat list"
  sc_done :: "bool list"

definition valid_schedule :: "nat \<Rightarrow> schedule \<Rightarrow> bool" where
  "valid_schedule n sc = (mset (sc_order sc) = mset [0..<n] \<and> length (sc_done sc) = n)"

lemma valid_schedule_lengths:
  assumes "valid_schedule n sc"
  shows "length (sc_order sc) = n" "length (sc_done sc) = n"
proof -
  from assms have "size (mset (sc_order sc)) = size (mset [0..<n])" by (simp only: valid_schedule_def)
  then show "length (sc_order sc) = n" by simp
  from assms show "length (sc_done sc) = n" by (simp add: valid_schedule_def)
qed

definition calm :: "schedule \<Rightarrow> bool" where
  "calm sc = (True \<notin> set (sc_done sc))"

fun recv_loop :: "('s \<Rightarrow> 's) \<Rightarrow> ('s \<Rightarrow> 'r \<Rightarrow> 's) \<Rightarrow> bool list \<Rightarrow> 'r list \<Rightarrow> 's \<Rightarrow> 's" where
  "recv_loop onDone onRecv [] queue st = st"
| "recv_loop onDone onRecv (d # ds) queue st =
     (if d then recv_loop onDone onRecv ds queue (onDone st)
      else (case queue of
              [] \<Rightarrow> st
            | r # rs \<Rightarrow> recv_loop onDone onRecv ds rs (onRecv st r)))"

definition gather :: "schedule \<Rightarrow> ('s \<Rightarrow> 's) \<Rightarrow> ('s \<Rightarrow> 'r \<Rightarrow> 's) \<Rightarrow> 'r list \<Rightarrow> 's \<Rightarrow> 's" where
  "gather sc onDone onRecv results st =
     recv_loop onDone onRecv (sc_done sc) (map (\<lambda>i. results ! i) (sc_order sc)) st"

lemma recv_loop_calm:
  "True \<notin> set ds \<Longrightarrow> length ds = length q \<Longrightarrow> recv_loop onDone onRecv ds q st = foldl onRecv st q"
proof (induction ds arbitrary: q st)
  case (Cons d ds)
  then show ?case by (cases q) auto
qed simp

text \<open>Without a cancellation the loop folds over the results in their order of arrival.\<close>

lemma gather_in_order:
  assumes "valid_schedule (length results) sc" "calm sc"
  shows "gather sc onDone onRecv results st = foldl onRecv st (map (\<lambda>i. results ! i) (sc_order sc))"
    and "mset (map (\<lambda>i. results ! i) (sc_order sc)) = mset results"
proof -
  let ?a = "map (\<lambda>i. results ! i) (sc_order sc)"
  have "mset ?a = image_mset (\<lambda>i. results ! i) (mset [0..<length results])"
    using assms(1) by (simp add: valid_schedule_def)
  also have "\<dots> = mset results" by (metis map_nth mset_map)
  finally show "mset ?a = mset results" .
  have "length (sc_order sc) = length results" by (rule valid_schedule_lengths [OF assms(1)])
  then show "gather sc onDone onRecv results st = foldl onRecv st ?a"
    using assms by (simp add: gather_def recv_loop_calm valid_schedule_def calm_def)
qed

lemma gather_calm:
  assumes "valid_schedule (length results) sc" "calm sc"
  shows "\<exists>arrived. mset arrived = mset results \<and> gather sc onDone onRecv results st = foldl onRecv st arrived"
  by (rule exI) (rule conjI [OF gather_in_order(2) [OF assms] gather_in_order(1) [OF assms]])

section \<open>The cache of results\<close>

record ('cfg, 'v, 'fe) CacheResult =
  cr_PolicyResult :: "('cfg, 'v) PolicyResult option"
  cr_Errors :: "'fe go_error list"

text \<open>\<open>ResultCache\<close> as its two methods over a state.\<close>

record ('k, 'cfg, 'v, 'fe) ResultCache =
  rc_Get :: "'k \<Rightarrow> string \<Rightarrow> string \<Rightarrow> string \<Rightarrow> ('cfg, 'v, 'fe) CacheResult option"
  rc_Set :: "'k \<Rightarrow> string \<Rightarrow> string \<Rightarrow> string \<Rightarrow> string \<Rightarrow> ('cfg, 'v, 'fe) CacheResult \<Rightarrow> 'k"

text \<open>What a caller may rely on: a hit is the value last set for that image, UID and version.\<close>

locale result_cache =
  fixes rc :: "('k, 'cfg, 'v, 'fe) ResultCache"
  assumes get_set: "rc_Get rc (rc_Set rc k img nm uid rv r) img' uid' rv' \<in>
            (if (img', uid', rv') = (img, uid, rv) then {None, Some r} else {None, rc_Get rc k img' uid' rv'})"
begin

text \<open>After any sequence of stores a hit was in the cache before or was stored under its key.\<close>

lemma get_after_sets:
  "rc_Get rc (foldl (\<lambda>k (img, nm, uid, rv, r). rc_Set rc k img nm uid rv r) k sets) img uid rv = Some res \<Longrightarrow>
     rc_Get rc k img uid rv = Some res \<or> (\<exists>nm. (img, nm, uid, rv, res) \<in> set sets)"
proof (induction sets rule: rev_induct)
  case (snoc s sets)
  obtain img' nm' uid' rv' r' where s: "s = (img', nm', uid', rv', r')" by (metis surj_pair)
  let ?k = "foldl (\<lambda>k (img, nm, uid, rv, r). rc_Set rc k img nm uid rv r) k sets"
  from snoc.prems s have "rc_Get rc (rc_Set rc ?k img' nm' uid' rv' r') img uid rv = Some res" by simp
  with get_set [of ?k img' nm' uid' rv' r' img uid rv] snoc.IH s show ?case
    by (auto split: if_splits)
qed simp

end

definition NoCache :: "(unit, 'cfg, 'v, 'fe) ResultCache" where
  "NoCache = \<lparr>rc_Get = (\<lambda>k img uid rv. None), rc_Set = (\<lambda>k img nm uid rv r. k)\<rparr>"

interpretation nocache: result_cache NoCache
  by unfold_locales (simp add: NoCache_def)

section \<open>One policy\<close>

record authority_result =
  ar_name :: string
  ar_static :: bool
  ar_attestations :: "(string \<times> PolicyAttestation list) list"
  ar_signatures :: "PolicySignature list"
  ar_err :: "string option"

definition failed_authority :: "WAuthority \<Rightarrow> string \<Rightarrow> authority_result" where
  "failed_authority a e = \<lparr>ar_name = wa_Name a, ar_static = False, ar_attestations = [], ar_signatures = [], ar_err = Some e\<rparr>"

text \<open>The goroutine of one authority.\<close>

definition check_authority :: "'c verify_env \<Rightarrow> string \<Rightarrow> reference \<Rightarrow> remote_opt list \<Rightarrow> WAuthority \<Rightarrow> authority_result" where
  "check_authority env namespace ref remoteOpts a =
     (let ok = \<lparr>ar_name = wa_Name a, ar_static = False, ar_attestations = [], ar_signatures = [], ar_err = None\<rparr>
      in case SourceSignaturePullSecretsOpts (ve_keychain_err env) a namespace of
           Inl e \<Rightarrow> failed_authority a e
         | Inr secretOpts \<Rightarrow>
             (let opts = remoteOpts @ wa_RemoteOpts a @ secretOpts
              in case wa_Static a of
                   Some s \<Rightarrow>
                     if ws_Action s = ''fail''
                     then failed_authority a (''disallowed by static policy: '' @ ws_Message s)
                     else ok\<lparr>ar_static := True\<rparr>
                 | None \<Rightarrow>
                     if wa_Attestations a \<noteq> []
                     then (case ValidatePolicyAttestationsForAuthority env ref a opts of
                             Inl e \<Rightarrow> failed_authority a e | Inr atts \<Rightarrow> ok\<lparr>ar_attestations := atts\<rparr>)
                     else (case ValidatePolicySignaturesForAuthority env ref a opts of
                             Inl e \<Rightarrow> failed_authority a e | Inr sigs \<Rightarrow> ok\<lparr>ar_signatures := sigs\<rparr>)))"

text \<open>
  \<open>asFieldError\<close>: a field error with the text of the error, at the level the mode asks for.
  (\<open>At\<close> of an error with a text is never nil.)
\<close>

definition asFieldError :: "'fe fe_api \<Rightarrow> bool \<Rightarrow> string \<Rightarrow> 'fe go_error" where
  "asFieldError api warn e =
     (case At api (if warn then WarningLevel else ErrorLevel) (Some (NewFieldError api e [])) of
        Some fe \<Rightarrow> FieldErr fe | None \<Rightarrow> PlainError e)"

definition recv_authority :: "'fe fe_api \<Rightarrow> bool \<Rightarrow> 'fe go_error list \<times> (string \<times> AuthorityMatch) list \<Rightarrow>
    authority_result \<Rightarrow> 'fe go_error list \<times> (string \<times> AuthorityMatch) list" where
  "recv_authority api warn st r =
     (case st of (errs, matches) \<Rightarrow>
        (case ar_err r of
           Some e \<Rightarrow> (errs @ [asFieldError api warn e], matches)
         | None \<Rightarrow>
             if ar_signatures r \<noteq> [] then
               (errs, map_assign (ar_name r) \<lparr>am_Signatures = ar_signatures r, am_Attestations = [], am_Static = False\<rparr> matches)
             else if ar_attestations r \<noteq> [] then
               (errs, map_assign (ar_name r) \<lparr>am_Signatures = [], am_Attestations = ar_attestations r, am_Static = False\<rparr> matches)
             else if ar_static r then
               (errs, map_assign (ar_name r) \<lparr>am_Signatures = [], am_Attestations = [], am_Static = True\<rparr> matches)
             else (errs @ [PlainError (''failed to process authority: '' @ ar_name r)], matches)))"

text \<open>
  What evaluation needs besides verification: the resource's parts stored in the context,
  the image's configuration files, JSON encoding of a result, and the text of the context's
  error when it is cancelled.
\<close>

record ('cfg, 'v) policy_ctx =
  px_Spec :: "'v option"
  px_ObjectMeta :: "'v option"
  px_TypeMeta :: "'v option"
  px_getConfigs :: "reference \<Rightarrow> (string \<times> 'cfg) list \<times> string list"
  px_marshal :: "('cfg, 'v) PolicyResult \<Rightarrow> string go_result"
  px_ctx_err :: string

definition flag :: "bool option \<Rightarrow> bool" where
  "flag b = (b = Some True)"

text \<open>The policy-level check on the matched authorities, with the errors collected so far.\<close>

definition cip_policy :: "'fe fe_api \<Rightarrow> 'c verify_env \<Rightarrow> ('cfg, 'v) policy_ctx \<Rightarrow> reference \<Rightarrow> WClusterImagePolicy \<Rightarrow>
    AttestationPolicy \<Rightarrow> ('cfg, 'v) PolicyResult \<Rightarrow> 'fe go_error list \<Rightarrow>
    ('cfg, 'v) PolicyResult option \<times> 'fe go_error list" where
  "cip_policy api env pc ref cip p result errs =
     (let warnMode = (wc_Mode cip = ''warn'');
          (configs, configErrs) = (if flag (ap_FetchConfigFile p) then px_getConfigs pc ref else ([], []))
      in if configErrs \<noteq> [] then (None, errs @ map (asFieldError api warnMode) configErrs)
         else
           (let r1 = (if flag (ap_FetchConfigFile p) then result\<lparr>pr_Config := configs\<rparr> else result);
                r2 = (if flag (ap_IncludeSpec p) then r1\<lparr>pr_Spec := px_Spec pc\<rparr> else r1);
                r3 = (if flag (ap_IncludeObjectMeta p) then r2\<lparr>pr_ObjectMeta := px_ObjectMeta pc\<rparr> else r2);
                r4 = (if flag (ap_IncludeTypeMeta p) then r3\<lparr>pr_TypeMeta := px_TypeMeta pc\<rparr> else r3)
            in case px_marshal pc r4 of
                 Inl e \<Rightarrow> (None, errs @ [PlainError e])
               | Inr policyJSON \<Rightarrow>
                   (case ve_EvaluatePolicy env ''ClusterImagePolicy'' (ap_Type p) (ap_Data p) policyJSON of
                      (warn, Some e) \<Rightarrow> (None, errs @ [asFieldError api warnMode e])
                    | (Some w, None) \<Rightarrow> (None, errs @ [asFieldError api warnMode w])
                    | (None, None) \<Rightarrow> (Some r4, errs))))"

definition ValidatePolicy :: "'fe fe_api \<Rightarrow> ('k, 'cfg, 'v, 'fe) ResultCache \<Rightarrow> 'k \<Rightarrow> 'c verify_env \<Rightarrow>
    ('cfg, 'v) policy_ctx \<Rightarrow> schedule \<Rightarrow> string \<Rightarrow> reference \<Rightarrow> WClusterImagePolicy \<Rightarrow> remote_opt list \<Rightarrow>
    ('cfg, 'v) PolicyResult option \<times> 'fe go_error list" where
  "ValidatePolicy api rc k env pc sc namespace ref cip remoteOpts =
     (case rc_Get rc k (ref_String ref) (wc_UID cip) (wc_ResourceVersion cip) of
        Some cached \<Rightarrow> (cr_PolicyResult cached, cr_Errors cached)
      | None \<Rightarrow>
          (case gather sc
                  (\<lambda>(errs, matches). (errs @ [PlainError (px_ctx_err pc @ '' before validation completed'')], matches))
                  (recv_authority api (wc_Mode cip = ''warn''))
                  (map (check_authority env namespace ref remoteOpts) (wc_Authorities cip)) ([], []) of
             (errs, matches) \<Rightarrow>
               if matches = [] then (None, errs)
               else (let result = \<lparr>pr_AuthorityMatches = matches, pr_Config = [], pr_Spec = None,
                                   pr_ObjectMeta = None, pr_TypeMeta = None\<rparr>
                     in case wc_Policy cip of
                          None \<Rightarrow> (Some result, errs)
                        | Some p \<Rightarrow> cip_policy api env pc ref cip p result errs)))"

section \<open>All matching policies\<close>

record ('cfg, 'v, 'fe) policy_outcome =
  po_name :: string
  po_result :: "('cfg, 'v) PolicyResult option"
  po_errors :: "'fe go_error list"

text \<open>\<open>ret[name] = append(ret[name], errs...)\<close> on a map of lists.\<close>

definition map_append :: "string \<Rightarrow> 'a list \<Rightarrow> (string \<times> 'a list) list \<Rightarrow> (string \<times> 'a list) list" where
  "map_append k xs m = map_assign k ((case map_of m k of None \<Rightarrow> [] | Some ys \<Rightarrow> ys) @ xs) m"

type_synonym ('cfg, 'v, 'fe) policies_state =
  "(string \<times> ('cfg, 'v) PolicyResult) list \<times> (string \<times> 'fe go_error list) list"

definition recv_policy :: "('cfg, 'v, 'fe) policies_state \<Rightarrow> ('cfg, 'v, 'fe) policy_outcome \<Rightarrow>
    ('cfg, 'v, 'fe) policies_state" where
  "recv_policy st r =
     (case st of (results, ret) \<Rightarrow>
        (case po_result r of
           Some pr \<Rightarrow> (map_assign (po_name r) pr results, ret)
         | None \<Rightarrow>
             if po_errors r \<noteq> [] then (results, map_append (po_name r) (po_errors r) ret)
             else (results, map_append (po_name r) [PlainError (''failed to process policy: '' @ po_name r)] ret)))"

definition cancelled_policy :: "('cfg, 'v, 'fe) policies_state \<Rightarrow> ('cfg, 'v, 'fe) policies_state" where
  "cancelled_policy st =
     (case st of (results, ret) \<Rightarrow>
        (results, map_append ''internalerror'' [PlainError ''context was canceled before validation completed''] ret))"

text \<open>
  Every policy has its own schedule for its authorities. The goroutines read the cache as it
  was at the start (the keys of different policies differ) and store their results in the
  order in which they finish.
\<close>

definition run_policy :: "'fe fe_api \<Rightarrow> ('k, 'cfg, 'v, 'fe) ResultCache \<Rightarrow> 'k \<Rightarrow> 'c verify_env \<Rightarrow> ('cfg, 'v) policy_ctx \<Rightarrow>
    (string \<Rightarrow> schedule) \<Rightarrow> string \<Rightarrow> reference \<Rightarrow> remote_opt list \<Rightarrow> string \<times> WClusterImagePolicy \<Rightarrow>
    ('cfg, 'v, 'fe) policy_outcome" where
  "run_policy api rc k env pc scs namespace ref remoteOpts np =
     (case ValidatePolicy api rc k env pc (scs (fst np)) namespace ref (snd np) remoteOpts of
        (result, errs) \<Rightarrow> \<lparr>po_name = fst np, po_result = result, po_errors = errs\<rparr>)"

definition cache_outcome :: "('k, 'cfg, 'v, 'fe) ResultCache \<Rightarrow> reference \<Rightarrow> 'k \<Rightarrow>
    (string \<times> WClusterImagePolicy) \<times> ('cfg, 'v, 'fe) policy_outcome \<Rightarrow> 'k" where
  "cache_outcome rc ref k no =
     rc_Set rc k (ref_Name ref) (fst (fst no)) (wc_UID (snd (fst no))) (wc_ResourceVersion (snd (fst no)))
       \<lparr>cr_PolicyResult = po_result (snd no), cr_Errors = po_errors (snd no)\<rparr>"

definition validatePolicies :: "'fe fe_api \<Rightarrow> ('k, 'cfg, 'v, 'fe) ResultCache \<Rightarrow> 'k \<Rightarrow> 'c verify_env \<Rightarrow> ('cfg, 'v) policy_ctx \<Rightarrow>
    schedule \<Rightarrow> (string \<Rightarrow> schedule) \<Rightarrow> string \<Rightarrow> reference \<Rightarrow> (string \<times> WClusterImagePolicy) list \<Rightarrow> remote_opt list \<Rightarrow>
    ('cfg, 'v, 'fe) policies_state \<times> 'k" where
  "validatePolicies api rc k env pc sc scs namespace ref policies remoteOpts =
     (let outcomes = map (run_policy api rc k env pc scs namespace ref remoteOpts) policies;
          arrived = map (\<lambda>i. (policies ! i, outcomes ! i)) (sc_order sc)
      in (gather sc cancelled_policy recv_policy outcomes ([], []), foldl (cache_outcome rc ref) k arrived))"

section \<open>Answers\<close>

definition set_details :: "'fe fe_api \<Rightarrow> string \<Rightarrow> 'fe option \<Rightarrow> 'fe option" where
  "set_details api d e = map_option (SetDetails api d) e"

definition failed_policy_field :: "'fe fe_api \<Rightarrow> string \<Rightarrow> string \<Rightarrow> nat \<Rightarrow> string \<Rightarrow> 'fe option" where
  "failed_policy_field api policy field index details =
     set_details api details
       (ViaFieldIndex api field index (Some (ErrGeneric api (''failed policy: '' @ policy) [''image''])))"

text \<open>The inner loop: the two texts and the two flags, which are not reset between policies.\<close>

record level_state =
  ls_errDetails :: string
  ls_warnDetails :: string
  ls_hasWarnings :: bool
  ls_hasErrors :: bool

definition add_policy_error :: "'fe fe_api \<Rightarrow> level_state \<Rightarrow> 'fe go_error \<Rightarrow> level_state" where
  "add_policy_error api st e =
     (case e of
        FieldErr fe \<Rightarrow>
          if Filter api WarningLevel (Some fe) \<noteq> None
          then st\<lparr>ls_warnDetails := ls_warnDetails st @ '' '' @ FEMessage api fe, ls_hasWarnings := True\<rparr>
          else st\<lparr>ls_errDetails := ls_errDetails st @ '' '' @ FEMessage api fe, ls_hasErrors := True\<rparr>
      | PlainError m \<Rightarrow> st\<lparr>ls_errDetails := ls_errDetails st @ '' '' @ m\<rparr>)"

definition add_policy_errors :: "'fe fe_api \<Rightarrow> string \<Rightarrow> string \<Rightarrow> nat \<Rightarrow> bool \<times> bool \<times> 'fe option \<Rightarrow>
    string \<times> 'fe go_error list \<Rightarrow> bool \<times> bool \<times> 'fe option" where
  "add_policy_errors api img field index st pe =
     (case st of (hasWarnings, hasErrors, errs) \<Rightarrow>
       (let ls = foldl (add_policy_error api)
                   \<lparr>ls_errDetails = img, ls_warnDetails = img, ls_hasWarnings = hasWarnings, ls_hasErrors = hasErrors\<rparr>
                   (snd pe);
            errs1 = (if ls_hasWarnings ls
                     then At api WarningLevel (Also api errs (failed_policy_field api (fst pe) field index (ls_warnDetails ls)))
                     else errs);
            errs2 = (if ls_hasErrors ls
                     then Also api errs1 (failed_policy_field api (fst pe) field index (ls_errDetails ls))
                     else errs1)
        in (ls_hasWarnings ls, ls_hasErrors ls, errs2)))"

definition errorsToFieldErrors :: "'fe fe_api \<Rightarrow> string \<Rightarrow> string \<Rightarrow> nat \<Rightarrow> (string \<times> 'fe go_error list) list \<Rightarrow> 'fe option" where
  "errorsToFieldErrors api img field index fieldErrors =
     snd (snd (foldl (add_policy_errors api img field index) (False, False, None) fieldErrors))"

definition setNoMatchingPoliciesError :: "'fe fe_api \<Rightarrow> PolicyControllerConfig option \<Rightarrow> string \<Rightarrow> string \<Rightarrow> nat \<Rightarrow> 'fe option" where
  "setNoMatchingPoliciesError api cfg img field index =
     (let err = set_details api img (ViaFieldIndex api field index (Some (ErrGeneric api ''no matching policies'' [''image''])));
          p = pcc_NoMatchPolicy (FromContextOrDefaults cfg)
      in if p = AllowAll then None
         else if p = DenyAll then err
         else if p = WarnAll then At api WarningLevel err
         else err)"

definition refOrFieldError :: "'fe fe_api \<Rightarrow> ref_parser \<Rightarrow> string \<Rightarrow> string \<Rightarrow> nat \<Rightarrow> 'fe option" where
  "refOrFieldError api parse img field index =
     (case parse img of
        Inl e \<Rightarrow> ViaFieldIndex api field index (Some (ErrGeneric api e [''image'']))
      | Inr ref \<Rightarrow>
          (case ref_Kind ref of
             DigestRef \<Rightarrow> None
           | TagRef \<Rightarrow> ViaFieldIndex api field index
               (Some (ErrInvalidValue api (img @ '' must be an image digest'') ''image'' []))))"

text \<open>
  Everything an admission request brings: the environment, the cache of results and its
  state, Kubernetes' type functions, and the schedules of the two levels of goroutines for
  each image (one for all containers that run the same image).
\<close>

record ('k, 'cfg, 'v, 'fe, 'c) admission_env =
  ae_api :: "'fe fe_api"
  ae_rc :: "('k, 'cfg, 'v, 'fe) ResultCache"
  ae_k :: 'k
  ae_env :: "'c verify_env"
  ae_pc :: "('cfg, 'v) policy_ctx"
  ae_kube :: kube_api
  ae_ParseWeak :: ref_parser
  ae_sched :: "string \<Rightarrow> schedule"
  ae_scheds :: "string \<Rightarrow> string \<Rightarrow> schedule"

definition validateContainerImage :: "('k, 'cfg, 'v, 'fe, 'c) admission_env \<Rightarrow> string \<Rightarrow> string \<Rightarrow> string \<Rightarrow> nat \<Rightarrow>
    string \<Rightarrow> string \<Rightarrow> (string \<times> string) list \<Rightarrow> remote_opt list \<Rightarrow> 'fe option" where
  "validateContainerImage ae containerImage namespace field index kind apiVersion labels remoteOpts =
     (let api = ae_api ae; env = ae_env ae
      in case ve_ParseReference env containerImage of
           Inl e \<Rightarrow> ViaFieldIndex api field index (Some (ErrGeneric api e [''image'']))
         | Inr ref \<Rightarrow>
             (case ve_Config env of
                None \<Rightarrow> None
              | Some config \<Rightarrow>
                  (case GetMatchingPolicies (ae_kube ae) (ae_ParseWeak ae) (wcf_ImagePolicyConfig config) (ref_Name ref)
                          kind apiVersion labels of
                     (policies, Some e) \<Rightarrow>
                       set_details api containerImage (ViaFieldIndex api field index (Some (ErrGeneric api e [''image''])))
                   | (None, None) \<Rightarrow> setNoMatchingPoliciesError api (ve_PCConfig env) containerImage field index
                   | (Some policies, None) \<Rightarrow>
                       if policies \<noteq> []
                       then errorsToFieldErrors api containerImage field index
                              (snd (fst (validatePolicies api (ae_rc ae) (ae_k ae) env (ae_pc ae) (ae_sched ae containerImage)
                                 (ae_scheds ae containerImage) namespace ref policies remoteOpts)))
                       else setNoMatchingPoliciesError api (ve_PCConfig env) containerImage field index)))"

end
