(* ===== verification/PolicyProperties.thy ===== *)
theory PolicyProperties
  imports PolicyEngine
begin

text \<open>
  Properties of the decision path: which errors reject an image, when a policy is satisfied,
  and that the answer does not depend on the order in which goroutines finish or maps are
  iterated.
\<close>

section \<open>Errors and levels\<close>

text \<open>An error that counts against admission: a field error without a warning.\<close>

definition fatal :: "'fe fe_api \<Rightarrow> 'fe go_error \<Rightarrow> bool" where
  "fatal api e = (case e of FieldErr fe \<Rightarrow> Filter api WarningLevel (Some fe) = None | PlainError _ \<Rightarrow> False)"

definition is_warning :: "'fe fe_api \<Rightarrow> 'fe go_error \<Rightarrow> bool" where
  "is_warning api e = (case e of FieldErr fe \<Rightarrow> Filter api WarningLevel (Some fe) \<noteq> None | PlainError _ \<Rightarrow> False)"

lemma add_policy_error_flags:
  "ls_hasErrors (foldl (add_policy_error api) st es) \<longleftrightarrow> ls_hasErrors st \<or> (\<exists>e \<in> set es. fatal api e)"
  "ls_hasWarnings (foldl (add_policy_error api) st es) \<longleftrightarrow> ls_hasWarnings st \<or> (\<exists>e \<in> set es. is_warning api e)"
  by (induction es arbitrary: st) (auto simp: add_policy_error_def fatal_def is_warning_def split: go_error.splits)

context field_error_laws
begin

lemma blocks_set_details [simp]: "blocks api (set_details api d e) \<longleftrightarrow> blocks api e"
  by (cases e) (simp_all add: set_details_def)

lemma has_warning_set_details [simp]: "has_warning api (set_details api d e) \<longleftrightarrow> has_warning api e"
  by (cases e) (simp_all add: set_details_def)

lemma blocks_failed_policy_field [simp]: "blocks api (failed_policy_field api p f i d)"
  by (simp add: failed_policy_field_def)

text \<open>
  The invariant of the outer loop: the error collected so far blocks exactly when the flag
  for errors is set. A warning of a later policy lowers the level of earlier errors, but the
  flag stays set and the policy at hand is reported as an error again.
\<close>

lemma add_policy_errors_inv:
  assumes "blocks api errs = hasErrors"
    and "add_policy_errors api img field index (hasWarnings, hasErrors, errs) pe = (hw, he, errs')"
  shows "blocks api errs' = he \<and> he = (hasErrors \<or> (\<exists>e \<in> set (snd pe). fatal api e))"
  using assms by (auto simp: add_policy_errors_def Let_def add_policy_error_flags split: if_splits)

lemma errors_loop_blocks:
  "blocks api errs = he \<Longrightarrow>
   blocks api (snd (snd (foldl (add_policy_errors api img field index) (hw, he, errs) fes))) \<longleftrightarrow>
     he \<or> (\<exists>pe \<in> set fes. \<exists>e \<in> set (snd pe). fatal api e)"
proof (induction fes arbitrary: hw he errs)
  case (Cons pe fes)
  obtain hw' he' errs' where step: "add_policy_errors api img field index (hw, he, errs) pe = (hw', he', errs')"
    by (metis surj_pair)
  from add_policy_errors_inv [OF Cons.prems step] Cons.IH [of errs' he' hw'] step show ?case by auto
qed simp

lemma asFieldError_level:
  assumes "e \<noteq> ''''"
  shows "\<exists>fe. asFieldError api warn e = FieldErr fe \<and> (Filter api WarningLevel (Some fe) = None \<longleftrightarrow> \<not> warn)"
proof -
  let ?l = "if warn then WarningLevel else ErrorLevel"
  let ?x = "At api ?l (Some (NewFieldError api e []))"
  have lvl: "Filter api l (Some (NewFieldError api e [])) = None \<longleftrightarrow> l \<noteq> ErrorLevel" for l
    using NewFieldError_level [OF assms] by blast
  have "Filter api ?l ?x \<noteq> None" using lvl [of ErrorLevel] by (simp add: Filter_At)
  then obtain fe where fe: "?x = Some fe" by (cases ?x) (auto simp: Filter_nil)
  have "Filter api WarningLevel (Some fe) = None \<longleftrightarrow> \<not> warn"
    using fe lvl [of ErrorLevel] Filter_At [of WarningLevel ?l "Some (NewFieldError api e [])"] by auto
  with fe show ?thesis by (simp add: asFieldError_def)
qed

end

text \<open>
  C4 The answer for an image with failed policies, for every iteration order of the error
  map: it rejects exactly when some policy's errors contain a field error that is not a
  warning. Later warnings never turn a rejection into an admission.
\<close>

theorem errors_reject_iff:
  assumes "field_error_laws api"
  shows "blocks api (errorsToFieldErrors api img field index fieldErrors) \<longleftrightarrow>
           (\<exists>pe \<in> set fieldErrors. \<exists>e \<in> set (snd pe). fatal api e)"
  using field_error_laws.errors_loop_blocks [OF assms, of None False img field index False fieldErrors]
    field_error_laws.blocks_basic(1) [OF assms]
  by (simp add: errorsToFieldErrors_def)

theorem errors_reject_iff_witness:
  "blocks diag_api (errorsToFieldErrors diag_api ''img'' ''containers'' 0
     [(''p'', [asFieldError diag_api False ''bad'']), (''q'', [asFieldError diag_api True ''odd''])])"
  using errors_reject_iff [OF dl.field_error_laws_axioms, of "''img''" "''containers''" 0
     "[(''p'', [asFieldError diag_api False ''bad'']), (''q'', [asFieldError diag_api True ''odd''])]"]
    dl.asFieldError_level [of "''bad''" False]
  by (auto simp: fatal_def)

text \<open>
  C23 Errors that are not field errors never reject: if every error of every failed policy is
  a plain error (a cancelled context, a policy or an authority without a result, a result
  that cannot be encoded), the answer is nil and the image is admitted.
\<close>

theorem plain_errors_admit:
  assumes "\<forall>pe \<in> set fieldErrors. \<forall>e \<in> set (snd pe). \<exists>m. e = PlainError m"
  shows "errorsToFieldErrors api img field index fieldErrors = None"
proof -
  have "foldl (add_policy_errors api img field index) (False, False, None) fieldErrors = (False, False, None)"
    using assms
  proof (induction fieldErrors)
    case (Cons pe fes)
    then have none: "\<not> (\<exists>e \<in> set (snd pe). fatal api e)" "\<not> (\<exists>e \<in> set (snd pe). is_warning api e)"
      by (auto simp: fatal_def is_warning_def)
    then have "add_policy_errors api img field index (False, False, None) pe = (False, False, None)"
      by (simp add: add_policy_errors_def Let_def add_policy_error_flags)
    with Cons show ?case by simp
  qed simp
  then show ?thesis by (simp add: errorsToFieldErrors_def)
qed

theorem plain_errors_admit_witness:
  "errorsToFieldErrors diag_api ''img'' ''containers'' 0
     [(''internalerror'', [PlainError ''context was canceled before validation completed''])] = None"
  by (rule plain_errors_admit) simp

section \<open>One policy\<close>

definition ar_pass :: "authority_result \<Rightarrow> bool" where
  "ar_pass r = (ar_err r = None \<and> (ar_signatures r \<noteq> [] \<or> ar_attestations r \<noteq> [] \<or> ar_static r))"

definition ar_errors :: "'fe fe_api \<Rightarrow> bool \<Rightarrow> authority_result \<Rightarrow> 'fe go_error list" where
  "ar_errors api warn r =
     (case ar_err r of
        Some e \<Rightarrow> [asFieldError api warn e]
      | None \<Rightarrow> if ar_pass r then [] else [PlainError (''failed to process authority: '' @ ar_name r)])"

text \<open>What a passing authority contributes, and the matches of all in the order in which they arrive.\<close>

definition authority_match :: "authority_result \<Rightarrow> AuthorityMatch" where
  "authority_match r =
     (if ar_signatures r \<noteq> [] then \<lparr>am_Signatures = ar_signatures r, am_Attestations = [], am_Static = False\<rparr>
      else if ar_attestations r \<noteq> [] then \<lparr>am_Signatures = [], am_Attestations = ar_attestations r, am_Static = False\<rparr>
      else \<lparr>am_Signatures = [], am_Attestations = [], am_Static = True\<rparr>)"

definition matches_in_order :: "schedule \<Rightarrow> authority_result list \<Rightarrow> (string \<times> AuthorityMatch) list" where
  "matches_in_order sc rs =
     foldl (\<lambda>m r. map_assign (ar_name r) (authority_match r) m) [] (filter ar_pass (map (\<lambda>i. rs ! i) (sc_order sc)))"

lemma map_assign_not_Nil [simp]: "map_assign k v m \<noteq> []"
  by (auto simp: map_assign_def)

lemma recv_authority_step:
  "fst (recv_authority api warn st r) = fst st @ ar_errors api warn r"
  "snd (recv_authority api warn st r) = [] \<longleftrightarrow> snd st = [] \<and> \<not> ar_pass r"
  by (auto simp: recv_authority_def ar_errors_def ar_pass_def split: option.splits prod.splits)

lemma recv_authorities:
  "fst (foldl (recv_authority api warn) st rs) = fst st @ concat (map (ar_errors api warn) rs)"
  "snd (foldl (recv_authority api warn) st rs) = [] \<longleftrightarrow> snd st = [] \<and> (\<forall>r \<in> set rs. \<not> ar_pass r)"
  by (induction rs arbitrary: st) (auto simp: recv_authority_step)

lemma recv_authorities_matches:
  "snd (foldl (recv_authority api warn) st rs) =
     foldl (\<lambda>m r. map_assign (ar_name r) (authority_match r) m) (snd st) (filter ar_pass rs)"
proof (induction rs arbitrary: st)
  case (Cons r rs)
  have "snd (recv_authority api warn st r) = (if ar_pass r then map_assign (ar_name r) (authority_match r) (snd st) else snd st)"
    by (auto simp: recv_authority_def ar_pass_def authority_match_def split: option.splits prod.splits)
  with Cons show ?case by simp
qed simp

text \<open>An uncancelled evaluation without a remembered result.\<close>

definition fresh_run :: "('k, 'cfg, 'v, 'fe) ResultCache \<Rightarrow> 'k \<Rightarrow> schedule \<Rightarrow> reference \<Rightarrow> WClusterImagePolicy \<Rightarrow> bool" where
  "fresh_run rc k sc ref cip =
     (rc_Get rc k (ref_String ref) (wc_UID cip) (wc_ResourceVersion cip) = None \<and>
      valid_schedule (length (wc_Authorities cip)) sc \<and> calm sc)"

text \<open>
  What the authorities of a policy report, whatever the order: a result exactly when one of
  them passes, and without one the errors of all of them.
\<close>

lemma ValidatePolicy_calm:
  fixes env :: "'c verify_env" and pc :: "('cfg, 'v) policy_ctx"
  assumes "fresh_run rc k sc ref cip"
  obtains errs matches where
    "set errs = (\<Union>a \<in> set (wc_Authorities cip).
       set (ar_errors api (wc_Mode cip = ''warn'') (check_authority env namespace ref ro a)))"
    and "matches = matches_in_order sc (map (check_authority env namespace ref ro) (wc_Authorities cip))"
    and "matches = [] \<longleftrightarrow> (\<forall>a \<in> set (wc_Authorities cip). \<not> ar_pass (check_authority env namespace ref ro a))"
    and "ValidatePolicy api rc k env pc sc namespace ref cip ro =
       (if matches = [] then (None, errs)
        else (let result = \<lparr>pr_AuthorityMatches = matches, pr_Config = [], pr_Spec = None,
                            pr_ObjectMeta = None, pr_TypeMeta = None\<rparr>
              in case wc_Policy cip of None \<Rightarrow> (Some result, errs)
                 | Some p \<Rightarrow> cip_policy api env pc ref cip p result errs))"
proof -
  let ?rs = "map (check_authority env namespace ref ro) (wc_Authorities cip)" and ?w = "wc_Mode cip = ''warn''"
  let ?done = "\<lambda>(errs, matches). (errs @ [PlainError (px_ctx_err pc @ '' before validation completed'')], matches)"
  have sched: "valid_schedule (length ?rs) sc" "calm sc" using assms by (simp_all add: fresh_run_def)
  define arrived where "arrived = map (\<lambda>i. ?rs ! i) (sc_order sc)"
  have ms: "mset arrived = mset ?rs"
    and g: "gather sc ?done (recv_authority api ?w) ?rs ([], []) = foldl (recv_authority api ?w) ([], []) arrived"
    unfolding arrived_def by (rule gather_in_order(2) [OF sched], rule gather_in_order(1) [OF sched])
  obtain errs matches where em: "foldl (recv_authority api ?w) ([], []) arrived = (errs, matches)" by force
  have "set arrived = set ?rs" using ms by (metis set_mset_mset)
  then have arr: "set arrived = check_authority env namespace ref ro ` set (wc_Authorities cip)" by simp
  show ?thesis
  proof (rule that)
    show "set errs = (\<Union>a \<in> set (wc_Authorities cip). set (ar_errors api ?w (check_authority env namespace ref ro a)))"
      using recv_authorities(1) [of api ?w "([], [])" arrived] em arr by simp
    show "matches = matches_in_order sc ?rs"
      using recv_authorities_matches [of api ?w "([], [])" arrived] em by (simp add: matches_in_order_def arrived_def)
    show "matches = [] \<longleftrightarrow> (\<forall>a \<in> set (wc_Authorities cip). \<not> ar_pass (check_authority env namespace ref ro a))"
      using recv_authorities(2) [of api ?w "([], [])" arrived] em arr by simp
    show "ValidatePolicy api rc k env pc sc namespace ref cip ro =
       (if matches = [] then (None, errs)
        else (let result = \<lparr>pr_AuthorityMatches = matches, pr_Config = [], pr_Spec = None,
                            pr_ObjectMeta = None, pr_TypeMeta = None\<rparr>
              in case wc_Policy cip of None \<Rightarrow> (Some result, errs)
                 | Some p \<Rightarrow> cip_policy api env pc ref cip p result errs))"
      using assms g em by (simp add: ValidatePolicy_def fresh_run_def)
  qed
qed

lemma cip_policy_cases:
  assumes "cip_policy api env pc ref cip p result errs = (res, errs')"
  shows "set errs \<subseteq> set errs' \<and>
    (\<forall>r. res = Some r \<longrightarrow> pr_AuthorityMatches r = pr_AuthorityMatches result \<and>
       (\<exists>json. px_marshal pc r = Ok json \<and>
          ve_EvaluatePolicy env ''ClusterImagePolicy'' (ap_Type p) (ap_Data p) json = (None, None)))"
  using assms
  by (auto simp: cip_policy_def Let_def split: prod.splits if_splits sum.splits option.splits)

text \<open>
  C7 A policy's result in an evaluation that is not cancelled and finds no remembered result,
  whatever the order in which its authorities finish: a policy without
  a policy-level check has a result exactly when at least one authority passes; a policy with
  one has a result only if, in addition, the very result that is returned was encoded and
  accepted by the evaluator without error and without warning.
\<close>

theorem policy_result_needs_authority:
  assumes "fresh_run rc k sc ref cip"
  shows "(wc_Policy cip = None \<longrightarrow>
            (fst (ValidatePolicy api rc k env pc sc namespace ref cip ro) \<noteq> None \<longleftrightarrow>
             (\<exists>a \<in> set (wc_Authorities cip). ar_pass (check_authority env namespace ref ro a)))) \<and>
         (\<forall>r. fst (ValidatePolicy api rc k env pc sc namespace ref cip ro) = Some r \<longrightarrow>
            (\<exists>a \<in> set (wc_Authorities cip). ar_pass (check_authority env namespace ref ro a)) \<and>
            (\<forall>p. wc_Policy cip = Some p \<longrightarrow>
               (\<exists>json. px_marshal pc r = Ok json \<and>
                  ve_EvaluatePolicy env ''ClusterImagePolicy'' (ap_Type p) (ap_Data p) json = (None, None))))"
proof -
  obtain errs matches where
    m: "matches = [] \<longleftrightarrow> (\<forall>a \<in> set (wc_Authorities cip). \<not> ar_pass (check_authority env namespace ref ro a))"
    and v: "ValidatePolicy api rc k env pc sc namespace ref cip ro =
       (if matches = [] then (None, errs)
        else (let result = \<lparr>pr_AuthorityMatches = matches, pr_Config = [], pr_Spec = None,
                            pr_ObjectMeta = None, pr_TypeMeta = None\<rparr>
              in case wc_Policy cip of None \<Rightarrow> (Some result, errs)
                 | Some p \<Rightarrow> cip_policy api env pc ref cip p result errs))"
    by (rule ValidatePolicy_calm [OF assms])
  show ?thesis
  proof (intro conjI impI allI)
    assume "wc_Policy cip = None"
    then show "fst (ValidatePolicy api rc k env pc sc namespace ref cip ro) \<noteq> None \<longleftrightarrow>
             (\<exists>a \<in> set (wc_Authorities cip). ar_pass (check_authority env namespace ref ro a))"
      using m v by (simp add: Let_def)
  next
    fix r assume r: "fst (ValidatePolicy api rc k env pc sc namespace ref cip ro) = Some r"
    then show "\<exists>a \<in> set (wc_Authorities cip). ar_pass (check_authority env namespace ref ro a)"
      using m v by (auto split: if_splits)
    fix p assume p: "wc_Policy cip = Some p"
    obtain errs' where "cip_policy api env pc ref cip p \<lparr>pr_AuthorityMatches = matches, pr_Config = [], pr_Spec = None,
                            pr_ObjectMeta = None, pr_TypeMeta = None\<rparr> errs = (Some r, errs')"
      using r v p by (auto simp: Let_def split: if_splits) (metis prod.collapse)
    from cip_policy_cases [OF this] show "\<exists>json. px_marshal pc r = Ok json \<and>
                  ve_EvaluatePolicy env ''ClusterImagePolicy'' (ap_Type p) (ap_Data p) json = (None, None)"
      by blast
  qed
qed

text \<open>The level of a policy's errors follows its mode.\<close>

lemma ar_errors_fatal:
  assumes "field_error_laws api" "ar_err r \<noteq> Some ''''"
  shows "(\<exists>e \<in> set (ar_errors api warn r). fatal api e) \<longleftrightarrow> \<not> warn \<and> ar_err r \<noteq> None"
proof (cases "ar_err r")
  case (Some e)
  with assms field_error_laws.asFieldError_level [OF assms(1), of e warn] show ?thesis
    by (auto simp: ar_errors_def fatal_def)
qed (simp add: ar_errors_def fatal_def)

lemma unsatisfied_policy_errors:
  assumes "field_error_laws api" "fresh_run rc k sc ref cip"
    and "\<forall>a \<in> set (wc_Authorities cip). \<not> ar_pass (check_authority env namespace ref ro a) \<and>
           ar_err (check_authority env namespace ref ro a) \<noteq> Some ''''"
  shows "\<exists>errs. ValidatePolicy api rc k env pc sc namespace ref cip ro = (None, errs) \<and>
     ((\<exists>e \<in> set errs. fatal api e) \<longleftrightarrow>
        wc_Mode cip \<noteq> ''warn'' \<and> (\<exists>a \<in> set (wc_Authorities cip). ar_err (check_authority env namespace ref ro a) \<noteq> None))"
proof -
  let ?ca = "check_authority env namespace ref ro"
  obtain errs matches where
    e: "set errs = (\<Union>a \<in> set (wc_Authorities cip). set (ar_errors api (wc_Mode cip = ''warn'') (?ca a)))"
    and m: "matches = [] \<longleftrightarrow> (\<forall>a \<in> set (wc_Authorities cip). \<not> ar_pass (?ca a))"
    and v: "ValidatePolicy api rc k env pc sc namespace ref cip ro =
       (if matches = [] then (None, errs)
        else (let result = \<lparr>pr_AuthorityMatches = matches, pr_Config = [], pr_Spec = None,
                            pr_ObjectMeta = None, pr_TypeMeta = None\<rparr>
              in case wc_Policy cip of None \<Rightarrow> (Some result, errs)
                 | Some p \<Rightarrow> cip_policy api env pc ref cip p result errs))"
    by (rule ValidatePolicy_calm [OF assms(2)])
  have "matches = []" using m assms(3) by blast
  have "(\<exists>x \<in> set (ar_errors api (wc_Mode cip = ''warn'') (?ca a)). fatal api x) \<longleftrightarrow>
      wc_Mode cip \<noteq> ''warn'' \<and> ar_err (?ca a) \<noteq> None" if "a \<in> set (wc_Authorities cip)" for a
    using ar_errors_fatal [OF assms(1), of "?ca a"] assms(3) that by blast
  then have "(\<exists>x \<in> set errs. fatal api x) \<longleftrightarrow>
      wc_Mode cip \<noteq> ''warn'' \<and> (\<exists>a \<in> set (wc_Authorities cip). ar_err (?ca a) \<noteq> None)"
    unfolding e by blast
  with v \<open>matches = []\<close> show ?thesis by auto
qed

section \<open>All policies\<close>

definition outcome_errors :: "('cfg, 'v, 'fe) policy_outcome \<Rightarrow> 'fe go_error list" where
  "outcome_errors r = (if po_errors r \<noteq> [] then po_errors r
     else [PlainError (''failed to process policy: '' @ po_name r)])"

lemma map_append_new: "k \<notin> fst ` set m \<Longrightarrow> map_append k xs m = m @ [(k, xs)]"
  by (auto simp: map_append_def map_assign_new map_of_eq_None_iff [THEN iffD2])

lemma recv_policy_new:
  assumes "po_name r \<notin> fst ` set ret"
  shows "snd (recv_policy (res, ret) r) =
     ret @ (if po_result r = None then [(po_name r, outcome_errors r)] else [])"
  using assms by (auto simp: recv_policy_def outcome_errors_def map_append_new split: option.splits)

lemma recv_policies:
  "distinct (map po_name rs) \<Longrightarrow> fst ` set (snd st) \<inter> po_name ` set rs = {} \<Longrightarrow>
   snd (foldl recv_policy st rs) =
     snd st @ map (\<lambda>r. (po_name r, outcome_errors r)) (filter (\<lambda>r. po_result r = None) rs)"
proof (induction rs arbitrary: st)
  case (Cons r rs)
  obtain res ret where st: "st = (res, ret)" by force
  from Cons.prems st have new: "po_name r \<notin> fst ` set ret" by auto
  from Cons.prems recv_policy_new [OF new, of res] st
  have "fst ` set (snd (recv_policy st r)) \<inter> po_name ` set rs = {}" by auto
  with Cons.IH [of "recv_policy st r"] Cons.prems recv_policy_new [OF new, of res] st show ?case by auto
qed simp

lemma validatePolicies_errors:
  assumes "distinct (map fst policies)" "valid_schedule (length policies) sc" "calm sc"
  shows "set (snd (fst (validatePolicies api rc k env pc sc scs namespace ref policies ro))) =
     {(fst np, outcome_errors (run_policy api rc k env pc scs namespace ref ro np)) | np.
        np \<in> set policies \<and> fst (ValidatePolicy api rc k env pc (scs (fst np)) namespace ref (snd np) ro) = None}"
proof -
  let ?run = "run_policy api rc k env pc scs namespace ref ro"
  have name: "po_name (?run np) = fst np"
    "po_result (?run np) = fst (ValidatePolicy api rc k env pc (scs (fst np)) namespace ref (snd np) ro)" for np
    by (simp_all add: run_policy_def split: prod.splits)
  obtain arrived where ms: "mset arrived = mset (map ?run policies)"
    and g: "gather sc cancelled_policy recv_policy (map ?run policies) ([], []) = foldl recv_policy ([], []) arrived"
    using gather_calm [of "map ?run policies" sc cancelled_policy recv_policy "([], [])"] assms(2,3) by auto
  have "mset (map po_name arrived) = mset (map fst policies)"
    using ms by (simp add: name image_mset.compositionality comp_def)
  then have dist: "distinct (map po_name arrived)" using assms(1) by (metis distinct_count_atmost_1 set_mset_mset)
  have arr: "set arrived = ?run ` set policies" using ms by (metis set_map set_mset_mset)
  have "snd (foldl recv_policy ([], []) arrived) =
     map (\<lambda>r. (po_name r, outcome_errors r)) (filter (\<lambda>r. po_result r = None) arrived)"
    using recv_policies [of arrived "([], [])"] dist by simp
  then have "set (snd (fst (validatePolicies api rc k env pc sc scs namespace ref policies ro))) =
     (\<lambda>r. (po_name r, outcome_errors r)) ` {r \<in> ?run ` set policies. po_result r = None}"
    using g arr by (simp add: validatePolicies_def Let_def)
  also have "\<dots> = {(fst np, outcome_errors (?run np)) | np. np \<in> set policies \<and> po_result (?run np) = None}"
    by (simp only: name(1) [symmetric]) blast
  finally show ?thesis by (simp only: name(2))
qed

section \<open>One image\<close>

text \<open>The policies that apply to an image, when the configuration answers without an error.\<close>

definition matched :: "('k, 'cfg, 'v, 'fe, 'c) admission_env \<Rightarrow> string \<Rightarrow> string \<Rightarrow> string \<Rightarrow> (string \<times> string) list \<Rightarrow>
    reference \<Rightarrow> (string \<times> WClusterImagePolicy) list \<Rightarrow> bool" where
  "matched ae img kind apiVersion labels ref policies =
     (ve_ParseReference (ae_env ae) img = Ok ref \<and>
      (\<exists>config. ve_Config (ae_env ae) = Some config \<and>
         GetMatchingPolicies (ae_kube ae) (ae_ParseWeak ae) (wcf_ImagePolicyConfig config) (ref_Name ref)
           kind apiVersion labels = (Some policies, None)))"

abbreviation image_policy where
  "image_policy ae img namespace ref ro np \<equiv>
     ValidatePolicy (ae_api ae) (ae_rc ae) (ae_k ae) (ae_env ae) (ae_pc ae) (ae_scheds ae img (fst np)) namespace ref (snd np) ro"

lemma bex_pairs: "(\<exists>pe \<in> {(f x, g x) | x. x \<in> A \<and> P x}. Q (snd pe)) \<longleftrightarrow> (\<exists>x \<in> A. P x \<and> Q (g x))"
  by fastforce

lemma image_blocks_iff:
  assumes "field_error_laws (ae_api ae)" "matched ae img kind apiVersion labels ref policies" "policies \<noteq> []"
    and "distinct (map fst policies)" "valid_schedule (length policies) (ae_sched ae img)" "calm (ae_sched ae img)"
  shows "blocks (ae_api ae) (validateContainerImage ae img namespace field index kind apiVersion labels ro) \<longleftrightarrow>
    (\<exists>np \<in> set policies. \<exists>errs. image_policy ae img namespace ref ro np = (None, errs) \<and> (\<exists>e \<in> set errs. fatal (ae_api ae) e))"
proof -
  let ?vp = "validatePolicies (ae_api ae) (ae_rc ae) (ae_k ae) (ae_env ae) (ae_pc ae) (ae_sched ae img)
                                 (ae_scheds ae img) namespace ref policies ro"
  let ?run = "run_policy (ae_api ae) (ae_rc ae) (ae_k ae) (ae_env ae) (ae_pc ae) (ae_scheds ae img) namespace ref ro"
  have "validateContainerImage ae img namespace field index kind apiVersion labels ro =
      errorsToFieldErrors (ae_api ae) img field index (snd (fst ?vp))"
    using assms(2,3) by (auto simp: validateContainerImage_def matched_def Let_def)
  then have "blocks (ae_api ae) (validateContainerImage ae img namespace field index kind apiVersion labels ro) \<longleftrightarrow>
      (\<exists>pe \<in> set (snd (fst ?vp)). \<exists>e \<in> set (snd pe). fatal (ae_api ae) e)"
    using field_error_laws.errors_loop_blocks [OF assms(1), of None False img field index False "snd (fst ?vp)"]
      field_error_laws.blocks_basic(1) [OF assms(1)]
    by (simp add: errorsToFieldErrors_def)
  also have "\<dots> \<longleftrightarrow> (\<exists>np \<in> set policies. fst (image_policy ae img namespace ref ro np) = None \<and>
      (\<exists>e \<in> set (outcome_errors (?run np)). fatal (ae_api ae) e))"
    unfolding validatePolicies_errors [OF assms(4-6)] by (rule bex_pairs)
  also have "\<dots> \<longleftrightarrow> (\<exists>np \<in> set policies. \<exists>errs. image_policy ae img namespace ref ro np = (None, errs) \<and>
      (\<exists>e \<in> set errs. fatal (ae_api ae) e))"
    by (intro bex_cong refl) (auto simp: run_policy_def outcome_errors_def fatal_def split: prod.splits)
  finally show ?thesis .
qed

text \<open>
  The policy-level check: \<open>None\<close> if the matches of the authorities are accepted, and otherwise the texts of the errors it
  reports. (A result that cannot be encoded fails without a field error.)
\<close>

definition level_failure :: "'c verify_env \<Rightarrow> ('cfg, 'v) policy_ctx \<Rightarrow> reference \<Rightarrow> AttestationPolicy \<Rightarrow> (string \<times> AuthorityMatch) list \<Rightarrow>
    string list option" where
  "level_failure env pc ref p matches =
     (let fetched = (if ap_FetchConfigFile p = Some True then px_getConfigs pc ref else ([], []));
          result = \<lparr>pr_AuthorityMatches = matches, pr_Config = fst fetched,
                    pr_Spec = (if ap_IncludeSpec p = Some True then px_Spec pc else None),
                    pr_ObjectMeta = (if ap_IncludeObjectMeta p = Some True then px_ObjectMeta pc else None),
                    pr_TypeMeta = (if ap_IncludeTypeMeta p = Some True then px_TypeMeta pc else None)\<rparr>
      in if snd fetched \<noteq> [] then Some (snd fetched)
         else case px_marshal pc result of
                Inl e \<Rightarrow> Some []
              | Inr json \<Rightarrow>
                  (case ve_EvaluatePolicy env ''ClusterImagePolicy'' (ap_Type p) (ap_Data p) json of
                     (warn, Some e) \<Rightarrow> Some [e]
                   | (Some w, None) \<Rightarrow> Some [w]
                   | (None, None) \<Rightarrow> None))"

lemma cip_policy_level:
  fixes pc :: "('cfg, 'v) policy_ctx"
  assumes "cip_policy api env pc ref cip p \<lparr>pr_AuthorityMatches = matches, pr_Config = [], pr_Spec = None,
             pr_ObjectMeta = None, pr_TypeMeta = None\<rparr> errs = (res, errs')"
  shows "(res = None \<longleftrightarrow> level_failure env pc ref p matches \<noteq> None) \<and>
    (\<forall>es. level_failure env pc ref p matches = Some es \<longrightarrow>
       (\<exists>plain. errs' = errs @ map (asFieldError api (wc_Mode cip = ''warn'')) es @ map PlainError plain))"
proof -
  obtain configs cerrs where c: "(if ap_FetchConfigFile p = Some True then px_getConfigs pc ref else ([], [])) = (configs, cerrs)"
    by force
  define r where "r = \<lparr>pr_AuthorityMatches = matches, pr_Config = configs,
                    pr_Spec = (if ap_IncludeSpec p = Some True then px_Spec pc else None),
                    pr_ObjectMeta = (if ap_IncludeObjectMeta p = Some True then px_ObjectMeta pc else None),
                    pr_TypeMeta = (if ap_IncludeTypeMeta p = Some True then px_TypeMeta pc else None)\<rparr>"
  let ?ev = "\<lambda>json. ve_EvaluatePolicy env ''ClusterImagePolicy'' (ap_Type p) (ap_Data p) json"
  have lf: "level_failure env pc ref p matches =
      (if cerrs \<noteq> [] then Some cerrs
       else case px_marshal pc r of Inl e \<Rightarrow> Some []
            | Inr json \<Rightarrow> (case ?ev json of (warn, Some e) \<Rightarrow> Some [e] | (Some w, None) \<Rightarrow> Some [w] | (None, None) \<Rightarrow> None))"
    unfolding level_failure_def c Let_def r_def by simp
  have cp: "(res, errs') =
      (if cerrs \<noteq> [] then (None, errs @ map (asFieldError api (wc_Mode cip = ''warn'')) cerrs)
       else case px_marshal pc r of
              Inl e \<Rightarrow> (None, errs @ [PlainError e])
            | Inr json \<Rightarrow>
                (case ?ev json of
                   (warn, Some e) \<Rightarrow> (None, errs @ [asFieldError api (wc_Mode cip = ''warn'') e])
                 | (Some w, None) \<Rightarrow> (None, errs @ [asFieldError api (wc_Mode cip = ''warn'') w])
                 | (None, None) \<Rightarrow> (Some r, errs)))"
  proof -
    let ?r0 = "\<lparr>pr_AuthorityMatches = matches, pr_Config = [], pr_Spec = None, pr_ObjectMeta = None, pr_TypeMeta = None\<rparr> :: ('cfg, 'v) PolicyResult"
    let ?r1 = "if ap_FetchConfigFile p = Some True then ?r0\<lparr>pr_Config := configs\<rparr> else ?r0"
    let ?r2 = "if ap_IncludeSpec p = Some True then ?r1\<lparr>pr_Spec := px_Spec pc\<rparr> else ?r1"
    let ?r3 = "if ap_IncludeObjectMeta p = Some True then ?r2\<lparr>pr_ObjectMeta := px_ObjectMeta pc\<rparr> else ?r2"
    have "ap_FetchConfigFile p \<noteq> Some True \<Longrightarrow> configs = []" using c by simp
    then have r4: "(if ap_IncludeTypeMeta p = Some True then ?r3\<lparr>pr_TypeMeta := px_TypeMeta pc\<rparr> else ?r3) = r"
      unfolding r_def
      by (cases "ap_FetchConfigFile p = Some True"; cases "ap_IncludeSpec p = Some True"; cases "ap_IncludeObjectMeta p = Some True";
          cases "ap_IncludeTypeMeta p = Some True") simp_all
    show ?thesis unfolding assms [symmetric] cip_policy_def flag_def c Let_def prod.case r4 by (rule refl)
  qed
  show ?thesis
  proof (cases "cerrs \<noteq> []")
    case True
    with cp lf show ?thesis by (auto intro: exI [of _ "[]"])
  next
    case False
    show ?thesis
    proof (cases "px_marshal pc r")
      case (Inl e)
      with False cp lf show ?thesis by (auto intro: exI [of _ "[e]"])
    next
      case (Inr json)
      obtain wo eo where "?ev json = (wo, eo)" by force
      with False Inr cp lf show ?thesis by (cases eo; cases wo) (auto intro: exI [of _ "[]"])
    qed
  qed
qed

text \<open>
  When an enforcing policy turns an image down: no authority passes and one reports an error, or the policy-level check
  fails and it or an authority reports an error.
\<close>

definition policy_rejects :: "'c verify_env \<Rightarrow> ('cfg, 'v) policy_ctx \<Rightarrow> schedule \<Rightarrow> string \<Rightarrow> reference \<Rightarrow> remote_opt list \<Rightarrow>
    WClusterImagePolicy \<Rightarrow> bool" where
  "policy_rejects env pc sc namespace ref ro cip \<longleftrightarrow>
     (let results = map (check_authority env namespace ref ro) (wc_Authorities cip);
          reported = (\<exists>r \<in> set results. ar_err r \<noteq> None)
      in wc_Mode cip \<noteq> ''warn'' \<and>
         (if \<exists>r \<in> set results. ar_pass r
          then (\<exists>p es. wc_Policy cip = Some p \<and> level_failure env pc ref p (matches_in_order sc results) = Some es \<and> (es \<noteq> [] \<or> reported))
          else reported))"

text \<open>External calls whose error has no text: the field error made of it would be empty.\<close>

definition errors_have_text :: "'c verify_env \<Rightarrow> ('cfg, 'v) policy_ctx \<Rightarrow> schedule \<Rightarrow> string \<Rightarrow> reference \<Rightarrow> remote_opt list \<Rightarrow>
    WClusterImagePolicy \<Rightarrow> bool" where
  "errors_have_text env pc sc namespace ref ro cip \<longleftrightarrow>
     (let results = map (check_authority env namespace ref ro) (wc_Authorities cip)
      in (\<forall>r \<in> set results. ar_err r \<noteq> Some '''') \<and>
         (\<forall>p es. wc_Policy cip = Some p \<longrightarrow> level_failure env pc ref p (matches_in_order sc results) = Some es \<longrightarrow> '''' \<notin> set es))"

lemma asFieldErrors_fatal:
  assumes "field_error_laws api" "'''' \<notin> set es"
  shows "(\<exists>e \<in> set (map (asFieldError api warn) es). fatal api e) \<longleftrightarrow> \<not> warn \<and> es \<noteq> []"
proof -
  have "fatal api (asFieldError api warn e) \<longleftrightarrow> \<not> warn" if "e \<in> set es" for e
  proof -
    from that assms(2) have "e \<noteq> ''''" by auto
    from field_error_laws.asFieldError_level [OF assms(1) this, of warn] show ?thesis by (auto simp: fatal_def)
  qed
  then show ?thesis by (cases es) auto
qed

lemma policy_rejects_iff:
  assumes "field_error_laws api" "fresh_run rc k sc ref cip" "errors_have_text env pc sc namespace ref ro cip"
  shows "(\<exists>errs. ValidatePolicy api rc k env pc sc namespace ref cip ro = (None, errs) \<and> (\<exists>e \<in> set errs. fatal api e)) \<longleftrightarrow>
    policy_rejects env pc sc namespace ref ro cip"
proof -
  let ?ca = "check_authority env namespace ref ro" and ?w = "wc_Mode cip = ''warn''"
  let ?reported = "\<exists>a \<in> set (wc_Authorities cip). ar_err (?ca a) \<noteq> None"
  obtain errs matches where
    e: "set errs = (\<Union>a \<in> set (wc_Authorities cip). set (ar_errors api ?w (?ca a)))"
    and mo: "matches = matches_in_order sc (map ?ca (wc_Authorities cip))"
    and m: "matches = [] \<longleftrightarrow> (\<forall>a \<in> set (wc_Authorities cip). \<not> ar_pass (?ca a))"
    and v: "ValidatePolicy api rc k env pc sc namespace ref cip ro =
       (if matches = [] then (None, errs)
        else (let result = \<lparr>pr_AuthorityMatches = matches, pr_Config = [], pr_Spec = None,
                            pr_ObjectMeta = None, pr_TypeMeta = None\<rparr>
              in case wc_Policy cip of None \<Rightarrow> (Some result, errs)
                 | Some p \<Rightarrow> cip_policy api env pc ref cip p result errs))"
    by (rule ValidatePolicy_calm [OF assms(2)])
  have err: "ar_err (?ca a) \<noteq> Some ''''" if "a \<in> set (wc_Authorities cip)" for a
    using assms(3) that by (simp add: errors_have_text_def)
  have "(\<exists>x \<in> set (ar_errors api ?w (?ca a)). fatal api x) \<longleftrightarrow> \<not> ?w \<and> ar_err (?ca a) \<noteq> None"
    if "a \<in> set (wc_Authorities cip)" for a
    using ar_errors_fatal [OF assms(1) err [OF that]] .
  then have ef: "(\<exists>x \<in> set errs. fatal api x) \<longleftrightarrow> \<not> ?w \<and> ?reported" unfolding e by blast
  have rej: "policy_rejects env pc sc namespace ref ro cip \<longleftrightarrow> \<not> ?w \<and>
      (if matches = [] then ?reported
       else (\<exists>p es. wc_Policy cip = Some p \<and> level_failure env pc ref p matches = Some es \<and> (es \<noteq> [] \<or> ?reported)))"
    using m by (auto simp: policy_rejects_def Let_def mo)
  show ?thesis
  proof (cases "matches = [] \<or> wc_Policy cip = None")
    case True
    then show ?thesis using v ef rej by (auto simp: Let_def)
  next
    case False
    then obtain p where p: "wc_Policy cip = Some p" by auto
    obtain res errs' where cp: "cip_policy api env pc ref cip p \<lparr>pr_AuthorityMatches = matches, pr_Config = [], pr_Spec = None,
             pr_ObjectMeta = None, pr_TypeMeta = None\<rparr> errs = (res, errs')" by force
    have v': "ValidatePolicy api rc k env pc sc namespace ref cip ro = (res, errs')"
      using False p cp by (simp add: v Let_def)
    note level = cip_policy_level [OF cp]
    show ?thesis
    proof (cases "level_failure env pc ref p matches")
      case None
      then show ?thesis using v' level False p rej by auto
    next
      case (Some es)
      with level obtain plain where pl: "res = None" "errs' = errs @ map (asFieldError api ?w) es @ map PlainError plain" by auto
      have "'''' \<notin> set es" using assms(3) p Some mo by (simp add: errors_have_text_def)
      note asf = asFieldErrors_fatal [OF assms(1) this, of ?w]
      have "(\<exists>x \<in> set errs'. fatal api x) \<longleftrightarrow> (\<exists>x \<in> set errs. fatal api x) \<or> (\<exists>e \<in> set (map (asFieldError api ?w) es). fatal api e)"
        unfolding pl(2) by (auto simp: fatal_def)
      then show ?thesis using v' pl(1) False p Some rej ef asf by auto
    qed
  qed
qed

text \<open>
  C2 All matching policies must be satisfied, whatever the order of policies and authorities. For evaluations that
  are not cancelled, find no remembered result and meet no error without a text, an image is rejected exactly when
  some matching policy that is not in warn mode has no authority that passes and one that reports an error, or
  has a passing authority but a policy-level check that fails with an error reported by it or by an authority.
  A policy in warn mode never rejects.
\<close>

theorem image_rejected_iff_policy_fails:
  assumes "field_error_laws (ae_api ae)" "matched ae img kind apiVersion labels ref policies" "policies \<noteq> []"
    and "distinct (map fst policies)" "valid_schedule (length policies) (ae_sched ae img)" "calm (ae_sched ae img)"
    and "\<forall>np \<in> set policies. fresh_run (ae_rc ae) (ae_k ae) (ae_scheds ae img (fst np)) ref (snd np) \<and>
           errors_have_text (ae_env ae) (ae_pc ae) (ae_scheds ae img (fst np)) namespace ref ro (snd np)"
  shows "blocks (ae_api ae) (validateContainerImage ae img namespace field index kind apiVersion labels ro) \<longleftrightarrow>
    (\<exists>np \<in> set policies. policy_rejects (ae_env ae) (ae_pc ae) (ae_scheds ae img (fst np)) namespace ref ro (snd np))"
  unfolding image_blocks_iff [OF assms(1-6)]
  by (rule bex_cong [OF refl], rule policy_rejects_iff [OF assms(1)]) (use assms(7) in blast)+

text \<open>
  C15 An image that no policy matches. The request is rejected exactly when the configurations are attached to it and the
  controller configuration asks neither to allow nor to warn, which includes any value it does not know and, through the
  default, a value that was never set; it carries a warning exactly when the configuration asks to warn. Without
  attached configurations the image is let through. (The comment of \<open>setNoMatchingPoliciesError\<close> says that an unset
  behaviour lets the image through; the code denies.)
\<close>

theorem unmatched_image_answer:
  assumes "field_error_laws (ae_api ae)" "ve_ParseReference (ae_env ae) img = Ok ref"
    and "\<forall>config. ve_Config (ae_env ae) = Some config \<longrightarrow>
           GetMatchingPolicies (ae_kube ae) (ae_ParseWeak ae) (wcf_ImagePolicyConfig config) (ref_Name ref) kind apiVersion labels
             \<in> {(None, None), (Some [], None)}"
  shows "(blocks (ae_api ae) (validateContainerImage ae img namespace field index kind apiVersion labels ro) \<longleftrightarrow>
            ve_Config (ae_env ae) \<noteq> None \<and>
            (case ve_PCConfig (ae_env ae) of None \<Rightarrow> True | Some pcc \<Rightarrow> pcc_NoMatchPolicy pcc \<notin> {''allow'', ''warn''})) \<and>
         (has_warning (ae_api ae) (validateContainerImage ae img namespace field index kind apiVersion labels ro) \<longleftrightarrow>
            ve_Config (ae_env ae) \<noteq> None \<and> (\<exists>pcc. ve_PCConfig (ae_env ae) = Some pcc \<and> pcc_NoMatchPolicy pcc = ''warn''))"
proof (cases "ve_Config (ae_env ae)")
  case None
  then show ?thesis
    using assms(2) field_error_laws.blocks_basic [OF assms(1)] field_error_laws.has_warning_basic [OF assms(1)]
    by (simp add: validateContainerImage_def Let_def)
next
  case (Some config)
  then have e: "validateContainerImage ae img namespace field index kind apiVersion labels ro =
      setNoMatchingPoliciesError (ae_api ae) (ve_PCConfig (ae_env ae)) img field index"
    using assms(2,3) by (auto simp: validateContainerImage_def Let_def)
  note laws = field_error_laws.blocks_set_details [OF assms(1)] field_error_laws.blocks_basic [OF assms(1)]
    field_error_laws.blocks_errors [OF assms(1)] field_error_laws.blocks_At [OF assms(1)]
    field_error_laws.has_warning_set_details [OF assms(1)] field_error_laws.has_warning_basic [OF assms(1)]
    field_error_laws.has_warning_errors [OF assms(1)] field_error_laws.has_warning_At [OF assms(1)]
  show ?thesis
    by (auto simp: e Some setNoMatchingPoliciesError_def Let_def laws AllowAll_def DenyAll_def WarnAll_def
        FromContextOrDefaults_def default_PolicyControllerConfig_def split: option.splits)
qed

section \<open>A sample request\<close>

text \<open>
  Two policies apply to the sample image: one with a static authority that fails, in enforce
  mode, and one with a static authority that passes.
\<close>

definition sample_static :: "string \<Rightarrow> WAuthority" where
  "sample_static action = sample_wauthority\<lparr>wa_Key := None, wa_Static := Some \<lparr>ws_Action = action, ws_Message = ''m''\<rparr>\<rparr>"

definition sample_policies :: "(string \<times> WClusterImagePolicy) list" where
  "sample_policies =
     [(''deny'', sample_webhook_cip\<lparr>wc_Authorities := [sample_static ''fail'']\<rparr>),
      (''pass'', sample_webhook_cip\<lparr>wc_UID := ''uid-2'', wc_Authorities := [sample_static ''pass'']\<rparr>)]"

definition sample_pctx :: "(unit, unit) policy_ctx" where
  "sample_pctx = \<lparr>px_Spec = None, px_ObjectMeta = None, px_TypeMeta = None, px_getConfigs = (\<lambda>_. ([], [])),
     px_marshal = (\<lambda>_. Ok ''{}''), px_ctx_err = ''context canceled''\<rparr>"

definition sample_admission :: "(string \<times> WClusterImagePolicy) list \<Rightarrow> (unit, unit, unit, diag_list, lru_list) admission_env" where
  "sample_admission ps = \<lparr>ae_api = diag_api, ae_rc = NoCache, ae_k = (),
     ae_env = sample_env\<lparr>ve_Config := Some \<lparr>wcf_ImagePolicyConfig = Some \<lparr>Policies = ps\<rparr>, wcf_SigstoreKeysConfig = None\<rparr>\<rparr>,
     ae_pc = sample_pctx, ae_kube = sample_kube, ae_ParseWeak = sample_parser,
     ae_sched = (\<lambda>_. \<lparr>sc_order = [1, 0], sc_done = [False, False]\<rparr>),
     ae_scheds = (\<lambda>_ _. \<lparr>sc_order = [0], sc_done = [False]\<rparr>)\<rparr>"

lemma sample_admission_fields [simp]:
  "ae_api (sample_admission ps) = diag_api" "ae_rc (sample_admission ps) = NoCache"
  "ae_sched (sample_admission ps) img = \<lparr>sc_order = [1, 0], sc_done = [False, False]\<rparr>"
  "ae_scheds (sample_admission ps) img n = \<lparr>sc_order = [0], sc_done = [False]\<rparr>"
  "ve_PCConfig (ae_env (sample_admission ps)) = ve_PCConfig sample_env"
  by (simp_all add: sample_admission_def)

lemma sample_match_ab: "Match sample_parser ''a*'' ''ab'' = Ok True"
  by (simp add: Match_def Compile_tokens normalize_glob_def sample_parser_def rx_match_iff lang_tokens
      glob_chars_def lower_letters_def Let_def del: tok_rx.simps list.map)

definition sample_image_ref :: reference where
  "sample_image_ref = \<lparr>ref_Name = ''ab'', ref_String = ''ab'', ref_Kind = DigestRef, ref_DigestStr = '''', ref_Context = ''ab''\<rparr>"

lemma sample_parser_ab: "sample_parser ''ab'' = Ok sample_image_ref" "ref_Name sample_image_ref = ''ab''"
  by (simp_all add: sample_parser_def sample_image_ref_def)

lemma sample_matched: "matched (sample_admission sample_policies) ''ab'' ''Pod'' ''v1'' [] sample_image_ref sample_policies"
  by (simp add: matched_def sample_admission_def sample_env_def sample_policies_def sample_parser_ab
      GetMatchingPolicies_def sample_kube_def sample_webhook_cip_def map_assign_def sample_match_ab)

lemma sample_unmatched:
  "GetMatchingPolicies (ae_kube (sample_admission [])) (ae_ParseWeak (sample_admission []))
     (Some \<lparr>Policies = []\<rparr>) ''ab'' ''Pod'' ''v1'' [] = (Some [], None)"
  by (simp add: sample_admission_def GetMatchingPolicies_def sample_kube_def)

lemma sample_check_static:
  "check_authority env ns ref ro (sample_static action) =
     (if action = ''fail'' then failed_authority (sample_static action) ''disallowed by static policy: m''
      else \<lparr>ar_name = ''authority-0'', ar_static = True, ar_attestations = [], ar_signatures = [], ar_err = None\<rparr>)"
  by (simp add: check_authority_def sample_static_def sample_wauthority_def SourceSignaturePullSecretsOpts_def Let_def)

theorem image_rejected_iff_policy_fails_witness:
  "blocks diag_api (validateContainerImage (sample_admission sample_policies) ''ab'' ''ns'' ''containers'' 0 ''Pod'' ''v1'' [] [])"
proof -
  let ?ae = "sample_admission sample_policies" and ?sc = "\<lparr>sc_order = [0], sc_done = [False]\<rparr>"
  have none: "wc_Policy (snd np) = None" if "np \<in> set sample_policies" for np
    using that by (auto simp: sample_policies_def sample_webhook_cip_def)
  have "blocks (ae_api ?ae) (validateContainerImage ?ae ''ab'' ''ns'' ''containers'' 0 ''Pod'' ''v1'' [] []) \<longleftrightarrow>
    (\<exists>np \<in> set sample_policies. policy_rejects (ae_env ?ae) (ae_pc ?ae) (ae_scheds ?ae ''ab'' (fst np)) ''ns'' sample_image_ref [] (snd np))"
  proof (rule image_rejected_iff_policy_fails [OF _ sample_matched])
    show "field_error_laws (ae_api ?ae)" using dl.field_error_laws_axioms by simp
    show "\<forall>np \<in> set sample_policies. fresh_run (ae_rc ?ae) (ae_k ?ae) (ae_scheds ?ae ''ab'' (fst np)) sample_image_ref (snd np) \<and>
           errors_have_text (ae_env ?ae) (ae_pc ?ae) (ae_scheds ?ae ''ab'' (fst np)) ''ns'' sample_image_ref [] (snd np)"
    proof
      fix np assume np: "np \<in> set sample_policies"
      then have a: "np \<in> set [(''deny'', sample_webhook_cip\<lparr>wc_Authorities := [sample_static ''fail'']\<rparr>),
          (''pass'', sample_webhook_cip\<lparr>wc_UID := ''uid-2'', wc_Authorities := [sample_static ''pass'']\<rparr>)]"
        unfolding sample_policies_def .
      have "errors_have_text (ae_env ?ae) (ae_pc ?ae) (ae_scheds ?ae ''ab'' (fst np)) ''ns'' sample_image_ref [] (snd np)"
        using a none [OF np] by (auto simp: errors_have_text_def Let_def sample_check_static failed_authority_def)
      moreover have "fresh_run (ae_rc ?ae) (ae_k ?ae) (ae_scheds ?ae ''ab'' (fst np)) sample_image_ref (snd np)"
        using a by (auto simp: fresh_run_def NoCache_def valid_schedule_def calm_def)
      ultimately show "fresh_run (ae_rc ?ae) (ae_k ?ae) (ae_scheds ?ae ''ab'' (fst np)) sample_image_ref (snd np) \<and>
           errors_have_text (ae_env ?ae) (ae_pc ?ae) (ae_scheds ?ae ''ab'' (fst np)) ''ns'' sample_image_ref [] (snd np)" by simp
    qed
    show "valid_schedule (length sample_policies) (ae_sched ?ae ''ab'')"
      by (simp add: valid_schedule_def sample_policies_def upt_rec add_mset_commute)
  qed (simp_all add: sample_policies_def calm_def)
  then show ?thesis
    by (simp add: sample_policies_def sample_webhook_cip_def policy_rejects_def sample_check_static ar_pass_def failed_authority_def)
qed

theorem unmatched_image_answer_witness:
  "blocks diag_api (validateContainerImage (sample_admission []) ''ab'' ''ns'' ''containers'' 0 ''Pod'' ''v1'' [] [])"
proof -
  let ?ae = "sample_admission []"
  have "ve_ParseReference (ae_env ?ae) ''ab'' = Ok sample_image_ref" "ve_Config (ae_env ?ae) = Some \<lparr>wcf_ImagePolicyConfig = Some \<lparr>Policies = []\<rparr>,
      wcf_SigstoreKeysConfig = None\<rparr>"
    by (simp_all add: sample_admission_def sample_env_def sample_parser_ab)
  then show ?thesis
    using unmatched_image_answer [of ?ae "''ab''" sample_image_ref "''Pod''" "''v1''" "[]" "''ns''" "''containers''" 0 "[]"]
      dl.field_error_laws_axioms sample_unmatched
    by (simp add: sample_parser_ab) (simp add: sample_env_def DenyAll_def)
qed

theorem policy_result_needs_authority_witness:
  "\<exists>a \<in> set (wc_Authorities (snd (sample_policies ! 1))). ar_pass (check_authority sample_env ''ns'' sample_image_ref [] a)"
proof -
  let ?cip = "snd (sample_policies ! 1)"
  have fresh: "fresh_run NoCache () \<lparr>sc_order = [0], sc_done = [False]\<rparr> sample_image_ref ?cip"
    by (simp add: fresh_run_def NoCache_def sample_policies_def valid_schedule_def calm_def)
  have "wc_Policy ?cip = None" by (simp add: sample_policies_def sample_webhook_cip_def)
  moreover have "fst (ValidatePolicy diag_api NoCache () sample_env sample_pctx \<lparr>sc_order = [0], sc_done = [False]\<rparr>
      ''ns'' sample_image_ref ?cip []) \<noteq> None"
    by (simp add: ValidatePolicy_def NoCache_def gather_def sample_policies_def sample_webhook_cip_def sample_check_static
        recv_authority_def map_assign_def Let_def)
  ultimately show ?thesis
    using policy_result_needs_authority [OF fresh, of diag_api sample_env sample_pctx "''ns''" "[]"] by blast
qed

end
