(* ===== verification/Admission.thy ===== *)
theory Admission
  imports PolicyProperties
begin

text \<open>
  The entry points of the webhook in \<open>pkg/webhook/validator.go\<close> and the duck type
  \<open>pkg/apis/duck/v1beta1/podscalable_types.go\<close>: validation of the images of pods, of resources
  that carry a pod template and of cron jobs, and the resolution of tags to digests by the
  mutating webhook. Of a resource the record keeps the pod specification, the metadata the
  code reads and, as opaque values, the parts a policy may ask to see.
\<close>

section \<open>Resources and requests\<close>

record PodSpec =
  sp_InitContainers :: "string list"
  sp_Containers :: "string list"
  sp_EphemeralContainers :: "string list"
  sp_Volumes :: "string option list"
  sp_ServiceAccountName :: string
  sp_ImagePullSecrets :: "string list"

text \<open>
  A container is its image; a volume is the reference of its image source, if it has one.
\<close>

record 'v pod_resource =
  rs_Kind :: string
  rs_APIVersion :: string
  rs_ObjectMeta :: ObjectMeta
  rs_PodSpec :: PodSpec
  rs_SpecValue :: 'v
  rs_MetaValue :: 'v
  rs_TypeValue :: 'v

text \<open>A scalable resource adds the number of replicas (an \<open>*int32\<close>).\<close>

record 'v pod_scalable = "'v pod_resource" +
  rs_Replicas :: "int option"

text \<open>
  The request: its kind, the namespace an \<open>AdmissionReview\<close> in the HTTP body names (an error
  when it cannot be decoded, nothing when there is no body), and for an update the baseline.
\<close>

record 'v request =
  rq_InDelete :: bool
  rq_InStatusUpdate :: bool
  rq_InCreate :: bool
  rq_Baseline :: "'v pod_scalable option option"
  rq_ReviewNamespace :: "string go_result option"

definition IsInUpdate :: "'v request \<Rightarrow> bool" where
  "IsInUpdate rq = (rq_Baseline rq \<noteq> None)"

definition isDeletedOrStatusUpdate :: "'v request \<Rightarrow> string option \<Rightarrow> bool" where
  "isDeletedOrStatusUpdate rq deletionTimestamp =
     (rq_InDelete rq \<or> deletionTimestamp \<noteq> None \<or> rq_InStatusUpdate rq)"

definition getNamespace :: "'v request \<Rightarrow> string \<Rightarrow> string" where
  "getNamespace rq namespace =
     (if namespace = '''' then
        (case rq_ReviewNamespace rq of
           None \<Rightarrow> namespace | Some (Inl _) \<Rightarrow> '''' | Some (Inr ns) \<Rightarrow> ns)
      else namespace)"

definition IsScalingDown :: "'v request \<Rightarrow> 'v pod_scalable \<Rightarrow> bool" where
  "IsScalingDown rq ps =
     (case rq_Baseline rq of
        None \<Rightarrow> False
      | Some original \<Rightarrow>
          (case (rs_Replicas ps, original) of
             (Some new, Some orig) \<Rightarrow> (case rs_Replicas orig of Some old \<Rightarrow> new < old | None \<Rightarrow> False)
           | _ \<Rightarrow> False))"

section \<open>The parts of a resource kept in the context\<close>

text \<open>The first value attached wins.\<close>

definition IncludeSpec :: "('cfg, 'v) policy_ctx \<Rightarrow> 'v \<Rightarrow> ('cfg, 'v) policy_ctx" where
  "IncludeSpec pc v = (if px_Spec pc = None then pc\<lparr>px_Spec := Some v\<rparr> else pc)"

definition IncludeObjectMeta :: "('cfg, 'v) policy_ctx \<Rightarrow> 'v \<Rightarrow> ('cfg, 'v) policy_ctx" where
  "IncludeObjectMeta pc v = (if px_ObjectMeta pc = None then pc\<lparr>px_ObjectMeta := Some v\<rparr> else pc)"

definition IncludeTypeMeta :: "('cfg, 'v) policy_ctx \<Rightarrow> 'v \<Rightarrow> ('cfg, 'v) policy_ctx" where
  "IncludeTypeMeta pc v = (if px_TypeMeta pc = None then pc\<lparr>px_TypeMeta := Some v\<rparr> else pc)"

section \<open>Validation\<close>

text \<open>
  The schedule of each group of goroutines, by the field it checks, and
  \<open>registryauth.NewK8sKeychain\<close> with the namespace, service account and pull secrets.
\<close>

record pod_env =
  pe_sched :: "string \<Rightarrow> schedule"
  pe_keychain_err :: "string \<Rightarrow> string \<Rightarrow> string list \<Rightarrow> string option"

text \<open>One goroutine: a digest is required, then the image's policies are checked.\<close>

definition check_image :: "('k, 'cfg, 'v, 'fe, 'c) admission_env \<Rightarrow> string \<Rightarrow> string \<Rightarrow> string \<Rightarrow> (string \<times> string) list \<Rightarrow>
    string \<Rightarrow> nat \<times> string \<Rightarrow> 'fe option" where
  "check_image ae namespace kind apiVersion labels field ic =
     (case refOrFieldError (ae_api ae) (ve_ParseReference (ae_env ae)) (snd ic) field (fst ic) of
        Some fe \<Rightarrow> Some fe
      | None \<Rightarrow> validateContainerImage ae (snd ic) namespace field (fst ic) kind apiVersion labels [WithDefaultRemoteOptions])"

definition check_group :: "('k, 'cfg, 'v, 'fe, 'c) admission_env \<Rightarrow> pod_env \<Rightarrow> string \<Rightarrow> string \<Rightarrow> string \<Rightarrow>
    (string \<times> string) list \<Rightarrow> string \<Rightarrow> (nat \<times> string) list \<Rightarrow> 'fe option \<Rightarrow> 'fe option" where
  "check_group ae pe namespace kind apiVersion labels field ics errs =
     gather (pe_sched pe field)
       (\<lambda>errs. Also (ae_api ae) errs (Some (ErrGeneric (ae_api ae) ''context was canceled before validation completed'' [])))
       (Also (ae_api ae))
       (map (check_image ae namespace kind apiVersion labels field) ics) errs"

fun volume_images :: "nat \<Rightarrow> string option list \<Rightarrow> (nat \<times> string) list" where
  "volume_images i [] = []"
| "volume_images i (v # vs) =
     (case v of
        Some ref \<Rightarrow> if ref = '''' then volume_images (Suc i) vs else (i, ref) # volume_images (Suc i) vs
      | None \<Rightarrow> volume_images (Suc i) vs)"

definition validatePodSpec :: "('k, 'cfg, 'v, 'fe, 'c) admission_env \<Rightarrow> pod_env \<Rightarrow> string \<Rightarrow> string \<Rightarrow> string \<Rightarrow>
    (string \<times> string) list \<Rightarrow> PodSpec \<Rightarrow> 'fe option" where
  "validatePodSpec ae pe namespace kind apiVersion labels ps =
     (case pe_keychain_err pe namespace (sp_ServiceAccountName ps) (sp_ImagePullSecrets ps) of
        Some e \<Rightarrow> Some (ErrGeneric (ae_api ae) e [CurrentField])
      | None \<Rightarrow>
          (let check = check_group ae pe namespace kind apiVersion labels;
               e1 = check ''initContainers'' (indexed (sp_InitContainers ps)) None;
               e2 = check ''containers'' (indexed (sp_Containers ps)) e1;
               e3 = check ''ephemeralContainers'' (indexed (sp_EphemeralContainers ps)) e2
           in check ''volumes'' (volume_images 0 (sp_Volumes ps)) e3))"

text \<open>The common part of the four entry points, with the path of the pod specification.\<close>

definition validate_resource :: "('k, 'cfg, 'v, 'fe, 'c) admission_env \<Rightarrow> pod_env \<Rightarrow> 'v request \<Rightarrow> string \<Rightarrow>
    ('v, 'x) pod_resource_scheme \<Rightarrow> 'fe option" where
  "validate_resource ae pe rq path r =
     ViaField (ae_api ae) path
       (validatePodSpec ae pe (getNamespace rq (om_Namespace (rs_ObjectMeta r))) (rs_Kind r) (rs_APIVersion r)
          (om_Labels (rs_ObjectMeta r)) (rs_PodSpec r))"

definition with_parts :: "('k, 'cfg, 'v, 'fe, 'c) admission_env \<Rightarrow> ('v, 'x) pod_resource_scheme \<Rightarrow>
    ('k, 'cfg, 'v, 'fe, 'c) admission_env" where
  "with_parts ae r =
     ae\<lparr>ae_pc := IncludeTypeMeta (IncludeObjectMeta (IncludeSpec (ae_pc ae) (rs_SpecValue r)) (rs_MetaValue r)) (rs_TypeValue r)\<rparr>"

definition ValidatePodScalable :: "('k, 'cfg, 'v, 'fe, 'c) admission_env \<Rightarrow> pod_env \<Rightarrow> 'v request \<Rightarrow> 'v pod_scalable \<Rightarrow> 'fe option" where
  "ValidatePodScalable ae pe rq ps =
     (if isDeletedOrStatusUpdate rq (om_DeletionTimestamp (rs_ObjectMeta ps)) then None
      else if IsScalingDown rq ps then None
      else validate_resource (with_parts ae ps) pe rq ''spec.template.spec'' ps)"

definition ValidatePodSpecable :: "('k, 'cfg, 'v, 'fe, 'c) admission_env \<Rightarrow> pod_env \<Rightarrow> 'v request \<Rightarrow> 'v pod_resource \<Rightarrow> 'fe option" where
  "ValidatePodSpecable ae pe rq wp =
     (if isDeletedOrStatusUpdate rq (om_DeletionTimestamp (rs_ObjectMeta wp)) then None
      else validate_resource (with_parts ae wp) pe rq ''spec.template.spec'' wp)"

text \<open>For a pod the type is not attached.\<close>

definition ValidatePod :: "('k, 'cfg, 'v, 'fe, 'c) admission_env \<Rightarrow> pod_env \<Rightarrow> 'v request \<Rightarrow> 'v pod_resource \<Rightarrow> 'fe option" where
  "ValidatePod ae pe rq p =
     (if isDeletedOrStatusUpdate rq (om_DeletionTimestamp (rs_ObjectMeta p)) then None
      else validate_resource
             (ae\<lparr>ae_pc := IncludeObjectMeta (IncludeSpec (ae_pc ae) (rs_SpecValue p)) (rs_MetaValue p)\<rparr>) pe rq ''spec'' p)"

definition ValidateCronJob :: "('k, 'cfg, 'v, 'fe, 'c) admission_env \<Rightarrow> pod_env \<Rightarrow> 'v request \<Rightarrow> 'v pod_resource \<Rightarrow> 'fe option" where
  "ValidateCronJob ae pe rq c =
     (if isDeletedOrStatusUpdate rq (om_DeletionTimestamp (rs_ObjectMeta c)) then None
      else validate_resource (with_parts ae c) pe rq ''spec.jobTemplate.spec.template.spec'' c)"

section \<open>Resolution of tags\<close>

definition resolve_image :: "'c verify_env \<Rightarrow> 'v request \<Rightarrow> string \<Rightarrow> string" where
  "resolve_image env rq img =
     (case ve_ParseReference env img of
        Inl e \<Rightarrow> img
      | Inr ref \<Rightarrow>
          if rq_InCreate rq \<or> IsInUpdate rq
          then (case ve_ResolveDigest env ref [WithDefaultRemoteOptions] of
                  Inl e \<Rightarrow> img
                | Inr digest \<Rightarrow>
                    (case ref_Kind ref of
                       TagRef \<Rightarrow> ref_Name ref @ ''@'' @ ref_DigestStr digest
                     | DigestRef \<Rightarrow> ref_String digest))
          else img)"

definition resolvePodSpec :: "'c verify_env \<Rightarrow> pod_env \<Rightarrow> 'v request \<Rightarrow> string \<Rightarrow> PodSpec \<Rightarrow> PodSpec" where
  "resolvePodSpec env pe rq namespace ps =
     (if pe_keychain_err pe namespace (sp_ServiceAccountName ps) (sp_ImagePullSecrets ps) \<noteq> None then ps
      else ps\<lparr>sp_InitContainers := map (resolve_image env rq) (sp_InitContainers ps),
              sp_Containers := map (resolve_image env rq) (sp_Containers ps),
              sp_EphemeralContainers := map (resolve_image env rq) (sp_EphemeralContainers ps),
              sp_Volumes := map (map_option (\<lambda>r. if r = '''' then r else resolve_image env rq r)) (sp_Volumes ps)\<rparr>)"

definition resolve_resource :: "'c verify_env \<Rightarrow> pod_env \<Rightarrow> 'v request \<Rightarrow> ('v, 'x) pod_resource_scheme \<Rightarrow>
    ('v, 'x) pod_resource_scheme" where
  "resolve_resource env pe rq r =
     (if isDeletedOrStatusUpdate rq (om_DeletionTimestamp (rs_ObjectMeta r)) then r
      else r\<lparr>rs_PodSpec := resolvePodSpec env pe rq (getNamespace rq (om_Namespace (rs_ObjectMeta r))) (rs_PodSpec r)\<rparr>)"

definition ResolvePodScalable :: "'c verify_env \<Rightarrow> pod_env \<Rightarrow> 'v request \<Rightarrow> 'v pod_scalable \<Rightarrow> 'v pod_scalable" where
  "ResolvePodScalable env pe rq ps =
     (if isDeletedOrStatusUpdate rq (om_DeletionTimestamp (rs_ObjectMeta ps)) then ps
      else if IsScalingDown rq ps then ps
      else resolve_resource env pe rq ps)"

definition ResolvePodSpecable :: "'c verify_env \<Rightarrow> pod_env \<Rightarrow> 'v request \<Rightarrow> 'v pod_resource \<Rightarrow> 'v pod_resource" where
  "ResolvePodSpecable env pe rq wp = resolve_resource env pe rq wp"

definition ResolvePod :: "'c verify_env \<Rightarrow> pod_env \<Rightarrow> 'v request \<Rightarrow> 'v pod_resource \<Rightarrow> 'v pod_resource" where
  "ResolvePod env pe rq p = resolve_resource env pe rq p"

definition ResolveCronJob :: "'c verify_env \<Rightarrow> pod_env \<Rightarrow> 'v request \<Rightarrow> 'v pod_resource \<Rightarrow> 'v pod_resource" where
  "ResolveCronJob env pe rq c = resolve_resource env pe rq c"

section \<open>Which pods are admitted\<close>

context field_error_laws
begin

lemma recv_loop_blocks_mono:
  "blocks api e \<Longrightarrow> blocks api (recv_loop (\<lambda>errs. Also api errs (Some (ErrGeneric api m fs))) (Also api) ds q e)"
  by (induction ds arbitrary: q e) (auto split: list.splits)

lemma recv_loop_done_blocks:
  "True \<in> set ds \<Longrightarrow> length ds \<le> length q \<Longrightarrow>
     blocks api (recv_loop (\<lambda>errs. Also api errs (Some (ErrGeneric api m fs))) (Also api) ds q e)"
proof (induction ds arbitrary: q e)
  case (Cons d ds)
  then obtain r rs where q: "q = r # rs" by (cases q) auto
  show ?case
  proof (cases d)
    case True
    then show ?thesis using q by (simp add: recv_loop_blocks_mono)
  next
    case False
    with Cons.prems q have "True \<in> set ds" "length ds \<le> length rs" by auto
    with Cons.IH False q show ?thesis by simp
  qed
qed simp

lemma blocks_foldl_Also_id: "blocks api (foldl (Also api) e rs) \<longleftrightarrow> blocks api e \<or> (\<exists>r \<in> set rs. blocks api r)"
  using blocks_foldl_Also [of "\<lambda>r. r" e rs] by simp

text \<open>A group of checks blocks when one of them does or a round saw the cancellation.\<close>

lemma gather_blocks:
  assumes "valid_schedule (length rs) sc"
  shows "blocks api (gather sc (\<lambda>errs. Also api errs (Some (ErrGeneric api m fs))) (Also api) rs e) \<longleftrightarrow>
           blocks api e \<or> \<not> calm sc \<or> (\<exists>r \<in> set rs. blocks api r)"
proof (cases "calm sc")
  case True
  have "\<exists>arrived. mset arrived = mset rs \<and>
      gather sc (\<lambda>errs. Also api errs (Some (ErrGeneric api m fs))) (Also api) rs e = foldl (Also api) e arrived"
    by (rule gather_calm [OF assms True])
  then obtain arrived where "mset arrived = mset rs"
    "gather sc (\<lambda>errs. Also api errs (Some (ErrGeneric api m fs))) (Also api) rs e = foldl (Also api) e arrived"
    by (elim exE conjE)
  moreover from this(1) have "set arrived = set rs" by (rule mset_eq_setD)
  ultimately show ?thesis using True by (simp add: blocks_foldl_Also_id)
next
  case False
  have "length (sc_done sc) \<le> length (sc_order sc)" using valid_schedule_lengths [OF assms] by simp
  with False show ?thesis by (simp add: gather_def calm_def recv_loop_done_blocks)
qed

end

text \<open>Everything the pod runs, with the field and index it is reported under.\<close>

definition pod_images :: "PodSpec \<Rightarrow> (string \<times> (nat \<times> string) list) list" where
  "pod_images ps = [(''initContainers'', indexed (sp_InitContainers ps)), (''containers'', indexed (sp_Containers ps)),
     (''ephemeralContainers'', indexed (sp_EphemeralContainers ps)), (''volumes'', volume_images 0 (sp_Volumes ps))]"

definition image_ok :: "('k, 'cfg, 'v, 'fe, 'c) admission_env \<Rightarrow> string \<Rightarrow> string \<Rightarrow> string \<Rightarrow> (string \<times> string) list \<Rightarrow>
    string \<Rightarrow> nat \<times> string \<Rightarrow> bool" where
  "image_ok ae namespace kind apiVersion labels field ic =
     ((\<exists>ref. ve_ParseReference (ae_env ae) (snd ic) = Ok ref \<and> ref_Kind ref = DigestRef) \<and>
      \<not> blocks (ae_api ae) (validateContainerImage ae (snd ic) namespace field (fst ic) kind apiVersion labels [WithDefaultRemoteOptions]))"

lemma refOrFieldError_blocks:
  assumes "field_error_laws api"
  shows "blocks api (refOrFieldError api parse img field index) \<longleftrightarrow> \<not> (\<exists>ref. parse img = Ok ref \<and> ref_Kind ref = DigestRef)"
  using field_error_laws.blocks_basic [OF assms] field_error_laws.blocks_errors [OF assms]
  by (auto simp: refOrFieldError_def split: sum.splits ref_kind.splits)

lemma check_image_blocks:
  assumes "field_error_laws (ae_api ae)"
  shows "blocks (ae_api ae) (check_image ae namespace kind apiVersion labels field ic) \<longleftrightarrow>
    \<not> image_ok ae namespace kind apiVersion labels field ic"
proof -
  let ?rf = "refOrFieldError (ae_api ae) (ve_ParseReference (ae_env ae)) (snd ic) field (fst ic)"
  note laws = field_error_laws.blocks_basic [OF assms] field_error_laws.blocks_errors [OF assms]
  have b: "blocks (ae_api ae) ?rf \<longleftrightarrow>
      \<not> (\<exists>ref. ve_ParseReference (ae_env ae) (snd ic) = Ok ref \<and> ref_Kind ref = DigestRef)"
    by (rule refOrFieldError_blocks [OF assms])
  have n: "?rf = None \<longleftrightarrow> \<not> blocks (ae_api ae) ?rf"
  proof -
    have "(\<exists>ref. ve_ParseReference (ae_env ae) (snd ic) = Ok ref \<and> ref_Kind ref = DigestRef) \<Longrightarrow> ?rf = None"
      by (auto simp: refOrFieldError_def)
    then show ?thesis using b laws(1) by metis
  qed
  show ?thesis
  proof (cases ?rf)
    case None
    then show ?thesis using n b by (simp add: check_image_def image_ok_def)
  next
    case (Some fe)
    then have "blocks (ae_api ae) (Some fe)" using n by simp
    then show ?thesis using Some b by (simp add: check_image_def image_ok_def)
  qed
qed

lemma check_group_blocks:
  assumes "field_error_laws (ae_api ae)" "valid_schedule (length ics) (pe_sched pe field)"
  shows "blocks (ae_api ae) (check_group ae pe namespace kind apiVersion labels field ics e) \<longleftrightarrow>
    blocks (ae_api ae) e \<or> \<not> calm (pe_sched pe field) \<or>
    (\<exists>ic \<in> set ics. \<not> image_ok ae namespace kind apiVersion labels field ic)"
  using field_error_laws.gather_blocks [OF assms(1), of "map (check_image ae namespace kind apiVersion labels field) ics"]
    assms(2) check_image_blocks [OF assms(1)]
  by (simp add: check_group_def)

text \<open>
  C1 A pod specification is admitted exactly when the registry credentials can be built, no
  check was cut off by a cancelled request, and every image it names (init containers,
  containers, ephemeral containers and image volumes) is pinned by a digest and passes its
  policies; this holds for every order in which the checks finish.
\<close>

theorem pod_spec_admitted_iff:
  assumes "field_error_laws (ae_api ae)"
    and "\<forall>(field, ics) \<in> set (pod_images ps). valid_schedule (length ics) (pe_sched pe field)"
  shows "\<not> blocks (ae_api ae) (validatePodSpec ae pe namespace kind apiVersion labels ps) \<longleftrightarrow>
     pe_keychain_err pe namespace (sp_ServiceAccountName ps) (sp_ImagePullSecrets ps) = None \<and>
     (\<forall>(field, ics) \<in> set (pod_images ps). calm (pe_sched pe field) \<and>
        (\<forall>ic \<in> set ics. image_ok ae namespace kind apiVersion labels field ic))"
proof -
  have sched: "valid_schedule (length (indexed (sp_InitContainers ps))) (pe_sched pe ''initContainers'')"
    "valid_schedule (length (indexed (sp_Containers ps))) (pe_sched pe ''containers'')"
    "valid_schedule (length (indexed (sp_EphemeralContainers ps))) (pe_sched pe ''ephemeralContainers'')"
    "valid_schedule (length (volume_images 0 (sp_Volumes ps))) (pe_sched pe ''volumes'')"
    using assms(2) by (simp_all add: pod_images_def)
  note groups = sched [THEN check_group_blocks [OF assms(1)]]
  note laws = field_error_laws.blocks_basic [OF assms(1)] field_error_laws.blocks_errors [OF assms(1)]
  show ?thesis
    by (simp add: validatePodSpec_def Let_def groups laws pod_images_def split: option.splits) blast
qed

section \<open>What the mutating webhook leaves behind\<close>

text \<open>
  What the registry library documents of references: a tag with a digest appended reads as a
  reference by that digest, a reference prints as the text it was read from, a resolved reference
  carries a SHA-256 digest, and a reference by digest resolves to itself.
\<close>

definition sha256_digest :: "string \<Rightarrow> bool" where
  "sha256_digest d = (take 7 d = ''sha256:'' \<and> length d = 71 \<and> list_all (\<lambda>c. c \<in> set ''0123456789abcdef'') (drop 7 d))"

locale reference_laws =
  fixes parse :: ref_parser
    and resolve :: "reference \<Rightarrow> reference go_result"
  assumes tag_with_digest: "parse img = Ok ref \<Longrightarrow> ref_Kind ref = TagRef \<Longrightarrow> sha256_digest d \<Longrightarrow>
      \<exists>r. parse (ref_Name ref @ ''@'' @ d) = Ok r \<and> ref_Kind r = DigestRef \<and> ref_DigestStr r = d"
    and prints_as_read: "parse img = Ok ref \<Longrightarrow> ref_String ref = img"
    and resolves_to_digest: "parse img = Ok ref \<Longrightarrow> resolve ref = Ok dg \<Longrightarrow> sha256_digest (ref_DigestStr dg)"
    and digest_resolves: "parse img = Ok ref \<Longrightarrow> ref_Kind ref = DigestRef \<Longrightarrow> resolve ref = Ok dg \<Longrightarrow> dg = ref"
begin

text \<open>Resolving an image on a create or update pins it to the digest of the registry.\<close>

lemma resolved_image:
  assumes "ve_ParseReference env = parse" "\<And>ref. ve_ResolveDigest env ref [WithDefaultRemoteOptions] = resolve ref"
    and "rq_InCreate rq \<or> IsInUpdate rq" "parse img = Ok ref" "resolve ref = Ok dg"
  shows "\<exists>r. parse (resolve_image env rq img) = Ok r \<and> ref_Kind r = DigestRef \<and> ref_DigestStr r = ref_DigestStr dg"
proof (cases "ref_Kind ref")
  case TagRef
  then show ?thesis
    using tag_with_digest [OF assms(4) TagRef resolves_to_digest [OF assms(4,5)]] assms by (simp add: resolve_image_def)
next
  case DigestRef
  with assms digest_resolves [OF assms(4) DigestRef assms(5)] prints_as_read [OF assms(4)] show ?thesis
    by (simp add: resolve_image_def)
qed

lemma resolved_nonempty:
  assumes "ve_ParseReference env = parse" "\<And>ref. ve_ResolveDigest env ref [WithDefaultRemoteOptions] = resolve ref" "img \<noteq> ''''"
  shows "resolve_image env rq img \<noteq> ''''"
proof -
  have "ref_String dg \<noteq> ''''" if "parse img = Ok ref" "ref_Kind ref = DigestRef" "resolve ref = Ok dg" for ref dg
    using digest_resolves [OF that] prints_as_read [OF that(1)] assms(3) by simp
  then show ?thesis using assms by (auto simp: resolve_image_def split: sum.split ref_kind.split)
qed

end

lemma unresolved_image:
  assumes "\<not> (\<exists>ref dg. ve_ParseReference env img = Ok ref \<and> ve_ResolveDigest env ref [WithDefaultRemoteOptions] = Ok dg)"
  shows "resolve_image env rq img = img"
  using assms by (auto simp: resolve_image_def split: sum.splits)

lemma volume_images_resolved:
  assumes "\<And>r. r \<noteq> '''' \<Longrightarrow> f r \<noteq> ''''"
  shows "volume_images i (map (map_option (\<lambda>r. if r = '''' then r else f r)) vs) = map (apsnd f) (volume_images i vs)"
  by (induction vs arbitrary: i) (auto simp: assms split: option.splits)

lemma indexed_map: "indexed (map f xs) = map (apsnd f) (indexed xs)"
  by (simp add: indexed_def zip_map2 apsnd_def map_prod_def)

text \<open>
  C16 What the mutating webhook does for the validating webhook's demand for digests. On a create
  or update whose registry credentials can be built, and for any parser and resolver that
  keep the registry library's laws, the resolved pod names the same images in the same places,
  each rewritten on its own: an image that parses and resolves is rewritten to a text that
  reads as a reference by the very digest the registry returned, with the tag kept before it;
  any other image is left as it is, so that it passes the digest requirement only if it was a digest.
\<close>

theorem resolved_pod_is_pinned:
  assumes "reference_laws (ve_ParseReference env) (\<lambda>ref. ve_ResolveDigest env ref [WithDefaultRemoteOptions])"
    and "rq_InCreate rq \<or> IsInUpdate rq"
    and "pe_keychain_err pe namespace (sp_ServiceAccountName ps) (sp_ImagePullSecrets ps) = None"
    and "field_error_laws api"
  shows "pod_images (resolvePodSpec env pe rq namespace ps) =
      map (\<lambda>(field, ics). (field, map (\<lambda>(i, img). (i, resolve_image env rq img)) ics)) (pod_images ps) \<and>
    (\<forall>img ref dg. ve_ParseReference env img = Ok ref \<and> ve_ResolveDigest env ref [WithDefaultRemoteOptions] = Ok dg \<longrightarrow>
       (\<exists>r. ve_ParseReference env (resolve_image env rq img) = Ok r \<and> ref_Kind r = DigestRef \<and>
            ref_DigestStr r = ref_DigestStr dg) \<and>
       (ref_Kind ref = TagRef \<longrightarrow> resolve_image env rq img = ref_Name ref @ ''@'' @ ref_DigestStr dg)) \<and>
    (\<forall>img. (\<forall>ref. ve_ParseReference env img = Ok ref \<longrightarrow> \<not> is_ok (ve_ResolveDigest env ref [WithDefaultRemoteOptions])) \<longrightarrow>
       resolve_image env rq img = img) \<and>
    (\<forall>img field index. \<not> blocks api (refOrFieldError api (ve_ParseReference env) (resolve_image env rq img) field index) \<longleftrightarrow>
       (\<exists>ref. ve_ParseReference env img = Ok ref \<and>
          (ref_Kind ref = DigestRef \<or> is_ok (ve_ResolveDigest env ref [WithDefaultRemoteOptions]))))"
proof (intro conjI allI impI)
  note res = reference_laws.resolved_image [OF assms(1) refl refl assms(2)]
  have f: "(\<lambda>(i, img). (i, resolve_image env rq img)) = apsnd (resolve_image env rq)" by auto
  note vol = volume_images_resolved [OF reference_laws.resolved_nonempty [OF assms(1) refl refl]]
  show "pod_images (resolvePodSpec env pe rq namespace ps) =
      map (\<lambda>(field, ics). (field, map (\<lambda>(i, img). (i, resolve_image env rq img)) ics)) (pod_images ps)"
    unfolding f using assms(3) by (simp add: pod_images_def resolvePodSpec_def indexed_map vol)
  fix img
  show "resolve_image env rq img = img"
    if "\<forall>ref. ve_ParseReference env img = Ok ref \<longrightarrow> \<not> is_ok (ve_ResolveDigest env ref [WithDefaultRemoteOptions])"
    using that by (intro unresolved_image) auto
  show "\<not> blocks api (refOrFieldError api (ve_ParseReference env) (resolve_image env rq img) field index) \<longleftrightarrow>
       (\<exists>ref. ve_ParseReference env img = Ok ref \<and>
          (ref_Kind ref = DigestRef \<or> is_ok (ve_ResolveDigest env ref [WithDefaultRemoteOptions])))" for field index
  proof (cases "\<exists>ref dg. ve_ParseReference env img = Ok ref \<and> ve_ResolveDigest env ref [WithDefaultRemoteOptions] = Ok dg")
    case True
    then obtain ref dg where r: "ve_ParseReference env img = Ok ref" "ve_ResolveDigest env ref [WithDefaultRemoteOptions] = Ok dg" by blast
    from res [OF r] r show ?thesis by (auto simp: refOrFieldError_blocks [OF assms(4)])
  next
    case False
    then have "\<not> is_ok (ve_ResolveDigest env ref [WithDefaultRemoteOptions])" if "ve_ParseReference env img = Ok ref" for ref
      using that by (cases "ve_ResolveDigest env ref [WithDefaultRemoteOptions]") auto
    with unresolved_image [OF False, of rq] show ?thesis by (auto simp: refOrFieldError_blocks [OF assms(4)])
  qed
  fix ref dg
  assume r: "ve_ParseReference env img = Ok ref \<and> ve_ResolveDigest env ref [WithDefaultRemoteOptions] = Ok dg"
  then show "\<exists>r. ve_ParseReference env (resolve_image env rq img) = Ok r \<and> ref_Kind r = DigestRef \<and> ref_DigestStr r = ref_DigestStr dg"
    using res [of img ref dg] by blast
  show "resolve_image env rq img = ref_Name ref @ ''@'' @ ref_DigestStr dg" if "ref_Kind ref = TagRef"
    using r that assms(2) by (simp add: resolve_image_def)
qed

text \<open>
  A scalable resource is not checked at all when the update lowers its replicas, whatever
  images the update brings: the webhook answers nil and does not resolve tags either.
\<close>

theorem scale_down_not_checked:
  assumes "rq_Baseline rq = Some (Some orig)" "rs_Replicas orig = Some old" "rs_Replicas ps = Some new" "new < old"
  shows "ValidatePodScalable ae pe rq ps = None \<and> ResolvePodScalable env pe rq ps = ps"
  using assms by (simp add: ValidatePodScalable_def ResolvePodScalable_def IsScalingDown_def)

section \<open>Sample pods\<close>

definition sample_pod :: PodSpec where
  "sample_pod = \<lparr>sp_InitContainers = [], sp_Containers = [''ab''], sp_EphemeralContainers = [],
     sp_Volumes = [None, Some ''ab''], sp_ServiceAccountName = ''default'', sp_ImagePullSecrets = []\<rparr>"

definition sample_pod_env :: pod_env where
  "sample_pod_env = \<lparr>
     pe_sched = (\<lambda>f. if f \<in> {''containers'', ''volumes''} then \<lparr>sc_order = [0], sc_done = [False]\<rparr> else \<lparr>sc_order = [], sc_done = []\<rparr>),
     pe_keychain_err = (\<lambda>_ _ _. None)\<rparr>"

definition sample_allow :: "(unit, unit, unit, diag_list, lru_list) admission_env" where
  "sample_allow = (sample_admission [])\<lparr>ae_env := (ae_env (sample_admission []))\<lparr>ve_PCConfig :=
     Some \<lparr>pcc_NoMatchPolicy = AllowAll, pcc_FailOnEmptyAuthorities = True, pcc_EnableOCI11 = False\<rparr>\<rparr>\<rparr>"

definition sample_create :: "unit request" where
  "sample_create = \<lparr>rq_InDelete = False, rq_InStatusUpdate = False, rq_InCreate = True, rq_Baseline = None, rq_ReviewNamespace = None\<rparr>"

lemma sample_allow_image: "image_ok sample_allow ''ns'' ''Pod'' ''v1'' [] field (i, ''ab'')"
  by (simp add: image_ok_def sample_allow_def sample_admission_def sample_env_def sample_parser_def validateContainerImage_def
      GetMatchingPolicies_def sample_kube_def setNoMatchingPoliciesError_def FromContextOrDefaults_def Let_def
      field_error_laws.blocks_basic [OF dl.field_error_laws_axioms])

theorem pod_spec_admitted_iff_witness:
  "\<not> blocks diag_api (validatePodSpec sample_allow sample_pod_env ''ns'' ''Pod'' ''v1'' [] sample_pod)"
proof -
  have api: "ae_api sample_allow = diag_api" by (simp add: sample_allow_def)
  have images: "pod_images sample_pod = [(''initContainers'', []), (''containers'', [(0, ''ab'')]), (''ephemeralContainers'', []),
      (''volumes'', [(1, ''ab'')])]"
    by (simp add: pod_images_def sample_pod_def indexed_def)
  have "\<forall>(field, ics) \<in> set (pod_images sample_pod). valid_schedule (length ics) (pe_sched sample_pod_env field)"
    by (simp add: images sample_pod_env_def valid_schedule_def)
  from pod_spec_admitted_iff [OF _ this, of sample_allow "''ns''" "''Pod''" "''v1''" "[]"] show ?thesis
    by (simp add: api dl.field_error_laws_axioms images sample_allow_image)
      (simp add: sample_pod_env_def calm_def)
qed

text \<open>
  A small registry: a text before an at sign is a repository with a tag, the tag
  \<open>latest\<close> if none is given; every repository but a private one resolves to one digest.
\<close>

definition registry_digest :: string where
  "registry_digest = ''sha256:'' @ replicate 64 (CHR ''a'')"

definition registry_parse :: ref_parser where
  "registry_parse s =
     (let base = takeWhile (\<lambda>c. c \<noteq> CHR ''@'') s; d = drop (Suc (length base)) s
      in if base = '''' then Err ''could not parse reference''
         else if CHR ''@'' \<notin> set s
         then Ok \<lparr>ref_Name = (if CHR '':'' \<in> set s then s else s @ '':latest''), ref_String = s, ref_Kind = TagRef,
                  ref_DigestStr = '''', ref_Context = base\<rparr>
         else if sha256_digest d
         then Ok \<lparr>ref_Name = s, ref_String = s, ref_Kind = DigestRef, ref_DigestStr = d, ref_Context = base\<rparr>
         else Err ''could not parse reference'')"

definition registry_resolve :: "reference \<Rightarrow> reference go_result" where
  "registry_resolve ref =
     (case ref_Kind ref of
        DigestRef \<Rightarrow> Ok ref
      | TagRef \<Rightarrow> if ref_Context ref = ''private'' then Err ''unauthorized''
          else Ok \<lparr>ref_Name = ref_Context ref @ ''@'' @ registry_digest, ref_String = ref_Context ref @ ''@'' @ registry_digest,
                   ref_Kind = DigestRef, ref_DigestStr = registry_digest, ref_Context = ref_Context ref\<rparr>)"

lemma registry_digest_ok: "sha256_digest registry_digest"
  by (simp add: registry_digest_def sha256_digest_def list_all_iff)

lemma registry_parse_at:
  assumes "base \<noteq> ''''" "CHR ''@'' \<notin> set base"
  shows "registry_parse (base @ ''@'' @ d) =
    (if sha256_digest d then Ok \<lparr>ref_Name = base @ ''@'' @ d, ref_String = base @ ''@'' @ d, ref_Kind = DigestRef,
       ref_DigestStr = d, ref_Context = base\<rparr> else Err ''could not parse reference'')"
proof -
  have "takeWhile (\<lambda>c. c \<noteq> CHR ''@'') (base @ ''@'' @ d) = base" using assms(2) by (induction base) auto
  then show ?thesis using assms(1) by (simp add: registry_parse_def Let_def)
qed

interpretation reg: reference_laws registry_parse registry_resolve
proof
  fix img ref d
  assume p: "registry_parse img = Ok ref"
  show "ref_String ref = img" using p by (auto simp: registry_parse_def Let_def split: if_splits)
  show "\<exists>r. registry_parse (ref_Name ref @ ''@'' @ d) = Ok r \<and> ref_Kind r = DigestRef \<and> ref_DigestStr r = d"
    if "ref_Kind ref = TagRef" "sha256_digest d"
  proof -
    have "ref_Name ref \<noteq> ''''" "CHR ''@'' \<notin> set (ref_Name ref)"
      using p that(1) by (auto simp: registry_parse_def Let_def split: if_splits)
    from registry_parse_at [OF this, of d] that(2) show ?thesis by auto
  qed
  fix dg
  assume r: "registry_resolve ref = Ok dg"
  then show "sha256_digest (ref_DigestStr dg)"
    using p registry_digest_ok by (auto simp: registry_resolve_def registry_parse_def Let_def split: if_splits ref_kind.splits)
  show "dg = ref" if "ref_Kind ref = DigestRef" using r that by (simp add: registry_resolve_def)
qed

definition registry_env :: "lru_list verify_env" where
  "registry_env = sample_env\<lparr>ve_ParseReference := registry_parse, ve_ResolveDigest := (\<lambda>ref _. registry_resolve ref)\<rparr>"

definition registry_pod :: PodSpec where
  "registry_pod = sample_pod\<lparr>sp_Containers := [''nginx:1'', ''private''], sp_Volumes := []\<rparr>"

theorem resolved_pod_is_pinned_witness:
  "pod_images (resolvePodSpec registry_env sample_pod_env sample_create ''ns'' registry_pod) =
     [(''initContainers'', []), (''containers'', [(0, ''nginx:1@'' @ registry_digest), (1, ''private'')]),
      (''ephemeralContainers'', []), (''volumes'', [])] \<and>
   \<not> blocks diag_api (refOrFieldError diag_api registry_parse (resolve_image registry_env sample_create ''nginx:1'') ''containers'' 0) \<and>
   blocks diag_api (refOrFieldError diag_api registry_parse (resolve_image registry_env sample_create ''private'') ''containers'' 1)"
proof -
  have laws: "reference_laws (ve_ParseReference registry_env) (\<lambda>ref. ve_ResolveDigest registry_env ref [WithDefaultRemoteOptions])"
    using reg.reference_laws_axioms by (simp add: registry_env_def)
  have req: "rq_InCreate sample_create \<or> IsInUpdate sample_create" by (simp add: sample_create_def)
  have creds: "pe_keychain_err sample_pod_env ''ns'' (sp_ServiceAccountName registry_pod) (sp_ImagePullSecrets registry_pod) = None"
    by (simp add: sample_pod_env_def)
  note pinned = resolved_pod_is_pinned [OF laws req creds dl.field_error_laws_axioms]
  have refs: "ve_ParseReference registry_env = registry_parse" "ve_ResolveDigest registry_env ref ro = registry_resolve ref" for ref ro
    by (simp_all add: registry_env_def)
  have texts: "resolve_image registry_env sample_create ''nginx:1'' = ''nginx:1@'' @ registry_digest"
    "resolve_image registry_env sample_create ''private'' = ''private''"
    by (simp_all add: resolve_image_def refs req registry_parse_def registry_resolve_def Let_def)
  have images: "pod_images registry_pod = [(''initContainers'', []), (''containers'', [(0, ''nginx:1''), (1, ''private'')]),
      (''ephemeralContainers'', []), (''volumes'', [])]"
    by (simp add: pod_images_def registry_pod_def sample_pod_def indexed_def)
  have demand: "(\<exists>ref. registry_parse ''nginx:1'' = Ok ref \<and> (ref_Kind ref = DigestRef \<or> is_ok (registry_resolve ref)))"
    "\<not> (\<exists>ref. registry_parse ''private'' = Ok ref \<and> (ref_Kind ref = DigestRef \<or> is_ok (registry_resolve ref)))"
    by (simp_all add: registry_parse_def registry_resolve_def Let_def)
  from pinned have "pod_images (resolvePodSpec registry_env sample_pod_env sample_create ''ns'' registry_pod) =
      map (\<lambda>(field, ics). (field, map (\<lambda>(i, img). (i, resolve_image registry_env sample_create img)) ics)) (pod_images registry_pod)"
    by blast
  moreover from pinned demand have "\<not> blocks diag_api (refOrFieldError diag_api registry_parse (resolve_image registry_env sample_create ''nginx:1'') ''containers'' 0)"
    "blocks diag_api (refOrFieldError diag_api registry_parse (resolve_image registry_env sample_create ''private'') ''containers'' 1)"
    unfolding refs by blast+
  ultimately show ?thesis by (simp add: images texts)
qed

definition sample_deployment_meta :: ObjectMeta where
  "sample_deployment_meta = \<lparr>om_Name = ''web'', om_Namespace = ''ns'', om_UID = ''uid-3'',
     om_ResourceVersion = ''9'', om_Generation = 2, om_Labels = [], om_DeletionTimestamp = None, om_Finalizers = []\<rparr>"

definition sample_deployment :: "int \<Rightarrow> unit pod_scalable" where
  "sample_deployment n = \<lparr>rs_Kind = ''Deployment'', rs_APIVersion = ''apps/v1'', rs_ObjectMeta = sample_deployment_meta, rs_PodSpec = sample_pod,
     rs_SpecValue = (), rs_MetaValue = (), rs_TypeValue = (), rs_Replicas = Some n\<rparr>"

theorem scale_down_not_checked_witness:
  "ValidatePodScalable (sample_admission []) sample_pod_env (sample_create\<lparr>rq_Baseline := Some (Some (sample_deployment 3))\<rparr>)
     (sample_deployment 2) = None"
  by (rule scale_down_not_checked [THEN conjunct1, of _ "sample_deployment 3" 3 _ 2]) (simp_all add: sample_deployment_def)

end
