(* ===== verification/V1beta1.thy ===== *)
theory V1beta1
  imports V1alpha1
begin

text \<open>
  \<open>pkg/apis/policy/v1beta1\<close>: the served version of ClusterImagePolicy. The package repeats
  the types, the defaulting and the validation of v1alpha1 over its own structs, and so does
  this theory: record names start with \<open>B\<close>, field names with \<open>b\<close> and functions with \<open>B_\<close>.
  The Kubernetes types and the context are those of \<open>V1alpha1\<close>.
\<close>

section \<open>Types of the resource\<close>

record BImagePattern =
  bip_Glob :: string

record BKeyRef =
  bkr_SecretRef :: "SecretReference option"
  bkr_Data :: string
  bkr_KMS :: string
  bkr_HashAlgorithm :: string

record BStaticRef =
  bst_Action :: string
  bst_Message :: string

record BSource =
  bso_OCI :: string
  bso_SignaturePullSecrets :: "LocalObjectReference list"
  bso_TagPrefix :: "string option"

record BTLog =
  btl_URL :: "string option"
  btl_TrustRootRef :: string

record BIdentity =
  bid_Issuer :: string
  bid_Subject :: string
  bid_IssuerRegExp :: string
  bid_SubjectRegExp :: string

record BKeylessRef =
  bkl_URL :: "string option"
  bkl_Identities :: "BIdentity list"
  bkl_CACert :: "BKeyRef option"
  bkl_TrustRootRef :: string
  bkl_InsecureIgnoreSCT :: "bool option"

record BRemotePolicy =
  brp_URL :: string
  brp_Sha256sum :: string

record BConfigMapReference =
  bcr_Name :: string
  bcr_Namespace :: string
  bcr_Key :: string

record BPolicy =
  bpo_Type :: string
  bpo_Data :: string
  bpo_Remote :: "BRemotePolicy option"
  bpo_ConfigMapRef :: "BConfigMapReference option"
  bpo_FetchConfigFile :: "bool option"
  bpo_IncludeSpec :: "bool option"
  bpo_IncludeObjectMeta :: "bool option"
  bpo_IncludeTypeMeta :: "bool option"

record BAttestation =
  bat_Name :: string
  bat_PredicateType :: string
  bat_Policy :: "BPolicy option"

record BMatchResource =
  bmr_GVR :: GroupVersionResource
  bmr_ResourceSelector :: "LabelSelector option"

record BRFC3161Timestamp =
  bts_TrustRootRef :: string

record BGMSignerRef =
  bgs_AppID :: string
  bgs_NodeID :: string
  bgs_UserID :: string

record BGMSignatureRef =
  bgm_VerifyURL :: string
  bgm_TenantID :: string
  bgm_Signer :: BGMSignerRef
  bgm_RequestTimeoutMs :: int

record BAuthority =
  bau_Name :: string
  bau_Key :: "BKeyRef option"
  bau_Keyless :: "BKeylessRef option"
  bau_Static :: "BStaticRef option"
  bau_Sources :: "BSource list"
  bau_CTLog :: "BTLog option"
  bau_Attestations :: "BAttestation list"
  bau_RFC3161Timestamp :: "BRFC3161Timestamp option"
  bau_GMSignature :: "BGMSignatureRef option"
  bau_SignatureFormat :: string

record BClusterImagePolicySpec =
  bcs_Images :: "BImagePattern list"
  bcs_Authorities :: "BAuthority list"
  bcs_Policy :: "BPolicy option"
  bcs_Mode :: string
  bcs_Match :: "BMatchResource list"

text \<open>The resource itself; its status (\<open>duckv1.Status\<close>) stays abstract here.\<close>

record 'st BClusterImagePolicy =
  bcip_ObjectMeta :: ObjectMeta
  bcip_Spec :: BClusterImagePolicySpec
  bcip_Status :: 'st

section \<open>Defaulting\<close>

text \<open>
  The body of the loop: the name is written to the slice element, the URL through the
  pointer the loop variable shares with it, so both changes reach the specification.
\<close>

definition B_default_authority :: "nat \<Rightarrow> BAuthority \<Rightarrow> BAuthority" where
  "B_default_authority i authority =
     (let a1 = (if bau_Name authority = '''' then authority\<lparr>bau_Name := ''authority-'' @ show_nat i\<rparr>
                else authority)
      in case bau_Keyless authority of
           None \<Rightarrow> a1
         | Some kl \<Rightarrow>
             if bau_Key authority = None \<and> bau_Static authority = None \<and>
                bkl_CACert kl = None \<and> bkl_URL kl = None
             then a1\<lparr>bau_Keyless := Some (kl\<lparr>bkl_URL := Some default_fulcio_url\<rparr>)\<rparr>
             else a1)"

definition B_ClusterImagePolicySpec_SetDefaults :: "BClusterImagePolicySpec \<Rightarrow> BClusterImagePolicySpec" where
  "B_ClusterImagePolicySpec_SetDefaults spec =
     (let s1 = (if bcs_Mode spec = '''' then spec\<lparr>bcs_Mode := ''enforce''\<rparr> else spec)
      in s1\<lparr>bcs_Authorities := map (\<lambda>p. B_default_authority (fst p) (snd p)) (indexed (bcs_Authorities s1))\<rparr>)"

definition B_ClusterImagePolicy_SetDefaults :: "'st BClusterImagePolicy \<Rightarrow> 'st BClusterImagePolicy" where
  "B_ClusterImagePolicy_SetDefaults c = c\<lparr>bcip_Spec := B_ClusterImagePolicySpec_SetDefaults (bcip_Spec c)\<rparr>"

section \<open>Validation\<close>

definition B_ValidateGlob :: "'fe fe_api \<Rightarrow> externals \<Rightarrow> string \<Rightarrow> 'fe option" where
  "B_ValidateGlob api x g =
     (case x_filepath_Match_err x g of
        Some e \<Rightarrow> Some (ErrInvalidValue api g CurrentField [''glob is invalid: '' @ e])
      | None \<Rightarrow>
          (case Compile g of
             Inl e \<Rightarrow> Some (ErrInvalidValue api g CurrentField [''glob is invalid: '' @ e])
           | Inr _ \<Rightarrow> None))"

definition B_ValidateRegex :: "'fe fe_api \<Rightarrow> externals \<Rightarrow> string \<Rightarrow> 'fe option" where
  "B_ValidateRegex api x r =
     (case x_regexp_Compile_err x r of
        Some e \<Rightarrow> Some (ErrInvalidValue api r CurrentField [''regex is invalid: '' @ e])
      | None \<Rightarrow> None)"

definition B_ImagePattern_Validate :: "'fe fe_api \<Rightarrow> externals \<Rightarrow> BImagePattern \<Rightarrow> 'fe option" where
  "B_ImagePattern_Validate api x img =
     (if bip_Glob img = '''' then Some (ErrMissingField api [''glob''])
      else ViaField api ''glob'' (B_ValidateGlob api x (bip_Glob img)))"

definition B_StaticRef_Validate :: "'fe fe_api \<Rightarrow> BStaticRef \<Rightarrow> 'fe option" where
  "B_StaticRef_Validate api s =
     (if bst_Action s = '''' then Also api None (Some (ErrMissingField api [''action'']))
      else also_if api (bst_Action s \<notin> set ValidStaticRefTypes)
             (Some (ErrInvalidValue api (bst_Action s) ''action'' [''unsupported action''])) None)"

definition B_MatchResource_Validate :: "'fe fe_api \<Rightarrow> val_ctx \<Rightarrow> BMatchResource \<Rightarrow> 'fe option" where
  "B_MatchResource_Validate api ctx m =
     (let g = bmr_GVR m;
          e1 = also_if api (gvr_Resource g \<noteq> '''' \<and> vc_ValidResourceNames ctx \<noteq> [] \<and>
                            gvr_Resource g \<notin> set (vc_ValidResourceNames ctx))
                 (Some (ErrInvalidValue api (gvr_Resource g) ''resource'' [''unsupported resource name'']))
                 None
      in also_if api (bmr_ResourceSelector m \<noteq> None \<and> gvr_Resource g = '''' \<and>
                      gvr_Version g = '''' \<and> gvr_Group g = '''')
           (Some (ErrInvalidValue api (gvr_Resource g) ''selector''
              [''selector requires a resource type to match the labels''])) e1)"

definition B_KeyRef_Validate :: "'fe fe_api \<Rightarrow> externals \<Rightarrow> BKeyRef \<Rightarrow> 'fe option" where
  "B_KeyRef_Validate api x key =
     (let several = Some (ErrMultipleOneOf api [''data'', ''kms'', ''secretref'']);
          e1 = also_if api (bkr_Data key = '''' \<and> bkr_KMS key = '''' \<and> bkr_SecretRef key = None)
                 (Some (ErrMissingOneOf api [''data'', ''kms'', ''secretref''])) None;
          e2 = also_if api (bkr_HashAlgorithm key \<noteq> '''' \<and> snd (HashAlgorithm (bkr_HashAlgorithm key)) \<noteq> None)
                 (Some (ErrInvalidValue api (bkr_HashAlgorithm key) ''hashAlgorithm'' [])) e1;
          e3 = (if bkr_Data key \<noteq> '''' then
                  also_if api (case x_UnmarshalPEMToPublicKey x (bkr_Data key) of
                                 Inl _ \<Rightarrow> True | Inr pk \<Rightarrow> pk = None)
                    (Some (ErrInvalidValue api (bkr_Data key) ''data'' []))
                    (also_if api (bkr_KMS key \<noteq> '''' \<or> bkr_SecretRef key \<noteq> None) several e2)
                else also_if api (bkr_KMS key \<noteq> '''' \<and> bkr_SecretRef key \<noteq> None) several e2);
          e4 = also_if api (bkr_KMS key \<noteq> '''') (ViaField api ''kms'' (ValidateKMS api x (bkr_KMS key))) e3
      in (case bkr_SecretRef key of
            None \<Rightarrow> e4
          | Some sr \<Rightarrow>
              also_if api (sr_Namespace sr \<noteq> '''' \<and> sr_Namespace sr \<noteq> x_system_Namespace x)
                (Some (ErrInvalidValue api (sr_Namespace sr) ''secretref.namespace''
                  [''secretref.namespace is invalid. If set, it should use the same namespace where the policy-controller was deployed'']))
                e4))"

definition B_Identity_Validate :: "'fe fe_api \<Rightarrow> externals \<Rightarrow> BIdentity \<Rightarrow> 'fe option" where
  "B_Identity_Validate api x i =
     (let e1 = also_if api (bid_Issuer i \<noteq> '''' \<and> bid_IssuerRegExp i \<noteq> '''')
                 (Some (ErrMultipleOneOf api [''issuer'', ''issuerRegExp''])) None;
          e2 = also_if api (bid_Subject i \<noteq> '''' \<and> bid_SubjectRegExp i \<noteq> '''')
                 (Some (ErrMultipleOneOf api [''subject'', ''subjectRegExp''])) e1;
          e3 = also_if api (bid_IssuerRegExp i \<noteq> '''')
                 (ViaField api ''issuerRegExp'' (B_ValidateRegex api x (bid_IssuerRegExp i))) e2;
          e4 = also_if api (bid_SubjectRegExp i \<noteq> '''')
                 (ViaField api ''subjectRegExp'' (B_ValidateRegex api x (bid_SubjectRegExp i))) e3;
          e5 = also_if api (bid_SubjectRegExp i = '''' \<and> bid_Subject i = '''')
                 (Some (ErrMissingField api [''subject'', ''subjectRegExp''])) e4
      in also_if api (bid_IssuerRegExp i = '''' \<and> bid_Issuer i = '''')
           (Some (ErrMissingField api [''issuer'', ''issuerRegExp''])) e5)"

definition B_KeylessRef_Validate :: "'fe fe_api \<Rightarrow> externals \<Rightarrow> BKeylessRef \<Rightarrow> 'fe option" where
  "B_KeylessRef_Validate api x kl =
     (let e1 = also_if api (bkl_URL kl = None \<and> bkl_CACert kl = None)
                 (Some (ErrMissingOneOf api [''url'', ''ca-cert''])) None;
          e2 = also_if api (bkl_URL kl \<noteq> None \<and> bkl_CACert kl \<noteq> None)
                 (Some (ErrMultipleOneOf api [''url'', ''ca-cert''])) e1;
          e3 = (case bkl_CACert kl of None \<Rightarrow> e2
                | Some k \<Rightarrow> Also api e2 (ViaField api ''ca-cert'' (B_KeyRef_Validate api x k)));
          e4 = also_if api (bkl_Identities kl = []) (Some (ErrMissingField api [''identities''])) e3
      in also_each api ''identities'' (B_Identity_Validate api x) (bkl_Identities kl) e4)"

definition B_Source_Validate :: "'fe fe_api \<Rightarrow> externals \<Rightarrow> BSource \<Rightarrow> 'fe option" where
  "B_Source_Validate api x s =
     (let e1 = (if bso_OCI s \<noteq> '''' then
                  (case ValidateOCI x (bso_OCI s) of None \<Rightarrow> None
                   | Some e \<Rightarrow> Also api None (Some (ErrInvalidValue api (bso_OCI s) ''oci'' [e])))
                else None)
      in foldl (\<lambda>errs p. if snd p = '''' then
                 ViaFieldIndex api ''signaturePullSecrets'' (fst p)
                   (Also api errs (Some (ErrMissingField api [''name''])))
               else errs)
           e1 (indexed (bso_SignaturePullSecrets s)))"

definition B_ConfigMapReference_Validate :: "'fe fe_api \<Rightarrow> BConfigMapReference \<Rightarrow> 'fe option" where
  "B_ConfigMapReference_Validate api c =
     (let e1 = also_if api (bcr_Name c = '''') (Some (ErrMissingField api [''name''])) None
      in also_if api (bcr_Key c = '''') (Some (ErrMissingField api [''key''])) e1)"

definition B_RemotePolicy_Validate :: "'fe fe_api \<Rightarrow> externals \<Rightarrow> BRemotePolicy \<Rightarrow> 'fe option" where
  "B_RemotePolicy_Validate api x r =
     (let bad = (case x_url_Parse_HostScheme x (brp_URL r) of
                   Inl _ \<Rightarrow> True
                 | Inr (host, scheme) \<Rightarrow> host = '''' \<or> scheme = '''' \<or> scheme \<noteq> ''https'');
          e1 = also_if api bad (Some (ErrInvalidValue api (brp_URL r) ''url''
                 [''url valid is invalid. host and https scheme are expected''])) None
      in also_if api (brp_Sha256sum r = '''') (Some (ErrMissingField api [''sha256sum''])) e1)"

definition B_Policy_Validate :: "'fe fe_api \<Rightarrow> externals \<Rightarrow> val_ctx \<Rightarrow> BPolicy option \<Rightarrow> 'fe option" where
  "B_Policy_Validate api x ctx pol =
     (case pol of None \<Rightarrow> None | Some p \<Rightarrow>
       (let d = (bpo_Data p \<noteq> ''''); c = (bpo_ConfigMapRef p \<noteq> None); r = (bpo_Remote p \<noteq> None);
            three = [''data'', ''configMapRef'', ''remote''];
            e1 = also_if api (bpo_Type p \<noteq> ''cue'' \<and> bpo_Type p \<noteq> ''rego'')
                   (Some (ErrInvalidValue api (bpo_Type p) ''type''
                     [''only [cue,rego] are supported at the moment''])) None;
            e2 = also_if api (\<not> d \<and> \<not> c \<and> \<not> r) (Some (ErrMissingField api three)) e1;
            e3 = also_if api (d \<and> c \<and> r) (Some (ErrMultipleOneOf api three)) e2;
            e4 = also_if api (d \<and> c \<or> d \<and> r \<or> c \<and> r) (Some (ErrMultipleOneOf api three)) e3;
            e5 = (case bpo_Remote p of None \<Rightarrow> e4
                  | Some rp \<Rightarrow> Also api e4 (ViaField api ''remote'' (B_RemotePolicy_Validate api x rp)));
            e6 = (case bpo_ConfigMapRef p of None \<Rightarrow> e5
                  | Some cm \<Rightarrow> Also api e5 (ViaField api ''configMapRef'' (B_ConfigMapReference_Validate api cm)));
            out = \<not> vc_InSpec ctx;
            e7 = also_if api (out \<and> bpo_FetchConfigFile p \<noteq> None)
                   (Some (ErrDisallowedFields api [''fetchConfigFile''])) e6;
            e8 = also_if api (out \<and> bpo_IncludeSpec p \<noteq> None)
                   (Some (ErrDisallowedFields api [''includeSpec''])) e7;
            e9 = also_if api (out \<and> bpo_IncludeObjectMeta p \<noteq> None)
                   (Some (ErrDisallowedFields api [''includeObjectMeta''])) e8
        in also_if api (out \<and> bpo_IncludeTypeMeta p \<noteq> None)
             (Some (ErrDisallowedFields api [''includeTypeMeta''])) e9))"

definition B_Attestation_Validate :: "'fe fe_api \<Rightarrow> externals \<Rightarrow> val_ctx \<Rightarrow> BAttestation \<Rightarrow> 'fe option" where
  "B_Attestation_Validate api x ctx a =
     (let deprecated = At api WarningLevel (Some (ErrInvalidValue api (bat_PredicateType a) ''predicateType''
            [''deprecated value, please use RFC 3986 conformant values'']));
          e1 = also_if api (bat_Name a = '''') (Some (ErrMissingField api [''name''])) None;
          e2 = (if bat_PredicateType a = '''' then Also api e1 (Some (ErrMissingField api [''predicateType'']))
                else if bat_PredicateType a \<in> set ValidPredicateTypes then Also api e1 deprecated
                else also_if api (x_ParseRequestURI_err x (bat_PredicateType a) \<noteq> None) deprecated e1)
      in Also api e2 (ViaField api ''policy'' (B_Policy_Validate api x ctx (bat_Policy a))))"

definition B_GMSignatureRef_Validate :: "'fe fe_api \<Rightarrow> BGMSignatureRef \<Rightarrow> 'fe option" where
  "B_GMSignatureRef_Validate api g =
     (let e1 = also_if api (bgm_VerifyURL g = '''') (Some (ErrMissingField api [''verifyUrl''])) None;
          e2 = also_if api (bgm_TenantID g = '''') (Some (ErrMissingField api [''tenantId''])) e1;
          e3 = also_if api (bgs_AppID (bgm_Signer g) = '''') (Some (ErrMissingField api [''signer.appId''])) e2;
          e4 = also_if api (bgs_NodeID (bgm_Signer g) = '''') (Some (ErrMissingField api [''signer.nodeId''])) e3
      in also_if api (bgm_RequestTimeoutMs g < 0)
           (Some (ErrInvalidValue api (show_int (bgm_RequestTimeoutMs g)) ''requestTimeoutMs''
             [''must be >= 0 (0 = use default)''])) e4)"

definition B_verifier_count :: "BAuthority \<Rightarrow> nat" where
  "B_verifier_count a =
     (if bau_Key a \<noteq> None then 1 else 0) + (if bau_Keyless a \<noteq> None then 1 else 0) +
     (if bau_Static a \<noteq> None then 1 else 0) + (if bau_GMSignature a \<noteq> None then 1 else 0)"

definition B_Authority_Validate :: "'fe fe_api \<Rightarrow> externals \<Rightarrow> val_ctx \<Rightarrow> BAuthority \<Rightarrow> 'fe option" where
  "B_Authority_Validate api x ctx a =
     (let kinds = [''key'', ''keyless'', ''static'', ''gmSignature''];
          both = (\<lambda>k f. Some (ErrMultipleOneOf api [k, f]))
      in if B_verifier_count a = 0 then Also api None (Some (ErrMissingOneOf api kinds))
         else if B_verifier_count a > 1 then Also api None (Some (ErrMultipleOneOf api kinds))
         else
           (let e1 = (case bau_Key a of None \<Rightarrow> None
                      | Some k \<Rightarrow> Also api None (ViaField api ''key'' (B_KeyRef_Validate api x k)));
                e2 = (case bau_Keyless a of None \<Rightarrow> e1
                      | Some k \<Rightarrow> Also api e1 (ViaField api ''keyless'' (B_KeylessRef_Validate api x k)));
                e3 = (case bau_GMSignature a of None \<Rightarrow> e2
                      | Some g \<Rightarrow>
                          also_if api (bau_RFC3161Timestamp a \<noteq> None) (both ''gmSignature'' ''rfc3161timestamp'')
                          (also_if api (bau_CTLog a \<noteq> None) (both ''gmSignature'' ''ctlog'')
                          (also_if api (bau_Attestations a \<noteq> []) (both ''gmSignature'' ''attestations'')
                          (Also api e2 (ViaField api ''gmSignature'' (B_GMSignatureRef_Validate api g))))));
                e4 = (case bau_Static a of None \<Rightarrow> e3
                      | Some s \<Rightarrow>
                          also_if api (bau_RFC3161Timestamp a \<noteq> None) (both ''static'' ''rfc3161timestamp'')
                          (also_if api (bau_CTLog a \<noteq> None) (both ''static'' ''ctlog'')
                          (also_if api (bau_Sources a \<noteq> []) (both ''static'' ''source'')
                          (also_if api (bau_Attestations a \<noteq> []) (both ''static'' ''attestations'')
                          (Also api e3 (ViaField api ''static'' (B_StaticRef_Validate api s)))))));
                e5 = (if length (bau_Sources a) > 1
                      then Also api e4 (Some (ErrInvalidValue api ''source'' ''source''
                             [''only single source is supported'']))
                      else also_each api ''source'' (B_Source_Validate api x) (bau_Sources a) e4)
            in foldl (\<lambda>errs att. Also api errs (ViaField api ''attestations'' (B_Attestation_Validate api x ctx att)))
                 e5 (bau_Attestations a)))"

definition B_ClusterImagePolicySpec_Validate ::
    "'fe fe_api \<Rightarrow> externals \<Rightarrow> val_ctx \<Rightarrow> BClusterImagePolicySpec \<Rightarrow> 'fe option" where
  "B_ClusterImagePolicySpec_Validate api x ctx spec =
     (let pcConfig = FromContextOrDefaults (vc_Config ctx);
          e1 = also_if api (bcs_Images spec = []) (Some (ErrMissingField api [''images''])) None;
          e2 = also_each api ''images'' (B_ImagePattern_Validate api x) (bcs_Images spec) e1;
          e3 = also_if api (bcs_Authorities spec = [] \<and> pcc_FailOnEmptyAuthorities pcConfig)
                 (Some (ErrMissingField api [''authorities''])) e2;
          e4 = also_each api ''authorities'' (B_Authority_Validate api x ctx) (bcs_Authorities spec) e3;
          e5 = also_if api (bcs_Mode spec \<noteq> '''' \<and> bcs_Mode spec \<notin> set ValidModes)
                 (Some (ErrInvalidValue api (bcs_Mode spec) ''mode'' [''unsupported mode''])) e4;
          e6 = also_each api ''match'' (B_MatchResource_Validate api ctx) (bcs_Match spec) e5
      in Also api e6 (B_Policy_Validate api x (ctx\<lparr>vc_InSpec := True\<rparr>) (bcs_Policy spec)))"

definition B_ClusterImagePolicy_Validate ::
    "'fe fe_api \<Rightarrow> externals \<Rightarrow> val_ctx \<Rightarrow> 'st BClusterImagePolicy \<Rightarrow> 'fe option" where
  "B_ClusterImagePolicy_Validate api x ctx c =
     (if vc_InStatusUpdate ctx then None
      else ViaField api ''spec'' (B_ClusterImagePolicySpec_Validate api x ctx (bcip_Spec c)))"

section \<open>Which policies are accepted\<close>

text \<open>
  The rules, stated without the order and the texts of the error messages. A key names
  exactly one source, which must be usable; an identity fixes issuer and subject, each by a
  literal or by an expression that compiles; an authority has exactly one verifier and none
  of the settings its verifier excludes.
\<close>

definition B_key_ok :: "externals \<Rightarrow> BKeyRef \<Rightarrow> bool" where
  "B_key_ok x k =
     (length (filter id [bkr_Data k \<noteq> '''', bkr_KMS k \<noteq> '''', bkr_SecretRef k \<noteq> None]) = 1 \<and>
      (bkr_HashAlgorithm k \<noteq> '''' \<longrightarrow> snd (HashAlgorithm (bkr_HashAlgorithm k)) = None) \<and>
      (bkr_Data k \<noteq> '''' \<longrightarrow> (\<exists>pk. x_UnmarshalPEMToPublicKey x (bkr_Data k) = Ok (Some pk))) \<and>
      (bkr_KMS k \<noteq> '''' \<longrightarrow> kms_ok x (bkr_KMS k)) \<and>
      (\<forall>sr. bkr_SecretRef k = Some sr \<longrightarrow> sr_Namespace sr \<in> {'''', x_system_Namespace x}))"

definition B_identity_ok :: "externals \<Rightarrow> BIdentity \<Rightarrow> bool" where
  "B_identity_ok x i =
     (literal_or_regex x (bid_Issuer i) (bid_IssuerRegExp i) \<and>
      literal_or_regex x (bid_Subject i) (bid_SubjectRegExp i))"

definition B_keyless_ok :: "externals \<Rightarrow> BKeylessRef \<Rightarrow> bool" where
  "B_keyless_ok x k =
     ((bkl_URL k = None) \<noteq> (bkl_CACert k = None) \<and>
      (\<forall>c. bkl_CACert k = Some c \<longrightarrow> B_key_ok x c) \<and>
      bkl_Identities k \<noteq> [] \<and> (\<forall>i \<in> set (bkl_Identities k). B_identity_ok x i))"

definition B_source_ok :: "externals \<Rightarrow> BSource \<Rightarrow> bool" where
  "B_source_ok x s =
     ((bso_OCI s \<noteq> '''' \<longrightarrow> ValidateOCI x (bso_OCI s) = None) \<and>
      '''' \<notin> set (bso_SignaturePullSecrets s))"

definition B_remote_ok :: "externals \<Rightarrow> BRemotePolicy \<Rightarrow> bool" where
  "B_remote_ok x r =
     ((\<exists>host. host \<noteq> '''' \<and> x_url_Parse_HostScheme x (brp_URL r) = Ok (host, ''https'')) \<and>
      brp_Sha256sum r \<noteq> '''')"

definition B_policy_ok :: "externals \<Rightarrow> bool \<Rightarrow> BPolicy \<Rightarrow> bool" where
  "B_policy_ok x in_spec p =
     (bpo_Type p \<in> {''cue'', ''rego''} \<and>
      length (filter id [bpo_Data p \<noteq> '''', bpo_ConfigMapRef p \<noteq> None, bpo_Remote p \<noteq> None]) = 1 \<and>
      (\<forall>r. bpo_Remote p = Some r \<longrightarrow> B_remote_ok x r) \<and>
      (\<forall>c. bpo_ConfigMapRef p = Some c \<longrightarrow> bcr_Name c \<noteq> '''' \<and> bcr_Key c \<noteq> '''') \<and>
      (in_spec \<or> bpo_FetchConfigFile p = None \<and> bpo_IncludeSpec p = None \<and>
         bpo_IncludeObjectMeta p = None \<and> bpo_IncludeTypeMeta p = None))"

definition B_attestation_ok :: "externals \<Rightarrow> bool \<Rightarrow> BAttestation \<Rightarrow> bool" where
  "B_attestation_ok x in_spec a =
     (bat_Name a \<noteq> '''' \<and> bat_PredicateType a \<noteq> '''' \<and>
      (\<forall>p. bat_Policy a = Some p \<longrightarrow> B_policy_ok x in_spec p))"

definition B_gm_ok :: "BGMSignatureRef \<Rightarrow> bool" where
  "B_gm_ok g =
     (bgm_VerifyURL g \<noteq> '''' \<and> bgm_TenantID g \<noteq> '''' \<and> bgs_AppID (bgm_Signer g) \<noteq> '''' \<and>
      bgs_NodeID (bgm_Signer g) \<noteq> '''' \<and> 0 \<le> bgm_RequestTimeoutMs g)"

definition B_match_ok :: "string list \<Rightarrow> BMatchResource \<Rightarrow> bool" where
  "B_match_ok names m =
     ((gvr_Resource (bmr_GVR m) = '''' \<or> names = [] \<or> gvr_Resource (bmr_GVR m) \<in> set names) \<and>
      (bmr_ResourceSelector m = None \<or>
         \<not> (gvr_Resource (bmr_GVR m) = '''' \<and> gvr_Version (bmr_GVR m) = '''' \<and> gvr_Group (bmr_GVR m) = '''')))"

definition B_authority_ok :: "externals \<Rightarrow> bool \<Rightarrow> BAuthority \<Rightarrow> bool" where
  "B_authority_ok x in_spec a =
     (B_verifier_count a = 1 \<and>
      (\<forall>k. bau_Key a = Some k \<longrightarrow> B_key_ok x k) \<and>
      (\<forall>k. bau_Keyless a = Some k \<longrightarrow> B_keyless_ok x k) \<and>
      (\<forall>g. bau_GMSignature a = Some g \<longrightarrow> B_gm_ok g \<and> bau_Attestations a = [] \<and>
         bau_CTLog a = None \<and> bau_RFC3161Timestamp a = None) \<and>
      (\<forall>s. bau_Static a = Some s \<longrightarrow> bst_Action s \<in> {''fail'', ''pass''} \<and> bau_Attestations a = [] \<and>
         bau_Sources a = [] \<and> bau_CTLog a = None \<and> bau_RFC3161Timestamp a = None) \<and>
      length (bau_Sources a) \<le> 1 \<and> (\<forall>s \<in> set (bau_Sources a). B_source_ok x s) \<and>
      (\<forall>t \<in> set (bau_Attestations a). B_attestation_ok x in_spec t))"

definition B_spec_ok :: "externals \<Rightarrow> val_ctx \<Rightarrow> BClusterImagePolicySpec \<Rightarrow> bool" where
  "B_spec_ok x ctx s =
     (bcs_Images s \<noteq> [] \<and> (\<forall>i \<in> set (bcs_Images s). glob_ok x (bip_Glob i)) \<and>
      (bcs_Authorities s = [] \<longrightarrow> \<not> pcc_FailOnEmptyAuthorities (FromContextOrDefaults (vc_Config ctx))) \<and>
      (\<forall>a \<in> set (bcs_Authorities s). B_authority_ok x (vc_InSpec ctx) a) \<and>
      bcs_Mode s \<in> {'''', ''enforce'', ''warn''} \<and>
      (\<forall>m \<in> set (bcs_Match s). B_match_ok (vc_ValidResourceNames ctx) m) \<and>
      (\<forall>p. bcs_Policy s = Some p \<longrightarrow> B_policy_ok x True p))"

context field_error_laws
begin

lemma beta_blocks_ImagePattern_Validate [blocks_simps]:
  "blocks api (B_ImagePattern_Validate api x i) \<longleftrightarrow> \<not> glob_ok x (bip_Glob i)"
  using normalize_glob_chars [of "bip_Glob i"]
  by (auto simp: B_ImagePattern_Validate_def B_ValidateGlob_def glob_ok_def Compile_tokens
      split: option.splits sum.splits if_splits)

lemma beta_blocks_StaticRef_Validate [blocks_simps]:
  "blocks api (B_StaticRef_Validate api s) \<longleftrightarrow> bst_Action s \<notin> {''fail'', ''pass''}"
  by (auto simp: B_StaticRef_Validate_def ValidStaticRefTypes_def)

lemma beta_blocks_MatchResource_Validate [blocks_simps]:
  "blocks api (B_MatchResource_Validate api ctx m) \<longleftrightarrow> \<not> B_match_ok (vc_ValidResourceNames ctx) m"
  by (auto simp: B_MatchResource_Validate_def B_match_ok_def Let_def)

lemma beta_blocks_KeyRef_Validate [blocks_simps]: "blocks api (B_KeyRef_Validate api x k) \<longleftrightarrow> \<not> B_key_ok x k"
  by (cases "bkr_Data k = ''''"; cases "bkr_KMS k = ''''"; cases "bkr_SecretRef k")
     (auto simp: B_KeyRef_Validate_def B_key_ok_def Let_def blocks_ValidateKMS split: sum.splits)

lemma beta_blocks_ValidateRegex [blocks_simps]:
  "blocks api (B_ValidateRegex api x r) \<longleftrightarrow> x_regexp_Compile_err x r \<noteq> None"
  by (auto simp: B_ValidateRegex_def split: option.splits)

lemma beta_blocks_Identity_Validate [blocks_simps]:
  "blocks api (B_Identity_Validate api x i) \<longleftrightarrow> \<not> B_identity_ok x i"
  by (auto simp: B_Identity_Validate_def B_identity_ok_def literal_or_regex_def Let_def blocks_simps)

lemma beta_blocks_KeylessRef_Validate [blocks_simps]:
  "blocks api (B_KeylessRef_Validate api x k) \<longleftrightarrow> \<not> B_keyless_ok x k"
  by (cases "bkl_CACert k"; cases "bkl_URL k")
     (auto simp: B_KeylessRef_Validate_def B_keyless_ok_def Let_def blocks_simps)

lemma beta_blocks_Source_Validate [blocks_simps]:
  "blocks api (B_Source_Validate api x s) \<longleftrightarrow> \<not> B_source_ok x s"
  using ball_indexed [where P = "\<lambda>n. n \<noteq> ''''" and xs = "bso_SignaturePullSecrets s"]
  by (auto simp: B_Source_Validate_def B_source_ok_def Let_def blocks_pull_secrets split: option.splits)

lemma beta_blocks_RemotePolicy_Validate [blocks_simps]:
  "blocks api (B_RemotePolicy_Validate api x r) \<longleftrightarrow> \<not> B_remote_ok x r"
  by (auto simp: B_RemotePolicy_Validate_def B_remote_ok_def Let_def split: sum.splits prod.splits)

lemma beta_blocks_ConfigMapReference_Validate [blocks_simps]:
  "blocks api (B_ConfigMapReference_Validate api c) \<longleftrightarrow> bcr_Name c = '''' \<or> bcr_Key c = ''''"
  by (auto simp: B_ConfigMapReference_Validate_def Let_def)

lemma beta_blocks_Policy_Validate [blocks_simps]:
  "blocks api (B_Policy_Validate api x ctx pol) \<longleftrightarrow>
     (\<exists>p. pol = Some p \<and> \<not> B_policy_ok x (vc_InSpec ctx) p)"
proof (cases pol)
  case (Some p)
  then show ?thesis
    by (cases "bpo_Data p = ''''"; cases "bpo_ConfigMapRef p"; cases "bpo_Remote p")
       (auto simp: B_Policy_Validate_def B_policy_ok_def Let_def blocks_simps)
qed (simp add: B_Policy_Validate_def)

lemma beta_blocks_Attestation_Validate [blocks_simps]:
  "blocks api (B_Attestation_Validate api x ctx a) \<longleftrightarrow> \<not> B_attestation_ok x (vc_InSpec ctx) a"
  by (auto simp: B_Attestation_Validate_def B_attestation_ok_def Let_def blocks_simps)

lemma beta_blocks_GMSignatureRef_Validate [blocks_simps]:
  "blocks api (B_GMSignatureRef_Validate api g) \<longleftrightarrow> \<not> B_gm_ok g"
  by (auto simp: B_GMSignatureRef_Validate_def B_gm_ok_def Let_def)

lemma beta_blocks_Authority_Validate [blocks_simps]:
  "blocks api (B_Authority_Validate api x ctx a) \<longleftrightarrow> \<not> B_authority_ok x (vc_InSpec ctx) a"
proof (cases "B_verifier_count a = 1")
  case True
  then have one: "\<not> B_verifier_count a = 0" "\<not> B_verifier_count a > 1" by auto
  show ?thesis
    unfolding B_Authority_Validate_def Let_def B_authority_ok_def
    by (cases "bau_Key a"; cases "bau_Keyless a"; cases "bau_GMSignature a"; cases "bau_Static a";
        cases "length (bau_Sources a) > 1")
       (use True one in \<open>auto simp: blocks_foldl_Also blocks_simps not_less\<close>)
next
  case False
  then show ?thesis by (auto simp: B_Authority_Validate_def B_authority_ok_def Let_def)
qed

lemma beta_blocks_Spec_Validate [blocks_simps]:
  "blocks api (B_ClusterImagePolicySpec_Validate api x ctx s) \<longleftrightarrow> \<not> B_spec_ok x ctx s"
  by (auto simp: B_ClusterImagePolicySpec_Validate_def B_spec_ok_def Let_def ValidModes_def blocks_simps)

end

end
