(* ===== verification/Conditions.thy ===== *)
theory Conditions
  imports V1beta1 TrustRoot
begin

text \<open>
  Status conditions of the resources: \<open>clusterimagepolicy_lifecycle.go\<close> of both API versions
  and \<open>trustroot_lifecycle.go\<close>. The condition manager is knative's
  (\<open>apis.ConditionSet.Manage\<close>); it is used through the operations below, and what its
  documentation promises is the locale \<open>condition_laws\<close>.
\<close>

section \<open>The condition manager\<close>

datatype cond_status = CondTrue | CondFalse | CondUnknown

record condition =
  cd_Status :: cond_status
  cd_Reason :: string
  cd_Message :: string

text \<open>
  A living condition set is the list of its dependent conditions; the condition that sums
  them up is \<open>Ready\<close>. The third text of \<open>MarkFalse\<close> is a format string, applied without
  arguments.
\<close>

type_synonym cond_set = "string list"

record 's cond_api =
  kc_Initialize :: "cond_set \<Rightarrow> 's \<Rightarrow> 's"
  kc_MarkTrue :: "cond_set \<Rightarrow> string \<Rightarrow> 's \<Rightarrow> 's"
  kc_MarkFalse :: "cond_set \<Rightarrow> string \<Rightarrow> string \<Rightarrow> string \<Rightarrow> 's \<Rightarrow> 's"
  kc_GetCondition :: "string \<Rightarrow> 's \<Rightarrow> condition option"

definition ConditionReady :: string where "ConditionReady = ''Ready''"

definition cond_status_of :: "'s cond_api \<Rightarrow> string \<Rightarrow> 's \<Rightarrow> cond_status option" where
  "cond_status_of kc t s = map_option cd_Status (kc_GetCondition kc t s)"

text \<open>\<open>IsTrue\<close> and \<open>IsFalse\<close> of a condition that may be nil.\<close>

definition IsTrue :: "condition option \<Rightarrow> bool" where
  "IsTrue c = (map_option cd_Status c = Some CondTrue)"

definition IsFalse :: "condition option \<Rightarrow> bool" where
  "IsFalse c = (map_option cd_Status c = Some CondFalse)"

locale condition_laws =
  fixes kc :: "'s cond_api"
  assumes init_keeps: "kc_GetCondition kc t s = Some c \<Longrightarrow> kc_GetCondition kc t (kc_Initialize kc deps s) = Some c"
    and init_sets: "t \<in> insert ConditionReady (set deps) \<Longrightarrow> kc_GetCondition kc t (kc_Initialize kc deps s) \<noteq> None"
    and init_fresh: "\<forall>u. kc_GetCondition kc u s = None \<Longrightarrow> t \<in> insert ConditionReady (set deps) \<Longrightarrow>
          cond_status_of kc t (kc_Initialize kc deps s) = Some CondUnknown"
    and true_self: "t \<noteq> ConditionReady \<Longrightarrow> cond_status_of kc t (kc_MarkTrue kc deps t s) = Some CondTrue"
    and true_other: "u \<noteq> t \<Longrightarrow> u \<noteq> ConditionReady \<Longrightarrow>
          kc_GetCondition kc u (kc_MarkTrue kc deps t s) = kc_GetCondition kc u s"
    and true_ready: "t \<in> set deps \<Longrightarrow> ConditionReady \<notin> set deps \<Longrightarrow>
          cond_status_of kc ConditionReady (kc_MarkTrue kc deps t s) = Some CondTrue \<longleftrightarrow>
          (\<forall>d \<in> set deps. cond_status_of kc d (kc_MarkTrue kc deps t s) = Some CondTrue)"
    and true_ready_set: "t \<in> set deps \<Longrightarrow> kc_GetCondition kc ConditionReady (kc_MarkTrue kc deps t s) \<noteq> None"
    and false_self: "cond_status_of kc t (kc_MarkFalse kc deps t reason msg s) = Some CondFalse"
    and false_ready: "t \<in> set deps \<Longrightarrow> cond_status_of kc ConditionReady (kc_MarkFalse kc deps t reason msg s) = Some CondFalse"
    and false_other: "u \<noteq> t \<Longrightarrow> u \<noteq> ConditionReady \<Longrightarrow>
          kc_GetCondition kc u (kc_MarkFalse kc deps t reason msg s) = kc_GetCondition kc u s"
begin

text \<open>What a well kept status says: \<open>Ready\<close> sums up the dependents, and all are set.\<close>

definition summed_up :: "cond_set \<Rightarrow> 's \<Rightarrow> bool" where
  "summed_up deps s =
     ((\<forall>t \<in> insert ConditionReady (set deps). kc_GetCondition kc t s \<noteq> None) \<and>
      (cond_status_of kc ConditionReady s = Some CondTrue \<longleftrightarrow> (\<forall>d \<in> set deps. cond_status_of kc d s = Some CondTrue)))"

lemma status_of_None: "cond_status_of kc t s = None \<longleftrightarrow> kc_GetCondition kc t s = None"
  by (simp add: cond_status_of_def)

lemma status_init: "kc_GetCondition kc t s \<noteq> None \<Longrightarrow>
    cond_status_of kc t (kc_Initialize kc deps s) = cond_status_of kc t s"
  using init_keeps by (fastforce simp: cond_status_of_def)

lemma status_true_other: "u \<noteq> t \<Longrightarrow> u \<noteq> ConditionReady \<Longrightarrow>
    cond_status_of kc u (kc_MarkTrue kc deps t s) = cond_status_of kc u s"
  by (simp add: cond_status_of_def true_other)

lemma status_false_other: "u \<noteq> t \<Longrightarrow> u \<noteq> ConditionReady \<Longrightarrow>
    cond_status_of kc u (kc_MarkFalse kc deps t reason msg s) = cond_status_of kc u s"
  by (simp add: cond_status_of_def false_other)

lemma summed_up_fresh:
  assumes "\<forall>u. kc_GetCondition kc u s = None" "deps \<noteq> []"
  shows "summed_up deps (kc_Initialize kc deps s)"
proof -
  have "hd deps \<in> set deps" using assms(2) by simp
  then show ?thesis using init_sets init_fresh [OF assms(1)] unfolding summed_up_def by (metis cond_status.distinct(3) insertCI option.inject)
qed

lemma summed_up_init: "summed_up deps s \<Longrightarrow> summed_up deps (kc_Initialize kc deps s)"
  unfolding summed_up_def using init_sets status_init by simp

lemma summed_up_true:
  assumes "summed_up deps s" "t \<in> set deps" "ConditionReady \<notin> set deps"
  shows "summed_up deps (kc_MarkTrue kc deps t s)"
proof -
  have t: "t \<noteq> ConditionReady" using assms by auto
  have "kc_GetCondition kc u (kc_MarkTrue kc deps t s) \<noteq> None" if "u \<in> set deps" for u
  proof (cases "u = t")
    case True
    then show ?thesis using true_self [OF t, of deps s] by (auto simp: cond_status_of_def)
  next
    case False
    moreover have "u \<noteq> ConditionReady" using assms(3) that by blast
    ultimately show ?thesis using assms(1) that by (simp add: true_other summed_up_def)
  qed
  then show ?thesis using true_ready [OF assms(2,3), of s] true_ready_set [OF assms(2)] by (simp add: summed_up_def)
qed

lemma summed_up_false:
  assumes "summed_up deps s" "t \<in> set deps" "ConditionReady \<notin> set deps"
  shows "summed_up deps (kc_MarkFalse kc deps t reason msg s)"
proof -
  let ?s' = "kc_MarkFalse kc deps t reason msg s"
  have self: "cond_status_of kc t ?s' = Some CondFalse" "cond_status_of kc ConditionReady ?s' = Some CondFalse"
    using false_self false_ready [OF assms(2)] by auto
  have "kc_GetCondition kc u ?s' \<noteq> None" if "u \<in> insert ConditionReady (set deps)" for u
    using that self assms(1) false_other [of u t deps reason msg s]
    by (cases "u = t \<or> u = ConditionReady") (auto simp: cond_status_of_def summed_up_def)
  then show ?thesis using self bexI [OF _ assms(2), of "\<lambda>d. cond_status_of kc d ?s' \<noteq> Some CondTrue"]
    by (simp add: summed_up_def)
qed

end

section \<open>An implementation of the manager\<close>

text \<open>A status as a table of conditions, handled the way the documentation describes.\<close>

type_synonym cond_table = "string \<rightharpoonup> condition"

definition unhappy :: "cond_set \<Rightarrow> cond_table \<Rightarrow> condition option" where
  "unhappy deps s =
     (case List.find (\<lambda>d. IsFalse (s d)) deps of
        Some d \<Rightarrow> s d
      | None \<Rightarrow>
          (case List.find (\<lambda>d. \<not> IsTrue (s d)) deps of
             Some d \<Rightarrow> Some (case s d of Some c \<Rightarrow> c | None \<Rightarrow> \<lparr>cd_Status = CondUnknown, cd_Reason = '''', cd_Message = ''''\<rparr>)
           | None \<Rightarrow> None))"

definition table_MarkTrue :: "cond_set \<Rightarrow> string \<Rightarrow> cond_table \<Rightarrow> cond_table" where
  "table_MarkTrue deps t s =
     (let ok = \<lparr>cd_Status = CondTrue, cd_Reason = '''', cd_Message = ''''\<rparr>; s1 = s(t \<mapsto> ok)
      in case unhappy deps s1 of
           Some c \<Rightarrow> s1(ConditionReady \<mapsto> c)
         | None \<Rightarrow> if t \<noteq> ConditionReady then s1(ConditionReady \<mapsto> ok) else s1)"

definition table_MarkFalse :: "cond_set \<Rightarrow> string \<Rightarrow> string \<Rightarrow> string \<Rightarrow> cond_table \<Rightarrow> cond_table" where
  "table_MarkFalse deps t reason msg s =
     (let c = \<lparr>cd_Status = CondFalse, cd_Reason = reason, cd_Message = msg\<rparr>; s1 = s(t \<mapsto> c)
      in if t \<in> set deps then s1(ConditionReady \<mapsto> c) else s1)"

definition table_Initialize :: "cond_set \<Rightarrow> cond_table \<Rightarrow> cond_table" where
  "table_Initialize deps s =
     (let u = \<lparr>cd_Status = CondUnknown, cd_Reason = '''', cd_Message = ''''\<rparr>;
          ready = (case s ConditionReady of None \<Rightarrow> u | Some c \<Rightarrow> c);
          fill = (if cd_Status ready = CondTrue then \<lparr>cd_Status = CondTrue, cd_Reason = '''', cd_Message = ''''\<rparr> else u)
      in (\<lambda>t. case s t of
                Some c \<Rightarrow> Some c
              | None \<Rightarrow> if t = ConditionReady then Some ready else if t \<in> set deps then Some fill else None))"

definition table_api :: "cond_table cond_api" where
  "table_api = \<lparr>kc_Initialize = table_Initialize, kc_MarkTrue = table_MarkTrue, kc_MarkFalse = table_MarkFalse,
                kc_GetCondition = (\<lambda>t s. s t)\<rparr>"

lemma table_api_simps [simp]:
  "kc_GetCondition table_api t s = s t" "kc_Initialize table_api = table_Initialize"
  "kc_MarkTrue table_api = table_MarkTrue" "kc_MarkFalse table_api = table_MarkFalse"
  by (simp_all add: table_api_def)

lemma unhappy_None_iff: "unhappy deps s = None \<longleftrightarrow> (\<forall>d \<in> set deps. IsTrue (s d))"
proof (cases "List.find (\<lambda>d. IsFalse (s d)) deps")
  case None
  show ?thesis
  proof (cases "List.find (\<lambda>d. \<not> IsTrue (s d)) deps")
    case None': None
    then have "\<forall>d \<in> set deps. IsTrue (s d)" by (simp add: find_None_iff)
    with None None' show ?thesis by (simp add: unhappy_def)
  next
    case (Some d)
    then have "d \<in> set deps" "\<not> IsTrue (s d)" by (auto simp: find_Some_iff)
    then show ?thesis using None Some by (auto simp: unhappy_def)
  qed
next
  case (Some d)
  then have "d \<in> set deps" "IsFalse (s d)" by (auto simp: find_Some_iff)
  then show ?thesis using Some by (auto simp: unhappy_def IsTrue_def IsFalse_def)
qed

lemma unhappy_not_true: "unhappy deps s = Some c \<Longrightarrow> cd_Status c \<noteq> CondTrue"
  by (auto simp: unhappy_def IsTrue_def IsFalse_def find_Some_iff split: option.splits)

interpretation tab: condition_laws table_api
proof
  fix t deps s
  assume "t \<in> set deps" "ConditionReady \<notin> set deps"
  then show "cond_status_of table_api ConditionReady (kc_MarkTrue table_api deps t s) = Some CondTrue \<longleftrightarrow>
      (\<forall>d \<in> set deps. cond_status_of table_api d (kc_MarkTrue table_api deps t s) = Some CondTrue)"
    using unhappy_None_iff [of deps "s(t \<mapsto> \<lparr>cd_Status = CondTrue, cd_Reason = '''', cd_Message = ''''\<rparr>)"]
      unhappy_not_true [of deps "s(t \<mapsto> \<lparr>cd_Status = CondTrue, cd_Reason = '''', cd_Message = ''''\<rparr>)"]
    by (auto simp: table_MarkTrue_def cond_status_of_def IsTrue_def Let_def split: option.splits if_splits)
qed (auto simp: table_Initialize_def table_MarkTrue_def table_MarkFalse_def cond_status_of_def Let_def split: option.splits if_splits)

section \<open>The lifecycle of a policy\<close>

text \<open>The status: the generation it speaks about and the conditions.\<close>

record 's resource_status =
  rst_ObservedGeneration :: int
  rst_Conditions :: 's

definition cipCondSet :: cond_set where
  "cipCondSet = [''KeysInlined'', ''PoliciesInlined'', ''ConfigMapUpdated'']"

definition CIP_IsReady :: "'s cond_api \<Rightarrow> 's resource_status ClusterImagePolicy \<Rightarrow> bool" where
  "CIP_IsReady kc c =
     (rst_ObservedGeneration (cip_Status c) = om_Generation (cip_ObjectMeta c) \<and>
      IsTrue (kc_GetCondition kc ConditionReady (rst_Conditions (cip_Status c))))"

definition CIP_IsFailed :: "'s cond_api \<Rightarrow> 's resource_status ClusterImagePolicy \<Rightarrow> bool" where
  "CIP_IsFailed kc c =
     (rst_ObservedGeneration (cip_Status c) = om_Generation (cip_ObjectMeta c) \<and>
      IsFalse (kc_GetCondition kc ConditionReady (rst_Conditions (cip_Status c))))"

definition CIP_InitializeConditions :: "'s cond_api \<Rightarrow> 's \<Rightarrow> 's" where
  "CIP_InitializeConditions kc = kc_Initialize kc cipCondSet"

definition CIP_MarkInlineKeysFailed :: "'s cond_api \<Rightarrow> string \<Rightarrow> 's \<Rightarrow> 's" where
  "CIP_MarkInlineKeysFailed kc msg = kc_MarkFalse kc cipCondSet ''KeysInlined'' ''InliningKeysFailed'' msg"

definition CIP_MarkInlineKeysOk :: "'s cond_api \<Rightarrow> 's \<Rightarrow> 's" where
  "CIP_MarkInlineKeysOk kc = kc_MarkTrue kc cipCondSet ''KeysInlined''"

definition CIP_MarkInlinePoliciesFailed :: "'s cond_api \<Rightarrow> string \<Rightarrow> 's \<Rightarrow> 's" where
  "CIP_MarkInlinePoliciesFailed kc msg =
     kc_MarkFalse kc cipCondSet ''PoliciesInlined'' ''InliningPoliciesFailed'' msg"

definition CIP_MarkInlinePoliciesOk :: "'s cond_api \<Rightarrow> 's \<Rightarrow> 's" where
  "CIP_MarkInlinePoliciesOk kc = kc_MarkTrue kc cipCondSet ''PoliciesInlined''"

definition CIP_MarkCMUpdateFailed :: "'s cond_api \<Rightarrow> string \<Rightarrow> 's \<Rightarrow> 's" where
  "CIP_MarkCMUpdateFailed kc msg = kc_MarkFalse kc cipCondSet ''ConfigMapUpdated'' ''UpdatingConfigMap'' msg"

definition CIP_MarkCMUpdatedOK :: "'s cond_api \<Rightarrow> 's \<Rightarrow> 's" where
  "CIP_MarkCMUpdatedOK kc = kc_MarkTrue kc cipCondSet ''ConfigMapUpdated''"

lemmas cip_life_defs = CIP_InitializeConditions_def CIP_MarkInlineKeysFailed_def CIP_MarkInlineKeysOk_def
  CIP_MarkInlinePoliciesFailed_def CIP_MarkInlinePoliciesOk_def CIP_MarkCMUpdateFailed_def CIP_MarkCMUpdatedOK_def

text \<open>The same operations of the v1beta1 package.\<close>

definition B_cipCondSet :: cond_set where
  "B_cipCondSet = [''KeysInlined'', ''PoliciesInlined'', ''ConfigMapUpdated'']"

definition B_CIP_IsReady :: "'s cond_api \<Rightarrow> 's resource_status BClusterImagePolicy \<Rightarrow> bool" where
  "B_CIP_IsReady kc c =
     (rst_ObservedGeneration (bcip_Status c) = om_Generation (bcip_ObjectMeta c) \<and>
      IsTrue (kc_GetCondition kc ConditionReady (rst_Conditions (bcip_Status c))))"

definition B_CIP_IsFailed :: "'s cond_api \<Rightarrow> 's resource_status BClusterImagePolicy \<Rightarrow> bool" where
  "B_CIP_IsFailed kc c =
     (rst_ObservedGeneration (bcip_Status c) = om_Generation (bcip_ObjectMeta c) \<and>
      IsFalse (kc_GetCondition kc ConditionReady (rst_Conditions (bcip_Status c))))"

definition B_CIP_InitializeConditions :: "'s cond_api \<Rightarrow> 's \<Rightarrow> 's" where
  "B_CIP_InitializeConditions kc = kc_Initialize kc B_cipCondSet"

definition B_CIP_MarkInlineKeysFailed :: "'s cond_api \<Rightarrow> string \<Rightarrow> 's \<Rightarrow> 's" where
  "B_CIP_MarkInlineKeysFailed kc msg = kc_MarkFalse kc B_cipCondSet ''KeysInlined'' ''InliningKeysFailed'' msg"

definition B_CIP_MarkInlineKeysOk :: "'s cond_api \<Rightarrow> 's \<Rightarrow> 's" where
  "B_CIP_MarkInlineKeysOk kc = kc_MarkTrue kc B_cipCondSet ''KeysInlined''"

definition B_CIP_MarkInlinePoliciesFailed :: "'s cond_api \<Rightarrow> string \<Rightarrow> 's \<Rightarrow> 's" where
  "B_CIP_MarkInlinePoliciesFailed kc msg =
     kc_MarkFalse kc B_cipCondSet ''PoliciesInlined'' ''InliningPoliciesFailed'' msg"

definition B_CIP_MarkInlinePoliciesOk :: "'s cond_api \<Rightarrow> 's \<Rightarrow> 's" where
  "B_CIP_MarkInlinePoliciesOk kc = kc_MarkTrue kc B_cipCondSet ''PoliciesInlined''"

definition B_CIP_MarkCMUpdateFailed :: "'s cond_api \<Rightarrow> string \<Rightarrow> 's \<Rightarrow> 's" where
  "B_CIP_MarkCMUpdateFailed kc msg = kc_MarkFalse kc B_cipCondSet ''ConfigMapUpdated'' ''UpdatingConfigMap'' msg"

definition B_CIP_MarkCMUpdatedOK :: "'s cond_api \<Rightarrow> 's \<Rightarrow> 's" where
  "B_CIP_MarkCMUpdatedOK kc = kc_MarkTrue kc B_cipCondSet ''ConfigMapUpdated''"

section \<open>The lifecycle of a trust root\<close>

text \<open>The two operations on the inlined keys use the condition set of policies.\<close>

definition trCondSet :: cond_set where
  "trCondSet = [''KeysInlined'', ''ConfigMapUpdated'']"

definition TR_IsReady :: "'s cond_api \<Rightarrow> 's resource_status TrustRoot \<Rightarrow> bool" where
  "TR_IsReady kc t =
     (rst_ObservedGeneration (trt_Status t) = om_Generation (trt_ObjectMeta t) \<and>
      IsTrue (kc_GetCondition kc ConditionReady (rst_Conditions (trt_Status t))))"

definition TR_IsFailed :: "'s cond_api \<Rightarrow> 's resource_status TrustRoot \<Rightarrow> bool" where
  "TR_IsFailed kc t =
     (rst_ObservedGeneration (trt_Status t) = om_Generation (trt_ObjectMeta t) \<and>
      IsFalse (kc_GetCondition kc ConditionReady (rst_Conditions (trt_Status t))))"

definition TR_InitializeConditions :: "'s cond_api \<Rightarrow> 's \<Rightarrow> 's" where
  "TR_InitializeConditions kc = kc_Initialize kc trCondSet"

definition TR_MarkInlineKeysFailed :: "'s cond_api \<Rightarrow> string \<Rightarrow> 's \<Rightarrow> 's" where
  "TR_MarkInlineKeysFailed kc msg = kc_MarkFalse kc cipCondSet ''KeysInlined'' ''InliningKeysFailed'' msg"

definition TR_MarkInlineKeysOk :: "'s cond_api \<Rightarrow> 's \<Rightarrow> 's" where
  "TR_MarkInlineKeysOk kc = kc_MarkTrue kc cipCondSet ''KeysInlined''"

definition TR_MarkCMUpdateFailed :: "'s cond_api \<Rightarrow> string \<Rightarrow> 's \<Rightarrow> 's" where
  "TR_MarkCMUpdateFailed kc msg = kc_MarkFalse kc trCondSet ''ConfigMapUpdated'' ''UpdatingConfigMap'' msg"

definition TR_MarkCMUpdatedOK :: "'s cond_api \<Rightarrow> 's \<Rightarrow> 's" where
  "TR_MarkCMUpdatedOK kc = kc_MarkTrue kc trCondSet ''ConfigMapUpdated''"

lemmas tr_life_defs = TR_InitializeConditions_def TR_MarkInlineKeysFailed_def TR_MarkInlineKeysOk_def
  TR_MarkCMUpdateFailed_def TR_MarkCMUpdatedOK_def

section \<open>Histories of a status\<close>

text \<open>
  What a reconciler reports of a policy: one of its three steps succeeded or failed, or the
  conditions were initialised again. The reports are applied by the methods of the lifecycle.
\<close>

datatype cip_step = KeysStep | PoliciesStep | ConfigMapStep

datatype cip_report = Reinitialised | StepOk cip_step | StepFailed cip_step string

fun cip_report_status :: "'s cond_api \<Rightarrow> cip_report \<Rightarrow> 's \<Rightarrow> 's" where
  "cip_report_status kc Reinitialised = CIP_InitializeConditions kc"
| "cip_report_status kc (StepOk KeysStep) = CIP_MarkInlineKeysOk kc"
| "cip_report_status kc (StepOk PoliciesStep) = CIP_MarkInlinePoliciesOk kc"
| "cip_report_status kc (StepOk ConfigMapStep) = CIP_MarkCMUpdatedOK kc"
| "cip_report_status kc (StepFailed KeysStep msg) = CIP_MarkInlineKeysFailed kc msg"
| "cip_report_status kc (StepFailed PoliciesStep msg) = CIP_MarkInlinePoliciesFailed kc msg"
| "cip_report_status kc (StepFailed ConfigMapStep msg) = CIP_MarkCMUpdateFailed kc msg"

definition cip_history :: "'s cond_api \<Rightarrow> cip_report list \<Rightarrow> 's \<Rightarrow> 's" where
  "cip_history kc reports s = fold (cip_report_status kc) reports (CIP_InitializeConditions kc s)"

text \<open>The condition of a step, and whether the last report about it was a success.\<close>

fun step_condition :: "cip_step \<Rightarrow> string" where
  "step_condition KeysStep = ''KeysInlined''"
| "step_condition PoliciesStep = ''PoliciesInlined''"
| "step_condition ConfigMapStep = ''ConfigMapUpdated''"

fun outcome :: "cip_step \<Rightarrow> cip_report \<Rightarrow> bool option" where
  "outcome step (StepOk st) = (if st = step then Some True else None)"
| "outcome step (StepFailed st _) = (if st = step then Some False else None)"
| "outcome step Reinitialised = None"

definition last_outcome :: "cip_step \<Rightarrow> cip_report list \<Rightarrow> bool option" where
  "last_outcome step reports = fold (\<lambda>r prev. case outcome step r of None \<Rightarrow> prev | Some b \<Rightarrow> Some b) reports None"

lemma last_outcome_snoc:
  "last_outcome step (rs @ [r]) = (case outcome step r of None \<Rightarrow> last_outcome step rs | Some b \<Rightarrow> Some b)"
  by (simp add: last_outcome_def split: option.split)

lemma cip_cond_ready: "ConditionReady \<notin> set cipCondSet" "cipCondSet \<noteq> []"
  by (simp_all add: ConditionReady_def cipCondSet_def)

lemma step_condition_deps [simp]:
  "step_condition st \<in> set cipCondSet" "step_condition st \<noteq> ConditionReady" "step_condition st = step_condition st' \<longleftrightarrow> st = st'"
  by (cases st; cases st'; simp add: cipCondSet_def ConditionReady_def)+

lemma steps_are_deps: "set cipCondSet = range step_condition"
proof -
  have "range step_condition = step_condition ` {KeysStep, PoliciesStep, ConfigMapStep}" using cip_step.exhaust by blast
  then show ?thesis by (simp add: cipCondSet_def)
qed

text \<open>Each lifecycle method is the manager's operation on the condition of its step.\<close>

lemma reports_of_steps:
  "cip_report_status kc (StepOk st) = kc_MarkTrue kc cipCondSet (step_condition st)"
  "\<exists>reason. cip_report_status kc (StepFailed st msg) = kc_MarkFalse kc cipCondSet (step_condition st) reason msg"
  by (cases st; auto simp: cip_life_defs)+

definition outcome_status :: "bool option \<Rightarrow> cond_status" where
  "outcome_status b = (case b of None \<Rightarrow> CondUnknown | Some True \<Rightarrow> CondTrue | Some False \<Rightarrow> CondFalse)"

context condition_laws
begin

lemma cip_history_inv:
  assumes "\<forall>t. kc_GetCondition kc t s = None"
  shows "summed_up cipCondSet (cip_history kc rs s) \<and>
    (\<forall>st. cond_status_of kc (step_condition st) (cip_history kc rs s) = Some (outcome_status (last_outcome st rs)))"
proof (induction rs rule: rev_induct)
  case Nil
  show ?case
    using summed_up_fresh [OF assms cip_cond_ready(2)] init_fresh [OF assms]
    by (simp add: cip_history_def CIP_InitializeConditions_def last_outcome_def outcome_status_def)
next
  case (snoc r rs)
  let ?s = "cip_history kc rs s"
  have step: "cip_history kc (rs @ [r]) s = cip_report_status kc r ?s" by (simp add: cip_history_def)
  have set: "kc_GetCondition kc (step_condition st) ?s \<noteq> None" for st using snoc by (simp add: summed_up_def)
  show ?case
  proof (cases r)
    case Reinitialised
    then show ?thesis
      unfolding step using snoc set by (simp add: CIP_InitializeConditions_def summed_up_init status_init last_outcome_snoc)
  next
    case (StepOk st)
    have "cond_status_of kc (step_condition st') (kc_MarkTrue kc cipCondSet (step_condition st) ?s) =
        Some (outcome_status (last_outcome st' (rs @ [r])))" for st'
      using snoc StepOk true_self [of "step_condition st"] status_true_other [of "step_condition st'" "step_condition st"]
      by (cases "st' = st") (simp_all add: last_outcome_snoc outcome_status_def)
    then show ?thesis unfolding step using snoc StepOk cip_cond_ready(1) by (simp add: reports_of_steps summed_up_true)
  next
    case (StepFailed st msg)
    obtain reason where m: "cip_report_status kc r = kc_MarkFalse kc cipCondSet (step_condition st) reason msg"
      using reports_of_steps(2) StepFailed by blast
    have "cond_status_of kc (step_condition st') (kc_MarkFalse kc cipCondSet (step_condition st) reason msg ?s) =
        Some (outcome_status (last_outcome st' (rs @ [r])))" for st'
      using snoc StepFailed false_self status_false_other [of "step_condition st'" "step_condition st"]
      by (cases "st' = st") (simp_all add: last_outcome_snoc outcome_status_def)
    then show ?thesis using snoc cip_cond_ready(1) by (simp add: step m summed_up_false)
  qed
qed

end

text \<open>
  C24 After any sequence of reports about a policy that started without conditions, over any
  condition manager that keeps its documented laws: the condition of each step (keys inlined,
  policies inlined, config map updated) is true if the last report about that step was a success, false
  if it was a failure, and unknown if there was none; the policy is ready exactly when the status
  is about its present generation and the last report about each of the three steps was a success;
  and right after a failure was reported it is failed, if the status is about its present generation.
\<close>

theorem cip_ready_iff_all_steps:
  assumes "condition_laws kc" "\<forall>t. kc_GetCondition kc t s = None" "rst_Conditions (cip_Status c) = cip_history kc reports s"
  shows "(\<forall>step. map_option cd_Status (kc_GetCondition kc (step_condition step) (rst_Conditions (cip_Status c))) =
       Some (case last_outcome step reports of None \<Rightarrow> CondUnknown | Some True \<Rightarrow> CondTrue | Some False \<Rightarrow> CondFalse)) \<and>
    (CIP_IsReady kc c \<longleftrightarrow> rst_ObservedGeneration (cip_Status c) = om_Generation (cip_ObjectMeta c) \<and>
       last_outcome KeysStep reports = Some True \<and> last_outcome PoliciesStep reports = Some True \<and>
       last_outcome ConfigMapStep reports = Some True) \<and>
    (\<forall>earlier step msg. reports = earlier @ [StepFailed step msg] \<longrightarrow>
       (CIP_IsFailed kc c \<longleftrightarrow> rst_ObservedGeneration (cip_Status c) = om_Generation (cip_ObjectMeta c)))"
proof (intro conjI allI impI)
  note hist = condition_laws.cip_history_inv [OF assms(1,2), of reports, folded assms(3)]
  show st: "map_option cd_Status (kc_GetCondition kc (step_condition step) (rst_Conditions (cip_Status c))) =
       Some (case last_outcome step reports of None \<Rightarrow> CondUnknown | Some True \<Rightarrow> CondTrue | Some False \<Rightarrow> CondFalse)" for step
    using hist by (simp add: cond_status_of_def outcome_status_def)
  have t: "outcome_status (last_outcome step reports) = CondTrue \<longleftrightarrow> last_outcome step reports = Some True" for step
    by (auto simp: outcome_status_def split: option.splits bool.splits)
  have "cond_status_of kc ConditionReady (rst_Conditions (cip_Status c)) = Some CondTrue \<longleftrightarrow>
      (\<forall>step. last_outcome step reports = Some True)"
    using hist t by (simp add: condition_laws.summed_up_def [OF assms(1)] steps_are_deps)
  then have "IsTrue (kc_GetCondition kc ConditionReady (rst_Conditions (cip_Status c))) \<longleftrightarrow>
      (\<forall>step. last_outcome step reports = Some True)" by (simp only: IsTrue_def cond_status_of_def)
  moreover have "(\<forall>step. last_outcome step reports = Some True) \<longleftrightarrow> last_outcome KeysStep reports = Some True \<and>
      last_outcome PoliciesStep reports = Some True \<and> last_outcome ConfigMapStep reports = Some True"
    by (metis cip_step.exhaust)
  ultimately show "CIP_IsReady kc c \<longleftrightarrow> rst_ObservedGeneration (cip_Status c) = om_Generation (cip_ObjectMeta c) \<and>
       last_outcome KeysStep reports = Some True \<and> last_outcome PoliciesStep reports = Some True \<and>
       last_outcome ConfigMapStep reports = Some True"
    by (simp add: CIP_IsReady_def)
  fix earlier step msg
  assume "reports = earlier @ [StepFailed step msg]"
  then obtain reason where "rst_Conditions (cip_Status c) =
      kc_MarkFalse kc cipCondSet (step_condition step) reason msg (cip_history kc earlier s)"
    using reports_of_steps(2) [of kc step msg] assms(3) by (auto simp: cip_history_def)
  then show "CIP_IsFailed kc c \<longleftrightarrow> rst_ObservedGeneration (cip_Status c) = om_Generation (cip_ObjectMeta c)"
    using condition_laws.false_ready [OF assms(1), of "step_condition step" cipCondSet]
    by (simp add: CIP_IsFailed_def IsFalse_def cond_status_of_def)
qed

text \<open>
  A trust root is never ready right after its keys were marked as inlined: the mark sums up
  the conditions of a policy, and \<open>PoliciesInlined\<close> is not a condition of a trust root. Only
  a later update of the config map restores it.
\<close>

lemma trustroot_mark_clears_ready:
  assumes "condition_laws kc" "kc_GetCondition kc ''PoliciesInlined'' s = None"
  shows "\<not> IsTrue (kc_GetCondition kc ConditionReady (TR_MarkInlineKeysOk kc s))"
proof -
  have "cond_status_of kc ''PoliciesInlined'' (kc_MarkTrue kc cipCondSet ''KeysInlined'' s) \<noteq> Some CondTrue"
    using assms(2) condition_laws.true_other [OF assms(1), of "''PoliciesInlined''" "''KeysInlined''" cipCondSet s]
    by (simp add: cond_status_of_def ConditionReady_def)
  then show ?thesis
    using condition_laws.true_ready [OF assms(1), of "''KeysInlined''" cipCondSet s] cip_cond_ready
    by (simp add: TR_MarkInlineKeysOk_def IsTrue_def cond_status_of_def cipCondSet_def)
qed

definition sample_ready_cip :: "cond_table resource_status ClusterImagePolicy" where
  "sample_ready_cip = \<lparr>
     cip_ObjectMeta = \<lparr>om_Name = ''policy'', om_Namespace = '''', om_UID = ''uid-1'', om_ResourceVersion = ''7'',
       om_Generation = 4, om_Labels = [], om_DeletionTimestamp = None, om_Finalizers = []\<rparr>,
     cip_Spec = \<lparr>cs_Images = [], cs_Authorities = [], cs_Policy = None, cs_Mode = ''enforce'', cs_Match = []\<rparr>,
     cip_Status = \<lparr>rst_ObservedGeneration = 4, rst_Conditions =
       CIP_MarkCMUpdatedOK table_api (CIP_MarkInlinePoliciesOk table_api (CIP_MarkInlineKeysOk table_api
         (CIP_InitializeConditions table_api Map.empty)))\<rparr>\<rparr>"

theorem cip_ready_iff_all_steps_witness:
  "CIP_IsReady table_api sample_ready_cip \<and>
   CIP_IsFailed table_api (sample_ready_cip\<lparr>cip_Status := \<lparr>rst_ObservedGeneration = 4,
     rst_Conditions = cip_history table_api [StepOk KeysStep, StepFailed PoliciesStep ''not found''] Map.empty\<rparr>\<rparr>)"
proof
  have none: "\<forall>t. kc_GetCondition table_api t Map.empty = None" by simp
  have h: "rst_Conditions (cip_Status sample_ready_cip) =
      cip_history table_api [StepOk KeysStep, StepOk PoliciesStep, StepOk ConfigMapStep] Map.empty"
    by (simp add: sample_ready_cip_def cip_history_def)
  from cip_ready_iff_all_steps [OF tab.condition_laws_axioms none h]
  show "CIP_IsReady table_api sample_ready_cip" by (simp add: last_outcome_def) (simp add: sample_ready_cip_def)
  let ?c = "sample_ready_cip\<lparr>cip_Status := \<lparr>rst_ObservedGeneration = 4,
     rst_Conditions = cip_history table_api [StepOk KeysStep, StepFailed PoliciesStep ''not found''] Map.empty\<rparr>\<rparr>"
  have f: "[StepOk KeysStep, StepFailed PoliciesStep ''not found''] = [StepOk KeysStep] @ [StepFailed PoliciesStep ''not found'']" by simp
  have h': "rst_Conditions (cip_Status ?c) = cip_history table_api [StepOk KeysStep, StepFailed PoliciesStep ''not found''] Map.empty" by simp
  from cip_ready_iff_all_steps [OF tab.condition_laws_axioms none h'] f
  have "CIP_IsFailed table_api ?c \<longleftrightarrow> rst_ObservedGeneration (cip_Status ?c) = om_Generation (cip_ObjectMeta ?c)" by blast
  then show "CIP_IsFailed table_api ?c" by (simp add: sample_ready_cip_def)
qed

end
