(* ===== verification/ConfigMaps.thy ===== *)
theory ConfigMaps
  imports ImagePolicies
begin

text \<open>
  The config maps the reconcilers maintain: \<open>resources/configmap.go\<close> of both reconcilers, and
  the calls of the Kubernetes API they share. A config map is its data. JSON patches are
  made by knative (\<open>duck.CreatePatch\<close>) and applied by the API server; what the reconcilers
  rely on is the locale \<open>patch_laws\<close>.
\<close>

section \<open>Data of a config map\<close>

type_synonym cm_data = "(string \<times> string) list"

definition del_key :: "'k \<Rightarrow> ('k \<times> 'v) list \<Rightarrow> ('k \<times> 'v) list" where
  "del_key k m = filter (\<lambda>p. fst p \<noteq> k) m"

lemma map_of_del_key [simp]: "map_of (del_key k m) = (map_of m)(k := None)"
  by (induction m) (auto simp: del_key_def)

text \<open>The answer of a lister or of a read: not found, another error, or the object.\<close>

datatype get_err = NotFound string | GetFailed string

fun err_text :: "get_err \<Rightarrow> string" where
  "err_text (NotFound e) = e"
| "err_text (GetFailed e) = e"

section \<open>Patches\<close>

record ('p, 'b) patch_api =
  pa_CreatePatch :: "cm_data \<Rightarrow> cm_data \<Rightarrow> 'p list go_result"
  pa_MarshalJSON :: "'p list \<Rightarrow> 'b list go_result"
  pa_Apply :: "'b list \<Rightarrow> cm_data \<Rightarrow> cm_data go_result"

definition NewConfigMap :: "('a \<Rightarrow> string go_result) \<Rightarrow> string \<Rightarrow> 'a \<Rightarrow> cm_data go_result" where
  "NewConfigMap marshal cipName cip =
     (case marshal cip of Inl e \<Rightarrow> Err e | Inr entry \<Rightarrow> Ok [(cipName, entry)])"

definition patch_bytes :: "('p, 'b) patch_api \<Rightarrow> cm_data \<Rightarrow> cm_data \<Rightarrow> 'b list go_result" where
  "patch_bytes pa cm after =
     (case pa_CreatePatch pa cm after of
        Inl e \<Rightarrow> Err (wrap_err ''creating JSON patch'' e)
      | Inr jsonPatch \<Rightarrow> if jsonPatch = [] then Ok [] else pa_MarshalJSON pa jsonPatch)"

definition CreatePatch :: "('p, 'b) patch_api \<Rightarrow> ('a \<Rightarrow> string go_result) \<Rightarrow> string \<Rightarrow> cm_data \<Rightarrow> 'a \<Rightarrow> 'b list go_result" where
  "CreatePatch pa marshal cipName cm cip =
     (case marshal cip of Inl e \<Rightarrow> Err e | Inr entry \<Rightarrow> patch_bytes pa cm (map_assign cipName entry cm))"

definition CreateRemovePatch :: "('p, 'b) patch_api \<Rightarrow> cm_data \<Rightarrow> string \<Rightarrow> 'b list go_result" where
  "CreateRemovePatch pa cm cipName = patch_bytes pa cm (del_key cipName cm)"

section \<open>The API server\<close>

text \<open>
  The server keeps the one config map at hand, if it exists. A write may fail for reasons of
  its own; creation fails if the object exists, a patch if it does not.
\<close>

record ('p, 'b) cm_env =
  cv_patch :: "('p, 'b) patch_api"
  cv_Create_err :: "string option"
  cv_Patch_err :: "string option"

definition create_cm :: "('p, 'b) cm_env \<Rightarrow> cm_data option \<Rightarrow> cm_data \<Rightarrow> cm_data option \<times> string option" where
  "create_cm cv server cm =
     (case cv_Create_err cv of
        Some e \<Rightarrow> (server, Some e)
      | None \<Rightarrow> (case server of None \<Rightarrow> (Some cm, None) | Some d \<Rightarrow> (server, Some ''already exists'')))"

definition patch_cm :: "('p, 'b) cm_env \<Rightarrow> cm_data option \<Rightarrow> 'b list \<Rightarrow> cm_data option \<times> string option" where
  "patch_cm cv server bs =
     (case cv_Patch_err cv of
        Some e \<Rightarrow> (server, Some e)
      | None \<Rightarrow>
          (case server of
             None \<Rightarrow> (server, Some ''not found'')
           | Some d \<Rightarrow> (case pa_Apply (cv_patch cv) bs d of Inl e \<Rightarrow> (server, Some e) | Inr d' \<Rightarrow> (Some d', None))))"

text \<open>
  The tail both reconcilers have: create the config map or patch its entry, given what the
  lister knows of it; the second component is the error, if any.
\<close>

definition store_entry :: "('p, 'b) cm_env \<Rightarrow> (get_err + cm_data) \<Rightarrow> ('a \<Rightarrow> string go_result) \<Rightarrow> string \<Rightarrow> 'a \<Rightarrow>
    cm_data option \<Rightarrow> cm_data option \<times> string option" where
  "store_entry cv listed marshal cipName v server =
     (case listed of
        Inl (GetFailed e) \<Rightarrow> (server, Some e)
      | Inl (NotFound _) \<Rightarrow>
          (case NewConfigMap marshal cipName v of
             Inl e \<Rightarrow> (server, Some e)
           | Inr cm \<Rightarrow> create_cm cv server cm)
      | Inr existing \<Rightarrow>
          (case CreatePatch (cv_patch cv) marshal cipName existing v of
             Inl e \<Rightarrow> (server, Some e)
           | Inr bs \<Rightarrow> if bs \<noteq> [] then patch_cm cv server bs else (server, None)))"

definition remove_entry :: "('p, 'b) cm_env \<Rightarrow> cm_data \<Rightarrow> string \<Rightarrow> cm_data option \<Rightarrow> cm_data option \<times> string option" where
  "remove_entry cv existing cipName server =
     (case CreateRemovePatch (cv_patch cv) existing cipName of
        Inl e \<Rightarrow> (server, Some e)
      | Inr bs \<Rightarrow> if bs \<noteq> [] then patch_cm cv server bs else (server, None))"

text \<open>What the server's config map says, and a lister that is up to date with it.\<close>

definition data_of :: "cm_data option \<Rightarrow> (string \<rightharpoonup> string)" where
  "data_of server = (case server of None \<Rightarrow> Map.empty | Some d \<Rightarrow> map_of d)"

definition up_to_date :: "(get_err + cm_data) \<Rightarrow> cm_data option \<Rightarrow> bool" where
  "up_to_date listed server =
     (case server of None \<Rightarrow> (\<exists>e. listed = Inl (NotFound e)) | Some d \<Rightarrow> (\<exists>d'. listed = Inr d' \<and> map_of d' = map_of d))"

lemma data_of_simps [simp]: "data_of None = Map.empty" "data_of (Some d) = map_of d"
  by (simp_all add: data_of_def)

locale patch_laws =
  fixes pa :: "('p, 'b) patch_api"
  assumes empty_same: "pa_CreatePatch pa a b = Ok [] \<Longrightarrow> map_of a = map_of b"
    and same_empty: "map_of a = map_of b \<Longrightarrow> pa_CreatePatch pa a b = Ok []"
    and applies: "pa_CreatePatch pa a b = Ok p \<Longrightarrow> p \<noteq> [] \<Longrightarrow> pa_MarshalJSON pa p = Ok bs \<Longrightarrow> map_of c = map_of a \<Longrightarrow>
          bs \<noteq> [] \<and> (\<exists>d. pa_Apply pa bs c = Ok d \<and> map_of d = map_of b)"
begin

lemma patch_bytes_apply:
  assumes "patch_bytes pa a b = Ok bs" "map_of c = map_of a"
  shows "if bs = [] then map_of a = map_of b else \<exists>d. pa_Apply pa bs c = Ok d \<and> map_of d = map_of b"
proof (cases "pa_CreatePatch pa a b")
  case (Inl e)
  with assms show ?thesis by (simp add: patch_bytes_def)
next
  case (Inr p)
  with assms empty_same [of a b] applies [OF Inr _ _ assms(2)] show ?thesis
    by (cases "p = []") (auto simp: patch_bytes_def)
qed

lemma patched_data:
  assumes "patch_bytes pa a b = Ok bs" "map_of c = map_of a" "cv_patch cv = pa"
    and "(if bs \<noteq> [] then patch_cm cv (Some c) bs else (Some c, None)) = (server', None)"
  shows "data_of server' = map_of b"
proof (cases "bs = []")
  case True
  with patch_bytes_apply [OF assms(1,2)] assms(2,4) show ?thesis by auto
next
  case False
  with patch_bytes_apply [OF assms(1,2)] obtain d where "pa_Apply pa bs c = Ok d" "map_of d = map_of b" by auto
  with False assms(3,4) show ?thesis by (auto simp: patch_cm_def split: option.splits)
qed

lemma store_entry_data:
  assumes "up_to_date listed server" "cv_patch cv = pa" "marshal v = Ok entry"
    and "store_entry cv listed marshal n v server = (server', None)"
  shows "data_of server' = (data_of server)(n \<mapsto> entry)"
proof (cases server)
  case None
  with assms show ?thesis
    by (auto simp: up_to_date_def store_entry_def NewConfigMap_def create_cm_def split: option.splits)
next
  case (Some d)
  with assms(1) obtain d' where l: "listed = Inr d'" "map_of d = map_of d'" by (auto simp: up_to_date_def)
  obtain bs where bs: "patch_bytes pa d' (map_assign n entry d') = Ok bs"
    using assms(2-4) l by (auto simp: store_entry_def CreatePatch_def split: sum.splits)
  have "(if bs \<noteq> [] then patch_cm cv (Some d) bs else (Some d, None)) = (server', None)"
    using assms(2-4) l bs Some by (simp add: store_entry_def CreatePatch_def)
  from patched_data [OF bs l(2) assms(2) this] show ?thesis using Some l(2) by simp
qed

lemma remove_entry_data:
  assumes "map_of existing = map_of d" "cv_patch cv = pa" "remove_entry cv existing n (Some d) = (server', None)"
  shows "data_of server' = (map_of d)(n := None)"
proof -
  obtain bs where bs: "patch_bytes pa existing (del_key n existing) = Ok bs"
    using assms(2,3) by (auto simp: remove_entry_def CreateRemovePatch_def split: sum.splits)
  have "(if bs \<noteq> [] then patch_cm cv (Some d) bs else (Some d, None)) = (server', None)"
    using assms(2,3) bs by (simp add: remove_entry_def CreateRemovePatch_def)
  from patched_data [OF bs assms(1) [symmetric] assms(2) this] show ?thesis using assms(1) by simp
qed

text \<open>Nothing is written when the entry is already as wanted.\<close>

lemma store_entry_unchanged:
  assumes "up_to_date listed server" "cv_patch cv = pa" "marshal v = Ok entry" "data_of server n = Some entry"
  shows "store_entry cv listed marshal n v server = (server, None)"
proof -
  from assms(1,4) obtain d d' where d: "server = Some d" "listed = Inr d'" "map_of d' = map_of d"
    by (cases server) (auto simp: up_to_date_def)
  have "map_of d' = map_of (map_assign n entry d')" using assms(4) d by auto
  from same_empty [OF this] show ?thesis using assms(2,3) d by (simp add: store_entry_def CreatePatch_def patch_bytes_def)
qed

end

text \<open>Writes that succeed, and what is then written.\<close>

definition writes_ok :: "('p, 'b) cm_env \<Rightarrow> bool" where
  "writes_ok cv =
     (cv_Create_err cv = None \<and> cv_Patch_err cv = None \<and>
      (\<forall>a b. is_ok (pa_CreatePatch (cv_patch cv) a b)) \<and> (\<forall>p. is_ok (pa_MarshalJSON (cv_patch cv) p)))"

context patch_laws
begin

lemma patch_total:
  assumes "writes_ok cv" "cv_patch cv = pa" "map_of c = map_of a"
  shows "\<exists>bs. patch_bytes pa a b = Ok bs \<and> (\<exists>s'. (if bs \<noteq> [] then patch_cm cv (Some c) bs else (Some c, None)) = (s', None))"
proof -
  have "is_ok (pa_CreatePatch pa a b)" using assms(1,2) by (simp add: writes_ok_def)
  then obtain p where p: "pa_CreatePatch pa a b = Ok p" by (cases "pa_CreatePatch pa a b") (auto simp: is_ok_def)
  have "is_ok (pa_MarshalJSON pa p)" using assms(1,2) by (simp add: writes_ok_def)
  then obtain bs0 where m: "pa_MarshalJSON pa p = Ok bs0" by (cases "pa_MarshalJSON pa p") (auto simp: is_ok_def)
  define bs where "bs = (if p = [] then [] else bs0)"
  have b: "patch_bytes pa a b = Ok bs" using p m by (simp add: patch_bytes_def bs_def)
  show ?thesis
  proof (cases "bs = []")
    case False
    with patch_bytes_apply [OF b assms(3)] obtain d where "pa_Apply pa bs c = Ok d" by auto
    with b assms show ?thesis by (simp add: patch_cm_def writes_ok_def)
  qed (use b in simp)
qed

lemma store_entry_total:
  assumes "writes_ok cv" "cv_patch cv = pa" "up_to_date listed server" "marshal v = Ok entry"
  shows "\<exists>s'. store_entry cv listed marshal n v server = (s', None)"
proof (cases server)
  case None
  with assms show ?thesis by (auto simp: up_to_date_def store_entry_def NewConfigMap_def create_cm_def writes_ok_def)
next
  case (Some d)
  with assms(3) obtain d' where l: "listed = Inr d'" "map_of d = map_of d'" by (auto simp: up_to_date_def)
  from patch_total [OF assms(1,2) l(2), of "map_assign n entry d'"] show ?thesis
    using assms l Some by (auto simp: store_entry_def CreatePatch_def)
qed

lemma remove_entry_total:
  assumes "writes_ok cv" "cv_patch cv = pa" "map_of existing = map_of d"
  shows "\<exists>s'. remove_entry cv existing n (Some d) = (s', None)"
  using patch_total [OF assms(1,2) assms(3) [symmetric], of "del_key n existing"] assms(2)
  by (auto simp: remove_entry_def CreateRemovePatch_def)

end

lemma store_entry_error: "store_entry cv listed marshal n v server = (server', Some e) \<Longrightarrow> server' = server"
  by (auto simp: store_entry_def create_cm_def patch_cm_def split: sum.splits get_err.splits option.splits if_splits)

lemma remove_entry_error: "remove_entry cv existing n server = (server', Some e) \<Longrightarrow> server' = server"
  by (auto simp: remove_entry_def patch_cm_def split: sum.splits option.splits if_splits)

section \<open>An implementation of patches\<close>

datatype cm_op = SetKey string string | DelKey string

definition diff_data :: "cm_data \<Rightarrow> cm_data \<Rightarrow> cm_op list" where
  "diff_data a b =
     map (\<lambda>k. SetKey k (the (map_of b k))) (filter (\<lambda>k. map_of a k \<noteq> map_of b k) (remdups (map fst b))) @
     map DelKey (filter (\<lambda>k. map_of b k = None) (remdups (map fst a)))"

fun apply_op :: "cm_op \<Rightarrow> cm_data \<Rightarrow> cm_data" where
  "apply_op (SetKey k v) d = map_assign k v d"
| "apply_op (DelKey k) d = del_key k d"

definition diff_api :: "(cm_op, cm_op) patch_api" where
  "diff_api = \<lparr>pa_CreatePatch = (\<lambda>a b. Ok (diff_data a b)), pa_MarshalJSON = Ok,
               pa_Apply = (\<lambda>ops d. Ok (foldl (\<lambda>d p. apply_op p d) d ops))\<rparr>"

lemma foldl_sets:
  "map_of (foldl (\<lambda>d p. apply_op p d) d (map (\<lambda>k. SetKey k (f k)) ks)) =
     (\<lambda>k. if k \<in> set ks then Some (f k) else map_of d k)"
  by (induction ks arbitrary: d) (auto simp: fun_eq_iff)

lemma foldl_dels:
  "map_of (foldl (\<lambda>d p. apply_op p d) d (map DelKey ks)) = (\<lambda>k. if k \<in> set ks then None else map_of d k)"
  by (induction ks arbitrary: d) (auto simp: fun_eq_iff)

lemma apply_diff:
  assumes "map_of c = map_of a"
  shows "map_of (foldl (\<lambda>d p. apply_op p d) c (diff_data a b)) = map_of b"
proof (rule ext)
  fix k
  have "k \<in> fst ` set b" if "map_of b k = Some v" for v using that by (force dest: map_of_SomeD)
  moreover have "k \<in> fst ` set a" if "map_of a k = Some v" for v using that by (force dest: map_of_SomeD)
  ultimately show "map_of (foldl (\<lambda>d p. apply_op p d) c (diff_data a b)) k = map_of b k"
    unfolding diff_data_def foldl_append foldl_dels foldl_sets assms
    by (cases "map_of b k"; cases "map_of a k") auto
qed

lemma diff_empty_iff: "diff_data a b = [] \<longleftrightarrow> map_of a = map_of b"
proof
  assume "diff_data a b = []"
  with apply_diff [of a a b] show "map_of a = map_of b" by simp
next
  assume "map_of a = map_of b"
  moreover then have "fst ` set a = fst ` set b" by (metis dom_map_of_conv_image_fst)
  ultimately show "diff_data a b = []" by (auto simp: diff_data_def map_of_eq_None_iff filter_empty_conv)
qed

interpretation diff: patch_laws diff_api
  by unfold_locales (auto simp: diff_api_def diff_empty_iff apply_diff)

end
