(* ===== verification/CIPReconciler.thy ===== *)
theory CIPReconciler
  imports Conditions ConfigMaps GMClient
begin

text \<open>
  The reconciler of policies, \<open>pkg/reconciler/clusterimagepolicy/clusterimagepolicy.go\<close>: it
  inlines keys (from secrets and key management services) and policies (from config maps and
  URLs), converts the policy to the webhook's form and keeps its entry in the config map
  \<open>config-image-policies\<close>. Listers, the tracker, the key management services, HTTP and the
  API server are parameters.
\<close>

section \<open>Runs\<close>

text \<open>
  A call returns a value, returns an error, or panics on a nil pointer. The references the
  tracker was told about are passed along: they stay whatever the call returns.
\<close>

datatype 'a run = Done 'a | Fail string | Panicked

type_synonym tracks = "(string \<times> string) list"

type_synonym 'a tracked = "tracks \<Rightarrow> 'a run \<times> tracks"

definition doneT :: "'a \<Rightarrow> 'a tracked" where
  "doneT v = (\<lambda>tr. (Done v, tr))"

definition failT :: "string \<Rightarrow> 'a tracked" where
  "failT e = (\<lambda>tr. (Fail e, tr))"

definition bindT :: "'a tracked \<Rightarrow> ('a \<Rightarrow> 'b tracked) \<Rightarrow> 'b tracked" where
  "bindT m f = (\<lambda>tr. case m tr of (Done v, tr') \<Rightarrow> f v tr' | (Fail e, tr') \<Rightarrow> (Fail e, tr') | (Panicked, tr') \<Rightarrow> (Panicked, tr'))"

fun eachT :: "('a \<Rightarrow> 'b tracked) \<Rightarrow> 'a list \<Rightarrow> 'b list tracked" where
  "eachT f [] = doneT []"
| "eachT f (x # xs) = bindT (f x) (\<lambda>y. bindT (eachT f xs) (\<lambda>ys. doneT (y # ys)))"

definition optT :: "('a \<Rightarrow> 'a tracked) \<Rightarrow> 'a option \<Rightarrow> 'a option tracked" where
  "optT f v = (case v of None \<Rightarrow> doneT None | Some x \<Rightarrow> bindT (f x) (\<lambda>y. doneT (Some y)))"

record ('p, 'b) rec_env =
  re_x :: externals
  re_Track_err :: "string \<Rightarrow> string \<Rightarrow> string option"
  re_Secret :: "string \<Rightarrow> get_err + (string \<times> string) list"
  re_ConfigMap :: "string \<Rightarrow> get_err + cm_data"
  re_kms_Get :: "string \<Rightarrow> crypto_hash \<Rightarrow> string go_result"
  re_PublicKeyPem :: "string \<Rightarrow> string go_result"
  re_http_Get :: "string \<Rightarrow> http_response go_result"
  re_sha256 :: "string \<Rightarrow> string"
  re_marshal :: "WClusterImagePolicy \<Rightarrow> string go_result"
  re_cm :: "('p, 'b) cm_env"

definition TrackReference :: "('p, 'b) rec_env \<Rightarrow> string \<Rightarrow> string \<Rightarrow> unit tracked" where
  "TrackReference env kind n tr =
     (case re_Track_err env kind n of Some e \<Rightarrow> (Fail e, tr) | None \<Rightarrow> (Done (), tr @ [(kind, n)]))"

section \<open>Inlining keys\<close>

definition inlineAndTrackSecret :: "('p, 'b) rec_env \<Rightarrow> KeyRef \<Rightarrow> SecretReference \<Rightarrow> KeyRef tracked" where
  "inlineAndTrackSecret env keyref ref tr =
     (case TrackReference env ''Secret'' (sr_Name ref) tr of
        (Done _, tr') \<Rightarrow>
          (case re_Secret env (sr_Name ref) of
             Inl e \<Rightarrow> (Fail (err_text e), tr')
           | Inr [] \<Rightarrow> (Fail (''secret '' @ sr_Name ref @ '' contains no data''), tr')
           | Inr [(k, v)] \<Rightarrow>
               (case x_UnmarshalPEMToPublicKey (re_x env) v of
                  Inl e \<Rightarrow> (Fail (''secret '' @ sr_Name ref @ '' contains an invalid public key: '' @ e), tr')
                | Inr None \<Rightarrow> (Fail (''secret '' @ sr_Name ref @ '' contains an invalid public key: %!w(<nil>)''), tr')
                | Inr (Some pk) \<Rightarrow> (Done (keyref\<lparr>kr_Data := v, kr_SecretRef := None\<rparr>), tr'))
           | Inr _ \<Rightarrow> (Fail (''secret '' @ sr_Name ref @ '' contains multiple data entries, only one is supported''), tr'))
      | (Fail e, tr') \<Rightarrow> (Fail (''failed to track changes to secret '' @ sr_Name ref @ '' : '' @ e), tr')
      | (Panicked, tr') \<Rightarrow> (Panicked, tr'))"

definition getKMSPublicKey :: "('p, 'b) rec_env \<Rightarrow> string \<Rightarrow> string \<Rightarrow> string go_result" where
  "getKMSPublicKey env keyID hashAlgorithm =
     (let alg = (if hashAlgorithm \<noteq> ''''
                 then (case HashAlgorithm hashAlgorithm of
                         (_, Some e) \<Rightarrow> Err (wrap_err ''failed to extract the signature hash algorithm'' e)
                       | (a, None) \<Rightarrow> Ok a)
                 else Ok SHA256)
      in case alg of
           Inl e \<Rightarrow> Err e
         | Inr a \<Rightarrow> (case re_kms_Get env keyID a of Inl e \<Rightarrow> Err e | Inr signer \<Rightarrow> re_PublicKeyPem env signer))"

definition inline_secret :: "('p, 'b) rec_env \<Rightarrow> KeyRef \<Rightarrow> KeyRef tracked" where
  "inline_secret env k =
     (case kr_SecretRef k of None \<Rightarrow> doneT k | Some ref \<Rightarrow> inlineAndTrackSecret env k ref)"

definition inline_kms :: "('p, 'b) rec_env \<Rightarrow> KeyRef \<Rightarrow> KeyRef tracked" where
  "inline_kms env k =
     (if str_contains (kr_KMS k) ''://''
      then (case getKMSPublicKey env (kr_KMS k) (kr_HashAlgorithm k) of
              Inl e \<Rightarrow> failT e
            | Inr pem \<Rightarrow> doneT (k\<lparr>kr_Data := pem, kr_KMS := ''''\<rparr>))
      else doneT k)"

definition inline_keyless :: "('p, 'b) rec_env \<Rightarrow> KeylessRef \<Rightarrow> KeylessRef tracked" where
  "inline_keyless env kl = bindT (optT (inline_secret env) (kl_CACert kl)) (\<lambda>ca. doneT (kl\<lparr>kl_CACert := ca\<rparr>))"

text \<open>The body of the loop over the authorities.\<close>

definition inline_authority_keys :: "('p, 'b) rec_env \<Rightarrow> Authority \<Rightarrow> Authority tracked" where
  "inline_authority_keys env a =
     bindT (optT (inline_secret env) (au_Key a)) (\<lambda>key.
     bindT (optT (inline_keyless env) (au_Keyless a)) (\<lambda>keyless.
     bindT (optT (inline_kms env) key) (\<lambda>key'.
       doneT (a\<lparr>au_Key := key', au_Keyless := keyless\<rparr>))))"

definition inlinePublicKeys :: "('p, 'b) rec_env \<Rightarrow> 's ClusterImagePolicy \<Rightarrow> 's ClusterImagePolicy tracked" where
  "inlinePublicKeys env cip =
     bindT (eachT (inline_authority_keys env) (cs_Authorities (cip_Spec cip)))
       (\<lambda>as. doneT (cip\<lparr>cip_Spec := (cip_Spec cip)\<lparr>cs_Authorities := as\<rparr>\<rparr>))"

section \<open>Inlining policies\<close>

definition inlineAndTrackConfigMap :: "('p, 'b) rec_env \<Rightarrow> Policy \<Rightarrow> ConfigMapReference \<Rightarrow> Policy tracked" where
  "inlineAndTrackConfigMap env p ref tr =
     (case TrackReference env ''ConfigMap'' (cr_Name ref) tr of
        (Done _, tr') \<Rightarrow>
          (case re_ConfigMap env (cr_Name ref) of
             Inl e \<Rightarrow> (Fail (err_text e), tr')
           | Inr d \<Rightarrow>
               if d = [] then (Fail (''configmap '' @ cr_Name ref @ '' contains no data''), tr')
               else (case map_of d (cr_Key ref) of
                       None \<Rightarrow> (Fail (''configmap '' @ cr_Name ref @ '' does not contain key '' @ cr_Key ref), tr')
                     | Some v \<Rightarrow>
                         if v = '''' then (Fail (''configmap '' @ cr_Name ref @ '' does not contain key '' @ cr_Key ref), tr')
                         else (Done (p\<lparr>po_Data := v, po_ConfigMapRef := None\<rparr>), tr')))
      | (Fail e, tr') \<Rightarrow> (Fail (''failed to track changes to configmap '' @ cr_Name ref @ '' : '' @ e), tr')
      | (Panicked, tr') \<Rightarrow> (Panicked, tr'))"

definition inlinePolicyURL :: "('p, 'b) rec_env \<Rightarrow> Policy \<Rightarrow> RemotePolicy \<Rightarrow> Policy go_result" where
  "inlinePolicyURL env p remote =
     (case re_http_Get env (rp_URL remote) of
        Inl e \<Rightarrow> Err (wrap_err ''failed to fetch content from policy url'' e)
      | Inr resp \<Rightarrow>
          if hs_StatusCode resp < 200 \<or> 299 < hs_StatusCode resp
          then Err (''failed to fetch content from policy url with code '' @ show_int (hs_StatusCode resp))
          else (case hs_Body resp of
                  Inl e \<Rightarrow> Err (wrap_err ''failed to read policy url response'' e)
                | Inr data \<Rightarrow>
                    (let sum = hex_EncodeToString (re_sha256 env data)
                     in if sum \<noteq> rp_Sha256sum remote
                        then Err (''failed to check sha256sum from policy remote: '' @ rp_Sha256sum remote @ '' got '' @ sum)
                        else Ok (p\<lparr>po_Data := data, po_Remote := None\<rparr>))))"

definition inline_configmap :: "('p, 'b) rec_env \<Rightarrow> Policy \<Rightarrow> Policy tracked" where
  "inline_configmap env p =
     (case po_ConfigMapRef p of None \<Rightarrow> doneT p | Some ref \<Rightarrow> inlineAndTrackConfigMap env p ref)"

text \<open>
  The remote policy of an attestation: when it cannot be inlined, the log line reads the URL
  of the remote policy of the whole resource (\<open>cip.Spec.Policy.Remote.URL\<close>), which panics if
  there is no such policy or it is not remote.
\<close>

definition inline_remote_att :: "('p, 'b) rec_env \<Rightarrow> Policy option \<Rightarrow> Policy \<Rightarrow> Policy tracked" where
  "inline_remote_att env specPolicy p =
     (case po_Remote p of
        None \<Rightarrow> doneT p
      | Some remote \<Rightarrow>
          (case inlinePolicyURL env p remote of
             Inr p' \<Rightarrow> doneT p'
           | Inl e \<Rightarrow>
               (case specPolicy of
                  None \<Rightarrow> (\<lambda>tr. (Panicked, tr))
                | Some sp \<Rightarrow> if po_Remote sp = None then (\<lambda>tr. (Panicked, tr)) else failT e)))"

definition inline_remote_spec :: "('p, 'b) rec_env \<Rightarrow> Policy \<Rightarrow> Policy tracked" where
  "inline_remote_spec env p =
     (case po_Remote p of
        None \<Rightarrow> doneT p
      | Some remote \<Rightarrow> (case inlinePolicyURL env p remote of Inl e \<Rightarrow> failT e | Inr p' \<Rightarrow> doneT p'))"

definition inline_attestation :: "('p, 'b) rec_env \<Rightarrow> Policy option \<Rightarrow> Attestation \<Rightarrow> Attestation tracked" where
  "inline_attestation env specPolicy att =
     bindT (optT (\<lambda>p. bindT (inline_configmap env p) (inline_remote_att env specPolicy)) (at_Policy att))
       (\<lambda>p. doneT (att\<lparr>at_Policy := p\<rparr>))"

definition inline_authority_policies :: "('p, 'b) rec_env \<Rightarrow> Policy option \<Rightarrow> Authority \<Rightarrow> Authority tracked" where
  "inline_authority_policies env specPolicy a =
     bindT (eachT (inline_attestation env specPolicy) (au_Attestations a)) (\<lambda>ats. doneT (a\<lparr>au_Attestations := ats\<rparr>))"

definition inlinePolicies :: "('p, 'b) rec_env \<Rightarrow> 's ClusterImagePolicy \<Rightarrow> 's ClusterImagePolicy tracked" where
  "inlinePolicies env cip =
     bindT (eachT (inline_authority_policies env (cs_Policy (cip_Spec cip))) (cs_Authorities (cip_Spec cip))) (\<lambda>as.
     bindT (optT (\<lambda>p. bindT (inline_configmap env p) (inline_remote_spec env)) (cs_Policy (cip_Spec cip))) (\<lambda>p.
       doneT (cip\<lparr>cip_Spec := (cip_Spec cip)\<lparr>cs_Authorities := as, cs_Policy := p\<rparr>\<rparr>)))"

section \<open>Reconciling\<close>

definition ImagePoliciesConfigName :: string where
  "ImagePoliciesConfigName = ''config-image-policies''"

definition removeCIPEntry :: "('p, 'b) rec_env \<Rightarrow> cm_data \<Rightarrow> string \<Rightarrow> cm_data option \<Rightarrow> cm_data option \<times> string option" where
  "removeCIPEntry env cm cipName server = remove_entry (re_cm env) cm cipName server"

definition handleCIPError :: "('p, 'b) rec_env \<Rightarrow> string \<Rightarrow> cm_data option \<Rightarrow> cm_data option" where
  "handleCIPError env cipName server =
     (case re_ConfigMap env ImagePoliciesConfigName of
        Inl e \<Rightarrow> server
      | Inr existing \<Rightarrow> fst (removeCIPEntry env existing cipName server))"

text \<open>
  The server's config map, the tracked references, the conditions of the policy and the
  returned event.
\<close>

record 's rec_result =
  rr_server :: "cm_data option"
  rr_tracks :: tracks
  rr_conds :: 's
  rr_event :: "unit run"

definition CIP_ReconcileKind :: "'s cond_api \<Rightarrow> ('p, 'b) rec_env \<Rightarrow> 's resource_status ClusterImagePolicy \<Rightarrow>
    cm_data option \<Rightarrow> tracks \<Rightarrow> 's rec_result" where
  "CIP_ReconcileKind kc env cip server tr =
     (let n = om_Name (cip_ObjectMeta cip);
          s0 = CIP_InitializeConditions kc (rst_Conditions (cip_Status cip))
      in case inlinePublicKeys env cip tr of
           (Panicked, tr1) \<Rightarrow> \<lparr>rr_server = server, rr_tracks = tr1, rr_conds = s0, rr_event = Panicked\<rparr>
         | (Fail e, tr1) \<Rightarrow>
             \<lparr>rr_server = handleCIPError env n server, rr_tracks = tr1, rr_conds = CIP_MarkInlineKeysFailed kc e s0, rr_event = Fail e\<rparr>
         | (Done copy, tr1) \<Rightarrow>
             (let s1 = CIP_MarkInlineKeysOk kc s0
              in case inlinePolicies env copy tr1 of
                   (Panicked, tr2) \<Rightarrow> \<lparr>rr_server = server, rr_tracks = tr2, rr_conds = s1, rr_event = Panicked\<rparr>
                 | (Fail e, tr2) \<Rightarrow>
                     \<lparr>rr_server = handleCIPError env n server, rr_tracks = tr2, rr_conds = CIP_MarkInlinePoliciesFailed kc e s1,
                      rr_event = Fail e\<rparr>
                 | (Done inlined, tr2) \<Rightarrow>
                     (let s2 = CIP_MarkInlinePoliciesOk kc s1
                      in case store_entry (re_cm env) (re_ConfigMap env ImagePoliciesConfigName) (re_marshal env) n
                                (ConvertClusterImagePolicyV1alpha1ToWebhook inlined) server of
                           (server', Some e) \<Rightarrow>
                             \<lparr>rr_server = server', rr_tracks = tr2, rr_conds = CIP_MarkCMUpdateFailed kc e s2, rr_event = Fail e\<rparr>
                         | (server', None) \<Rightarrow>
                             \<lparr>rr_server = server', rr_tracks = tr2, rr_conds = CIP_MarkCMUpdatedOK kc s2, rr_event = Done ()\<rparr>)))"

definition CIP_FinalizeKind :: "('p, 'b) rec_env \<Rightarrow> 's ClusterImagePolicy \<Rightarrow> cm_data option \<Rightarrow> cm_data option \<times> string option" where
  "CIP_FinalizeKind env cip server =
     (case re_ConfigMap env ImagePoliciesConfigName of
        Inl (GetFailed e) \<Rightarrow> (server, Some e)
      | Inl (NotFound _) \<Rightarrow> (server, None)
      | Inr existing \<Rightarrow> removeCIPEntry env existing (om_Name (cip_ObjectMeta cip)) server)"

end
