(* ===== verification/Conversion.thy ===== *)
theory Conversion
  imports V1beta1
begin

text \<open>
  \<open>pkg/apis/policy/v1alpha1/clusterimagepolicy_conversion.go\<close> and its v1beta1 counterpart:
  conversion of a ClusterImagePolicy between the two versions. Each method writes into a
  destination it is given, so the functions below take the destination and return it
  updated; the conversion webhook passes zero values.
\<close>

section \<open>Zero values\<close>

definition zero_BKeyRef :: BKeyRef where
  "zero_BKeyRef = \<lparr>bkr_SecretRef = None, bkr_Data = '''', bkr_KMS = '''', bkr_HashAlgorithm = ''''\<rparr>"

definition zero_KeyRef :: KeyRef where
  "zero_KeyRef = \<lparr>kr_SecretRef = None, kr_Data = '''', kr_KMS = '''', kr_HashAlgorithm = ''''\<rparr>"

definition zero_BPolicy :: BPolicy where
  "zero_BPolicy = \<lparr>bpo_Type = '''', bpo_Data = '''', bpo_Remote = None, bpo_ConfigMapRef = None,
     bpo_FetchConfigFile = None, bpo_IncludeSpec = None, bpo_IncludeObjectMeta = None,
     bpo_IncludeTypeMeta = None\<rparr>"

definition zero_Policy :: Policy where
  "zero_Policy = \<lparr>po_Type = '''', po_Data = '''', po_Remote = None, po_ConfigMapRef = None,
     po_FetchConfigFile = None, po_IncludeSpec = None, po_IncludeObjectMeta = None,
     po_IncludeTypeMeta = None\<rparr>"

definition zero_GVR :: GroupVersionResource where
  "zero_GVR = \<lparr>gvr_Group = '''', gvr_Version = '''', gvr_Resource = ''''\<rparr>"

definition zero_BMatchResource :: BMatchResource where
  "zero_BMatchResource = \<lparr>bmr_GVR = zero_GVR, bmr_ResourceSelector = None\<rparr>"

definition zero_MatchResource :: MatchResource where
  "zero_MatchResource = \<lparr>mr_GVR = zero_GVR, mr_ResourceSelector = None\<rparr>"

definition zero_BAuthority :: BAuthority where
  "zero_BAuthority = \<lparr>bau_Name = '''', bau_Key = None, bau_Keyless = None, bau_Static = None,
     bau_Sources = [], bau_CTLog = None, bau_Attestations = [], bau_RFC3161Timestamp = None,
     bau_GMSignature = None, bau_SignatureFormat = ''''\<rparr>"

definition zero_Authority :: Authority where
  "zero_Authority = \<lparr>au_Name = '''', au_Key = None, au_Keyless = None, au_Static = None,
     au_Sources = [], au_CTLog = None, au_Attestations = [], au_RFC3161Timestamp = None,
     au_GMSignature = None, au_SignatureFormat = ''''\<rparr>"

definition zero_BSpec :: BClusterImagePolicySpec where
  "zero_BSpec = \<lparr>bcs_Images = [], bcs_Authorities = [], bcs_Policy = None, bcs_Mode = '''', bcs_Match = []\<rparr>"

definition zero_Spec :: ClusterImagePolicySpec where
  "zero_Spec = \<lparr>cs_Images = [], cs_Authorities = [], cs_Policy = None, cs_Mode = '''', cs_Match = []\<rparr>"

lemmas zero_defs = zero_BKeyRef_def zero_KeyRef_def zero_BPolicy_def zero_Policy_def zero_GVR_def
  zero_BMatchResource_def zero_MatchResource_def zero_BAuthority_def zero_Authority_def
  zero_BSpec_def zero_Spec_def

section \<open>v1alpha1 to v1beta1\<close>

definition KeyRef_ConvertTo :: "KeyRef \<Rightarrow> BKeyRef \<Rightarrow> BKeyRef" where [conv_defs]:
  "KeyRef_ConvertTo key sink =
     sink\<lparr>bkr_SecretRef := kr_SecretRef key, bkr_Data := kr_Data key, bkr_KMS := kr_KMS key,
          bkr_HashAlgorithm := kr_HashAlgorithm key\<rparr>"

definition remote_to :: "RemotePolicy \<Rightarrow> BRemotePolicy" where [conv_defs]:
  "remote_to r = \<lparr>brp_URL = rp_URL r, brp_Sha256sum = rp_Sha256sum r\<rparr>"

definition cmref_to :: "ConfigMapReference \<Rightarrow> BConfigMapReference" where [conv_defs]:
  "cmref_to c = \<lparr>bcr_Name = cr_Name c, bcr_Namespace = cr_Namespace c, bcr_Key = cr_Key c\<rparr>"

text \<open>\<open>if p != nil \{ sink = p \}\<close>: a nil source leaves the destination's value.\<close>

definition keep :: "'a option \<Rightarrow> 'a option \<Rightarrow> 'a option" where [conv_defs]:
  "keep new old = (case new of None \<Rightarrow> old | Some v \<Rightarrow> Some v)"

lemma keep_None [simp]: "keep v None = v"
  by (simp add: keep_def split: option.splits)

definition Policy_ConvertTo :: "Policy \<Rightarrow> BPolicy \<Rightarrow> BPolicy" where [conv_defs]:
  "Policy_ConvertTo p sink =
     sink\<lparr>bpo_Type := po_Type p, bpo_Data := po_Data p,
          bpo_Remote := keep (map_option remote_to (po_Remote p)) (bpo_Remote sink),
          bpo_ConfigMapRef := keep (map_option cmref_to (po_ConfigMapRef p)) (bpo_ConfigMapRef sink),
          bpo_FetchConfigFile := keep (po_FetchConfigFile p) (bpo_FetchConfigFile sink),
          bpo_IncludeSpec := keep (po_IncludeSpec p) (bpo_IncludeSpec sink),
          bpo_IncludeObjectMeta := keep (po_IncludeObjectMeta p) (bpo_IncludeObjectMeta sink),
          bpo_IncludeTypeMeta := keep (po_IncludeTypeMeta p) (bpo_IncludeTypeMeta sink)\<rparr>"

definition MatchResource_ConvertTo :: "MatchResource \<Rightarrow> BMatchResource \<Rightarrow> BMatchResource" where [conv_defs]:
  "MatchResource_ConvertTo m sink =
     sink\<lparr>bmr_GVR := mr_GVR m,
          bmr_ResourceSelector := keep (mr_ResourceSelector m) (bmr_ResourceSelector sink)\<rparr>"

definition source_to :: "Source \<Rightarrow> BSource" where [conv_defs]:
  "source_to s = \<lparr>bso_OCI = so_OCI s, bso_SignaturePullSecrets = so_SignaturePullSecrets s,
                  bso_TagPrefix = so_TagPrefix s\<rparr>"

definition attestation_to :: "Attestation \<Rightarrow> BAttestation" where [conv_defs]:
  "attestation_to a = \<lparr>bat_Name = at_Name a, bat_PredicateType = at_PredicateType a,
     bat_Policy = map_option (\<lambda>p. Policy_ConvertTo p zero_BPolicy) (at_Policy a)\<rparr>"

definition identity_to :: "Identity \<Rightarrow> BIdentity" where [conv_defs]:
  "identity_to i = \<lparr>bid_Issuer = id_Issuer i, bid_Subject = id_Subject i,
     bid_IssuerRegExp = id_IssuerRegExp i, bid_SubjectRegExp = id_SubjectRegExp i\<rparr>"

definition keyless_to :: "KeylessRef \<Rightarrow> BKeylessRef" where [conv_defs]:
  "keyless_to k = \<lparr>bkl_URL = kl_URL k, bkl_Identities = map identity_to (kl_Identities k),
     bkl_CACert = map_option (\<lambda>c. KeyRef_ConvertTo c zero_BKeyRef) (kl_CACert k),
     bkl_TrustRootRef = kl_TrustRootRef k, bkl_InsecureIgnoreSCT = kl_InsecureIgnoreSCT k\<rparr>"

definition gm_to :: "GMSignatureRef \<Rightarrow> BGMSignatureRef" where [conv_defs]:
  "gm_to g = \<lparr>bgm_VerifyURL = gm_VerifyURL g, bgm_TenantID = gm_TenantID g,
     bgm_Signer = \<lparr>bgs_AppID = gs_AppID (gm_Signer g), bgs_NodeID = gs_NodeID (gm_Signer g),
                   bgs_UserID = gs_UserID (gm_Signer g)\<rparr>,
     bgm_RequestTimeoutMs = gm_RequestTimeoutMs g\<rparr>"

text \<open>A transparency log is copied only when it has a URL, a timestamp only when it names a root.\<close>

definition ctlog_to :: "TLog option \<Rightarrow> BTLog option" where [conv_defs]:
  "ctlog_to t = (case t of None \<Rightarrow> None | Some l \<Rightarrow>
     (case tl_URL l of None \<Rightarrow> None
      | Some u \<Rightarrow> Some \<lparr>btl_URL = Some u, btl_TrustRootRef = tl_TrustRootRef l\<rparr>))"

definition timestamp_to :: "RFC3161Timestamp option \<Rightarrow> BRFC3161Timestamp option" where [conv_defs]:
  "timestamp_to t = (case t of None \<Rightarrow> None | Some s \<Rightarrow>
     if ts_TrustRootRef s \<noteq> '''' then Some \<lparr>bts_TrustRootRef = ts_TrustRootRef s\<rparr> else None)"

definition Authority_ConvertTo :: "Authority \<Rightarrow> BAuthority \<Rightarrow> BAuthority" where [conv_defs]:
  "Authority_ConvertTo a sink =
     sink\<lparr>bau_Name := au_Name a,
          bau_SignatureFormat := au_SignatureFormat a,
          bau_CTLog := keep (ctlog_to (au_CTLog a)) (bau_CTLog sink),
          bau_RFC3161Timestamp := keep (timestamp_to (au_RFC3161Timestamp a)) (bau_RFC3161Timestamp sink),
          bau_Sources := bau_Sources sink @ map source_to (au_Sources a),
          bau_Attestations := bau_Attestations sink @ map attestation_to (au_Attestations a),
          bau_Key := keep (map_option (\<lambda>k. KeyRef_ConvertTo k zero_BKeyRef) (au_Key a)) (bau_Key sink),
          bau_Keyless := keep (map_option keyless_to (au_Keyless a)) (bau_Keyless sink),
          bau_Static := keep (map_option (\<lambda>s. \<lparr>bst_Action = st_Action s, bst_Message = st_Message s\<rparr>)
                                (au_Static a)) (bau_Static sink),
          bau_GMSignature := keep (map_option gm_to (au_GMSignature a)) (bau_GMSignature sink)\<rparr>"

definition ClusterImagePolicySpec_ConvertTo ::
    "ClusterImagePolicySpec \<Rightarrow> BClusterImagePolicySpec \<Rightarrow> BClusterImagePolicySpec" where [conv_defs]:
  "ClusterImagePolicySpec_ConvertTo spec sink =
     sink\<lparr>bcs_Images := bcs_Images sink @ map (\<lambda>i. \<lparr>bip_Glob = ip_Glob i\<rparr>) (cs_Images spec),
          bcs_Authorities := bcs_Authorities sink @
             map (\<lambda>a. Authority_ConvertTo a zero_BAuthority) (cs_Authorities spec),
          bcs_Match := bcs_Match sink @
             map (\<lambda>m. MatchResource_ConvertTo m zero_BMatchResource) (cs_Match spec),
          bcs_Policy := keep (map_option (\<lambda>p. Policy_ConvertTo p zero_BPolicy) (cs_Policy spec))
             (bcs_Policy sink),
          bcs_Mode := cs_Mode spec\<rparr>"

section \<open>v1beta1 to v1alpha1\<close>

definition KeyRef_ConvertFrom :: "BKeyRef \<Rightarrow> KeyRef \<Rightarrow> KeyRef" where [conv_defs]:
  "KeyRef_ConvertFrom source key =
     key\<lparr>kr_SecretRef := bkr_SecretRef source, kr_Data := bkr_Data source, kr_KMS := bkr_KMS source,
         kr_HashAlgorithm := bkr_HashAlgorithm source\<rparr>"

definition remote_from :: "BRemotePolicy \<Rightarrow> RemotePolicy" where [conv_defs]:
  "remote_from r = \<lparr>rp_URL = brp_URL r, rp_Sha256sum = brp_Sha256sum r\<rparr>"

definition cmref_from :: "BConfigMapReference \<Rightarrow> ConfigMapReference" where [conv_defs]:
  "cmref_from c = \<lparr>cr_Name = bcr_Name c, cr_Namespace = bcr_Namespace c, cr_Key = bcr_Key c\<rparr>"

definition Policy_ConvertFrom :: "BPolicy \<Rightarrow> Policy \<Rightarrow> Policy" where [conv_defs]:
  "Policy_ConvertFrom source p =
     p\<lparr>po_Type := bpo_Type source, po_Data := bpo_Data source,
       po_Remote := keep (map_option remote_from (bpo_Remote source)) (po_Remote p),
       po_ConfigMapRef := keep (map_option cmref_from (bpo_ConfigMapRef source)) (po_ConfigMapRef p),
       po_FetchConfigFile := keep (bpo_FetchConfigFile source) (po_FetchConfigFile p),
       po_IncludeSpec := keep (bpo_IncludeSpec source) (po_IncludeSpec p),
       po_IncludeObjectMeta := keep (bpo_IncludeObjectMeta source) (po_IncludeObjectMeta p),
       po_IncludeTypeMeta := keep (bpo_IncludeTypeMeta source) (po_IncludeTypeMeta p)\<rparr>"

definition MatchResource_ConvertFrom :: "BMatchResource \<Rightarrow> MatchResource \<Rightarrow> MatchResource" where [conv_defs]:
  "MatchResource_ConvertFrom source m =
     m\<lparr>mr_GVR := bmr_GVR source,
       mr_ResourceSelector := keep (bmr_ResourceSelector source) (mr_ResourceSelector m)\<rparr>"

definition source_from :: "BSource \<Rightarrow> Source" where [conv_defs]:
  "source_from s = \<lparr>so_OCI = bso_OCI s, so_SignaturePullSecrets = bso_SignaturePullSecrets s,
                    so_TagPrefix = bso_TagPrefix s\<rparr>"

definition attestation_from :: "BAttestation \<Rightarrow> Attestation" where [conv_defs]:
  "attestation_from a = \<lparr>at_Name = bat_Name a, at_PredicateType = bat_PredicateType a,
     at_Policy = map_option (\<lambda>p. Policy_ConvertFrom p zero_Policy) (bat_Policy a)\<rparr>"

definition identity_from :: "BIdentity \<Rightarrow> Identity" where [conv_defs]:
  "identity_from i = \<lparr>id_Issuer = bid_Issuer i, id_Subject = bid_Subject i,
     id_IssuerRegExp = bid_IssuerRegExp i, id_SubjectRegExp = bid_SubjectRegExp i\<rparr>"

definition keyless_from :: "BKeylessRef \<Rightarrow> KeylessRef" where [conv_defs]:
  "keyless_from k = \<lparr>kl_URL = bkl_URL k, kl_Identities = map identity_from (bkl_Identities k),
     kl_CACert = map_option (\<lambda>c. KeyRef_ConvertFrom c zero_KeyRef) (bkl_CACert k),
     kl_TrustRootRef = bkl_TrustRootRef k, kl_InsecureIgnoreSCT = bkl_InsecureIgnoreSCT k\<rparr>"

definition gm_from :: "BGMSignatureRef \<Rightarrow> GMSignatureRef" where [conv_defs]:
  "gm_from g = \<lparr>gm_VerifyURL = bgm_VerifyURL g, gm_TenantID = bgm_TenantID g,
     gm_Signer = \<lparr>gs_AppID = bgs_AppID (bgm_Signer g), gs_NodeID = bgs_NodeID (bgm_Signer g),
                  gs_UserID = bgs_UserID (bgm_Signer g)\<rparr>,
     gm_RequestTimeoutMs = bgm_RequestTimeoutMs g\<rparr>"

definition ctlog_from :: "BTLog option \<Rightarrow> TLog option" where [conv_defs]:
  "ctlog_from t = (case t of None \<Rightarrow> None | Some l \<Rightarrow>
     (case btl_URL l of None \<Rightarrow> None
      | Some u \<Rightarrow> Some \<lparr>tl_URL = Some u, tl_TrustRootRef = btl_TrustRootRef l\<rparr>))"

definition timestamp_from :: "BRFC3161Timestamp option \<Rightarrow> RFC3161Timestamp option" where [conv_defs]:
  "timestamp_from t = (case t of None \<Rightarrow> None | Some s \<Rightarrow>
     if bts_TrustRootRef s \<noteq> '''' then Some \<lparr>ts_TrustRootRef = bts_TrustRootRef s\<rparr> else None)"

definition Authority_ConvertFrom :: "BAuthority \<Rightarrow> Authority \<Rightarrow> Authority" where [conv_defs]:
  "Authority_ConvertFrom source a =
     a\<lparr>au_Name := bau_Name source,
       au_SignatureFormat := bau_SignatureFormat source,
       au_CTLog := keep (ctlog_from (bau_CTLog source)) (au_CTLog a),
       au_RFC3161Timestamp := keep (timestamp_from (bau_RFC3161Timestamp source)) (au_RFC3161Timestamp a),
       au_Sources := au_Sources a @ map source_from (bau_Sources source),
       au_Attestations := au_Attestations a @ map attestation_from (bau_Attestations source),
       au_Key := keep (map_option (\<lambda>k. KeyRef_ConvertFrom k zero_KeyRef) (bau_Key source)) (au_Key a),
       au_Keyless := keep (map_option keyless_from (bau_Keyless source)) (au_Keyless a),
       au_Static := keep (map_option (\<lambda>s. \<lparr>st_Action = bst_Action s, st_Message = bst_Message s\<rparr>)
                            (bau_Static source)) (au_Static a),
       au_GMSignature := keep (map_option gm_from (bau_GMSignature source)) (au_GMSignature a)\<rparr>"

definition ClusterImagePolicySpec_ConvertFrom ::
    "BClusterImagePolicySpec \<Rightarrow> ClusterImagePolicySpec \<Rightarrow> ClusterImagePolicySpec" where [conv_defs]:
  "ClusterImagePolicySpec_ConvertFrom source spec =
     spec\<lparr>cs_Images := cs_Images spec @ map (\<lambda>i. \<lparr>ip_Glob = bip_Glob i\<rparr>) (bcs_Images source),
          cs_Authorities := cs_Authorities spec @
             map (\<lambda>a. Authority_ConvertFrom a zero_Authority) (bcs_Authorities source),
          cs_Match := cs_Match spec @
             map (\<lambda>m. MatchResource_ConvertFrom m zero_MatchResource) (bcs_Match source),
          cs_Mode := bcs_Mode source,
          cs_Policy := keep (map_option (\<lambda>p. Policy_ConvertFrom p zero_Policy) (bcs_Policy source))
             (cs_Policy spec)\<rparr>"

section \<open>The resource\<close>

text \<open>
  \<open>apis.Convertible\<close>: the destination or source is a v1beta1 policy or a value of another
  type, named by its type in the error.
\<close>

datatype 'st convertible = ConvBeta "'st BClusterImagePolicy" | ConvOther string

definition ClusterImagePolicy_ConvertTo ::
    "'st ClusterImagePolicy \<Rightarrow> 'st convertible \<Rightarrow> 'st convertible go_result" where
  "ClusterImagePolicy_ConvertTo c obj =
     (case obj of
        ConvBeta sink \<Rightarrow>
          Ok (ConvBeta (sink\<lparr>bcip_ObjectMeta := cip_ObjectMeta c, bcip_Status := cip_Status c,
                bcip_Spec := ClusterImagePolicySpec_ConvertTo (cip_Spec c) (bcip_Spec sink)\<rparr>))
      | ConvOther t \<Rightarrow> Err (''unknown version, got: '' @ t))"

definition ClusterImagePolicy_ConvertFrom ::
    "'st ClusterImagePolicy \<Rightarrow> 'st convertible \<Rightarrow> 'st ClusterImagePolicy go_result" where
  "ClusterImagePolicy_ConvertFrom c obj =
     (case obj of
        ConvBeta source \<Rightarrow>
          Ok (c\<lparr>cip_ObjectMeta := bcip_ObjectMeta source, cip_Status := bcip_Status source,
                cip_Spec := ClusterImagePolicySpec_ConvertFrom (bcip_Spec source) (cip_Spec c)\<rparr>)
      | ConvOther t \<Rightarrow> Err (''unknown version, got: *v1alpha1.ClusterImagePolicy''))"

text \<open>The methods of the v1beta1 type refuse every conversion: v1alpha1 is the hub.\<close>

definition B_ClusterImagePolicy_ConvertTo :: "'st BClusterImagePolicy \<Rightarrow> string \<Rightarrow> unit go_result" where
  "B_ClusterImagePolicy_ConvertTo c sinkType = Err (''v1beta1 is the highest known version, got: '' @ sinkType)"

definition B_ClusterImagePolicy_ConvertFrom :: "'st BClusterImagePolicy \<Rightarrow> string \<Rightarrow> unit go_result" where
  "B_ClusterImagePolicy_ConvertFrom c sourceType = Err (''v1beta1 is the highest know version, got: '' @ sourceType)"

section \<open>Round trips\<close>

text \<open>
  What survives a conversion: everything but a transparency log without a URL and a
  timestamp authority without a trust root, which the conversion drops.
\<close>

definition kept_authority :: "Authority \<Rightarrow> bool" where
  "kept_authority a =
     ((case au_CTLog a of None \<Rightarrow> True | Some l \<Rightarrow> tl_URL l \<noteq> None) \<and>
      (case au_RFC3161Timestamp a of None \<Rightarrow> True | Some t \<Rightarrow> ts_TrustRootRef t \<noteq> ''''))"

definition B_kept_authority :: "BAuthority \<Rightarrow> bool" where
  "B_kept_authority a =
     ((case bau_CTLog a of None \<Rightarrow> True | Some l \<Rightarrow> btl_URL l \<noteq> None) \<and>
      (case bau_RFC3161Timestamp a of None \<Rightarrow> True | Some t \<Rightarrow> bts_TrustRootRef t \<noteq> ''''))"

definition alpha_to_beta :: "ClusterImagePolicySpec \<Rightarrow> BClusterImagePolicySpec" where
  "alpha_to_beta s = ClusterImagePolicySpec_ConvertTo s zero_BSpec"

definition beta_to_alpha :: "BClusterImagePolicySpec \<Rightarrow> ClusterImagePolicySpec" where
  "beta_to_alpha s = ClusterImagePolicySpec_ConvertFrom s zero_Spec"

lemma KeyRef_trips [simp]:
  "KeyRef_ConvertFrom (KeyRef_ConvertTo k zero_BKeyRef) zero_KeyRef = k"
  "KeyRef_ConvertTo (KeyRef_ConvertFrom b zero_KeyRef) zero_BKeyRef = b"
  by (cases k, simp add: conv_defs zero_defs) (cases b, simp add: conv_defs zero_defs)

lemma remote_trips [simp]: "remote_from (remote_to r) = r" "remote_to (remote_from b) = b"
  by (simp_all add: conv_defs)

lemma cmref_trips [simp]: "cmref_from (cmref_to r) = r" "cmref_to (cmref_from b) = b"
  by (simp_all add: conv_defs)

lemma Policy_trips [simp]:
  "Policy_ConvertFrom (Policy_ConvertTo p zero_BPolicy) zero_Policy = p"
  "Policy_ConvertTo (Policy_ConvertFrom b zero_Policy) zero_BPolicy = b"
  by (cases p, simp add: Policy_ConvertFrom_def Policy_ConvertTo_def zero_defs
        option.map_comp comp_def option.map_ident)
     (cases b, simp add: Policy_ConvertFrom_def Policy_ConvertTo_def zero_defs
        option.map_comp comp_def option.map_ident)

lemma MatchResource_trips [simp]:
  "MatchResource_ConvertFrom (MatchResource_ConvertTo m zero_BMatchResource) zero_MatchResource = m"
  "MatchResource_ConvertTo (MatchResource_ConvertFrom b zero_MatchResource) zero_BMatchResource = b"
  by (cases m, simp add: MatchResource_ConvertFrom_def MatchResource_ConvertTo_def zero_defs)
     (cases b, simp add: MatchResource_ConvertFrom_def MatchResource_ConvertTo_def zero_defs)

lemma source_trips [simp]: "source_from (source_to r) = r" "source_to (source_from b) = b"
  by (simp_all add: conv_defs)

lemma attestation_trips [simp]:
  "attestation_from (attestation_to r) = r" "attestation_to (attestation_from b) = b"
  by (simp_all add: attestation_from_def attestation_to_def option.map_comp comp_def option.map_ident)

lemma identity_trips [simp]: "identity_from (identity_to r) = r" "identity_to (identity_from b) = b"
  by (simp_all add: conv_defs)

lemma keyless_trips [simp]: "keyless_from (keyless_to r) = r" "keyless_to (keyless_from b) = b"
  by (simp_all add: keyless_from_def keyless_to_def option.map_comp comp_def option.map_ident)

lemma gm_trips [simp]: "gm_from (gm_to r) = r" "gm_to (gm_from b) = b"
  by (simp_all add: conv_defs)

lemma ctlog_trips:
  "ctlog_from (ctlog_to t) = t \<longleftrightarrow> (case t of None \<Rightarrow> True | Some l \<Rightarrow> tl_URL l \<noteq> None)"
  "ctlog_to (ctlog_from u) = u \<longleftrightarrow> (case u of None \<Rightarrow> True | Some l \<Rightarrow> btl_URL l \<noteq> None)"
  by (auto simp: ctlog_from_def ctlog_to_def TLog.splits BTLog.splits split: option.splits)

lemma timestamp_trips:
  "timestamp_from (timestamp_to t) = t \<longleftrightarrow> (case t of None \<Rightarrow> True | Some l \<Rightarrow> ts_TrustRootRef l \<noteq> '''')"
  "timestamp_to (timestamp_from u) = u \<longleftrightarrow> (case u of None \<Rightarrow> True | Some l \<Rightarrow> bts_TrustRootRef l \<noteq> '''')"
  by (auto simp: timestamp_from_def timestamp_to_def split: option.splits)

lemma static_trips [simp]:
  "\<lparr>st_Action = st_Action s, st_Message = st_Message s\<rparr> = s"
  "\<lparr>bst_Action = bst_Action t, bst_Message = bst_Message t\<rparr> = t"
  by simp_all

lemmas option_trip_simps = option.map_comp comp_def option.map_ident

lemma Authority_trips:
  "Authority_ConvertFrom (Authority_ConvertTo a zero_BAuthority) zero_Authority = a \<longleftrightarrow> kept_authority a"
  "Authority_ConvertTo (Authority_ConvertFrom b zero_Authority) zero_BAuthority = b \<longleftrightarrow> B_kept_authority b"
  by (cases a, simp add: Authority_ConvertFrom_def Authority_ConvertTo_def zero_BAuthority_def zero_Authority_def
        option_trip_simps kept_authority_def ctlog_trips timestamp_trips)
     (cases b, simp add: Authority_ConvertFrom_def Authority_ConvertTo_def zero_BAuthority_def zero_Authority_def
        option_trip_simps B_kept_authority_def ctlog_trips timestamp_trips)

lemma map_eq_self: "map f xs = xs \<longleftrightarrow> (\<forall>x \<in> set xs. f x = x)"
  by (induction xs) auto

lemma Spec_trips:
  "beta_to_alpha (alpha_to_beta s) = s \<longleftrightarrow> (\<forall>a \<in> set (cs_Authorities s). kept_authority a)"
  "alpha_to_beta (beta_to_alpha t) = t \<longleftrightarrow> (\<forall>a \<in> set (bcs_Authorities t). B_kept_authority a)"
  by (cases s, simp add: alpha_to_beta_def beta_to_alpha_def ClusterImagePolicySpec_ConvertFrom_def
        ClusterImagePolicySpec_ConvertTo_def zero_BSpec_def zero_Spec_def option_trip_simps map_eq_self Authority_trips)
     (cases t, simp add: alpha_to_beta_def beta_to_alpha_def ClusterImagePolicySpec_ConvertFrom_def
        ClusterImagePolicySpec_ConvertTo_def zero_BSpec_def zero_Spec_def option_trip_simps map_eq_self Authority_trips)

section \<open>Conversion and validation\<close>

lemma key_ok_to: "B_key_ok x (KeyRef_ConvertTo k zero_BKeyRef) = key_ok x k"
  by (simp add: B_key_ok_def key_ok_def conv_defs zero_defs)

lemma identity_ok_to: "B_identity_ok x (identity_to i) = identity_ok x i"
  by (simp add: B_identity_ok_def identity_ok_def conv_defs)

lemma keyless_ok_to: "B_keyless_ok x (keyless_to k) = keyless_ok x k"
  by (auto simp: B_keyless_ok_def keyless_ok_def keyless_to_def identity_ok_to key_ok_to)

lemma source_ok_to: "B_source_ok x (source_to s) = source_ok x s"
  by (simp add: B_source_ok_def source_ok_def conv_defs)

lemma remote_ok_to: "B_remote_ok x (remote_to r) = remote_ok x r"
  by (simp add: B_remote_ok_def remote_ok_def conv_defs)

lemma policy_ok_to: "B_policy_ok x i (Policy_ConvertTo p zero_BPolicy) = policy_ok x i p"
  by (auto simp: B_policy_ok_def policy_ok_def Policy_ConvertTo_def zero_defs remote_ok_to cmref_to_def)

lemma attestation_ok_to: "B_attestation_ok x i (attestation_to a) = attestation_ok x i a"
  by (auto simp: B_attestation_ok_def attestation_ok_def attestation_to_def policy_ok_to)

lemma gm_ok_to: "B_gm_ok (gm_to g) = gm_ok g"
  by (simp add: B_gm_ok_def gm_ok_def conv_defs)

lemma match_ok_to: "B_match_ok ns (MatchResource_ConvertTo m zero_BMatchResource) = match_ok ns m"
  by (simp add: B_match_ok_def match_ok_def MatchResource_ConvertTo_def zero_defs)

lemma ctlog_to_None: "ctlog_to t = None \<longleftrightarrow> (\<forall>l. t = Some l \<longrightarrow> tl_URL l = None)"
  by (auto simp: ctlog_to_def split: option.splits)

lemma timestamp_to_None: "timestamp_to t = None \<longleftrightarrow> (\<forall>l. t = Some l \<longrightarrow> ts_TrustRootRef l = '''')"
  by (auto simp: timestamp_to_def split: option.splits)

lemma Authority_to_fields:
  "bau_Key (Authority_ConvertTo a zero_BAuthority) = map_option (\<lambda>k. KeyRef_ConvertTo k zero_BKeyRef) (au_Key a)"
  "bau_Keyless (Authority_ConvertTo a zero_BAuthority) = map_option keyless_to (au_Keyless a)"
  "bau_Static (Authority_ConvertTo a zero_BAuthority) =
     map_option (\<lambda>s. \<lparr>bst_Action = st_Action s, bst_Message = st_Message s\<rparr>) (au_Static a)"
  "bau_GMSignature (Authority_ConvertTo a zero_BAuthority) = map_option gm_to (au_GMSignature a)"
  "bau_Sources (Authority_ConvertTo a zero_BAuthority) = map source_to (au_Sources a)"
  "bau_Attestations (Authority_ConvertTo a zero_BAuthority) = map attestation_to (au_Attestations a)"
  "bau_CTLog (Authority_ConvertTo a zero_BAuthority) = ctlog_to (au_CTLog a)"
  "bau_RFC3161Timestamp (Authority_ConvertTo a zero_BAuthority) = timestamp_to (au_RFC3161Timestamp a)"
  by (simp_all add: Authority_ConvertTo_def zero_BAuthority_def)

lemmas ok_to_simps = key_ok_to keyless_ok_to gm_ok_to source_ok_to attestation_ok_to
  ctlog_to_None timestamp_to_None

lemma verifier_count_to:
  "B_verifier_count (Authority_ConvertTo a zero_BAuthority) = verifier_count a"
  by (simp add: B_verifier_count_def verifier_count_def Authority_to_fields)

lemma authority_ok_to:
  "authority_ok x i a \<Longrightarrow> B_authority_ok x i (Authority_ConvertTo a zero_BAuthority)"
  by (auto simp: B_authority_ok_def authority_ok_def verifier_count_to Authority_to_fields ok_to_simps)

lemma authority_ok_to_kept:
  assumes "kept_authority a"
  shows "B_authority_ok x i (Authority_ConvertTo a zero_BAuthority) = authority_ok x i a"
proof -
  from assms have "ctlog_to (au_CTLog a) = None \<longleftrightarrow> au_CTLog a = None"
    and "timestamp_to (au_RFC3161Timestamp a) = None \<longleftrightarrow> au_RFC3161Timestamp a = None"
    by (auto simp: kept_authority_def ctlog_to_def timestamp_to_def split: option.splits)
  then show ?thesis
    by (auto simp: B_authority_ok_def authority_ok_def verifier_count_to Authority_to_fields
        key_ok_to keyless_ok_to gm_ok_to source_ok_to attestation_ok_to)
qed

lemma spec_ok_to:
  "spec_ok x ctx s \<Longrightarrow> B_spec_ok x ctx (alpha_to_beta s)"
  by (auto simp: spec_ok_def B_spec_ok_def alpha_to_beta_def ClusterImagePolicySpec_ConvertTo_def
      zero_BSpec_def authority_ok_to match_ok_to policy_ok_to)

lemma spec_ok_to_kept:
  "\<forall>a \<in> set (cs_Authorities s). kept_authority a \<Longrightarrow> B_spec_ok x ctx (alpha_to_beta s) = spec_ok x ctx s"
  by (auto simp: spec_ok_def B_spec_ok_def alpha_to_beta_def ClusterImagePolicySpec_ConvertTo_def
      zero_BSpec_def authority_ok_to_kept match_ok_to policy_ok_to)

end
