(* ===== verification/CIPProperties.thy ===== *)
theory CIPProperties
  imports Conversion
begin

text \<open>
  Properties of the ClusterImagePolicy API: which resources the validators of the two
  versions accept, what defaulting does and guarantees, and what the conversion between the
  versions keeps. The sample values at the start instantiate the external functions for the
  witnesses.
\<close>

section \<open>Sample values\<close>

definition sample_ctx :: val_ctx where
  "sample_ctx = \<lparr>vc_InStatusUpdate = False, vc_InSpec = False, vc_Config = None,
                 vc_ValidResourceNames = [''pods'']\<rparr>"

definition sample_meta :: ObjectMeta where
  "sample_meta = \<lparr>om_Name = ''policy'', om_Namespace = '''', om_UID = ''uid-1'',
     om_ResourceVersion = ''7'', om_Generation = 1, om_Labels = [], om_DeletionTimestamp = None, om_Finalizers = []\<rparr>"

definition sample_authority :: Authority where
  "sample_authority = zero_Authority\<lparr>au_Key := Some (zero_KeyRef\<lparr>kr_Data := ''pem''\<rparr>)\<rparr>"

definition sample_spec :: ClusterImagePolicySpec where
  "sample_spec = zero_Spec\<lparr>cs_Images := [\<lparr>ip_Glob = ''ghcr.io/**''\<rparr>],
                           cs_Authorities := [sample_authority]\<rparr>"

definition sample_cip :: "unit ClusterImagePolicy" where
  "sample_cip = \<lparr>cip_ObjectMeta = sample_meta, cip_Spec = sample_spec, cip_Status = ()\<rparr>"

definition sample_beta :: "unit BClusterImagePolicy" where
  "sample_beta = \<lparr>bcip_ObjectMeta = sample_meta, bcip_Spec = alpha_to_beta sample_spec, bcip_Status = ()\<rparr>"

lemmas sample_defs = sample_externals_def sample_ctx_def sample_meta_def sample_authority_def
  sample_spec_def sample_cip_def

lemma sample_spec_ok: "spec_ok sample_externals sample_ctx sample_spec"
  by (simp add: sample_defs zero_defs spec_ok_def glob_ok_def glob_chars_def lower_letters_def
      upper_letters_def digits10_def FromContextOrDefaults_def default_PolicyControllerConfig_def
      authority_ok_def verifier_count_def key_ok_def)

lemma sample_spec_kept: "\<forall>a \<in> set (cs_Authorities sample_spec). kept_authority a"
  by (simp add: sample_defs zero_defs kept_authority_def)

section \<open>Validation\<close>

text \<open>
  C12 The validation webhook rejects a v1alpha1 policy exactly when the request is not a
  status update and the specification breaks one of the rules \<open>spec_ok\<close> lists: globs over
  the permitted characters, authorities with exactly one usable verifier and none of the
  settings that verifier excludes, a known mode, supported resource selectors and one source
  per policy. Warnings (deprecated predicate types) never reject.
\<close>

theorem cip_validate_rejects_iff:
  assumes "field_error_laws api"
  shows "blocks api (ClusterImagePolicy_Validate api x ctx c) \<longleftrightarrow>
           \<not> vc_InStatusUpdate ctx \<and> \<not> spec_ok x ctx (cip_Spec c)"
  using field_error_laws.blocks_Spec_Validate [OF assms] field_error_laws.blocks_basic [OF assms]
  by (simp add: ClusterImagePolicy_Validate_def)

theorem cip_validate_rejects_iff_witness:
  "\<not> blocks diag_api (ClusterImagePolicy_Validate diag_api sample_externals sample_ctx sample_cip)"
  using cip_validate_rejects_iff [OF dl.field_error_laws_axioms, of sample_externals sample_ctx sample_cip]
    sample_spec_ok
  by (simp add: sample_cip_def)

text \<open>
  C33 The v1beta1 validator rejects a policy exactly when the request is no status update and the
  specification breaks one of the rules of \<open>B_spec_ok\<close>, the v1beta1 counterpart of \<open>spec_ok\<close>.
\<close>

theorem beta_validate_rejects_iff:
  assumes "field_error_laws api"
  shows "blocks api (B_ClusterImagePolicy_Validate api x ctx c) \<longleftrightarrow>
           \<not> vc_InStatusUpdate ctx \<and> \<not> B_spec_ok x ctx (bcip_Spec c)"
  using field_error_laws.beta_blocks_Spec_Validate [OF assms] field_error_laws.blocks_basic [OF assms]
  by (simp add: B_ClusterImagePolicy_Validate_def)

theorem beta_validate_rejects_iff_witness:
  "\<not> blocks diag_api (B_ClusterImagePolicy_Validate diag_api sample_externals sample_ctx sample_beta)"
  using beta_validate_rejects_iff [OF dl.field_error_laws_axioms, of sample_externals sample_ctx sample_beta]
    spec_ok_to [OF sample_spec_ok]
  by (simp add: sample_beta_def)

section \<open>Conversion\<close>

text \<open>
  C13 Converting a v1alpha1 policy into an empty v1beta1 policy and back into an empty
  v1alpha1 policy succeeds and returns the original exactly when every authority's
  transparency log has a URL and every timestamp authority names a trust root; those two
  settings are the only ones the conversion loses.
\<close>

theorem conversion_round_trip_iff:
  "(\<exists>b. ClusterImagePolicy_ConvertTo c (ConvBeta (sink\<lparr>bcip_Spec := zero_BSpec\<rparr>)) = Ok b \<and>
        ClusterImagePolicy_ConvertFrom (dest\<lparr>cip_Spec := zero_Spec\<rparr>) b = Ok c) \<longleftrightarrow>
   (\<forall>a \<in> set (cs_Authorities (cip_Spec c)). kept_authority a)"
  using Spec_trips(1) [of "cip_Spec c"]
  by (cases c; cases dest)
     (simp add: ClusterImagePolicy_ConvertTo_def ClusterImagePolicy_ConvertFrom_def
       alpha_to_beta_def beta_to_alpha_def)

theorem conversion_round_trip_iff_witness:
  "\<exists>b. ClusterImagePolicy_ConvertTo sample_cip (ConvBeta (sample_beta\<lparr>bcip_Spec := zero_BSpec\<rparr>)) = Ok b \<and>
       ClusterImagePolicy_ConvertFrom (sample_cip\<lparr>cip_Spec := zero_Spec\<rparr>) b = Ok sample_cip"
  using conversion_round_trip_iff [of sample_cip sample_beta sample_cip] sample_spec_kept
  by (simp add: sample_cip_def)

text \<open>
  C14 A specification the v1alpha1 validator accepts is accepted by the v1beta1 validator
  after conversion, and when nothing is dropped by the conversion the two validators agree.
\<close>

theorem conversion_preserves_acceptance:
  assumes "field_error_laws api"
  shows "(\<not> blocks api (ClusterImagePolicySpec_Validate api x ctx s) \<longrightarrow>
           \<not> blocks api (B_ClusterImagePolicySpec_Validate api x ctx
                           (ClusterImagePolicySpec_ConvertTo s zero_BSpec))) \<and>
         ((\<forall>a \<in> set (cs_Authorities s). kept_authority a) \<longrightarrow>
           blocks api (B_ClusterImagePolicySpec_Validate api x ctx
                         (ClusterImagePolicySpec_ConvertTo s zero_BSpec)) =
           blocks api (ClusterImagePolicySpec_Validate api x ctx s))"
  using field_error_laws.blocks_Spec_Validate [OF assms, of x ctx s]
    field_error_laws.beta_blocks_Spec_Validate [OF assms, of x ctx "alpha_to_beta s"]
    spec_ok_to [of x ctx s] spec_ok_to_kept [of s x ctx]
  by (simp add: alpha_to_beta_def)

theorem conversion_preserves_acceptance_witness:
  "\<not> blocks diag_api (B_ClusterImagePolicySpec_Validate diag_api sample_externals sample_ctx
        (ClusterImagePolicySpec_ConvertTo sample_spec zero_BSpec))"
  using conversion_preserves_acceptance [OF dl.field_error_laws_axioms, of sample_externals sample_ctx sample_spec]
    sample_spec_ok
  by (simp add: dl.blocks_Spec_Validate)

text \<open>
  The loss is observable: a static authority must not have a transparency log, so the
  v1alpha1 validator rejects one with a log that only names a trust root, but the conversion
  drops the log and the v1beta1 validator accepts the result.
\<close>

lemma conversion_hides_ctlog:
  defines "a \<equiv> zero_Authority\<lparr>au_Static := Some \<lparr>st_Action = ''pass'', st_Message = ''''\<rparr>,
                              au_CTLog := Some \<lparr>tl_URL = None, tl_TrustRootRef = ''root''\<rparr>\<rparr>"
  shows "\<not> authority_ok x i a \<and> B_authority_ok x i (Authority_ConvertTo a zero_BAuthority)"
  by (simp add: a_def authority_ok_def B_authority_ok_def Authority_to_fields zero_Authority_def
      verifier_count_to verifier_count_def ctlog_to_def timestamp_to_def)

section \<open>Defaulting\<close>

lemma default_authority_idem: "default_authority i (default_authority i a) = default_authority i a"
  by (cases "au_Keyless a"; cases "au_Name a = ''''") (simp_all add: default_authority_def Let_def)

lemma indexed_map_indexed:
  "indexed (map (\<lambda>p. f (fst p) (snd p)) (indexed xs)) =
     map (\<lambda>p. (fst p, f (fst p) (snd p))) (indexed xs)"
  by (rule nth_equalityI) (auto simp: indexed_def)

lemma authority_ok_rename: "authority_ok x b (a\<lparr>au_Name := n\<rparr>) = authority_ok x b a"
  by (simp add: authority_ok_def verifier_count_def)

lemma default_authority_ok:
  "authority_ok x b a \<Longrightarrow>
     default_authority i a = (if au_Name a = '''' then a\<lparr>au_Name := ''authority-'' @ show_nat i\<rparr> else a)"
  by (auto simp: default_authority_def Let_def authority_ok_def keyless_ok_def split: option.splits)

lemma authority_ok_default: "authority_ok x b a \<Longrightarrow> authority_ok x b (default_authority i a)"
  by (simp add: default_authority_ok authority_ok_rename)

lemma set_defaulted:
  "set (cs_Authorities (ClusterImagePolicySpec_SetDefaults s)) =
     {default_authority i (cs_Authorities s ! i) | i. i < length (cs_Authorities s)}"
proof -
  have "set (indexed xs) = {(i, xs ! i) | i. i < length xs}" for xs :: "Authority list"
    by (auto simp: set_indexed_iff)
  then show ?thesis
    by (force simp: ClusterImagePolicySpec_SetDefaults_def Let_def)
qed

lemma spec_ok_defaults:
  assumes "spec_ok x ctx s"
  shows "spec_ok x ctx (ClusterImagePolicySpec_SetDefaults s)"
proof -
  let ?s' = "ClusterImagePolicySpec_SetDefaults s"
  have "\<forall>a \<in> set (cs_Authorities ?s'). authority_ok x (vc_InSpec ctx) a"
    using assms by (auto simp: spec_ok_def set_defaulted intro!: authority_ok_default)
  moreover have "cs_Authorities ?s' = [] \<longleftrightarrow> cs_Authorities s = []"
    "cs_Images ?s' = cs_Images s" "cs_Match ?s' = cs_Match s" "cs_Policy ?s' = cs_Policy s"
    "cs_Mode ?s' = (if cs_Mode s = '''' then ''enforce'' else cs_Mode s)"
    by (auto simp: ClusterImagePolicySpec_SetDefaults_def Let_def indexed_def)
  ultimately show ?thesis using assms by (auto simp: spec_ok_def)
qed

lemma defaulted_nth:
  assumes "i < length (cs_Authorities s)"
  shows "cs_Authorities (ClusterImagePolicySpec_SetDefaults s) ! i = default_authority i (cs_Authorities s ! i)"
  using assms by (simp add: ClusterImagePolicySpec_SetDefaults_def Let_def indexed_def)

lemma defaulted_length: "length (cs_Authorities (ClusterImagePolicySpec_SetDefaults s)) = length (cs_Authorities s)"
  by (simp add: ClusterImagePolicySpec_SetDefaults_def Let_def indexed_def)

text \<open>
  C20 Defaulting sets exactly what was left open, and nothing else: an unset mode becomes
  \<open>enforce\<close>; the unnamed authority at index \<open>i\<close> is called \<open>authority-i\<close>, so that no two unnamed
  ones get the same name; the public Fulcio instance is the URL of a keyless part that has neither
  a URL nor a CA certificate, in an authority without key and static action; every other field,
  and the number and order of authorities, stay as they were. Defaulting again changes nothing, and
  a specification the validator accepts is still accepted after defaulting.
\<close>

theorem cip_defaults_complete:
  assumes "s' = ClusterImagePolicySpec_SetDefaults s"
  shows "cs_Mode s' = (if cs_Mode s = '''' then ''enforce'' else cs_Mode s) \<and>
    s'\<lparr>cs_Mode := cs_Mode s, cs_Authorities := cs_Authorities s\<rparr> = s \<and>
    length (cs_Authorities s') = length (cs_Authorities s) \<and>
    (\<forall>i < length (cs_Authorities s). let a = cs_Authorities s ! i; a' = cs_Authorities s' ! i in
       au_Name a' = (if au_Name a = '''' then ''authority-'' @ show_nat i else au_Name a) \<and>
       au_Keyless a' = (case au_Keyless a of
           None \<Rightarrow> None
         | Some k \<Rightarrow> if au_Key a = None \<and> au_Static a = None \<and> kl_CACert k = None \<and> kl_URL k = None
             then Some (k\<lparr>kl_URL := Some ''https://fulcio.sigstore.dev''\<rparr>) else Some k) \<and>
       a'\<lparr>au_Name := au_Name a, au_Keyless := au_Keyless a\<rparr> = a) \<and>
    (\<forall>i < length (cs_Authorities s). \<forall>j < length (cs_Authorities s). i \<noteq> j \<and>
       au_Name (cs_Authorities s ! i) = '''' \<and> au_Name (cs_Authorities s ! j) = '''' \<longrightarrow>
       au_Name (cs_Authorities s' ! i) \<noteq> au_Name (cs_Authorities s' ! j)) \<and>
    ClusterImagePolicySpec_SetDefaults s' = s' \<and>
    (spec_ok x ctx s \<longrightarrow> spec_ok x ctx s')"
proof (intro conjI allI impI)
  show "cs_Mode s' = (if cs_Mode s = '''' then ''enforce'' else cs_Mode s)"
    "s'\<lparr>cs_Mode := cs_Mode s, cs_Authorities := cs_Authorities s\<rparr> = s"
    by (simp_all add: assms ClusterImagePolicySpec_SetDefaults_def Let_def)
  show "length (cs_Authorities s') = length (cs_Authorities s)" by (simp add: assms defaulted_length)
  fix i
  assume i: "i < length (cs_Authorities s)"
  show "let a = cs_Authorities s ! i; a' = cs_Authorities s' ! i in
       au_Name a' = (if au_Name a = '''' then ''authority-'' @ show_nat i else au_Name a) \<and>
       au_Keyless a' = (case au_Keyless a of
           None \<Rightarrow> None
         | Some k \<Rightarrow> if au_Key a = None \<and> au_Static a = None \<and> kl_CACert k = None \<and> kl_URL k = None
             then Some (k\<lparr>kl_URL := Some ''https://fulcio.sigstore.dev''\<rparr>) else Some k) \<and>
       a'\<lparr>au_Name := au_Name a, au_Keyless := au_Keyless a\<rparr> = a"
    by (simp add: assms defaulted_nth [OF i] Let_def default_authority_def default_fulcio_url_def split: option.split)
  fix j
  assume "j < length (cs_Authorities s)" "i \<noteq> j \<and> au_Name (cs_Authorities s ! i) = '''' \<and> au_Name (cs_Authorities s ! j) = ''''"
  with i show "au_Name (cs_Authorities s' ! i) \<noteq> au_Name (cs_Authorities s' ! j)"
    using show_nat_inj [of i j] by (auto simp: assms defaulted_nth default_authority_def Let_def split: option.split)
next
  show "ClusterImagePolicySpec_SetDefaults s' = s'"
    by (simp add: assms ClusterImagePolicySpec_SetDefaults_def Let_def indexed_map_indexed
        default_authority_idem comp_def)
  show "spec_ok x ctx s'" if "spec_ok x ctx s" using spec_ok_defaults assms that by blast
qed

definition sample_unset_spec :: ClusterImagePolicySpec where
  "sample_unset_spec = sample_spec\<lparr>cs_Mode := '''', cs_Authorities :=
     [zero_Authority\<lparr>au_Keyless := Some \<lparr>kl_URL = None, kl_Identities = [], kl_CACert = None, kl_TrustRootRef = '''',
        kl_InsecureIgnoreSCT = None\<rparr>\<rparr>, zero_Authority]\<rparr>"

theorem cip_defaults_complete_witness:
  "let s' = ClusterImagePolicySpec_SetDefaults sample_unset_spec in cs_Mode s' = ''enforce'' \<and>
     map au_Name (cs_Authorities s') = [''authority-0'', ''authority-1''] \<and>
     map_option kl_URL (au_Keyless (cs_Authorities s' ! 0)) = Some (Some ''https://fulcio.sigstore.dev'')"
proof -
  let ?s = sample_unset_spec and ?s' = "ClusterImagePolicySpec_SetDefaults sample_unset_spec"
  note d = cip_defaults_complete [OF refl, of ?s]
  have l: "length (cs_Authorities ?s) = 2" by (simp add: sample_unset_spec_def)
  have i: "(0::nat) < length (cs_Authorities ?s)" "1 < length (cs_Authorities ?s)" by (simp_all add: l)
  from d have m: "cs_Mode ?s' = (if cs_Mode ?s = '''' then ''enforce'' else cs_Mode ?s)" by blast
  from d l have l': "length (cs_Authorities ?s') = 2" by simp
  then obtain a b where ab: "cs_Authorities ?s' = [a, b]" by (auto simp: numeral_2_eq_2 length_Suc_conv)
  have d': "au_Name (cs_Authorities ?s' ! k) =
      (if au_Name (cs_Authorities ?s ! k) = '''' then ''authority-'' @ show_nat k else au_Name (cs_Authorities ?s ! k)) \<and>
    au_Keyless (cs_Authorities ?s' ! k) = (case au_Keyless (cs_Authorities ?s ! k) of None \<Rightarrow> None
      | Some kl \<Rightarrow> if au_Key (cs_Authorities ?s ! k) = None \<and> au_Static (cs_Authorities ?s ! k) = None \<and> kl_CACert kl = None \<and> kl_URL kl = None
             then Some (kl\<lparr>kl_URL := Some ''https://fulcio.sigstore.dev''\<rparr>) else Some kl)"
    if "k < length (cs_Authorities ?s)" for k
    using d that unfolding Let_def by blast
  have f: "cs_Mode ?s = ''''" "au_Name (cs_Authorities ?s ! 0) = ''''" "au_Name (cs_Authorities ?s ! 1) = ''''"
    "au_Key (cs_Authorities ?s ! 0) = None" "au_Static (cs_Authorities ?s ! 0) = None"
    "au_Keyless (cs_Authorities ?s ! 0) = Some \<lparr>kl_URL = None, kl_Identities = [], kl_CACert = None, kl_TrustRootRef = '''',
        kl_InsecureIgnoreSCT = None\<rparr>"
    by (simp_all add: sample_unset_spec_def zero_Authority_def)
  have n: "show_nat 0 = ''0''" "show_nat 1 = ''1''" by code_simp+
  from d' [OF i(1)] d' [OF i(2)] m show ?thesis by (simp add: ab f n del: One_nat_def)
qed

end
