(* ===== verification/ReconcilerProperties.thy ===== *)
theory ReconcilerProperties
  imports CIPReconciler CIPProperties
begin

text \<open>
  What the reconciler of policies achieves: inlining leaves no reference behind, a
  successful run installs exactly the policy's entry and reports Ready, a failed one takes
  the entry away, and in every history of updates, reconciliations and deletions the config
  map holds entries of existing policies only.
\<close>

section \<open>Reasoning about runs\<close>

definition ensures :: "('a \<Rightarrow> 'b tracked) \<Rightarrow> ('a \<Rightarrow> 'b \<Rightarrow> bool) \<Rightarrow> bool" where
  "ensures f P = (\<forall>x tr y tr'. f x tr = (Done y, tr') \<longrightarrow> P x y)"

lemma bindT_Done: "bindT m f tr = (Done y, tr') \<longleftrightarrow> (\<exists>x tr1. m tr = (Done x, tr1) \<and> f x tr1 = (Done y, tr'))"
  by (auto simp: bindT_def split: prod.splits run.splits)

lemma doneT_Done [simp]: "doneT v tr = (r, tr') \<longleftrightarrow> r = Done v \<and> tr' = tr"
  by (auto simp: doneT_def)

lemma failT_Done [simp]: "failT e tr = (r, tr') \<longleftrightarrow> r = Fail e \<and> tr' = tr"
  by (auto simp: failT_def)

lemma ensuresD: "ensures f P \<Longrightarrow> f x tr = (Done y, tr') \<Longrightarrow> P x y"
  unfolding ensures_def by blast

lemma ensuresI: "(\<And>x tr y tr'. f x tr = (Done y, tr') \<Longrightarrow> P x y) \<Longrightarrow> ensures f P"
  unfolding ensures_def by blast

lemma ensures_each: "ensures f P \<Longrightarrow> ensures (eachT f) (list_all2 P)"
proof -
  assume f: "ensures f P"
  have "eachT f xs tr = (Done ys, tr') \<Longrightarrow> list_all2 P xs ys" for xs tr ys tr'
    by (induction xs arbitrary: tr ys tr') (auto simp: bindT_Done dest: ensuresD [OF f])
  then show ?thesis by (rule ensuresI)
qed

lemma ensures_opt: "ensures f P \<Longrightarrow> ensures (optT f) (rel_option P)"
  by (rule ensuresI) (auto simp: optT_def bindT_Done split: option.splits dest: ensuresD)

lemma rel_option_right: "rel_option (\<lambda>x y. Q y) v w \<Longrightarrow> pred_option Q w"
  by (auto simp: rel_option_iff split: option.splits)

lemma list_all2_right: "list_all2 (\<lambda>x y. Q y) xs ys \<Longrightarrow> y \<in> set ys \<Longrightarrow> Q y"
  by (auto simp: list_all2_conv_all_nth in_set_conv_nth)

section \<open>Inlining leaves no references\<close>

definition key_inlined :: "KeyRef \<Rightarrow> bool" where
  "key_inlined k = (kr_SecretRef k = None \<and> \<not> str_contains (kr_KMS k) ''://'')"

definition policy_inlined :: "Policy \<Rightarrow> bool" where
  "policy_inlined p = (po_ConfigMapRef p = None \<and> po_Remote p = None)"

definition keys_inlined :: "Authority \<Rightarrow> bool" where
  "keys_inlined a =
     (pred_option key_inlined (au_Key a) \<and>
      pred_option (\<lambda>kl. pred_option (\<lambda>ca. kr_SecretRef ca = None) (kl_CACert kl)) (au_Keyless a))"

definition policies_inlined :: "Authority \<Rightarrow> bool" where
  "policies_inlined a = (\<forall>att \<in> set (au_Attestations a). pred_option policy_inlined (at_Policy att))"

definition self_contained :: "ClusterImagePolicySpec \<Rightarrow> bool" where
  "self_contained s =
     ((\<forall>a \<in> set (cs_Authorities s). keys_inlined a \<and> policies_inlined a) \<and> pred_option policy_inlined (cs_Policy s))"

lemma ensures_secret: "ensures (inline_secret env) (\<lambda>k k'. kr_SecretRef k' = None)"
  by (auto simp: ensures_def inline_secret_def inlineAndTrackSecret_def split: option.splits prod.splits run.splits
      sum.splits list.splits)

lemma ensures_kms: "ensures (inline_kms env) (\<lambda>k k'. \<not> str_contains (kr_KMS k') ''://'' \<and> kr_SecretRef k' = kr_SecretRef k)"
  by (auto simp: ensures_def inline_kms_def split: if_splits sum.splits)

lemma ensures_keyless: "ensures (inline_keyless env) (\<lambda>kl kl'. pred_option (\<lambda>ca. kr_SecretRef ca = None) (kl_CACert kl'))"
proof (rule ensuresI)
  fix kl tr kl' tr'
  assume "inline_keyless env kl tr = (Done kl', tr')"
  then obtain ca tr1 where c: "optT (inline_secret env) (kl_CACert kl) tr = (Done ca, tr1)" and kl': "kl' = kl\<lparr>kl_CACert := ca\<rparr>"
    by (auto simp: inline_keyless_def bindT_Done)
  from rel_option_right [OF ensuresD [OF ensures_opt [OF ensures_secret] c]]
  show "pred_option (\<lambda>ca. kr_SecretRef ca = None) (kl_CACert kl')" by (simp add: kl')
qed

lemma ensures_authority_keys: "ensures (inline_authority_keys env) (\<lambda>a a'. keys_inlined a')"
proof (rule ensuresI)
  fix a tr a' tr'
  assume "inline_authority_keys env a tr = (Done a', tr')"
  then obtain key keyless key' tr1 tr2 tr3 where k: "optT (inline_secret env) (au_Key a) tr = (Done key, tr1)"
    and l: "optT (inline_keyless env) (au_Keyless a) tr1 = (Done keyless, tr2)"
    and m: "optT (inline_kms env) key tr2 = (Done key', tr3)" and a': "a' = a\<lparr>au_Key := key', au_Keyless := keyless\<rparr>"
    by (auto simp: inline_authority_keys_def bindT_Done)
  from ensuresD [OF ensures_opt [OF ensures_secret] k] ensuresD [OF ensures_opt [OF ensures_keyless] l]
    ensuresD [OF ensures_opt [OF ensures_kms] m]
  show "keys_inlined a'"
    by (auto simp: a' keys_inlined_def key_inlined_def rel_option_iff split: option.splits)
qed

lemma ensures_configmap:
  "ensures (inline_configmap env) (\<lambda>p p'. po_ConfigMapRef p' = None \<and> po_Remote p' = po_Remote p)"
  by (auto simp: ensures_def inline_configmap_def inlineAndTrackConfigMap_def split: option.splits prod.splits run.splits
      sum.splits if_splits)

lemma inlinePolicyURL_Ok:
  "inlinePolicyURL env p r = Ok p' \<Longrightarrow> po_Remote p' = None \<and> po_ConfigMapRef p' = po_ConfigMapRef p \<and>
     hex_EncodeToString (re_sha256 env (po_Data p')) = rp_Sha256sum r"
  by (auto simp: inlinePolicyURL_def Let_def split: sum.splits if_splits)

lemma ensures_remote:
  "ensures (inline_remote_att env sp) (\<lambda>p p'. po_Remote p' = None \<and> po_ConfigMapRef p' = po_ConfigMapRef p)"
  "ensures (inline_remote_spec env) (\<lambda>p p'. po_Remote p' = None \<and> po_ConfigMapRef p' = po_ConfigMapRef p)"
  by (auto simp: ensures_def inline_remote_att_def inline_remote_spec_def split: option.splits sum.splits if_splits
      dest: inlinePolicyURL_Ok)

lemma ensures_policy:
  "ensures (\<lambda>p. bindT (inline_configmap env p) (inline_remote_att env sp)) (\<lambda>p p'. policy_inlined p')"
  "ensures (\<lambda>p. bindT (inline_configmap env p) (inline_remote_spec env)) (\<lambda>p p'. policy_inlined p')"
  by (rule ensuresI; force simp: bindT_Done policy_inlined_def
      dest: ensuresD [OF ensures_configmap] ensuresD [OF ensures_remote(1)] ensuresD [OF ensures_remote(2)])+

lemma ensures_attestation: "ensures (inline_attestation env sp) (\<lambda>a a'. pred_option policy_inlined (at_Policy a'))"
proof (rule ensuresI)
  fix a tr a' tr'
  assume "inline_attestation env sp a tr = (Done a', tr')"
  then obtain p tr1 where
    p: "optT (\<lambda>p. bindT (inline_configmap env p) (inline_remote_att env sp)) (at_Policy a) tr = (Done p, tr1)"
    and a': "a' = a\<lparr>at_Policy := p\<rparr>"
    by (auto simp: inline_attestation_def bindT_Done)
  from rel_option_right [OF ensuresD [OF ensures_opt [OF ensures_policy(1)] p]]
  show "pred_option policy_inlined (at_Policy a')" by (simp add: a')
qed

lemma ensures_authority_policies:
  "ensures (inline_authority_policies env sp) (\<lambda>a a'. policies_inlined a' \<and> (keys_inlined a \<longrightarrow> keys_inlined a'))"
proof (rule ensuresI)
  fix a tr a' tr'
  assume "inline_authority_policies env sp a tr = (Done a', tr')"
  then obtain ats tr1 where a': "a' = a\<lparr>au_Attestations := ats\<rparr>" and
    e: "eachT (inline_attestation env sp) (au_Attestations a) tr = (Done ats, tr1)"
    by (auto simp: inline_authority_policies_def bindT_Done)
  from list_all2_right [OF ensuresD [OF ensures_each [OF ensures_attestation] e]]
  have "policies_inlined a'" by (simp add: a' policies_inlined_def)
  then show "policies_inlined a' \<and> (keys_inlined a \<longrightarrow> keys_inlined a')" by (simp add: a' keys_inlined_def)
qed

lemma inlined_self_contained:
  assumes "inlinePublicKeys env cip tr = (Done copy, tr1)" "inlinePolicies env copy tr1 = (Done inlined, tr2)"
  shows "self_contained (cip_Spec inlined)"
proof -
  from assms(1) obtain as1 t1 where copy: "cip_Spec copy = (cip_Spec cip)\<lparr>cs_Authorities := as1\<rparr>"
    and e1: "eachT (inline_authority_keys env) (cs_Authorities (cip_Spec cip)) tr = (Done as1, t1)"
    by (auto simp: inlinePublicKeys_def bindT_Done)
  from assms(2) obtain as2 p t2 t3 where inl: "cip_Spec inlined = (cip_Spec copy)\<lparr>cs_Authorities := as2, cs_Policy := p\<rparr>"
    and e2: "eachT (inline_authority_policies env (cs_Policy (cip_Spec copy))) (cs_Authorities (cip_Spec copy)) tr1 = (Done as2, t2)"
    and e3: "optT (\<lambda>p. bindT (inline_configmap env p) (inline_remote_spec env)) (cs_Policy (cip_Spec copy)) t2 = (Done p, t3)"
    by (auto simp: inlinePolicies_def bindT_Done)
  have k: "\<forall>a \<in> set as1. keys_inlined a"
    using list_all2_right [OF ensuresD [OF ensures_each [OF ensures_authority_keys] e1]] by blast
  have "list_all2 (\<lambda>a a'. policies_inlined a' \<and> (keys_inlined a \<longrightarrow> keys_inlined a')) as1 as2"
    using ensuresD [OF ensures_each [OF ensures_authority_policies] e2] by (simp add: copy)
  then have "\<forall>a \<in> set as2. keys_inlined a \<and> policies_inlined a"
    using k by (simp add: list_all2_conv_all_nth all_set_conv_all_nth)
  moreover have "pred_option policy_inlined p"
    by (rule rel_option_right [OF ensuresD [OF ensures_opt [OF ensures_policy(2)] e3]])
  ultimately show ?thesis by (simp add: self_contained_def inl)
qed

section \<open>The outcome does not depend on earlier tracking\<close>

definition blind :: "'a tracked \<Rightarrow> bool" where
  "blind m = (\<forall>tr tr'. fst (m tr) = fst (m tr'))"

named_theorems blind_intros

lemma blind_basic [blind_intros]: "blind (doneT v)" "blind (failT e)" "blind (\<lambda>tr. (r, tr))"
  by (simp_all add: blind_def doneT_def failT_def)

lemma blind_bind [blind_intros]:
  assumes "blind m" "\<And>v. blind (f v)"
  shows "blind (bindT m f)"
  unfolding blind_def
proof (intro allI)
  fix tr tr'
  have "fst (m tr) = fst (m tr')" using assms(1) by (simp add: blind_def)
  moreover have "fst (f v a) = fst (f v b)" for v a b using assms(2) [of v] by (simp add: blind_def)
  ultimately show "fst (bindT m f tr) = fst (bindT m f tr')"
    by (cases "m tr"; cases "m tr'"; cases "fst (m tr)") (auto simp: bindT_def)
qed

lemma blind_each [blind_intros]: "(\<And>x. blind (f x)) \<Longrightarrow> blind (eachT f xs)"
  by (induction xs) (auto intro!: blind_intros)

lemma blind_opt [blind_intros]: "(\<And>x. blind (f x)) \<Longrightarrow> blind (optT f v)"
  by (cases v) (auto simp: optT_def intro!: blind_intros)

lemma blind_secret [blind_intros]: "blind (inline_secret env k)"
  by (auto simp: inline_secret_def blind_def doneT_def inlineAndTrackSecret_def TrackReference_def
      split: option.splits sum.splits list.splits)

lemma blind_configmap [blind_intros]: "blind (inline_configmap env p)"
  by (auto simp: inline_configmap_def blind_def doneT_def inlineAndTrackConfigMap_def TrackReference_def
      split: option.splits sum.splits)

lemma blind_simple [blind_intros]:
  "blind (inline_kms env k)" "blind (inline_remote_att env sp p)" "blind (inline_remote_spec env p)"
  by (auto simp: inline_kms_def inline_remote_att_def inline_remote_spec_def intro!: blind_intros split: sum.splits option.splits)

lemma blind_inline: "blind (inlinePublicKeys env cip)" "blind (inlinePolicies env cip)"
  unfolding inlinePublicKeys_def inlinePolicies_def inline_authority_keys_def inline_keyless_def inline_authority_policies_def
    inline_attestation_def
  by (intro blind_intros)+

section \<open>One reconciliation\<close>

text \<open>
  The policy with everything inlined, and the entry it is to have in the config map: none if
  something cannot be inlined.
\<close>

definition inlined_cip :: "('p, 'b) rec_env \<Rightarrow> 's ClusterImagePolicy \<Rightarrow> 's ClusterImagePolicy run" where
  "inlined_cip env cip =
     (case fst (inlinePublicKeys env cip []) of
        Done copy \<Rightarrow> fst (inlinePolicies env copy [])
      | Fail e \<Rightarrow> Fail e
      | Panicked \<Rightarrow> Panicked)"

definition wanted_entry :: "('p, 'b) rec_env \<Rightarrow> 's ClusterImagePolicy \<Rightarrow> string option" where
  "wanted_entry env cip =
     (case inlined_cip env cip of
        Done c \<Rightarrow> (case re_marshal env (ConvertClusterImagePolicyV1alpha1ToWebhook c) of Inl e \<Rightarrow> None | Inr entry \<Rightarrow> Some entry)
      | _ \<Rightarrow> None)"

lemma inlined_cip_runs:
  assumes "inlinePublicKeys env cip tr = (r, tr1)"
  shows "inlined_cip env cip =
    (case r of Done copy \<Rightarrow> fst (inlinePolicies env copy tr1) | Fail e \<Rightarrow> Fail e | Panicked \<Rightarrow> Panicked)"
proof -
  have "fst (inlinePublicKeys env cip []) = r" using assms blind_inline(1) [of env cip] unfolding blind_def by (metis fst_conv)
  moreover have "fst (inlinePolicies env copy []) = fst (inlinePolicies env copy tr1)" for copy
    using blind_inline(2) unfolding blind_def by blast
  ultimately show ?thesis by (cases r) (auto simp: inlined_cip_def)
qed

lemma inlined_cip_self_contained: "inlined_cip env cip = Done c \<Longrightarrow> self_contained (cip_Spec c)"
proof -
  assume c: "inlined_cip env cip = Done c"
  obtain r tr1 where k: "inlinePublicKeys env cip [] = (r, tr1)" by force
  from c obtain copy where r: "r = Done copy" and p: "fst (inlinePolicies env copy tr1) = Done c"
    by (cases r) (auto simp: inlined_cip_runs [OF k])
  then have "inlinePolicies env copy tr1 = (Done c, snd (inlinePolicies env copy tr1))" by (metis prod.collapse)
  from inlined_self_contained [OF k [unfolded r] this] show ?thesis .
qed

lemma handleCIPError_data:
  assumes "patch_laws (cv_patch (re_cm env))" "up_to_date (re_ConfigMap env ImagePoliciesConfigName) server"
  shows "data_of (handleCIPError env n server) \<in> {data_of server, (data_of server)(n := None)}"
    and "writes_ok (re_cm env) \<Longrightarrow> data_of (handleCIPError env n server) = (data_of server)(n := None)"
proof -
  have "data_of (handleCIPError env n server) \<in> {data_of server, (data_of server)(n := None)} \<and>
    (writes_ok (re_cm env) \<longrightarrow> data_of (handleCIPError env n server) = (data_of server)(n := None))"
  proof (cases server)
    case None
    with assms(2) show ?thesis by (auto simp: up_to_date_def handleCIPError_def)
  next
    case (Some d)
    with assms(2) obtain d' where l: "re_ConfigMap env ImagePoliciesConfigName = Inr d'" "map_of d' = map_of d"
      by (auto simp: up_to_date_def)
    obtain s' r where rem: "remove_entry (re_cm env) d' n (Some d) = (s', r)" by force
    show ?thesis
    proof (cases r)
      case None
      with patch_laws.remove_entry_data [OF assms(1) l(2) refl rem [unfolded None]] show ?thesis
        using l rem Some by (simp add: handleCIPError_def removeCIPEntry_def)
    next
      case (Some e)
      then show ?thesis
        using l rem \<open>server = Some d\<close> remove_entry_error [of "re_cm env" d' n "Some d" s' e]
          patch_laws.remove_entry_total [OF assms(1) _ refl l(2), of n]
        by (auto simp: handleCIPError_def removeCIPEntry_def)
    qed
  qed
  then show "data_of (handleCIPError env n server) \<in> {data_of server, (data_of server)(n := None)}"
    and "writes_ok (re_cm env) \<Longrightarrow> data_of (handleCIPError env n server) = (data_of server)(n := None)" by blast+
qed

text \<open>The conditions at the end of a run.\<close>

lemma conditions_after_success:
  assumes "condition_laws kc"
  shows "cond_status_of kc ConditionReady (CIP_MarkCMUpdatedOK kc (CIP_MarkInlinePoliciesOk kc (CIP_MarkInlineKeysOk kc s))) =
    Some CondTrue"
proof -
  have o: "t \<noteq> u \<Longrightarrow> t \<noteq> ConditionReady \<Longrightarrow> cond_status_of kc t (kc_MarkTrue kc cipCondSet u s) = cond_status_of kc t s" for t u s
    by (rule condition_laws.status_true_other [OF assms])
  have t: "t \<noteq> ConditionReady \<Longrightarrow> cond_status_of kc t (kc_MarkTrue kc cipCondSet t s) = Some CondTrue" for t s
    by (rule condition_laws.true_self [OF assms])
  show ?thesis
    unfolding cip_life_defs
    by (subst condition_laws.true_ready [OF assms _ cip_cond_ready(1)])
      (simp_all add: cipCondSet_def, simp_all add: o t ConditionReady_def cipCondSet_def [symmetric])
qed

lemma conditions_after_failure:
  assumes "condition_laws kc"
  shows "cond_status_of kc ConditionReady (CIP_MarkInlineKeysFailed kc e s) = Some CondFalse"
    "cond_status_of kc ConditionReady (CIP_MarkInlinePoliciesFailed kc e s) = Some CondFalse"
    "cond_status_of kc ConditionReady (CIP_MarkCMUpdateFailed kc e s) = Some CondFalse"
  unfolding cip_life_defs by (intro condition_laws.false_ready [OF assms]; simp add: cipCondSet_def)+

lemma reconcile_failed:
  assumes "inlined_cip env cip = Fail e"
  shows "rr_server (CIP_ReconcileKind kc env cip server tr) = handleCIPError env (om_Name (cip_ObjectMeta cip)) server"
    and "rr_event (CIP_ReconcileKind kc env cip server tr) = Fail e"
    and "condition_laws kc \<Longrightarrow> cond_status_of kc ConditionReady (rr_conds (CIP_ReconcileKind kc env cip server tr)) = Some CondFalse"
proof -
  obtain r tr1 where k: "inlinePublicKeys env cip tr = (r, tr1)" by force
  show "rr_server (CIP_ReconcileKind kc env cip server tr) = handleCIPError env (om_Name (cip_ObjectMeta cip)) server"
    and "rr_event (CIP_ReconcileKind kc env cip server tr) = Fail e"
    and "condition_laws kc \<Longrightarrow> cond_status_of kc ConditionReady (rr_conds (CIP_ReconcileKind kc env cip server tr)) = Some CondFalse"
    using assms k unfolding inlined_cip_runs [OF k]
    by (auto simp: CIP_ReconcileKind_def Let_def conditions_after_failure split: run.splits prod.splits)
qed

lemma reconcile_inlined:
  assumes "inlined_cip env cip = Done c"
  obtains tr' s where "CIP_ReconcileKind kc env cip server tr =
    (case store_entry (re_cm env) (re_ConfigMap env ImagePoliciesConfigName) (re_marshal env) (om_Name (cip_ObjectMeta cip))
            (ConvertClusterImagePolicyV1alpha1ToWebhook c) server of
       (server', Some e) \<Rightarrow>
         \<lparr>rr_server = server', rr_tracks = tr', rr_conds = CIP_MarkCMUpdateFailed kc e s, rr_event = Fail e\<rparr>
     | (server', None) \<Rightarrow> \<lparr>rr_server = server', rr_tracks = tr', rr_conds = CIP_MarkCMUpdatedOK kc s, rr_event = Done ()\<rparr>)"
    and "\<exists>s0. s = CIP_MarkInlinePoliciesOk kc (CIP_MarkInlineKeysOk kc s0)"
proof -
  obtain r tr1 where k: "inlinePublicKeys env cip tr = (r, tr1)" by force
  from assms obtain copy where r: "r = Done copy" and "fst (inlinePolicies env copy tr1) = Done c"
    by (cases r) (auto simp: inlined_cip_runs [OF k])
  then obtain tr2 where p: "inlinePolicies env copy tr1 = (Done c, tr2)" by (metis prod.collapse)
  show thesis
    by (rule that [OF _ exI, OF _ refl, of tr2 "CIP_InitializeConditions kc (rst_Conditions (cip_Status cip))"])
      (simp add: CIP_ReconcileKind_def Let_def k r p)
qed

lemma reconcile_stored:
  assumes "patch_laws (cv_patch (re_cm env))" "writes_ok (re_cm env)" "is_ok (re_marshal env (ConvertClusterImagePolicyV1alpha1ToWebhook c))"
    and "up_to_date (re_ConfigMap env ImagePoliciesConfigName) server" "inlined_cip env cip = Done c"
  obtains entry s0 where "re_marshal env (ConvertClusterImagePolicyV1alpha1ToWebhook c) = Ok entry"
    and "data_of (rr_server (CIP_ReconcileKind kc env cip server tr)) = (data_of server)(om_Name (cip_ObjectMeta cip) \<mapsto> entry)"
    and "rr_event (CIP_ReconcileKind kc env cip server tr) = Done ()"
    and "rr_conds (CIP_ReconcileKind kc env cip server tr) =
      CIP_MarkCMUpdatedOK kc (CIP_MarkInlinePoliciesOk kc (CIP_MarkInlineKeysOk kc s0))"
proof -
  from assms(3) obtain entry where m: "re_marshal env (ConvertClusterImagePolicyV1alpha1ToWebhook c) = Ok entry"
    by (cases "re_marshal env (ConvertClusterImagePolicyV1alpha1ToWebhook c)") (auto simp: is_ok_def)
  from patch_laws.store_entry_total [where marshal = "re_marshal env", OF assms(1,2) refl assms(4) m] obtain s' where
    st: "store_entry (re_cm env) (re_ConfigMap env ImagePoliciesConfigName) (re_marshal env) (om_Name (cip_ObjectMeta cip))
      (ConvertClusterImagePolicyV1alpha1ToWebhook c) server = (s', None)" by blast
  obtain tr' s0 where r: "CIP_ReconcileKind kc env cip server tr =
      \<lparr>rr_server = s', rr_tracks = tr',
       rr_conds = CIP_MarkCMUpdatedOK kc (CIP_MarkInlinePoliciesOk kc (CIP_MarkInlineKeysOk kc s0)), rr_event = Done ()\<rparr>"
    by (rule reconcile_inlined [OF assms(5), of kc server tr]) (auto simp: st)
  show thesis
    using patch_laws.store_entry_data [where marshal = "re_marshal env", OF assms(1,4) refl m st]
    by (intro that [OF m, of s0]) (simp_all add: r)
qed

lemma reconciled_data:
  assumes "patch_laws (cv_patch (re_cm env))" "writes_ok (re_cm env)" "\<forall>w. is_ok (re_marshal env w)"
    and "up_to_date (re_ConfigMap env ImagePoliciesConfigName) server" "inlined_cip env cip \<noteq> Panicked"
  shows "data_of (rr_server (CIP_ReconcileKind kc env cip server tr)) =
      (data_of server)(om_Name (cip_ObjectMeta cip) := wanted_entry env cip)"
proof (cases "inlined_cip env cip")
  case (Done c)
  show ?thesis
    by (rule reconcile_stored [OF assms(1,2) spec [OF assms(3)] assms(4) Done, of kc tr]) (simp add: wanted_entry_def Done)
next
  case (Fail e)
  with reconcile_failed(1) [OF Fail] handleCIPError_data(2) [OF assms(1,4,2)] show ?thesis by (simp add: wanted_entry_def)
qed (use assms(5) in simp)

text \<open>
  C25. One reconciliation of a policy, when the lister is up to date, writes succeed and nothing
  panics: afterwards the config map differs from before at most in the entry of this policy,
  which is the policy's own webhook form with every secret, key management and policy
  reference resolved, or is absent when something could not be resolved; the run reports success and
  the policy is Ready exactly in the first case.
\<close>

theorem reconcile_exact:
  assumes "patch_laws (cv_patch (re_cm env))" "condition_laws kc" "writes_ok (re_cm env)" "\<forall>w. is_ok (re_marshal env w)"
    and "up_to_date (re_ConfigMap env ImagePoliciesConfigName) server" "inlined_cip env cip \<noteq> Panicked"
  shows "data_of (rr_server (CIP_ReconcileKind kc env cip server tr)) =
      (data_of server)(om_Name (cip_ObjectMeta cip) := wanted_entry env cip) \<and>
    (case inlined_cip env cip of
       Done c \<Rightarrow> self_contained (cip_Spec c) \<and> wanted_entry env cip \<noteq> None \<and>
         rr_event (CIP_ReconcileKind kc env cip server tr) = Done () \<and>
         cond_status_of kc ConditionReady (rr_conds (CIP_ReconcileKind kc env cip server tr)) = Some CondTrue
     | Fail e \<Rightarrow> wanted_entry env cip = None \<and> rr_event (CIP_ReconcileKind kc env cip server tr) = Fail e \<and>
         cond_status_of kc ConditionReady (rr_conds (CIP_ReconcileKind kc env cip server tr)) = Some CondFalse
     | Panicked \<Rightarrow> False)"
proof (cases "inlined_cip env cip")
  case (Done c)
  obtain entry s0 where r: "re_marshal env (ConvertClusterImagePolicyV1alpha1ToWebhook c) = Ok entry"
    "rr_event (CIP_ReconcileKind kc env cip server tr) = Done ()"
    "rr_conds (CIP_ReconcileKind kc env cip server tr) = CIP_MarkCMUpdatedOK kc (CIP_MarkInlinePoliciesOk kc (CIP_MarkInlineKeysOk kc s0))"
    by (rule reconcile_stored [OF assms(1,3) spec [OF assms(4)] assms(5) Done, of kc tr])
  show ?thesis
    using reconciled_data [OF assms(1,3-6)] inlined_cip_self_contained [OF Done] conditions_after_success [OF assms(2)]
    by (simp add: Done wanted_entry_def r)
next
  case (Fail e)
  with reconcile_failed [OF Fail] reconciled_data [OF assms(1,3-6)] assms(2) show ?thesis by (simp add: wanted_entry_def)
qed (use assms(6) in simp)

text \<open>A cluster with one secret and one policy that refers to it.\<close>

definition sample_rec_env :: "(get_err + cm_data) \<Rightarrow> (cm_op, cm_op) rec_env" where
  "sample_rec_env listed = \<lparr>
     re_x = sample_externals, re_Track_err = (\<lambda>_ _. None),
     re_Secret = (\<lambda>n. if n = ''keys'' then Inr [(''cosign.pub'', ''pem'')] else Inl (NotFound ''secret not found'')),
     re_ConfigMap = (\<lambda>n. if n = ImagePoliciesConfigName then listed else Inl (NotFound ''configmap not found'')),
     re_kms_Get = (\<lambda>_ _. Err ''no such key''), re_PublicKeyPem = Ok, re_http_Get = (\<lambda>_. Err ''connection refused''),
     re_sha256 = id, re_marshal = (\<lambda>w. Ok (wc_UID w @ wc_ResourceVersion w)),
     re_cm = \<lparr>cv_patch = diff_api, cv_Create_err = None, cv_Patch_err = None\<rparr>\<rparr>"

definition sample_secret_cip :: "string \<Rightarrow> cond_table resource_status ClusterImagePolicy" where
  "sample_secret_cip secret = sample_ready_cip\<lparr>cip_Spec := zero_Spec\<lparr>cs_Authorities :=
     [zero_Authority\<lparr>au_Key := Some (zero_KeyRef\<lparr>kr_SecretRef := Some \<lparr>sr_Name = secret, sr_Namespace = ''''\<rparr>\<rparr>)\<rparr>]\<rparr>\<rparr>"

lemma sample_writes_ok: "writes_ok (re_cm (sample_rec_env l))"
  by (simp add: writes_ok_def sample_rec_env_def diff_api_def is_ok_def)

lemma sample_patch_laws: "patch_laws (cv_patch (re_cm (sample_rec_env l)))"
  using diff.patch_laws_axioms by (simp add: sample_rec_env_def)

lemmas inline_defs = inlined_cip_def inlinePublicKeys_def inlinePolicies_def inline_authority_keys_def inline_authority_policies_def
  inline_secret_def inlineAndTrackSecret_def TrackReference_def inline_kms_def bindT_def doneT_def failT_def optT_def

lemma sample_inlined: "inlined_cip (sample_rec_env l) (sample_secret_cip ''keys'') =
    Done ((sample_secret_cip ''keys'')\<lparr>cip_Spec := zero_Spec\<lparr>cs_Authorities :=
      [zero_Authority\<lparr>au_Key := Some (zero_KeyRef\<lparr>kr_Data := ''pem''\<rparr>)\<rparr>]\<rparr>\<rparr>)"
  by (simp add: inline_defs sample_rec_env_def sample_secret_cip_def sample_ready_cip_def zero_defs sample_externals_def)

lemma sample_wanted: "wanted_entry (sample_rec_env l) (sample_secret_cip ''keys'') = Some ''uid-17''"
  by (simp add: wanted_entry_def sample_inlined)
    (simp add: sample_rec_env_def ConvertClusterImagePolicyV1alpha1ToWebhook_def sample_secret_cip_def sample_ready_cip_def)

theorem reconcile_exact_witness:
  "data_of (rr_server (CIP_ReconcileKind table_api (sample_rec_env (Inl (NotFound ''none''))) (sample_secret_cip ''keys'') None [])) =
     Map.empty(''policy'' \<mapsto> ''uid-17'')"
proof -
  have "\<forall>w. is_ok (re_marshal (sample_rec_env l) w)" for l by (simp add: sample_rec_env_def is_ok_def)
  moreover have "up_to_date (re_ConfigMap (sample_rec_env (Inl (NotFound ''none''))) ImagePoliciesConfigName) None"
    by (simp add: up_to_date_def sample_rec_env_def)
  ultimately show ?thesis
    using reconcile_exact [OF sample_patch_laws tab.condition_laws_axioms sample_writes_ok, of "Inl (NotFound ''none'')" None
        "sample_secret_cip ''keys''" "[]"]
    by (simp add: sample_inlined sample_wanted) (simp add: sample_secret_cip_def sample_ready_cip_def)
qed

section \<open>Histories of a cluster\<close>

text \<open>
  A cluster: the versions of each policy that were applied since it was created, and the
  config map. Policies are applied, reconciled in any of their versions (the lister may lag),
  and deleted, which removes the object once finalization succeeds. What the environment
  answers changes from step to step; writes may fail.
\<close>

inductive cluster :: "('p, 'b) rec_env set \<Rightarrow> 's cond_api \<Rightarrow> (string \<Rightarrow> ClusterImagePolicySpec set) \<Rightarrow> cm_data option \<Rightarrow> bool"
  for E :: "('p, 'b) rec_env set" and kc :: "'s cond_api" where
  empty_cluster: "cluster E kc (\<lambda>_. {}) None"
| apply_policy: "cluster E kc vs server \<Longrightarrow> cluster E kc (vs(n := insert spec (vs n))) server"
| reconcile: "cluster E kc vs server \<Longrightarrow> cip_Spec cip \<in> vs (om_Name (cip_ObjectMeta cip)) \<Longrightarrow> env \<in> E \<Longrightarrow>
    up_to_date (re_ConfigMap env ImagePoliciesConfigName) server \<Longrightarrow>
    cluster E kc vs (rr_server (CIP_ReconcileKind kc env cip server tr))"
| finalized: "cluster E kc vs server \<Longrightarrow> env \<in> E \<Longrightarrow> up_to_date (re_ConfigMap env ImagePoliciesConfigName) server \<Longrightarrow>
    CIP_FinalizeKind env (cip :: 's resource_status ClusterImagePolicy) server = (server', None) \<Longrightarrow>
    cluster E kc (vs(om_Name (cip_ObjectMeta cip) := {})) server'"
| finalizer_failed: "cluster E kc vs server \<Longrightarrow> env \<in> E \<Longrightarrow>
    CIP_FinalizeKind env (cip :: 's resource_status ClusterImagePolicy) server = (server', Some err) \<Longrightarrow> cluster E kc vs server'"

lemma reconcile_data:
  assumes "patch_laws (cv_patch (re_cm env))" "up_to_date (re_ConfigMap env ImagePoliciesConfigName) server"
    and "n = om_Name (cip_ObjectMeta cip)"
  shows "data_of (rr_server (CIP_ReconcileKind kc env cip server tr)) \<in>
    {data_of server, (data_of server)(n := None), (data_of server)(n := wanted_entry env cip)}"
proof (cases "inlined_cip env cip")
  case (Done c)
  obtain s' r where st: "store_entry (re_cm env) (re_ConfigMap env ImagePoliciesConfigName) (re_marshal env) n
      (ConvertClusterImagePolicyV1alpha1ToWebhook c) server = (s', r)" by force
  have s: "rr_server (CIP_ReconcileKind kc env cip server tr) = s'"
    by (rule reconcile_inlined [OF Done, of kc server tr]) (auto simp: st assms(3) [symmetric] split: option.splits)
  show ?thesis
  proof (cases r)
    case None
    with st obtain entry where "re_marshal env (ConvertClusterImagePolicyV1alpha1ToWebhook c) = Ok entry"
      by (auto simp: store_entry_def NewConfigMap_def CreatePatch_def split: sum.splits get_err.splits)
    then show ?thesis
      using patch_laws.store_entry_data [where marshal = "re_marshal env", OF assms(1,2) refl _ st [unfolded None]] s
      by (simp add: wanted_entry_def Done)
  next
    case (Some e)
    from store_entry_error [OF st [unfolded Some]] s show ?thesis by simp
  qed
next
  case (Fail e)
  with reconcile_failed(1) [OF Fail] handleCIPError_data(1) [OF assms(1,2)] assms(3) show ?thesis by auto
next
  case Panicked
  obtain r tr1 where k: "inlinePublicKeys env cip tr = (r, tr1)" by force
  have "rr_server (CIP_ReconcileKind kc env cip server tr) = server"
    using Panicked k unfolding inlined_cip_runs [OF k]
    by (auto simp: CIP_ReconcileKind_def Let_def split: run.splits prod.splits)
  then show ?thesis by simp
qed

lemma finalize_data:
  assumes "patch_laws (cv_patch (re_cm env))" "up_to_date (re_ConfigMap env ImagePoliciesConfigName) server"
    and "CIP_FinalizeKind env cip server = (server', None)"
  shows "data_of server' = (data_of server)(om_Name (cip_ObjectMeta cip) := None)"
proof (cases server)
  case None
  with assms show ?thesis by (auto simp: up_to_date_def CIP_FinalizeKind_def)
next
  case (Some d)
  with assms(2) obtain d' where l: "re_ConfigMap env ImagePoliciesConfigName = Inr d'" "map_of d' = map_of d"
    by (auto simp: up_to_date_def)
  with assms(3) Some have "remove_entry (re_cm env) d' (om_Name (cip_ObjectMeta cip)) (Some d) = (server', None)"
    by (simp add: CIP_FinalizeKind_def removeCIPEntry_def)
  from patch_laws.remove_entry_data [OF assms(1) l(2) refl this] Some show ?thesis by simp
qed

lemma finalize_error: "CIP_FinalizeKind env cip server = (server', Some err) \<Longrightarrow> server' = server"
  using remove_entry_error by (auto simp: CIP_FinalizeKind_def removeCIPEntry_def split: sum.splits get_err.splits)

text \<open>
  In every history of a cluster, whatever fails on the way, each entry of the config map
  belongs to a policy that exists and is the fully inlined webhook form of a version of it
  that was applied: a deleted policy leaves no entry behind, and no entry refers to a secret, a
  key management service or a remote policy any more.
\<close>

theorem cluster_entries_belong_to_policies:
  fixes kc :: "'s cond_api" and E :: "('p, 'b) rec_env set"
  assumes "cluster E kc vs server" "\<forall>env \<in> E. patch_laws (cv_patch (re_cm env))" "data_of server n = Some v"
  shows "\<exists>env \<in> E. \<exists>cip :: 's resource_status ClusterImagePolicy. \<exists>c. om_Name (cip_ObjectMeta cip) = n \<and> cip_Spec cip \<in> vs n \<and>
    inlined_cip env cip = Done c \<and> self_contained (cip_Spec c) \<and>
    re_marshal env (ConvertClusterImagePolicyV1alpha1ToWebhook c) = Ok v"
proof -
  define good where "good vs n v \<longleftrightarrow> (\<exists>env \<in> E. \<exists>cip :: 's resource_status ClusterImagePolicy.
    om_Name (cip_ObjectMeta cip) = n \<and> cip_Spec cip \<in> vs n \<and> wanted_entry env cip = Some v)"
    for vs :: "string \<Rightarrow> ClusterImagePolicySpec set" and n v
  have "\<forall>n v. data_of server n = Some v \<longrightarrow> good vs n v"
    using assms(1)
  proof (induction rule: cluster.induct)
    case empty_cluster
    then show ?case by simp
  next
    case (apply_policy vs server n spec)
    then show ?case unfolding good_def by (metis fun_upd_apply insertCI)
  next
    case (reconcile vs server cip env tr)
    then have "good vs (om_Name (cip_ObjectMeta cip)) v" if "wanted_entry env cip = Some v" for v
      using that unfolding good_def by blast
    with reconcile.IH reconcile_data [of env server "om_Name (cip_ObjectMeta cip)" cip kc tr] reconcile.hyps assms(2)
    show ?case by (auto split: if_splits)
  next
    case (finalized vs server env cip server')
    with finalize_data [of env server cip server'] assms(2) show ?case by (auto simp: good_def split: if_splits)
  next
    case (finalizer_failed vs server env cip server' err)
    with finalize_error show ?case by blast
  qed
  with assms(3) have "good vs n v" by blast
  then show ?thesis
    unfolding good_def wanted_entry_def
    by (fastforce simp: inlined_cip_self_contained split: run.splits sum.splits)
qed

lemma sample_reconciled:
  "rr_server (CIP_ReconcileKind table_api (sample_rec_env (Inl (NotFound ''none''))) (sample_secret_cip ''keys'') None []) =
     Some [(''policy'', ''uid-17'')]"
proof -
  let ?env = "sample_rec_env (Inl (NotFound ''none''))" and ?cip = "sample_secret_cip ''keys''"
  have n: "om_Name (cip_ObjectMeta ?cip) = ''policy''" by (simp add: sample_secret_cip_def sample_ready_cip_def)
  have m: "re_marshal ?env (ConvertClusterImagePolicyV1alpha1ToWebhook (?cip\<lparr>cip_Spec := sp\<rparr>)) = Ok ''uid-17''" for sp
    by (simp add: sample_rec_env_def ConvertClusterImagePolicyV1alpha1ToWebhook_def sample_secret_cip_def sample_ready_cip_def)
  have l: "re_ConfigMap ?env ImagePoliciesConfigName = Inl (NotFound ''none'')" "cv_Create_err (re_cm ?env) = None"
    by (simp_all add: sample_rec_env_def)
  show ?thesis
    by (rule reconcile_inlined [OF sample_inlined, of table_api "Inl (NotFound ''none'')" None "[]"])
      (simp only: n, simp add: store_entry_def l NewConfigMap_def m create_cm_def)
qed

theorem cluster_entries_belong_to_policies_witness:
  "\<exists>env \<in> {sample_rec_env (Inl (NotFound ''none''))}. \<exists>cip :: cond_table resource_status ClusterImagePolicy. \<exists>c.
     om_Name (cip_ObjectMeta cip) = ''policy'' \<and> cip_Spec cip \<in> {cip_Spec (sample_secret_cip ''keys'')} \<and>
     inlined_cip env cip = Done c \<and> self_contained (cip_Spec c) \<and>
     re_marshal env (ConvertClusterImagePolicyV1alpha1ToWebhook c) = Ok ''uid-17''"
proof -
  let ?env = "sample_rec_env (Inl (NotFound ''none''))" and ?cip = "sample_secret_cip ''keys''"
  let ?r = "CIP_ReconcileKind table_api ?env ?cip None []"
  have n: "om_Name (cip_ObjectMeta ?cip) = ''policy''" by (simp add: sample_secret_cip_def sample_ready_cip_def)
  have u: "up_to_date (re_ConfigMap ?env ImagePoliciesConfigName) None" by (simp add: up_to_date_def sample_rec_env_def)
  have "cluster {?env} table_api ((\<lambda>_. {})(''policy'' := {cip_Spec ?cip})) None"
    using cluster.apply_policy [OF cluster.empty_cluster, of "{?env}" table_api "''policy''" "cip_Spec ?cip"] by simp
  then have c: "cluster {?env} table_api ((\<lambda>_. {})(''policy'' := {cip_Spec ?cip})) (rr_server ?r)"
    by (rule cluster.reconcile) (use n u in simp_all)
  have "data_of (rr_server ?r) ''policy'' = Some ''uid-17''" by (simp add: sample_reconciled)
  from cluster_entries_belong_to_policies [OF c _ this] sample_patch_laws show ?thesis by simp
qed

section \<open>A remote policy that cannot be fetched\<close>

text \<open>
  When the remote policy of the first attestation cannot be inlined and the resource has no
  remote policy of its own, the log line that reports the failure dereferences a nil pointer: the
  run panics, the entry stays in the config map and no condition says so.
\<close>

lemma unfetched_attestation_policy_panics:
  assumes "inlinePublicKeys env cip tr = (Done copy, tr1)"
    and "cs_Authorities (cip_Spec copy) = a # as" "au_Attestations a = att # ats" "at_Policy att = Some p"
    and "po_ConfigMapRef p = None" "po_Remote p = Some r" "inlinePolicyURL env p r = Err e"
    and "case cs_Policy (cip_Spec copy) of None \<Rightarrow> True | Some sp \<Rightarrow> po_Remote sp = None"
  shows "rr_event (CIP_ReconcileKind kc env cip server tr) = Panicked"
    and "rr_server (CIP_ReconcileKind kc env cip server tr) = server"
proof -
  have "fst (inlinePolicies env copy tr1) = Panicked"
    using assms(2-8)
    by (auto simp: inlinePolicies_def inline_authority_policies_def inline_attestation_def inline_configmap_def
        inline_remote_att_def bindT_def optT_def doneT_def split: option.splits)
  with assms(1) show "rr_event (CIP_ReconcileKind kc env cip server tr) = Panicked"
    and "rr_server (CIP_ReconcileKind kc env cip server tr) = server"
    by (auto simp: CIP_ReconcileKind_def Let_def split: run.splits prod.splits)
qed

end
