(* ===== verification/TrustRootReconciler.thy ===== *)
theory TrustRootReconciler
  imports Conditions ConfigMaps SigstoreConfig TufClient
begin

text \<open>
  The reconciler of trust roots, \<open>pkg/reconciler/trustroot/trustroot.go\<close> with
  \<open>resources/configmap.go\<close>: it gets the keys of a Sigstore instance from a TUF repository (mirrored
  in the resource or remote) or from the resource itself, computes the identifiers of the logs and
  keeps the entry in the config map \<open>config-sigstore-keys\<close>.
\<close>

section \<open>Keys from TUF\<close>

datatype usage_kind = UnknownUsage | Fulcio | Rekor | CTFE | TSA

record customMetadata =
  cu_Usage :: usage_kind
  cu_URI :: string

record ('p, 'b) trust_rec_env =
  tre_x :: externals
  tre_decode :: pem_decoder
  tre_GetTransparencyLogID :: "pubkey option \<Rightarrow> string go_result"
  tre_tuf :: tuf_env
  tre_proto_Unmarshal :: "string \<Rightarrow> pb_TrustedRoot go_result"
  tre_custom_Unmarshal :: "string \<Rightarrow> customMetadata go_result"
  tre_proto_Marshal :: "pb_TrustedRoot \<Rightarrow> string go_result"
  tre_ConfigMap :: "get_err + cm_data"
  tre_cm :: "('p, 'b) cm_env"

definition pemToKeyAndID :: "('p, 'b) trust_rec_env \<Rightarrow> string \<Rightarrow> (pubkey option \<times> string) go_result" where
  "pemToKeyAndID env pem =
     (case x_UnmarshalPEMToPublicKey (tre_x env) pem of
        Inl e \<Rightarrow> Err (wrap_err ''unmarshaling PEM public key'' e)
      | Inr pk \<Rightarrow>
          (case tre_GetTransparencyLogID env pk of
             Inl e \<Rightarrow> Err (wrap_err ''failed to construct LogID for rekor'' e)
           | Inr logID \<Rightarrow> Ok (pk, logID)))"

definition genTransparencyLogInstance :: "('p, 'b) trust_rec_env \<Rightarrow> string \<Rightarrow> string \<Rightarrow> pb_TransparencyLogInstance go_result" where
  "genTransparencyLogInstance env baseURL pkBytes =
     (case DeserializePublicKey (tre_decode env) (tre_x env) pkBytes of
        Inl e \<Rightarrow> Err (wrap_err ''unmarshaling PEM public key'' e)
      | Inr (pbpk, pk) \<Rightarrow>
          (case tre_GetTransparencyLogID env pk of
             Inl e \<Rightarrow> Err (wrap_err ''failed to construct LogID'' e)
           | Inr logID \<Rightarrow>
               Ok \<lparr>pt_BaseUrl = baseURL, pt_HashAlgorithm = SHA2_256, pt_PublicKey = pbpk, pt_KeyId = logID\<rparr>))"

definition empty_TrustedRoot :: pb_TrustedRoot where
  "empty_TrustedRoot = \<lparr>pr_MediaType = '''', pr_CertificateAuthorities = [], pr_Tlogs = [], pr_Ctlogs = [],
     pr_TimestampAuthorities = []\<rparr>"

text \<open>One target with custom metadata of the legacy enumeration.\<close>

definition add_target :: "('p, 'b) trust_rec_env \<Rightarrow> customMetadata \<Rightarrow> string \<Rightarrow> pb_TrustedRoot \<Rightarrow> pb_TrustedRoot go_result" where
  "add_target env scm data ret =
     (case cu_Usage scm of
        Fulcio \<Rightarrow>
          (case DeserializeCertChain (tre_decode env) data of
             Inl e \<Rightarrow> Err (wrap_err ''deserializing certificate chain'' e)
           | Inr certChain \<Rightarrow>
               Ok (ret\<lparr>pr_CertificateAuthorities := pr_CertificateAuthorities ret @
                    [\<lparr>pc_Organization = '''', pc_CommonName = '''', pc_Uri = cu_URI scm, pc_CertChain = certChain, pc_ValidFrom = 0\<rparr>]\<rparr>))
      | CTFE \<Rightarrow>
          (case genTransparencyLogInstance env (cu_URI scm) data of
             Inl e \<Rightarrow> Err (wrap_err ''creating transparency log instance'' e)
           | Inr tlog \<Rightarrow> Ok (ret\<lparr>pr_Ctlogs := pr_Ctlogs ret @ [tlog]\<rparr>))
      | Rekor \<Rightarrow>
          (case genTransparencyLogInstance env (cu_URI scm) data of
             Inl e \<Rightarrow> Err (wrap_err ''creating transparency log instance'' e)
           | Inr tlog \<Rightarrow> Ok (ret\<lparr>pr_Tlogs := pr_Tlogs ret @ [tlog]\<rparr>))
      | _ \<Rightarrow> Ok ret)"

text \<open>The loop over the targets, in the order one iteration over the map visits them.\<close>

fun target_loop :: "('p, 'b) trust_rec_env \<Rightarrow> TUFClient \<Rightarrow> target_files \<Rightarrow> pb_TrustedRoot \<Rightarrow> pb_TrustedRoot go_result" where
  "target_loop env c [] ret = Ok ret"
| "target_loop env c ((name, custom) # targets) ret =
     (case custom of
        None \<Rightarrow> target_loop env c targets ret
      | Some j \<Rightarrow>
          (case tre_custom_Unmarshal env j of
             Inl e \<Rightarrow> target_loop env c targets ret
           | Inr scm \<Rightarrow>
               (case GetTarget c name of
                  Inl e \<Rightarrow> Err (wrap_err (''downloading target '' @ name) e)
                | Inr data \<Rightarrow>
                    (case add_target env scm data ret of
                       Inl e \<Rightarrow> Err e
                     | Inr ret' \<Rightarrow> target_loop env c targets ret'))))"

definition GetSigstoreKeysFromTuf :: "('p, 'b) trust_rec_env \<Rightarrow> TUFClient \<Rightarrow> string \<Rightarrow> pb_TrustedRoot go_result" where
  "GetSigstoreKeysFromTuf env c trustedRootTarget =
     (case GetTarget c trustedRootTarget of
        Inr data \<Rightarrow>
          (case tre_proto_Unmarshal env data of
             Inl e \<Rightarrow> Err (wrap_err (''parsing '' @ trustedRootTarget) e)
           | Inr ret \<Rightarrow> Ok ret)
      | Inl err \<Rightarrow>
          if \<not> str_contains err ''not found'' then Err (wrap_err (''fetching '' @ trustedRootTarget) err)
          else (case snd (GetTopLevelTargets (tre_tuf env) c) of
                  Inl e \<Rightarrow> Err (wrap_err ''getting top-level targets'' e)
                | Inr targets \<Rightarrow>
                    (case target_loop env c targets empty_TrustedRoot of
                       Inl e \<Rightarrow> Err e
                     | Inr ret \<Rightarrow>
                         if pr_CertificateAuthorities ret = [] then Err ''no certificate authorities found'' else Ok ret)))"

definition getSigstoreKeysFromMirrorFS :: "('p, 'b) trust_rec_env \<Rightarrow> Repository \<Rightarrow> pb_TrustedRoot go_result" where
  "getSigstoreKeysFromMirrorFS env repository =
     (case ClientFromSerializedMirror (tre_tuf env) (ry_MirrorFS repository) (ry_Root repository) (ry_Targets repository)
             DefaultTUFRepoPrefix of
        Inl e \<Rightarrow> Err (wrap_err ''failed to construct TUF client from mirror'' e)
      | Inr tufClient \<Rightarrow>
          GetSigstoreKeysFromTuf env tufClient
            (if ry_TrustedRootTarget repository \<noteq> '''' then ry_TrustedRootTarget repository else ''trusted_root.json''))"

definition getSigstoreKeysFromRemote :: "('p, 'b) trust_rec_env \<Rightarrow> Remote \<Rightarrow> pb_TrustedRoot go_result" where
  "getSigstoreKeysFromRemote env remote =
     (case ClientFromRemote (tre_tuf env) (re_Mirror remote) (re_Root remote) (re_Targets remote) of
        Inl e \<Rightarrow> Err (wrap_err ''failed to construct TUF client from remote'' e)
      | Inr tufClient \<Rightarrow>
          GetSigstoreKeysFromTuf env tufClient
            (if re_TrustedRootTarget remote \<noteq> '''' then re_TrustedRootTarget remote else ''trusted_root.json''))"

section \<open>The config map\<close>

definition TR_Marshal :: "('p, 'b) trust_rec_env \<Rightarrow> pb_TrustedRoot \<Rightarrow> string go_result" where
  "TR_Marshal env spec = tre_proto_Marshal env spec"

definition TR_NewConfigMap :: "('p, 'b) trust_rec_env \<Rightarrow> string \<Rightarrow> pb_TrustedRoot \<Rightarrow> cm_data go_result" where
  "TR_NewConfigMap env trName sk = (case TR_Marshal env sk of Inl e \<Rightarrow> Err e | Inr entry \<Rightarrow> Ok [(trName, entry)])"

definition TR_CreatePatch :: "('p, 'b) trust_rec_env \<Rightarrow> string \<Rightarrow> cm_data \<Rightarrow> pb_TrustedRoot \<Rightarrow> 'b list go_result" where
  "TR_CreatePatch env tkName cm sk =
     (case TR_Marshal env sk of
        Inl e \<Rightarrow> Err e
      | Inr entry \<Rightarrow> patch_bytes (cv_patch (tre_cm env)) cm (map_assign tkName entry cm))"

definition TR_CreateRemovePatch :: "('p, 'b) trust_rec_env \<Rightarrow> cm_data \<Rightarrow> string \<Rightarrow> 'b list go_result" where
  "TR_CreateRemovePatch env cm tkName = patch_bytes (cv_patch (tre_cm env)) cm (del_key tkName cm)"

definition TR_store :: "('p, 'b) trust_rec_env \<Rightarrow> string \<Rightarrow> pb_TrustedRoot \<Rightarrow> cm_data option \<Rightarrow> cm_data option \<times> string option" where
  "TR_store env trName sk server =
     (case tre_ConfigMap env of
        Inl (GetFailed e) \<Rightarrow> (server, Some e)
      | Inl (NotFound _) \<Rightarrow>
          (case TR_NewConfigMap env trName sk of
             Inl e \<Rightarrow> (server, Some e)
           | Inr cm \<Rightarrow> create_cm (tre_cm env) server cm)
      | Inr existing \<Rightarrow>
          (case TR_CreatePatch env trName existing sk of
             Inl e \<Rightarrow> (server, Some e)
           | Inr bs \<Rightarrow> if bs \<noteq> [] then patch_cm (tre_cm env) server bs else (server, None)))"

definition removeTrustRootEntry :: "('p, 'b) trust_rec_env \<Rightarrow> cm_data \<Rightarrow> string \<Rightarrow> cm_data option \<Rightarrow> cm_data option \<times> string option" where
  "removeTrustRootEntry env cm trustrootName server =
     (case TR_CreateRemovePatch env cm trustrootName of
        Inl e \<Rightarrow> (server, Some e)
      | Inr bs \<Rightarrow> if bs \<noteq> [] then patch_cm (tre_cm env) server bs else (server, None))"

text \<open>Both reconcilers keep their config map the same way.\<close>

lemma TR_store_entry: "TR_store env n sk server = store_entry (tre_cm env) (tre_ConfigMap env) (TR_Marshal env) n sk server"
  unfolding TR_store_def store_entry_def TR_NewConfigMap_def NewConfigMap_def TR_CreatePatch_def CreatePatch_def by (rule refl)

lemma removeTrustRootEntry_entry: "removeTrustRootEntry env cm n server = remove_entry (tre_cm env) cm n server"
  by (simp add: removeTrustRootEntry_def remove_entry_def TR_CreateRemovePatch_def CreateRemovePatch_def)

section \<open>Reconciling\<close>

definition is_ecdsa :: "pubkey option \<Rightarrow> bool" where
  "is_ecdsa pk = (case pk of Some (EcdsaKey _ _) \<Rightarrow> True | _ \<Rightarrow> False)"

text \<open>
  The loops that set the identifiers of the logs. A log without a public key, on which the code would dereference a nil
  pointer in \<open>SerializePublicKey\<close>, has no representation here: each log has one.
\<close>

fun tlog_ids :: "('p, 'b) trust_rec_env \<Rightarrow> nat \<Rightarrow> pb_TransparencyLogInstance list \<Rightarrow> pb_TransparencyLogInstance list go_result" where
  "tlog_ids env i [] = Ok []"
| "tlog_ids env i (tlog # tlogs) =
     (case pemToKeyAndID env (SerializePublicKey (pt_PublicKey tlog)) of
        Inl e \<Rightarrow> Err (wrap_err (''invalid rekor public key '' @ show_nat i) e)
      | Inr (pk, logID) \<Rightarrow>
          if \<not> is_ecdsa pk then Err (''public key '' @ show_nat i @ '' is not ecdsa.PublicKey'')
          else (case tlog_ids env (Suc i) tlogs of Inl e \<Rightarrow> Err e | Inr rest \<Rightarrow> Ok (tlog\<lparr>pt_KeyId := logID\<rparr> # rest)))"

fun ctlog_ids :: "('p, 'b) trust_rec_env \<Rightarrow> nat \<Rightarrow> pb_TransparencyLogInstance list \<Rightarrow> pb_TransparencyLogInstance list go_result" where
  "ctlog_ids env i [] = Ok []"
| "ctlog_ids env i (ctlog # ctlogs) =
     (case pemToKeyAndID env (SerializePublicKey (pt_PublicKey ctlog)) of
        Inl e \<Rightarrow> Err (wrap_err (''invalid ctlog public key '' @ show_nat i) e)
      | Inr (pk, logID) \<Rightarrow>
          (case ctlog_ids env (Suc i) ctlogs of Inl e \<Rightarrow> Err e | Inr rest \<Rightarrow> Ok (ctlog\<lparr>pt_KeyId := logID\<rparr> # rest)))"

text \<open>The first switch: where the keys come from.\<close>

definition trust_root_keys :: "('p, 'b) trust_rec_env \<Rightarrow> 'st TrustRoot \<Rightarrow> pb_TrustedRoot go_result" where
  "trust_root_keys env tr =
     (case tr_Repository (trt_Spec tr) of
        Some repository \<Rightarrow> getSigstoreKeysFromMirrorFS env repository
      | None \<Rightarrow>
          (case tr_Remote (trt_Spec tr) of
             Some remote \<Rightarrow> getSigstoreKeysFromRemote env remote
           | None \<Rightarrow>
               (case tr_SigstoreKeys (trt_Spec tr) of
                  Some sk \<Rightarrow> ConvertSigstoreKeys (tre_decode env) (tre_x env) (tre_GetTransparencyLogID env) sk
                | None \<Rightarrow> Err (''invalid TrustRoot entry: '' @ om_Name (trt_ObjectMeta tr) @
                                 '' missing repository,remote, and sigstoreKeys''))))"

record 's trust_result =
  rt_server :: "cm_data option"
  rt_conds :: 's
  rt_event :: "string option"

definition TR_ReconcileKind :: "'s cond_api \<Rightarrow> ('p, 'b) trust_rec_env \<Rightarrow> 's resource_status TrustRoot \<Rightarrow> cm_data option \<Rightarrow> 's trust_result" where
  "TR_ReconcileKind kc env tr server =
     (let s0 = TR_InitializeConditions kc (rst_Conditions (trt_Status tr))
      in case trust_root_keys env tr of
           Inl e \<Rightarrow> \<lparr>rt_server = server, rt_conds = TR_MarkInlineKeysFailed kc e s0, rt_event = Some e\<rparr>
         | Inr keys \<Rightarrow>
             (let s1 = TR_MarkInlineKeysOk kc s0
              in case tlog_ids env 0 (pr_Tlogs keys) of
                   Inl e \<Rightarrow> \<lparr>rt_server = server, rt_conds = s1, rt_event = Some e\<rparr>
                 | Inr tlogs \<Rightarrow>
                     (case ctlog_ids env 0 (pr_Ctlogs keys) of
                        Inl e \<Rightarrow> \<lparr>rt_server = server, rt_conds = s1, rt_event = Some e\<rparr>
                      | Inr ctlogs \<Rightarrow>
                          (case TR_store env (om_Name (trt_ObjectMeta tr)) (keys\<lparr>pr_Tlogs := tlogs, pr_Ctlogs := ctlogs\<rparr>) server of
                             (server', Some e) \<Rightarrow>
                               \<lparr>rt_server = server', rt_conds = TR_MarkCMUpdateFailed kc e s1, rt_event = Some e\<rparr>
                           | (server', None) \<Rightarrow>
                               \<lparr>rt_server = server', rt_conds = TR_MarkCMUpdatedOK kc s1, rt_event = None\<rparr>))))"

definition TR_FinalizeKind :: "('p, 'b) trust_rec_env \<Rightarrow> 's TrustRoot \<Rightarrow> cm_data option \<Rightarrow> cm_data option \<times> string option" where
  "TR_FinalizeKind env tr server =
     (case tre_ConfigMap env of
        Inl (GetFailed e) \<Rightarrow> (server, Some e)
      | Inl (NotFound _) \<Rightarrow> (server, None)
      | Inr existing \<Rightarrow> removeTrustRootEntry env existing (om_Name (trt_ObjectMeta tr)) server)"

section \<open>What a run achieves\<close>

text \<open>The keys as they are stored, with the identifiers of the logs computed.\<close>

definition stored_keys :: "('p, 'b) trust_rec_env \<Rightarrow> 'st TrustRoot \<Rightarrow> pb_TrustedRoot go_result" where
  "stored_keys env tr =
     (case trust_root_keys env tr of
        Inl e \<Rightarrow> Err e
      | Inr keys \<Rightarrow>
          (case tlog_ids env 0 (pr_Tlogs keys) of
             Inl e \<Rightarrow> Err e
           | Inr tlogs \<Rightarrow>
               (case ctlog_ids env 0 (pr_Ctlogs keys) of
                  Inl e \<Rightarrow> Err e
                | Inr ctlogs \<Rightarrow> Ok (keys\<lparr>pr_Tlogs := tlogs, pr_Ctlogs := ctlogs\<rparr>))))"

definition identified :: "('p, 'b) trust_rec_env \<Rightarrow> pb_TransparencyLogInstance \<Rightarrow> bool" where
  "identified env l =
     (case pemToKeyAndID env (SerializePublicKey (pt_PublicKey l)) of Inl e \<Rightarrow> False | Inr (pk, logID) \<Rightarrow> pt_KeyId l = logID)"

definition ecdsa_log :: "('p, 'b) trust_rec_env \<Rightarrow> pb_TransparencyLogInstance \<Rightarrow> bool" where
  "ecdsa_log env l =
     (case pemToKeyAndID env (SerializePublicKey (pt_PublicKey l)) of Inl e \<Rightarrow> False | Inr (pk, logID) \<Rightarrow> is_ecdsa pk)"

lemma tlog_ids_Ok:
  "tlog_ids env i ls = Ok ls' \<Longrightarrow> map pt_PublicKey ls' = map pt_PublicKey ls \<and> list_all (identified env) ls' \<and> list_all (ecdsa_log env) ls'"
  by (induction ls arbitrary: i ls') (auto simp: identified_def ecdsa_log_def split: sum.splits if_splits)

lemma ctlog_ids_Ok:
  "ctlog_ids env i ls = Ok ls' \<Longrightarrow> map pt_PublicKey ls' = map pt_PublicKey ls \<and> list_all (identified env) ls'"
  by (induction ls arbitrary: i ls') (auto simp: identified_def split: sum.splits)

lemma stored_keys_Ok:
  "stored_keys env tr = Ok keys \<Longrightarrow>
     list_all (identified env) (pr_Tlogs keys @ pr_Ctlogs keys) \<and> list_all (ecdsa_log env) (pr_Tlogs keys)"
  by (auto simp: stored_keys_def split: sum.splits dest: tlog_ids_Ok ctlog_ids_Ok)

lemma TR_reconcile_run:
  "TR_ReconcileKind kc env tr server =
     (let s0 = TR_InitializeConditions kc (rst_Conditions (trt_Status tr))
      in case stored_keys env tr of
           Inl e \<Rightarrow>
             \<lparr>rt_server = server,
              rt_conds = (if is_ok (trust_root_keys env tr) then TR_MarkInlineKeysOk kc s0 else TR_MarkInlineKeysFailed kc e s0),
              rt_event = Some e\<rparr>
         | Inr keys \<Rightarrow>
             (case TR_store env (om_Name (trt_ObjectMeta tr)) keys server of
                (server', Some e) \<Rightarrow>
                  \<lparr>rt_server = server', rt_conds = TR_MarkCMUpdateFailed kc e (TR_MarkInlineKeysOk kc s0), rt_event = Some e\<rparr>
              | (server', None) \<Rightarrow>
                  \<lparr>rt_server = server', rt_conds = TR_MarkCMUpdatedOK kc (TR_MarkInlineKeysOk kc s0), rt_event = None\<rparr>))"
  by (simp add: TR_ReconcileKind_def stored_keys_def Let_def is_ok_def split: sum.splits)

lemma trust_root_ready:
  assumes "condition_laws kc"
  shows "cond_status_of kc ConditionReady (TR_MarkCMUpdatedOK kc (TR_MarkInlineKeysOk kc s)) = Some CondTrue"
    and "cond_status_of kc ConditionReady (TR_MarkInlineKeysFailed kc e s) = Some CondFalse"
proof -
  have k: "cond_status_of kc ''KeysInlined'' (kc_MarkTrue kc cipCondSet ''KeysInlined'' s) = Some CondTrue"
    by (rule condition_laws.true_self [OF assms]) (simp add: ConditionReady_def)
  show "cond_status_of kc ConditionReady (TR_MarkCMUpdatedOK kc (TR_MarkInlineKeysOk kc s)) = Some CondTrue"
    unfolding TR_MarkCMUpdatedOK_def TR_MarkInlineKeysOk_def
    using k condition_laws.true_self [OF assms, of "''ConfigMapUpdated''" trCondSet]
    by (subst condition_laws.true_ready [OF assms])
      (simp_all add: trCondSet_def ConditionReady_def condition_laws.status_true_other [OF assms])
  show "cond_status_of kc ConditionReady (TR_MarkInlineKeysFailed kc e s) = Some CondFalse"
    unfolding TR_MarkInlineKeysFailed_def by (rule condition_laws.false_ready [OF assms]) (simp add: cipCondSet_def)
qed


text \<open>A key of a log that does not parse is returned as an error while the conditions say the keys are inlined.\<close>

lemma bad_log_key_not_marked:
  assumes "trust_root_keys env tr = Ok keys" "tlog_ids env 0 (pr_Tlogs keys) = Err e" "condition_laws kc"
  shows "rt_event (TR_ReconcileKind kc env tr server) = Some e"
    and "cond_status_of kc ''KeysInlined'' (rt_conds (TR_ReconcileKind kc env tr server)) = Some CondTrue"
  using assms(1,2) condition_laws.true_self [OF assms(3), of "''KeysInlined''" cipCondSet]
  by (simp_all add: TR_ReconcileKind_def Let_def TR_MarkInlineKeysOk_def ConditionReady_def)

text \<open>A trust root with a remote repository whose trusted root names one log.\<close>

definition sample_log :: "string \<Rightarrow> pb_TransparencyLogInstance" where
  "sample_log i = \<lparr>pt_BaseUrl = ''https://rekor'', pt_HashAlgorithm = SHA2_256,
     pt_PublicKey = \<lparr>pk_RawBytes = ''key'', pk_KeyDetails = PKIX_ECDSA_P256_SHA_256, pk_ValidFrom = 0\<rparr>, pt_KeyId = i\<rparr>"

definition sample_trust_rec :: "(cm_op, cm_op) trust_rec_env" where
  "sample_trust_rec = \<lparr>
     tre_x = sample_externals\<lparr>x_UnmarshalPEMToPublicKey := (\<lambda>_. Ok (Some (EcdsaKey P256 ''k'')))\<rparr>,
     tre_decode = (\<lambda>_. None), tre_GetTransparencyLogID = (\<lambda>_. Ok ''log-id''), tre_tuf = sample_tuf,
     tre_proto_Unmarshal = (\<lambda>_. Ok (empty_TrustedRoot\<lparr>pr_Tlogs := [sample_log '''']\<rparr>)),
     tre_custom_Unmarshal = (\<lambda>_. Err ''no custom metadata''),
     tre_proto_Marshal = (\<lambda>k. Ok (concat (map pt_KeyId (pr_Tlogs k)))), tre_ConfigMap = Inr [(''other'', ''x'')],
     tre_cm = \<lparr>cv_patch = diff_api, cv_Create_err = None, cv_Patch_err = None\<rparr>\<rparr>"

definition sample_trust_root :: "cond_table resource_status TrustRoot" where
  "sample_trust_root = \<lparr>
     trt_ObjectMeta = \<lparr>om_Name = ''root'', om_Namespace = '''', om_UID = ''uid-5'', om_ResourceVersion = ''1'',
       om_Generation = 1, om_Labels = [], om_DeletionTimestamp = None, om_Finalizers = []\<rparr>,
     trt_Spec = \<lparr>tr_Remote = Some \<lparr>re_Root = Some ''{}'', re_Mirror = ''https://tuf'', re_Targets = ''targets'', re_TrustedRootTarget = ''''\<rparr>,
       tr_Repository = None, tr_SigstoreKeys = None\<rparr>,
     trt_Status = \<lparr>rst_ObservedGeneration = 0, rst_Conditions = Map.empty\<rparr>\<rparr>"

lemma sample_stored_keys:
  "stored_keys sample_trust_rec sample_trust_root = Ok (empty_TrustedRoot\<lparr>pr_Tlogs := [sample_log ''log-id'']\<rparr>)"
  by (simp add: stored_keys_def trust_root_keys_def sample_trust_root_def getSigstoreKeysFromRemote_def ClientFromRemote_def
      GetSigstoreKeysFromTuf_def GetTarget_def sample_trust_rec_def sample_tuf_def pemToKeyAndID_def is_ecdsa_def sample_log_def
      empty_TrustedRoot_def)


end
