(* ===== verification/ConfigFiles.thy ===== *)
theory ConfigFiles
  imports PolicyEngine
begin

text \<open>
  \<open>getConfigs\<close> and \<open>normalizeArchitecture\<close> of \<open>pkg/webhook/validator.go\<close>: the configuration files
  of an image, by platform. An index of images is followed recursively, its images in goroutines of
  their own. The registry is a parameter. Nothing in the code bounds the recursion: the model takes
  fuel, and no result means it was not enough.
\<close>

section \<open>The registry\<close>

record ConfigFile =
  cf_Architecture :: string
  cf_OS :: string
  cf_OSVersion :: string
  cf_Variant :: string

datatype media_type = OCIImageIndex | DockerManifestList | OCIManifestSchema1 | DockerManifestSchema2 | OtherMediaType string

text \<open>A descriptor with what its accessors yield: the digests of an index, the configuration of an image.\<close>

record descriptor =
  ds_MediaType :: media_type
  ds_ImageIndex_err :: "string option"
  ds_IndexManifest :: "string list go_result"
  ds_Image_err :: "string option"
  ds_ConfigFile :: "ConfigFile go_result"

record registry =
  rg_Get :: "reference \<Rightarrow> descriptor go_result"
  rg_ParseReference :: ref_parser
  rg_Platform_String :: "string \<Rightarrow> string \<Rightarrow> string \<Rightarrow> string \<Rightarrow> string"
  rg_MediaType_String :: "media_type \<Rightarrow> string"
  rg_sched :: "reference \<Rightarrow> schedule"

definition normalizeArchitecture :: "registry \<Rightarrow> ConfigFile \<Rightarrow> string" where
  "normalizeArchitecture rg cf = rg_Platform_String rg (cf_Architecture cf) (cf_OS cf) (cf_OSVersion cf) (cf_Variant cf)"

section \<open>Fetching\<close>

type_synonym config_result = "(string \<times> ConfigFile) list \<times> string list"

text \<open>A list of errors as \<open>%v\<close> prints it.\<close>

fun spaced :: "string list \<Rightarrow> string" where
  "spaced [] = []"
| "spaced [e] = e"
| "spaced (e # f # es) = e @ '' '' @ spaced (f # es)"

definition config_image :: "registry \<Rightarrow> reference \<Rightarrow> descriptor \<Rightarrow> config_result" where
  "config_image rg ref d =
     (case ds_Image_err d of
        Some e \<Rightarrow> ([], [''getting Image for '' @ ref_String ref @ '': '' @ e])
      | None \<Rightarrow>
          (case ds_ConfigFile d of
             Inl e \<Rightarrow> ([], [''getting ConfigFile for '' @ ref_String ref @ '': '' @ e])
           | Inr cf \<Rightarrow> ([(normalizeArchitecture rg cf, cf)], [])))"

definition recv_config :: "(string \<times> ConfigFile) list \<times> string list \<Rightarrow> config_result \<Rightarrow> (string \<times> ConfigFile) list \<times> string list" where
  "recv_config st result =
     (case (st, result) of
        ((ret, errs), (configs, rerrs)) \<Rightarrow>
          if rerrs \<noteq> [] then (ret, errs @ [''failed to get a ConfigFile: ['' @ spaced rerrs @ '']''])
          else (foldl (\<lambda>m kv. map_assign (fst kv) (snd kv) m) ret configs, errs))"

text \<open>The reference of an image of an index.\<close>

definition child_ref :: "registry \<Rightarrow> reference \<Rightarrow> string \<Rightarrow> string \<times> reference go_result" where
  "child_ref rg ref digest = (let s = ref_Context ref @ ''@'' @ digest in (s, rg_ParseReference rg s))"

text \<open>The goroutine of one image.\<close>

definition config_child :: "registry \<Rightarrow> reference \<Rightarrow> (reference \<Rightarrow> config_result option) \<Rightarrow> string \<Rightarrow> config_result option" where
  "config_child rg ref fetch digest =
     (case child_ref rg ref digest of
        (s, Inl e) \<Rightarrow> Some ([], [''failed to ParseReference for: '' @ s @ '': '' @ e])
      | (s, Inr newRef) \<Rightarrow> fetch newRef)"

text \<open>Collecting the results of the goroutines, if all of them end.\<close>

definition config_index :: "registry \<Rightarrow> reference \<Rightarrow> config_result option list \<Rightarrow> config_result option" where
  "config_index rg ref outcomes =
     (if None \<in> set outcomes then None
      else (case gather (rg_sched rg ref) (\<lambda>(ret, errs). (ret, errs @ [''context canceled''])) recv_config
                   (map the outcomes) ([], []) of
              (ret, errs) \<Rightarrow> Some (if errs \<noteq> [] then ([], errs) else (ret, []))))"

fun getConfigs :: "registry \<Rightarrow> nat \<Rightarrow> reference \<Rightarrow> config_result option" where
  "getConfigs rg 0 ref = None"
| "getConfigs rg (Suc fuel) ref =
     (case rg_Get rg ref of
        Inl e \<Rightarrow> Some ([], [''failed to get ref '' @ ref_String ref @ '' : '' @ e])
      | Inr d \<Rightarrow>
          (if ds_MediaType d = OCIImageIndex \<or> ds_MediaType d = DockerManifestList then
             (case ds_ImageIndex_err d of
                Some e \<Rightarrow> Some ([], [''getting ImageIndex for '' @ ref_String ref @ '' : '' @ e])
              | None \<Rightarrow>
                  (case ds_IndexManifest d of
                     Inl e \<Rightarrow> Some ([], [''getting IndexManifest for '' @ ref_String ref @ '' : '' @ e])
                   | Inr digests \<Rightarrow>
                       config_index rg ref (map (config_child rg ref (\<lambda>newRef. getConfigs rg fuel newRef)) digests)))
           else if ds_MediaType d = OCIManifestSchema1 \<or> ds_MediaType d = DockerManifestSchema2 then Some (config_image rg ref d)
           else Some ([], [''unknown mime type for '' @ ref_String ref @ '': '' @ rg_MediaType_String rg (ds_MediaType d)])))"

section \<open>Termination\<close>

text \<open>The images of the index a reference names.\<close>

definition children :: "registry \<Rightarrow> reference \<Rightarrow> reference set" where
  "children rg ref =
     (case rg_Get rg ref of
        Inl e \<Rightarrow> {}
      | Inr d \<Rightarrow>
          (if ds_MediaType d \<in> {OCIImageIndex, DockerManifestList} then
             (case ds_IndexManifest d of
                Inl e \<Rightarrow> {}
              | Inr digests \<Rightarrow> {r. \<exists>digest \<in> set digests. snd (child_ref rg ref digest) = Ok r})
           else {}))"

lemma getConfigs_enough:
  assumes "\<And>r r'. r' \<in> children rg r \<Longrightarrow> rank r' < (rank r :: nat)"
  shows "rank ref < n \<Longrightarrow> getConfigs rg n ref \<noteq> None \<and> (\<forall>m > rank ref. getConfigs rg m ref = getConfigs rg n ref)"
proof (induction n arbitrary: ref)
  case (Suc n)
  let ?child = "\<lambda>k. config_child rg ref (getConfigs rg k)"
  have c: "?child n digest \<noteq> None \<and> (\<forall>k \<ge> rank ref. ?child k digest = ?child n digest)"
    if "rg_Get rg ref = Ok d" "ds_MediaType d = OCIImageIndex \<or> ds_MediaType d = DockerManifestList"
      "ds_IndexManifest d = Ok digests" "digest \<in> set digests" for d digests digest
  proof (cases "snd (child_ref rg ref digest)")
    case (Inl e)
    then show ?thesis by (cases "child_ref rg ref digest") (auto simp: config_child_def)
  next
    case (Inr r)
    then have "r \<in> children rg ref" using that by (auto simp: children_def)
    then have lt: "rank r < rank ref" by (rule assms)
    then have "rank r < n" using Suc.prems by linarith
    from Suc.IH [OF this] have r: "getConfigs rg n r \<noteq> None" and k: "\<And>k. rank r < k \<Longrightarrow> getConfigs rg k r = getConfigs rg n r"
      by blast+
    from Inr have e: "?child k digest = getConfigs rg k r" for k by (cases "child_ref rg ref digest") (simp add: config_child_def)
    have "\<forall>k \<ge> rank ref. ?child k digest = ?child n digest" unfolding e using k lt less_le_trans by blast
    moreover have "?child n digest \<noteq> None" unfolding e by (rule r)
    ultimately show ?thesis by blast
  qed
  have all: "None \<notin> set (map (?child n) digests) \<and> (\<forall>k \<ge> rank ref. map (?child k) digests = map (?child n) digests)"
    if "rg_Get rg ref = Ok d" "ds_MediaType d = OCIImageIndex \<or> ds_MediaType d = DockerManifestList"
      "ds_IndexManifest d = Ok digests" for d digests
  proof -
    have "None \<notin> set (map (?child n) digests)" using c [OF that] by (metis (no_types, lifting) image_iff list.set_map)
    moreover have "map (?child k) digests = map (?child n) digests" if "k \<ge> rank ref" for k
      using c [OF \<open>rg_Get rg ref = Ok d\<close> \<open>ds_MediaType d = OCIImageIndex \<or> ds_MediaType d = DockerManifestList\<close>
          \<open>ds_IndexManifest d = Ok digests\<close>] that by (intro map_cong refl) blast
    ultimately show ?thesis by blast
  qed
  have more: "getConfigs rg (Suc k) ref = getConfigs rg (Suc n) ref" if k: "k \<ge> rank ref" for k
  proof (cases "rg_Get rg ref")
    case (Inr d)
    show ?thesis
    proof (cases "(ds_MediaType d = OCIImageIndex \<or> ds_MediaType d = DockerManifestList) \<and> (\<exists>digests. ds_IndexManifest d = Ok digests)")
      case True
      then obtain digests where "ds_IndexManifest d = Ok digests" by blast
      moreover from this True all [OF Inr, of digests] k have "map (?child k) digests = map (?child n) digests" by blast
      ultimately show ?thesis using Inr True by (cases "ds_ImageIndex_err d") (simp_all del: map_eq_conv)
    next
      case False
      then show ?thesis using Inr by (auto split: sum.splits)
    qed
  qed simp
  moreover have "getConfigs rg (Suc n) ref \<noteq> None"
  proof (cases "rg_Get rg ref")
    case (Inr d)
    then show ?thesis using all [OF Inr] by (simp add: config_index_def split: sum.splits option.splits prod.splits)
  qed simp
  moreover have "\<exists>k \<ge> rank ref. m = Suc k" if "m > rank ref" for m
    using that by (metis less_Suc_eq_le not0_implies_Suc not_less0)
  ultimately show ?case by metis
qed simp

section \<open>What is collected\<close>

lemma map_assigns_set: "set (foldl (\<lambda>m kv. map_assign (fst kv) (snd kv) m) ret configs) \<subseteq> set ret \<union> set configs"
proof (induction configs arbitrary: ret)
  case (Cons kv configs)
  have "set (map_assign (fst kv) (snd kv) ret) \<subseteq> insert kv (set ret)" by (auto simp: map_assign_def split: if_splits)
  with Cons.IH [of "map_assign (fst kv) (snd kv) ret"] show ?case by auto
qed simp

lemma map_assigns_keys: "fst ` set (foldl (\<lambda>m kv. map_assign (fst kv) (snd kv) m) ret configs) = fst ` set ret \<union> fst ` set configs"
  by (induction configs arbitrary: ret) (auto simp: keys_map_assign)

lemma recv_config_errs: "snd (recv_config st r) = [] \<longleftrightarrow> snd st = [] \<and> snd r = []"
  by (auto simp: recv_config_def split: prod.splits)

lemma recv_config_ok: "snd r = [] \<Longrightarrow> fst (recv_config st r) = foldl (\<lambda>m kv. map_assign (fst kv) (snd kv) m) (fst st) (fst r)"
  by (cases st; cases r) (simp add: recv_config_def)

lemma recv_configs_errs: "snd (foldl recv_config st rs) = [] \<longleftrightarrow> snd st = [] \<and> (\<forall>r \<in> set rs. snd r = [])"
  by (induction rs arbitrary: st) (auto simp: recv_config_errs)

lemma recv_configs_set:
  "\<forall>r \<in> set rs. snd r = [] \<Longrightarrow> set (fst (foldl recv_config st rs)) \<subseteq> set (fst st) \<union> (\<Union>r \<in> set rs. set (fst r))"
proof (induction rs arbitrary: st)
  case (Cons r rs)
  then have "set (fst (recv_config st r)) \<subseteq> set (fst st) \<union> set (fst r)"
    using map_assigns_set [of "fst st" "fst r"] by (simp add: recv_config_ok)
  with Cons.IH [of "recv_config st r"] Cons.prems show ?case by auto
qed simp

lemma recv_configs_keys:
  "\<forall>r \<in> set rs. snd r = [] \<Longrightarrow> fst ` set (fst (foldl recv_config st rs)) = fst ` set (fst st) \<union> (\<Union>r \<in> set rs. fst ` set (fst r))"
proof (induction rs arbitrary: st)
  case (Cons r rs)
  then have "fst ` set (fst (recv_config st r)) = fst ` set (fst st) \<union> fst ` set (fst r)"
    using map_assigns_keys [of "fst st" "fst r"] by (simp add: recv_config_ok)
  with Cons.IH [of "recv_config st r"] Cons.prems show ?case by (simp add: Un_assoc)
qed simp

text \<open>A loop that ends without an error saw no cancellation.\<close>

abbreviation "config_cancelled \<equiv> (\<lambda>(ret, errs :: string list). (ret, errs @ [''context canceled'']))"

lemma recv_loop_keeps_errs:
  "snd st \<noteq> [] \<Longrightarrow> snd (recv_loop config_cancelled recv_config ds q st) \<noteq> []"
  by (induction ds arbitrary: q st) (auto simp: recv_config_errs split: list.splits prod.splits)

lemma recv_loop_no_cancel:
  "snd (recv_loop config_cancelled recv_config ds q st) = [] \<Longrightarrow> length ds \<le> length q \<Longrightarrow> True \<notin> set ds"
proof (induction ds arbitrary: q st)
  case (Cons d ds)
  show ?case
  proof (cases d)
    case True
    have "snd (config_cancelled st) \<noteq> []" by (cases st) simp
    from recv_loop_keeps_errs [OF this, of ds q] Cons.prems(1) True show ?thesis by simp
  next
    case False
    with Cons.prems obtain r rs where "q = r # rs" by (cases q) auto
    with Cons False show ?thesis by auto
  qed
qed simp

lemma config_index_ok:
  assumes "config_index rg ref outcomes = Some (configs, [])" "valid_schedule (length outcomes) (rg_sched rg ref)"
  shows "None \<notin> set outcomes" "\<forall>r \<in> set outcomes. snd (the r) = []"
    and "set configs \<subseteq> (\<Union>r \<in> set outcomes. set (fst (the r)))"
    and "fst ` set configs = (\<Union>r \<in> set outcomes. fst ` set (fst (the r)))"
proof -
  let ?rs = "map the outcomes" and ?sc = "rg_sched rg ref"
  have v: "valid_schedule (length ?rs) ?sc" using assms(2) by simp
  from assms(1) show n: "None \<notin> set outcomes" by (auto simp: config_index_def split: if_splits)
  have g: "gather ?sc config_cancelled recv_config ?rs ([], []) = (configs, [])"
    using assms(1) n by (auto simp: config_index_def split: prod.splits if_splits)
  then have "True \<notin> set (sc_done ?sc)"
    using recv_loop_no_cancel [of "sc_done ?sc" "map (\<lambda>i. ?rs ! i) (sc_order ?sc)" "([], [])"] valid_schedule_lengths [OF v]
    by (simp add: gather_def)
  then obtain arrived where a: "mset arrived = mset ?rs" "foldl recv_config ([], []) arrived = (configs, [])"
    using gather_calm [OF v, of config_cancelled recv_config "([], [])"] g by (auto simp: calm_def)
  have s: "set arrived = set ?rs" using a(1) by (rule mset_eq_setD)
  have e: "\<forall>r \<in> set arrived. snd r = []" using recv_configs_errs [of "([], [])" arrived] a(2) by simp
  then show "\<forall>r \<in> set outcomes. snd (the r) = []" unfolding s by simp
  show "set configs \<subseteq> (\<Union>r \<in> set outcomes. set (fst (the r)))"
    using recv_configs_set [OF e, of "([], [])"] a(2) s by simp
  show "fst ` set configs = (\<Union>r \<in> set outcomes. fst ` set (fst (the r)))"
    using recv_configs_keys [OF e, of "([], [])"] a(2) s by simp
qed

text \<open>The configurations of the images below a reference.\<close>

inductive leaf :: "registry \<Rightarrow> reference \<Rightarrow> ConfigFile \<Rightarrow> bool" for rg where
  leaf_image: "rg_Get rg ref = Ok d \<Longrightarrow> ds_MediaType d \<in> {OCIManifestSchema1, DockerManifestSchema2} \<Longrightarrow> ds_ConfigFile d = Ok cf \<Longrightarrow>
    leaf rg ref cf"
| leaf_index: "r \<in> children rg ref \<Longrightarrow> leaf rg r cf \<Longrightarrow> leaf rg ref cf"

inductive_simps leaf_iff: "leaf rg ref cf"

definition calm_registry :: "registry \<Rightarrow> bool" where
  "calm_registry rg =
     (\<forall>ref d digests. rg_Get rg ref = Ok d \<longrightarrow> ds_IndexManifest d = Ok digests \<longrightarrow> valid_schedule (length digests) (rg_sched rg ref))"

lemma children_none: "rg_Get rg ref = Ok d \<Longrightarrow> ds_MediaType d \<notin> {OCIImageIndex, DockerManifestList} \<Longrightarrow> children rg ref = {}"
  by (simp add: children_def)

lemma image_leaf:
  assumes "rg_Get rg ref = Ok d" "ds_MediaType d \<in> {OCIManifestSchema1, DockerManifestSchema2}" "config_image rg ref d = (configs, [])"
  shows "\<exists>cf. configs = [(normalizeArchitecture rg cf, cf)] \<and> (\<forall>cf'. leaf rg ref cf' \<longleftrightarrow> cf' = cf)"
proof -
  from assms(3) obtain cf where cf: "ds_ConfigFile d = Ok cf" "configs = [(normalizeArchitecture rg cf, cf)]"
    by (auto simp: config_image_def split: option.splits sum.splits)
  have "children rg ref = {}" using assms(2) by (intro children_none [OF assms(1)]) auto
  then have "leaf rg ref cf' \<longleftrightarrow> cf' = cf" for cf' using assms(1,2) cf(1) by (subst leaf_iff) auto
  with cf show ?thesis by blast
qed

lemma getConfigs_leaves:
  assumes "calm_registry rg"
  shows "getConfigs rg n ref = Some (configs, []) \<Longrightarrow>
    (\<forall>kv \<in> set configs. fst kv = normalizeArchitecture rg (snd kv) \<and> leaf rg ref (snd kv)) \<and>
    fst ` set configs = normalizeArchitecture rg ` {cf. leaf rg ref cf}"
proof (induction n arbitrary: ref configs)
  case (Suc n)
  then obtain d where d: "rg_Get rg ref = Ok d" by (cases "rg_Get rg ref") simp_all
  consider (index) "ds_MediaType d \<in> {OCIImageIndex, DockerManifestList}"
    | (image) "ds_MediaType d \<in> {OCIManifestSchema1, DockerManifestSchema2}"
    using Suc.prems d by (auto split: if_splits)
  then show ?case
  proof cases
    case image
    with Suc.prems d have "config_image rg ref d = (configs, [])" by auto
    from image_leaf [OF d image this] obtain cf where "configs = [(normalizeArchitecture rg cf, cf)]" "{cf'. leaf rg ref cf'} = {cf}" "leaf rg ref cf"
      by blast
    then show ?thesis by simp
  next
    case index
    then obtain digests where dg: "ds_IndexManifest d = Ok digests"
      and ci: "config_index rg ref (map (config_child rg ref (getConfigs rg n)) digests) = Some (configs, [])"
      using Suc.prems d by (auto split: option.splits sum.splits)
    let ?out = "config_child rg ref (getConfigs rg n)"
    have "valid_schedule (length (map ?out digests)) (rg_sched rg ref)" using assms d dg by (auto simp: calm_registry_def)
    note ok = config_index_ok [OF ci this]
    have child: "\<exists>r. snd (child_ref rg ref digest) = Ok r \<and> getConfigs rg n r = Some (fst (the (?out digest)), [])"
      if "digest \<in> set digests" for digest
    proof -
      have "?out digest \<in> set (map ?out digests)" using that by simp
      with ok(1) have "?out digest \<noteq> None" by metis
      then obtain c e where o: "?out digest = Some (c, e)" by auto
      moreover have "e = []" using ok(2) that o by force
      ultimately show ?thesis
        by (cases "snd (child_ref rg ref digest)"; cases "child_ref rg ref digest") (simp_all add: config_child_def)
    qed
    have ch: "children rg ref = {r. \<exists>digest \<in> set digests. snd (child_ref rg ref digest) = Ok r}"
      using d dg index by (simp add: children_def)
    have "\<not> leaf rg ref cf \<or> (\<exists>r \<in> children rg ref. leaf rg r cf)" for cf using index d by (subst leaf_iff) auto
    then have lf: "leaf rg ref cf \<longleftrightarrow> (\<exists>r \<in> children rg ref. leaf rg r cf)" for cf using leaf_index by blast
    have "fst kv = normalizeArchitecture rg (snd kv) \<and> leaf rg ref (snd kv)" if "kv \<in> set configs" for kv
    proof -
      from that ok(3) obtain digest where g: "digest \<in> set digests" "kv \<in> set (fst (the (?out digest)))" by auto
      from child [OF g(1)] obtain r where "snd (child_ref rg ref digest) = Ok r" "getConfigs rg n r = Some (fst (the (?out digest)), [])"
        by blast
      with Suc.IH [OF this(2)] g show ?thesis unfolding lf ch by blast
    qed
    moreover have "fst ` set configs = normalizeArchitecture rg ` {cf. leaf rg ref cf}"
    proof -
      have "fst ` set (fst (the (?out digest))) = normalizeArchitecture rg ` {cf. \<exists>r. snd (child_ref rg ref digest) = Ok r \<and> leaf rg r cf}"
        if "digest \<in> set digests" for digest
      proof -
        from child [OF that] obtain r where r: "snd (child_ref rg ref digest) = Ok r"
          and g: "getConfigs rg n r = Some (fst (the (?out digest)), [])" by blast
        from conjunct2 [OF Suc.IH [OF g]] show ?thesis unfolding r by simp
      qed
      then have "fst ` set configs =
          (\<Union>digest \<in> set digests. normalizeArchitecture rg ` {cf. \<exists>r. snd (child_ref rg ref digest) = Ok r \<and> leaf rg r cf})"
        unfolding ok(4) by simp
      then show ?thesis unfolding lf ch by blast
    qed
    ultimately show ?thesis by blast
  qed
qed simp

text \<open>
  C35 Fetching the configurations of an image ends when the indexes of the registry are not
  nested in a cycle: one call for each level of nesting is enough. Its result has either errors and
  no configurations, or one entry for each platform of the images below the reference, each the
  configuration of such an image, whatever order the goroutines end in.
\<close>

theorem getConfigs_terminates_exact:
  assumes "\<And>r r'. r' \<in> children rg r \<Longrightarrow> rank r' < (rank r :: nat)" "calm_registry rg"
  shows "\<exists>configs errs. getConfigs rg (Suc (rank ref)) ref = Some (configs, errs) \<and>
    (if errs = [] then fst ` set configs = normalizeArchitecture rg ` {cf. leaf rg ref cf} \<and>
       list_all (\<lambda>(k, cf). k = normalizeArchitecture rg cf \<and> leaf rg ref cf) configs
     else configs = [])"
proof -
  have "getConfigs rg (Suc (rank ref)) ref \<noteq> None" using getConfigs_enough [of rg rank, OF assms(1)] lessI by blast
  then obtain configs errs where g: "getConfigs rg (Suc (rank ref)) ref = Some (configs, errs)" by auto
  have "errs \<noteq> [] \<Longrightarrow> configs = []" using g
    by (auto simp: config_image_def config_index_def split: sum.splits option.splits prod.splits if_splits)
  moreover have "fst ` set configs = normalizeArchitecture rg ` {cf. leaf rg ref cf} \<and>
       list_all (\<lambda>(k, cf). k = normalizeArchitecture rg cf \<and> leaf rg ref cf) configs" if "errs = []"
    using getConfigs_leaves [OF assms(2) g [unfolded that]] unfolding list_all_iff case_prod_beta by (intro conjI) blast+
  ultimately show ?thesis using g by (intro exI conjI) auto
qed

text \<open>An index of two images.\<close>

definition sample_digest_ref :: "string \<Rightarrow> reference" where
  "sample_digest_ref d = \<lparr>ref_Name = ''repo@'' @ d, ref_String = ''repo@'' @ d, ref_Kind = DigestRef, ref_DigestStr = d, ref_Context = ''repo''\<rparr>"

definition sample_registry :: registry where
  "sample_registry = \<lparr>
     rg_Get = (\<lambda>r. Ok \<lparr>ds_MediaType = (if ref_DigestStr r = ''index'' then OCIImageIndex else OCIManifestSchema1), ds_ImageIndex_err = None,
       ds_IndexManifest = (if ref_DigestStr r = ''index'' then Ok [''amd64'', ''arm64''] else Err ''not an index''), ds_Image_err = None,
       ds_ConfigFile = Ok \<lparr>cf_Architecture = ref_DigestStr r, cf_OS = ''linux'', cf_OSVersion = '''', cf_Variant = ''''\<rparr>\<rparr>),
     rg_ParseReference = (\<lambda>s. Ok (sample_digest_ref (drop 5 s))),
     rg_Platform_String = (\<lambda>arch os _ _. os @ ''/'' @ arch), rg_MediaType_String = (\<lambda>_. ''''),
     rg_sched = (\<lambda>_. \<lparr>sc_order = [1, 0], sc_done = [False, False]\<rparr>)\<rparr>"

lemma sample_children: "children sample_registry r = (if ref_DigestStr r = ''index'' then
    {sample_digest_ref (drop 5 (ref_Context r @ ''@amd64'')), sample_digest_ref (drop 5 (ref_Context r @ ''@arm64''))} else {})"
  by (auto simp: children_def sample_registry_def child_ref_def)

lemma sample_child_ref: "child_ref sample_registry (sample_digest_ref x) d = (''repo@'' @ d, Ok (sample_digest_ref d))"
  by (simp add: child_ref_def sample_registry_def sample_digest_ref_def Let_def)

lemma sample_sched: "rg_sched sample_registry r = \<lparr>sc_order = [1, 0], sc_done = [False, False]\<rparr>"
  by (simp add: sample_registry_def)

theorem getConfigs_terminates_exact_witness:
  "\<exists>configs errs. getConfigs sample_registry 2 (sample_digest_ref ''index'') = Some (configs, errs) \<and> errs = [] \<and>
     fst ` set configs = normalizeArchitecture sample_registry ` {cf. leaf sample_registry (sample_digest_ref ''index'') cf}"
proof -
  let ?rank = "\<lambda>r. if ref_DigestStr r = ''index'' \<and> ref_Context r = ''repo'' then 1 else if ref_DigestStr r = ''index'' then 2 else (0::nat)"
  have c: "calm_registry sample_registry"
    by (auto simp: calm_registry_def sample_registry_def valid_schedule_def upt_rec simp del: mset_upt split: if_splits)
  have g: "getConfigs sample_registry 2 (sample_digest_ref ''index'') =
      Some ([(''linux/arm64'', \<lparr>cf_Architecture = ''arm64'', cf_OS = ''linux'', cf_OSVersion = '''', cf_Variant = ''''\<rparr>),
             (''linux/amd64'', \<lparr>cf_Architecture = ''amd64'', cf_OS = ''linux'', cf_OSVersion = '''', cf_Variant = ''''\<rparr>)], [])"
  proof -
    let ?cf = "\<lambda>d. \<lparr>cf_Architecture = d, cf_OS = ''linux'', cf_OSVersion = '''', cf_Variant = ''''\<rparr>"
    have one: "getConfigs sample_registry (Suc 0) (sample_digest_ref d) = Some ([(''linux/'' @ d, ?cf d)], [])" if "d \<noteq> ''index''" for d
      using that by (simp add: sample_registry_def sample_digest_ref_def config_image_def normalizeArchitecture_def)
    have "config_child sample_registry (sample_digest_ref ''index'') (getConfigs sample_registry (Suc 0)) d = Some ([(''linux/'' @ d, ?cf d)], [])"
      if "d \<noteq> ''index''" for d
      using one [OF that] by (simp add: config_child_def sample_child_ref del: getConfigs.simps)
    then have ci: "config_index sample_registry (sample_digest_ref ''index'')
        (map (config_child sample_registry (sample_digest_ref ''index'') (getConfigs sample_registry (Suc 0))) [''amd64'', ''arm64'']) =
      Some ([(''linux/arm64'', ?cf ''arm64''), (''linux/amd64'', ?cf ''amd64'')], [])"
      by (simp add: config_index_def gather_def recv_config_def map_assign_def sample_sched del: getConfigs.simps)
    obtain d where "rg_Get sample_registry (sample_digest_ref ''index'') = Ok d" "ds_MediaType d = OCIImageIndex"
      "ds_ImageIndex_err d = None" "ds_IndexManifest d = Ok [''amd64'', ''arm64'']"
      by (simp add: sample_registry_def sample_digest_ref_def)
    then show ?thesis unfolding numeral_2_eq_2 getConfigs.simps(2) [of _ "Suc 0"] using ci by (simp del: getConfigs.simps list.map)
  qed
  have t: "\<exists>configs errs. getConfigs sample_registry (Suc (?rank (sample_digest_ref ''index''))) (sample_digest_ref ''index'') = Some (configs, errs) \<and>
    (if errs = [] then fst ` set configs = normalizeArchitecture sample_registry ` {cf. leaf sample_registry (sample_digest_ref ''index'') cf} \<and>
       list_all (\<lambda>(k, cf). k = normalizeArchitecture sample_registry cf \<and> leaf sample_registry (sample_digest_ref ''index'') cf) configs
     else configs = [])"
    by (rule getConfigs_terminates_exact [OF _ c, of ?rank]) (auto simp: sample_children sample_digest_ref_def split: if_splits)
  have r: "Suc (?rank (sample_digest_ref ''index'')) = 2" by (simp add: sample_digest_ref_def)
  define P where "P = (\<lambda>configs :: (string \<times> ConfigFile) list. fst ` set configs =
      normalizeArchitecture sample_registry ` {cf. leaf sample_registry (sample_digest_ref ''index'') cf})"
  define Q where "Q = list_all (\<lambda>(k, cf). k = normalizeArchitecture sample_registry cf \<and> leaf sample_registry (sample_digest_ref ''index'') cf)"
  have "\<exists>configs errs. getConfigs sample_registry 2 (sample_digest_ref ''index'') = Some (configs, errs) \<and>
      (if errs = [] then P configs \<and> Q configs else configs = [])"
    using t unfolding r P_def Q_def .
  then have "P [(''linux/arm64'', \<lparr>cf_Architecture = ''arm64'', cf_OS = ''linux'', cf_OSVersion = '''', cf_Variant = ''''\<rparr>),
      (''linux/amd64'', \<lparr>cf_Architecture = ''amd64'', cf_OS = ''linux'', cf_OSVersion = '''', cf_Variant = ''''\<rparr>)]"
    unfolding g by (auto simp del: getConfigs.simps)
  then show ?thesis unfolding g P_def by (intro exI conjI) (rule refl, rule refl)
qed

end
