(* ===== verification/OfflinePolicy.thy ===== *)
theory OfflinePolicy
  imports CIPProperties PolicyProperties
begin

text \<open>
  \<open>pkg/policy\<close>: verification of images against policies outside the cluster. A document is
  split and decoded (\<open>parse.go\<close>), its objects are defaulted and validated (\<open>validate.go\<close>), the
  sources of a \<open>Verification\<close> are fetched (\<open>policy.go\<close>) and compiled to the webhook's form, and
  \<open>Verify\<close> evaluates the policies that match an image (\<open>verifier.go\<close>). YAML and JSON decoding, files
  and HTTP are parameters.
\<close>

section \<open>Documents\<close>

text \<open>An object of a document: the fields the code reads, and the object itself.\<close>

record 'j unstructured =
  uo_APIVersion :: string
  uo_Kind :: string
  uo_Name :: string
  uo_Namespace :: string
  uo_Object :: 'j

text \<open>
  The environment. Decoding with unknown fields disallowed and plain decoding are the functions of each
  version; a file or URL is fetched once when a \<open>Verification\<close> is validated (round 0) and once when
  it is compiled (round 1), and may differ between the two.
\<close>

record ('j, 's, 'v) offline_env =
  oe_x :: externals
  oe_ctx :: val_ctx
  oe_yaml_Unmarshal :: "string \<Rightarrow> 'j unstructured go_result"
  oe_ParseGroupVersion :: "string \<Rightarrow> (string \<times> string) go_result"
  oe_GVK_String :: "string \<times> string \<times> string \<Rightarrow> string"
  oe_Marshal_err :: "'j \<Rightarrow> string option"
  oe_Decode_alpha :: "'j \<Rightarrow> 's ClusterImagePolicy go_result"
  oe_Decode_beta :: "'j \<Rightarrow> 's BClusterImagePolicy go_result"
  oe_Unmarshal_alpha :: "'j \<Rightarrow> 's ClusterImagePolicy go_result"
  oe_Unmarshal_beta :: "'j \<Rightarrow> 's BClusterImagePolicy go_result"
  oe_zero_cip :: "'s ClusterImagePolicy"
  oe_ReadFile :: "nat \<Rightarrow> string \<Rightarrow> string go_result"
  oe_http_Get :: "nat \<Rightarrow> string \<Rightarrow> string go_result"
  oe_compiled_Marshal_err :: "WClusterImagePolicy \<Rightarrow> string option"
  oe_compiled_Unmarshal :: "WClusterImagePolicy \<Rightarrow> WClusterImagePolicy go_result"
  oe_TypeMeta :: "'v \<Rightarrow> string \<times> string"
  oe_Labels :: "'v \<Rightarrow> (string \<times> string) list"

definition err_of :: "'fe fe_api \<Rightarrow> 'fe go_error \<Rightarrow> string" where
  "err_of api e = (case e of PlainError s \<Rightarrow> s | FieldErr fe \<Rightarrow> FEError api fe)"

definition field_err :: "'fe option \<Rightarrow> 'fe go_error" where
  "field_err e = (case e of Some fe \<Rightarrow> FieldErr fe | None \<Rightarrow> PlainError '''')"

fun parse_docs :: "'fe fe_api \<Rightarrow> ('j, 's, 'v) offline_env \<Rightarrow> nat \<Rightarrow> string list \<Rightarrow> 'fe go_error + 'j unstructured list" where
  "parse_docs api env i [] = Inr []"
| "parse_docs api env i (doc # docs) =
     (if TrimSpace doc = '''' then parse_docs api env (Suc i) docs
      else (case oe_yaml_Unmarshal env (TrimSpace doc) of
              Inl e \<Rightarrow> Inl (PlainError (''decoding object['' @ show_nat i @ '']: '' @ e))
            | Inr obj \<Rightarrow>
                if uo_APIVersion obj = '''' then Inl (field_err (ViaIndex api i (Some (ErrMissingField api [''apiVersion'']))))
                else if uo_Name obj = '''' then Inl (field_err (ViaIndex api i (Some (ErrMissingField api [''metadata.name'']))))
                else (case parse_docs api env (Suc i) docs of Inl e \<Rightarrow> Inl e | Inr objs \<Rightarrow> Inr (obj # objs))))"

definition doc_separator :: string where
  "doc_separator = [CHR 0x0A] @ ''---'' @ [CHR 0x0A]"

definition Parse :: "'fe fe_api \<Rightarrow> ('j, 's, 'v) offline_env \<Rightarrow> string \<Rightarrow> 'fe go_error + 'j unstructured list" where
  "Parse api env document = parse_docs api env 0 (str_split doc_separator document)"

section \<open>Validation\<close>

definition BetaKind :: "string \<times> string \<times> string" where
  "BetaKind = (''policy.sigstore.dev'', ''v1beta1'', ''ClusterImagePolicy'')"

definition AlphaKind :: "string \<times> string \<times> string" where
  "AlphaKind = (''policy.sigstore.dev'', ''v1alpha1'', ''ClusterImagePolicy'')"

definition SecretKind :: "string \<times> string \<times> string" where
  "SecretKind = ('''', ''v1'', ''Secret'')"

definition GroupVersionKind :: "('j, 's, 'v) offline_env \<Rightarrow> 'j unstructured \<Rightarrow> string \<times> string \<times> string" where
  "GroupVersionKind env uo =
     (case oe_ParseGroupVersion env (uo_APIVersion uo) of Inl e \<Rightarrow> ('''', '''', '''') | Inr (g, v) \<Rightarrow> (g, v, uo_Kind uo))"

text \<open>
  \<open>validate\<close> over the decoder, the defaulting and the validator of a type: the warnings, and the error.
\<close>

definition validate_object :: "'fe fe_api \<Rightarrow> ('j, 's, 'v) offline_env \<Rightarrow> ('j \<Rightarrow> 'a go_result) \<Rightarrow> ('a \<Rightarrow> 'a) \<Rightarrow> ('a \<Rightarrow> 'fe option) \<Rightarrow>
    'j unstructured \<Rightarrow> 'fe option \<times> 'fe go_error option" where
  "validate_object api env decode setDefaults validate uo =
     (case oe_Marshal_err env (uo_Object uo) of
        Some e \<Rightarrow> (None, Some (PlainError (wrap_err ''unable to marshal'' e)))
      | None \<Rightarrow>
          (case decode (uo_Object uo) of
             Inl e \<Rightarrow> (None, Some (PlainError (wrap_err ''unable to unmarshal'' e)))
           | Inr v \<Rightarrow>
               (case validate (setDefaults v) of
                  None \<Rightarrow> (None, None)
                | Some ve \<Rightarrow> (Filter api WarningLevel (Some ve), map_option FieldErr (Filter api ErrorLevel (Some ve))))))"

definition alpha_verdict :: "'fe fe_api \<Rightarrow> ('j, 's, 'v) offline_env \<Rightarrow> 'j unstructured \<Rightarrow> 'fe option \<times> 'fe go_error option" where
  "alpha_verdict api env =
     validate_object api env (oe_Decode_alpha env) ClusterImagePolicy_SetDefaults (ClusterImagePolicy_Validate api (oe_x env) (oe_ctx env))"

definition beta_verdict :: "'fe fe_api \<Rightarrow> ('j, 's, 'v) offline_env \<Rightarrow> 'j unstructured \<Rightarrow> 'fe option \<times> 'fe go_error option" where
  "beta_verdict api env =
     validate_object api env (oe_Decode_beta env) B_ClusterImagePolicy_SetDefaults (B_ClusterImagePolicy_Validate api (oe_x env) (oe_ctx env))"

text \<open>The loop over the objects. The warnings of each policy replace those before.\<close>

fun validate_docs :: "'fe fe_api \<Rightarrow> ('j, 's, 'v) offline_env \<Rightarrow> nat \<Rightarrow> 'j unstructured list \<Rightarrow> 'fe option \<Rightarrow> 'fe option \<times> 'fe go_error option" where
  "validate_docs api env i [] warns = (warns, None)"
| "validate_docs api env i (uo # uol) warns =
     (if GroupVersionKind env uo = BetaKind then
        (case beta_verdict api env uo of
           (warns', Some e) \<Rightarrow> (warns', Some e)
         | (warns', None) \<Rightarrow> validate_docs api env (Suc i) uol warns')
      else if GroupVersionKind env uo = AlphaKind then
        (case alpha_verdict api env uo of
           (warns', Some e) \<Rightarrow> (warns', Some e)
         | (warns', None) \<Rightarrow> validate_docs api env (Suc i) uol warns')
      else if GroupVersionKind env uo = SecretKind then
        (if uo_Namespace uo \<noteq> ''cosign-system''
         then (warns, Some (field_err (ViaIndex api i (Some (ErrInvalidValue api (uo_Namespace uo) ''metadata.namespace'' [])))))
         else validate_docs api env (Suc i) uol warns)
      else (warns, Some (PlainError (''unknown type: '' @ oe_GVK_String env (GroupVersionKind env uo)))))"

definition Offline_Validate :: "'fe fe_api \<Rightarrow> ('j, 's, 'v) offline_env \<Rightarrow> string \<Rightarrow> 'fe option \<times> 'fe go_error option" where
  "Offline_Validate api env document =
     (if document = '''' then (None, Some (PlainError ''document is required to create policy''))
      else (case Parse api env document of
              Inl e \<Rightarrow> (None, Some e)
            | Inr uol \<Rightarrow> validate_docs api env 0 uol None))"

section \<open>Policies of a document\<close>

definition convert :: "string option \<Rightarrow> 'a go_result \<Rightarrow> 'a go_result" where
  "convert marshal_err unmarshalled =
     (case marshal_err of
        Some e \<Rightarrow> Err (''Marshal() = '' @ e)
      | None \<Rightarrow> (case unmarshalled of Inl e \<Rightarrow> Err (''Unmarshal() = '' @ e) | Inr v \<Rightarrow> Ok v))"

text \<open>One object: nothing if it is no policy.\<close>

definition policy_of :: "('j, 's, 'v) offline_env \<Rightarrow> 'j unstructured \<Rightarrow> 's ClusterImagePolicy option go_result" where
  "policy_of env obj =
     (case oe_ParseGroupVersion env (uo_APIVersion obj) of
        Inl e \<Rightarrow> Err (wrap_err ''error parsing apiVersion of'' e)
      | Inr (g, v) \<Rightarrow>
          if (g, v, uo_Kind obj) = BetaKind then
            (case convert (oe_Marshal_err env (uo_Object obj)) (oe_Unmarshal_beta env (uo_Object obj)) of
               Inl e \<Rightarrow> Err e
             | Inr v1b1 \<Rightarrow>
                 (case ClusterImagePolicy_ConvertFrom (oe_zero_cip env) (ConvBeta v1b1) of
                    Inl e \<Rightarrow> Err e
                  | Inr cip \<Rightarrow> Ok (Some cip)))
          else if (g, v, uo_Kind obj) = AlphaKind then
            (case convert (oe_Marshal_err env (uo_Object obj)) (oe_Unmarshal_alpha env (uo_Object obj)) of
               Inl e \<Rightarrow> Err e
             | Inr cip \<Rightarrow> Ok (Some cip))
          else Ok None)"

definition ParseClusterImagePolicies :: "'fe fe_api \<Rightarrow> ('j, 's, 'v) offline_env \<Rightarrow> string \<Rightarrow>
    'fe option \<times> ('fe go_error + 's ClusterImagePolicy list)" where
  "ParseClusterImagePolicies api env document =
     (case Offline_Validate api env document of
        (warns, Some e) \<Rightarrow> (warns, Inl e)
      | (warns, None) \<Rightarrow>
          (case Parse api env document of
             Inl e \<Rightarrow> (warns, Inl e)
           | Inr ol \<Rightarrow>
               (case mapM (policy_of env) ol of
                  Inl e \<Rightarrow> (warns, Inl (PlainError e))
                | Inr cips \<Rightarrow> (warns, Inr (List.map_filter id cips)))))"

section \<open>Sources\<close>

record PolicySource =
  so_Data :: string
  so_Path :: string
  so_URL :: string

record PolicyVerification =
  vf_NoMatchPolicy :: string
  vf_Policies :: "PolicySource list option"

definition fetch :: "('j, 's, 'v) offline_env \<Rightarrow> nat \<Rightarrow> PolicySource \<Rightarrow> string go_result" where
  "fetch env round pd =
     (if so_Data pd \<noteq> '''' then Ok (so_Data pd)
      else if so_Path pd \<noteq> '''' then oe_ReadFile env round (so_Path pd)
      else if so_URL pd \<noteq> '''' then oe_http_Get env round (so_URL pd)
      else Err ''unsupported policy shape: &{  }'')"

definition fields_set :: "PolicySource \<Rightarrow> string list" where
  "fields_set pd =
     (if so_Data pd \<noteq> '''' then [''data''] else []) @ (if so_Path pd \<noteq> '''' then [''path''] else []) @
     (if so_URL pd \<noteq> '''' then [''url''] else [])"

definition PolicySource_Validate :: "'fe fe_api \<Rightarrow> ('j, 's, 'v) offline_env \<Rightarrow> PolicySource \<Rightarrow> 'fe option" where
  "PolicySource_Validate api env pd =
     (case fields_set pd of
        [] \<Rightarrow> Some (ErrMissingOneOf api [''data'', ''path'', ''url''])
      | [field] \<Rightarrow>
          (case fetch env 0 pd of
             Inl e \<Rightarrow> Some (NewFieldError api e [field])
           | Inr content \<Rightarrow>
               (case snd (ParseClusterImagePolicies api env content) of
                  Inl e \<Rightarrow> Some (ErrInvalidValue api (err_of api e) field [])
                | Inr _ \<Rightarrow> None))
      | fs \<Rightarrow> Some (ErrMultipleOneOf api fs))"

definition PolicyVerification_Validate :: "'fe fe_api \<Rightarrow> ('j, 's, 'v) offline_env \<Rightarrow> PolicyVerification \<Rightarrow> 'fe option" where
  "PolicyVerification_Validate api env v =
     (let e1 = (if vf_NoMatchPolicy v \<in> {''allow'', ''deny'', ''warn''} then None
                else if vf_NoMatchPolicy v = '''' then Also api None (Some (ErrMissingField api [''noMatchPolicy'']))
                else Also api None (Some (ErrInvalidValue api (vf_NoMatchPolicy v) ''noMatchPolicy'' [])))
      in case vf_Policies v of
           None \<Rightarrow> Also api e1 (Some (ErrMissingField api [''policies'']))
         | Some ps \<Rightarrow>
             foldl (\<lambda>errs p. Also api errs (ViaFieldIndex api ''policies'' (fst p) (PolicySource_Validate api env (snd p)))) e1 (indexed ps))"

section \<open>Compiling\<close>

text \<open>What is written through the \<open>WarningWriter\<close>.\<close>

datatype 'fe ww_line = PolicyWarns nat 'fe | DuplicatePolicy string | RoundTrip string | Uncovered string | FieldWarns 'fe

definition gather_cip :: "('j, 's, 'v) offline_env \<Rightarrow> (string \<times> WClusterImagePolicy) list \<times> 'fe ww_line list \<Rightarrow>
    's ClusterImagePolicy \<Rightarrow> (string \<times> WClusterImagePolicy) list \<times> 'fe ww_line list" where
  "gather_cip env st cip0 =
     (case st of (ps, ww) \<Rightarrow>
        let cip = ClusterImagePolicy_SetDefaults cip0; n = om_Name (cip_ObjectMeta cip);
            w = ConvertClusterImagePolicyV1alpha1ToWebhook cip
        in if n \<in> fst ` set ps then (ps, ww @ [DuplicatePolicy n])
           else (case convert (oe_compiled_Marshal_err env w) (oe_compiled_Unmarshal env w) of
                   Inl e \<Rightarrow> (ps, ww @ [RoundTrip e])
                 | Inr compiled \<Rightarrow> (map_assign n compiled ps, ww)))"

fun gather_sources :: "'fe fe_api \<Rightarrow> ('j, 's, 'v) offline_env \<Rightarrow> nat \<Rightarrow> PolicySource list \<Rightarrow>
    (string \<times> WClusterImagePolicy) list \<times> 'fe ww_line list \<Rightarrow> ('fe go_error + (string \<times> WClusterImagePolicy) list) \<times> 'fe ww_line list" where
  "gather_sources api env i [] st = (Inr (fst st), snd st)"
| "gather_sources api env i (p # ps) st =
     (case fetch env 1 p of
        Inl e \<Rightarrow> (Inl (PlainError e), snd st)
      | Inr content \<Rightarrow>
          (case ParseClusterImagePolicies api env content of
             (warns, Inl e) \<Rightarrow> (Inl (PlainError (wrap_err ''parsing policies'' (err_of api e))), snd st)
           | (warns, Inr l) \<Rightarrow>
               gather_sources api env (Suc i) ps
                 (foldl (gather_cip env) (fst st, snd st @ (case warns of None \<Rightarrow> [] | Some w \<Rightarrow> [PolicyWarns i w])) l)))"

definition gather_policies :: "'fe fe_api \<Rightarrow> ('j, 's, 'v) offline_env \<Rightarrow> PolicySource list \<Rightarrow>
    ('fe go_error + ImagePolicyConfig) \<times> 'fe ww_line list" where
  "gather_policies api env pol =
     (case gather_sources api env 0 pol ([], []) of
        (Inl e, ww) \<Rightarrow> (Inl e, ww)
      | (Inr ps, ww) \<Rightarrow> (Inr \<lparr>Policies = ps\<rparr>, ww))"

text \<open>
  The compiled verifier. A \<open>Verification\<close> without policies does not pass validation, so the pointer that
  \<open>gather\<close> dereferences is not nil.
\<close>

record verifier =
  vr_verification :: PolicyVerification
  vr_ipc :: ImagePolicyConfig

definition CompilePolicies :: "'fe fe_api \<Rightarrow> ('j, 's, 'v) offline_env \<Rightarrow> PolicyVerification \<Rightarrow> ('fe go_error + verifier) \<times> 'fe ww_line list" where
  "CompilePolicies api env v =
     (case PolicyVerification_Validate api env v of
        Some e \<Rightarrow> (Inl (FieldErr e), [])
      | None \<Rightarrow>
          (case vf_Policies v of
             None \<Rightarrow> (Inl (PlainError ''nil pointer''), [])
           | Some pol \<Rightarrow>
               (case gather_policies api env pol of
                  (Inl e, ww) \<Rightarrow> (Inl e, ww)
                | (Inr ipc, ww) \<Rightarrow> (Inr \<lparr>vr_verification = v, vr_ipc = ipc\<rparr>, ww))))"

section \<open>Verifying\<close>

definition getTypeMeta :: "('j, 's, 'v) offline_env \<Rightarrow> ('cfg, 'v) policy_ctx \<Rightarrow> string \<times> string" where
  "getTypeMeta env pc = (case px_TypeMeta pc of None \<Rightarrow> ('''', '''') | Some raw \<Rightarrow> oe_TypeMeta env raw)"

definition getObjectMeta :: "('j, 's, 'v) offline_env \<Rightarrow> ('cfg, 'v) policy_ctx \<Rightarrow> (string \<times> string) list" where
  "getObjectMeta env pc = (case px_ObjectMeta pc of None \<Rightarrow> [] | Some raw \<Rightarrow> oe_Labels env raw)"

text \<open>The errors of a policy without a result: warnings are written, the first error is returned.\<close>

fun surface :: "'fe fe_api \<Rightarrow> 'fe go_error list \<Rightarrow> 'fe ww_line list \<times> 'fe go_error option" where
  "surface api [] = ([], None)"
| "surface api (PlainError e # errs) = ([], Some (PlainError e))"
| "surface api (FieldErr fe # errs) =
     (let w = (case Filter api WarningLevel (Some fe) of None \<Rightarrow> [] | Some warnFE \<Rightarrow> [FieldWarns warnFE])
      in case Filter api ErrorLevel (Some fe) of
           Some errorFE \<Rightarrow> (w, Some (FieldErr errorFE))
         | None \<Rightarrow> (case surface api errs of (ww, r) \<Rightarrow> (w @ ww, r)))"

fun verify_loop :: "'fe fe_api \<Rightarrow> (WClusterImagePolicy \<Rightarrow> 'r option \<times> 'fe go_error list) \<Rightarrow> WClusterImagePolicy list \<Rightarrow>
    'fe ww_line list \<times> 'fe go_error option" where
  "verify_loop api run [] = ([], None)"
| "verify_loop api run (p # ps) =
     (case run p of
        (Some res, errs) \<Rightarrow> verify_loop api run ps
      | (None, errs) \<Rightarrow>
          (case surface api errs of
             (ww, Some e) \<Rightarrow> (ww, Some e)
           | (ww, None) \<Rightarrow> (case verify_loop api run ps of (ww', r) \<Rightarrow> (ww @ ww', r))))"

definition Offline_Verify :: "'fe fe_api \<Rightarrow> ('k, 'cfg, 'v, 'fe) ResultCache \<Rightarrow> 'k \<Rightarrow> 'c verify_env \<Rightarrow> ('cfg, 'v) policy_ctx \<Rightarrow>
    (WClusterImagePolicy \<Rightarrow> schedule) \<Rightarrow> kube_api \<Rightarrow> ref_parser \<Rightarrow> ('j, 's, 'v) offline_env \<Rightarrow> verifier \<Rightarrow> reference \<Rightarrow> string \<Rightarrow>
    remote_opt list \<Rightarrow> 'fe ww_line list \<times> 'fe go_error option" where
  "Offline_Verify api rc k env pc scs ka pr oe i ref kc opts =
     (case getTypeMeta oe pc of (kind, apiVersion) \<Rightarrow>
        case GetMatchingPolicies ka pr (Some (vr_ipc i)) (ref_Name ref) kind apiVersion (getObjectMeta oe pc) of
          (_, Some e) \<Rightarrow> ([], Some (PlainError e))
        | (matches, None) \<Rightarrow>
            (let ms = (case matches of None \<Rightarrow> [] | Some m \<Rightarrow> map snd m); nm = vf_NoMatchPolicy (vr_verification i)
             in if ms = [] \<and> nm = ''allow'' then ([], None)
                else if ms = [] \<and> nm = ''deny'' then ([], Some (PlainError (ref_String ref @ '' is uncovered by policy'')))
                else if ms = [] \<and> nm \<noteq> ''warn'' then ([], Some (PlainError (''unsupported noMatchPolicy: '' @ nm)))
                else (case verify_loop api (\<lambda>p. ValidatePolicy api rc k env pc (scs p) '''' ref p (opts @ [WithOtherRemoteOptions kc])) ms of
                        (ww, r) \<Rightarrow> ((if ms = [] then [Uncovered (ref_String ref)] else []) @ ww, r))))"

section \<open>What is compiled was validated\<close>

text \<open>A policy of a document as one of the two versions, valid after defaulting.\<close>

definition validated_policy :: "'fe fe_api \<Rightarrow> ('j, 's, 'v) offline_env \<Rightarrow> 's ClusterImagePolicy \<Rightarrow> bool" where
  "validated_policy api env cip =
     (\<not> blocks api (ClusterImagePolicy_Validate api (oe_x env) (oe_ctx env) (ClusterImagePolicy_SetDefaults cip)) \<or>
      (\<exists>b. \<not> blocks api (B_ClusterImagePolicy_Validate api (oe_x env) (oe_ctx env) (B_ClusterImagePolicy_SetDefaults b)) \<and>
           ClusterImagePolicy_ConvertFrom (oe_zero_cip env) (ConvBeta b) = Ok cip))"

text \<open>Decoding that rejects unknown fields accepts no more, and yields the same, as plain decoding.\<close>

definition decoders_agree :: "('j, 's, 'v) offline_env \<Rightarrow> bool" where
  "decoders_agree env =
     ((\<forall>j v. oe_Decode_alpha env j = Ok v \<longrightarrow> oe_Unmarshal_alpha env j = Ok v) \<and>
      (\<forall>j v. oe_Decode_beta env j = Ok v \<longrightarrow> oe_Unmarshal_beta env j = Ok v))"

lemma validate_object_ok:
  assumes "validate_object api env decode setDefaults validate uo = (w, None)"
  shows "\<exists>v. decode (uo_Object uo) = Ok v \<and> (validate (setDefaults v) = None \<or> \<not> blocks api (validate (setDefaults v)))"
  using assms by (auto simp: validate_object_def blocks_def split: option.splits sum.splits)

lemma validate_docs_ok:
  assumes "validate_docs api env i uol warns = (w, None)" "uo \<in> set uol"
  shows "(GroupVersionKind env uo = BetaKind \<longrightarrow> (\<exists>w. beta_verdict api env uo = (w, None))) \<and>
    (GroupVersionKind env uo = AlphaKind \<longrightarrow> (\<exists>w. alpha_verdict api env uo = (w, None)))"
  using assms
proof (induction uol arbitrary: i warns)
  case (Cons u uol)
  from Cons.prems(1) have rest: "\<exists>w'. validate_docs api env (Suc i) uol w' = (w, None)"
    by (auto split: if_splits prod.splits option.splits)
  have "(GroupVersionKind env u = BetaKind \<longrightarrow> (\<exists>w. beta_verdict api env u = (w, None))) \<and>
    (GroupVersionKind env u = AlphaKind \<longrightarrow> (\<exists>w. alpha_verdict api env u = (w, None)))"
    using Cons.prems(1) by (auto simp: BetaKind_def AlphaKind_def split: if_splits prod.splits option.splits)
  with rest Cons show ?case by auto
qed simp

lemma policy_of_validated:
  assumes "policy_of env uo = Ok (Some cip)" "decoders_agree env"
    and "(GroupVersionKind env uo = BetaKind \<longrightarrow> (\<exists>w. beta_verdict api env uo = (w, None))) \<and>
      (GroupVersionKind env uo = AlphaKind \<longrightarrow> (\<exists>w. alpha_verdict api env uo = (w, None)))"
    and "field_error_laws api"
  shows "validated_policy api env cip"
proof -
  have nb: "\<not> blocks api None" using field_error_laws.Filter_nil [OF assms(4)] by (simp add: blocks_def)
  from assms(1) have "GroupVersionKind env uo = BetaKind \<or> GroupVersionKind env uo = AlphaKind"
    by (auto simp: policy_of_def GroupVersionKind_def split: sum.splits if_splits)
  then show ?thesis
  proof
    assume g: "GroupVersionKind env uo = BetaKind"
    with assms(3) obtain w where "beta_verdict api env uo = (w, None)" by blast
    then obtain b where b: "oe_Decode_beta env (uo_Object uo) = Ok b"
        "\<not> blocks api (B_ClusterImagePolicy_Validate api (oe_x env) (oe_ctx env) (B_ClusterImagePolicy_SetDefaults b))"
      unfolding beta_verdict_def using validate_object_ok nb by metis
    from b(1) assms(2) have "oe_Unmarshal_beta env (uo_Object uo) = Ok b" by (simp add: decoders_agree_def)
    then have "ClusterImagePolicy_ConvertFrom (oe_zero_cip env) (ConvBeta b) = Ok cip"
      using assms(1) g by (auto simp: policy_of_def GroupVersionKind_def convert_def BetaKind_def split: sum.splits if_splits option.splits)
    with b(2) show ?thesis unfolding validated_policy_def by blast
  next
    assume g: "GroupVersionKind env uo = AlphaKind"
    with assms(3) obtain w where "alpha_verdict api env uo = (w, None)" by blast
    then obtain a where a: "oe_Decode_alpha env (uo_Object uo) = Ok a"
        "\<not> blocks api (ClusterImagePolicy_Validate api (oe_x env) (oe_ctx env) (ClusterImagePolicy_SetDefaults a))"
      unfolding alpha_verdict_def using validate_object_ok nb by metis
    from a(1) assms(2) have "oe_Unmarshal_alpha env (uo_Object uo) = Ok a" by (simp add: decoders_agree_def)
    then have "cip = a"
      using assms(1) g by (auto simp: policy_of_def GroupVersionKind_def convert_def BetaKind_def AlphaKind_def split: sum.splits if_splits option.splits)
    with a(2) show ?thesis unfolding validated_policy_def by blast
  qed
qed

lemma parsed_policies_validated:
  assumes "ParseClusterImagePolicies api env document = (w, Inr cips)" "decoders_agree env" "field_error_laws api" "cip \<in> set cips"
  shows "validated_policy api env cip"
proof -
  from assms(1) obtain ol ps where v: "validate_docs api env 0 ol None = (w, None)" and m: "mapM (policy_of env) ol = Ok ps"
    and c: "cips = List.map_filter id ps"
    by (auto simp: ParseClusterImagePolicies_def Offline_Validate_def split: prod.splits option.splits sum.splits if_splits)
  from assms(4) have "Some cip \<in> set ps" by (auto simp: c List.map_filter_def)
  then have "Ok (Some cip) \<in> set (map (policy_of env) ol)" using m by (simp add: mapM_Ok_iff)
  then obtain uo where "uo \<in> set ol" "policy_of env uo = Ok (Some cip)" by (auto dest: sym)
  then show ?thesis using policy_of_validated [OF _ assms(2) validate_docs_ok [OF v] assms(3)] by blast
qed

definition compiled_from_validated :: "'fe fe_api \<Rightarrow> ('j, 's, 'v) offline_env \<Rightarrow> string \<times> WClusterImagePolicy \<Rightarrow> bool" where
  "compiled_from_validated api env nw =
     (\<exists>cip w. validated_policy api env cip \<and> fst nw = om_Name (cip_ObjectMeta cip) \<and>
        w = ConvertClusterImagePolicyV1alpha1ToWebhook (ClusterImagePolicy_SetDefaults cip) \<and> oe_compiled_Unmarshal env w = Ok (snd nw))"

definition good_gathered :: "'fe fe_api \<Rightarrow> ('j, 's, 'v) offline_env \<Rightarrow> (string \<times> WClusterImagePolicy) list \<Rightarrow> bool" where
  "good_gathered api env ps = (distinct (map fst ps) \<and> list_all (compiled_from_validated api env) ps)"

lemma gather_cip_good:
  assumes "good_gathered api env (fst st)" "validated_policy api env cip"
  shows "good_gathered api env (fst (gather_cip env st cip))"
proof -
  obtain ps ww where st: "st = (ps, ww)" by (cases st)
  let ?cip = "ClusterImagePolicy_SetDefaults cip"
  have n: "om_Name (cip_ObjectMeta ?cip) = om_Name (cip_ObjectMeta cip)" by (simp add: ClusterImagePolicy_SetDefaults_def)
  have new: "good_gathered api env (map_assign (om_Name (cip_ObjectMeta cip)) compiled ps)"
    if "oe_compiled_Unmarshal env (ConvertClusterImagePolicyV1alpha1ToWebhook ?cip) = Ok compiled"
      "om_Name (cip_ObjectMeta cip) \<notin> fst ` set ps" for compiled
  proof -
    have "compiled_from_validated api env (om_Name (cip_ObjectMeta cip), compiled)"
      using that(1) assms(2) by (auto simp: compiled_from_validated_def)
    then show ?thesis using that(2) assms(1) by (auto simp: st good_gathered_def map_assign_def)
  qed
  from assms(1) new show ?thesis
    by (auto simp: st gather_cip_def Let_def n convert_def split: sum.splits option.splits)
qed

lemma gather_cips_good:
  "good_gathered api env (fst st) \<Longrightarrow> \<forall>cip \<in> set l. validated_policy api env cip \<Longrightarrow> good_gathered api env (fst (foldl (gather_cip env) st l))"
  by (induction l arbitrary: st) (simp_all add: gather_cip_good)

lemma gather_sources_good:
  assumes "gather_sources api env i pol st = (Inr ps, ww)" "good_gathered api env (fst st)" "decoders_agree env" "field_error_laws api"
  shows "good_gathered api env ps"
  using assms(1,2)
proof (induction pol arbitrary: i st)
  case (Cons p pol)
  from Cons.prems(1) obtain content warns l where f: "fetch env 1 p = Ok content"
    and p: "ParseClusterImagePolicies api env content = (warns, Inr l)"
    and r: "gather_sources api env (Suc i) pol
      (foldl (gather_cip env) (fst st, snd st @ (case warns of None \<Rightarrow> [] | Some w \<Rightarrow> [PolicyWarns i w])) l) = (Inr ps, ww)"
    by (auto split: sum.splits prod.splits)
  have "\<forall>cip \<in> set l. validated_policy api env cip" using parsed_policies_validated [OF p assms(3,4)] by blast
  then show ?case using Cons.prems(2) by (intro Cons.IH [OF r] gather_cips_good) simp_all
qed simp

lemma CompilePolicies_good:
  assumes "CompilePolicies api env v = (Inr i, ww)" "decoders_agree env" "field_error_laws api"
  shows "distinct (map fst (Policies (vr_ipc i))) \<and> list_all (compiled_from_validated api env) (Policies (vr_ipc i))"
proof -
  from assms(1) obtain pol where "gather_sources api env 0 pol ([], []) = (Inr (Policies (vr_ipc i)), ww)"
    by (auto simp: CompilePolicies_def gather_policies_def split: option.splits prod.splits sum.splits)
  from gather_sources_good [OF this _ assms(2,3)] show ?thesis by (simp add: good_gathered_def)
qed

text \<open>
  C36 A verifier that compiled has policies of distinct names only, and each of them is the
  webhook form of a policy some source holds that the validator of its version accepts after
  defaulting, whatever files and URLs answer when they are fetched the second time.
\<close>

theorem compiled_policies_validated:
  assumes "CompilePolicies api env v = (Inr i, ww)" "decoders_agree env" "field_error_laws api"
  shows "distinct (map fst (Policies (vr_ipc i))) \<and> list_all (compiled_from_validated api env) (Policies (vr_ipc i))"
  using assms by (rule CompilePolicies_good)

section \<open>What verification accepts\<close>

definition only_warns :: "'fe fe_api \<Rightarrow> 'fe go_error list \<Rightarrow> bool" where
  "only_warns api errs = list_all (\<lambda>e. case e of PlainError _ \<Rightarrow> False | FieldErr fe \<Rightarrow> \<not> blocks api (Some fe)) errs"

lemma surface_None: "snd (surface api errs) = None \<longleftrightarrow> only_warns api errs"
  by (induction api errs rule: surface.induct) (auto simp: only_warns_def blocks_def Let_def split: option.splits prod.splits)

lemma verify_loop_None:
  "snd (verify_loop api run ps) = None \<longleftrightarrow> list_all (\<lambda>p. fst (run p) \<noteq> None \<or> only_warns api (snd (run p))) ps"
proof (induction ps)
  case (Cons p ps)
  show ?case
  proof (cases "fst (run p)")
    case None
    then obtain errs where r: "run p = (None, errs)" by (cases "run p") simp
    show ?thesis using Cons surface_None [of api errs] by (auto simp: r split: prod.splits option.splits)
  next
    case (Some res)
    then obtain errs where "run p = (Some res, errs)" by (cases "run p") simp
    with Cons show ?thesis by simp
  qed
qed simp

lemma Offline_Verify_None:
  assumes "getTypeMeta oe pc = (kind, apiVersion)"
    and "GetMatchingPolicies ka pr (Some (vr_ipc i)) (ref_Name ref) kind apiVersion (getObjectMeta oe pc) = (matches, err)"
  shows "snd (Offline_Verify api rc k env pc scs ka pr oe i ref kc opts) = None \<longleftrightarrow>
    err = None \<and>
    (case matches of
       None \<Rightarrow> vf_NoMatchPolicy (vr_verification i) \<in> {''allow'', ''warn''}
     | Some [] \<Rightarrow> vf_NoMatchPolicy (vr_verification i) \<in> {''allow'', ''warn''}
     | Some ms \<Rightarrow> list_all (\<lambda>(n, p).
         fst (ValidatePolicy api rc k env pc (scs p) '''' ref p (opts @ [WithOtherRemoteOptions kc])) \<noteq> None \<or>
         only_warns api (snd (ValidatePolicy api rc k env pc (scs p) '''' ref p (opts @ [WithOtherRemoteOptions kc])))) ms)"
proof (cases err)
  case (Some e)
  with assms show ?thesis by (simp add: Offline_Verify_def)
next
  case None
  define ms where "ms = (case matches of None \<Rightarrow> [] | Some m \<Rightarrow> m)"
  let ?run = "\<lambda>p. ValidatePolicy api rc k env pc (scs p) '''' ref p (opts @ [WithOtherRemoteOptions kc])"
  have "snd (Offline_Verify api rc k env pc scs ka pr oe i ref kc opts) = None \<longleftrightarrow>
    (if ms = [] then vf_NoMatchPolicy (vr_verification i) \<in> {''allow'', ''warn''}
     else snd (verify_loop api ?run (map snd ms)) = None)"
    using assms None by (auto simp: Offline_Verify_def ms_def Let_def split: option.splits prod.splits)
  also have "snd (verify_loop api ?run (map snd ms)) = None \<longleftrightarrow>
      list_all (\<lambda>(n, p). fst (?run p) \<noteq> None \<or> only_warns api (snd (?run p))) ms"
    unfolding verify_loop_None by (simp add: list_all_iff case_prod_beta)
  finally show ?thesis using None by (cases matches; cases ms) (simp_all add: ms_def)
qed

text \<open>
  C37 Offline verification of an image: it fails with the error of the matching when that has
  one; without matching policies it succeeds exactly when the configuration says allow or warn; else it
  succeeds exactly when every matching policy has a result or reports nothing but warnings. Unlike in
  the admission webhook, a plain error of a policy without a result rejects.
\<close>

theorem offline_verify_exact:
  assumes "getTypeMeta oe pc = (kind, apiVersion)"
    and "GetMatchingPolicies ka pr (Some (vr_ipc i)) (ref_Name ref) kind apiVersion (getObjectMeta oe pc) = (matches, err)"
  shows "snd (Offline_Verify api rc k env pc scs ka pr oe i ref kc opts) = None \<longleftrightarrow>
    err = None \<and>
    (case matches of
       None \<Rightarrow> vf_NoMatchPolicy (vr_verification i) \<in> {''allow'', ''warn''}
     | Some [] \<Rightarrow> vf_NoMatchPolicy (vr_verification i) \<in> {''allow'', ''warn''}
     | Some ms \<Rightarrow> list_all (\<lambda>(n, p).
         fst (ValidatePolicy api rc k env pc (scs p) '''' ref p (opts @ [WithOtherRemoteOptions kc])) \<noteq> None \<or>
         only_warns api (snd (ValidatePolicy api rc k env pc (scs p) '''' ref p (opts @ [WithOtherRemoteOptions kc])))) ms)"
  using assms by (rule Offline_Verify_None)

section \<open>Sample values\<close>

definition sample_offline :: "(string, unit, unit) offline_env" where
  "sample_offline = \<lparr>
     oe_x = sample_externals, oe_ctx = sample_ctx,
     oe_yaml_Unmarshal = (\<lambda>d. Ok \<lparr>uo_APIVersion = ''policy.sigstore.dev/v1alpha1'', uo_Kind = ''ClusterImagePolicy'', uo_Name = ''policy'',
       uo_Namespace = '''', uo_Object = d\<rparr>),
     oe_ParseGroupVersion = (\<lambda>_. Ok (''policy.sigstore.dev'', ''v1alpha1'')), oe_GVK_String = (\<lambda>_. ''''), oe_Marshal_err = (\<lambda>_. None),
     oe_Decode_alpha = (\<lambda>_. Ok sample_cip), oe_Decode_beta = (\<lambda>_. Err ''unknown field''),
     oe_Unmarshal_alpha = (\<lambda>_. Ok sample_cip), oe_Unmarshal_beta = (\<lambda>_. Err ''unknown field''),
     oe_zero_cip = sample_cip\<lparr>cip_Spec := zero_Spec\<rparr>, oe_ReadFile = (\<lambda>_ _. Err ''no such file''), oe_http_Get = (\<lambda>_ _. Err ''no route''),
     oe_compiled_Marshal_err = (\<lambda>_. None), oe_compiled_Unmarshal = Ok,
     oe_TypeMeta = (\<lambda>_. (''Pod'', ''v1'')), oe_Labels = (\<lambda>_. [])\<rparr>"

definition sample_verification :: PolicyVerification where
  "sample_verification = \<lparr>vf_NoMatchPolicy = ''deny'', vf_Policies = Some [\<lparr>so_Data = ''p'', so_Path = '''', so_URL = ''''\<rparr>]\<rparr>"

lemma sample_defaulted_ok:
  "\<not> blocks diag_api (ClusterImagePolicy_Validate diag_api sample_externals sample_ctx (ClusterImagePolicy_SetDefaults sample_cip))"
  using spec_ok_defaults [OF sample_spec_ok]
  by (simp add: ClusterImagePolicy_Validate_def ClusterImagePolicy_SetDefaults_def sample_cip_def dl.blocks_Spec_Validate)

lemma parsed_document:
  assumes "oe = sample_offline\<lparr>oe_ctx := c, oe_Decode_alpha := (\<lambda>_. Ok cip), oe_Unmarshal_alpha := (\<lambda>_. Ok cip), oe_ReadFile := rf, oe_http_Get := get\<rparr>"
    and "\<not> blocks diag_api (ClusterImagePolicy_Validate diag_api sample_externals c (ClusterImagePolicy_SetDefaults cip))"
  shows "\<exists>w. ParseClusterImagePolicies diag_api oe ''p'' = (w, Inr [cip])"
proof -
  note oe_def = assms(1) sample_offline_def
  have t: "TrimSpace ''p'' = ''p''"
    by (simp add: TrimSpace_def trim_left_space.simps leading_space_def space_encodings_def)
  have s: "str_split doc_separator ''p'' = [''p'']" by (simp add: str_split.simps doc_separator_def)
  have p: "Parse diag_api oe ''p'' =
      Inr [\<lparr>uo_APIVersion = ''policy.sigstore.dev/v1alpha1'', uo_Kind = ''ClusterImagePolicy'', uo_Name = ''policy'', uo_Namespace = '''', uo_Object = ''p''\<rparr>]"
    by (simp add: Parse_def s t) (simp add: oe_def)
  have "snd (alpha_verdict diag_api oe uo) = None" for uo
    using assms(2) by (auto simp: alpha_verdict_def validate_object_def oe_def blocks_def split: option.splits)
  then have "\<exists>w. alpha_verdict diag_api oe uo = (w, None)" for uo by (metis prod.collapse)
  then obtain w where v: "alpha_verdict diag_api oe
      \<lparr>uo_APIVersion = ''policy.sigstore.dev/v1alpha1'', uo_Kind = ''ClusterImagePolicy'', uo_Name = ''policy'', uo_Namespace = '''', uo_Object = ''p''\<rparr> =
      (w, None)" by blast
  have g: "GroupVersionKind oe
      \<lparr>uo_APIVersion = ''policy.sigstore.dev/v1alpha1'', uo_Kind = ''ClusterImagePolicy'', uo_Name = ''policy'', uo_Namespace = '''', uo_Object = ''p''\<rparr> =
      AlphaKind" by (simp add: GroupVersionKind_def oe_def AlphaKind_def)
  have "Offline_Validate diag_api oe ''p'' = (w, None)"
    using v g by (simp add: Offline_Validate_def p) (simp add: BetaKind_def AlphaKind_def)
  moreover have "policy_of oe
      \<lparr>uo_APIVersion = ''policy.sigstore.dev/v1alpha1'', uo_Kind = ''ClusterImagePolicy'', uo_Name = ''policy'', uo_Namespace = '''', uo_Object = ''p''\<rparr> =
      Ok (Some cip)"
    by (simp add: policy_of_def convert_def oe_def BetaKind_def AlphaKind_def)
  ultimately show ?thesis by (simp add: ParseClusterImagePolicies_def p List.map_filter_def)
qed

lemma sample_parsed: "\<exists>w. ParseClusterImagePolicies diag_api sample_offline ''p'' = (w, Inr [sample_cip])"
  by (rule parsed_document [OF _ sample_defaulted_ok]) (simp add: sample_offline_def)

theorem compiled_policies_validated_witness:
  "\<exists>i ww. CompilePolicies diag_api sample_offline sample_verification = (Inr i, ww) \<and> Policies (vr_ipc i) \<noteq> [] \<and>
     list_all (compiled_from_validated diag_api sample_offline) (Policies (vr_ipc i))"
proof -
  obtain w where p: "ParseClusterImagePolicies diag_api sample_offline ''p'' = (w, Inr [sample_cip])" using sample_parsed by blast
  have nil: "Also diag_api None None = None" "ViaFieldIndex diag_api f j None = None" for f j
    using dl.Also_nil dl.ViaFieldIndex_nil by auto
  have "PolicyVerification_Validate diag_api sample_offline sample_verification = None"
    by (simp add: PolicyVerification_Validate_def sample_verification_def indexed_def PolicySource_Validate_def fields_set_def fetch_def p nil)
  moreover obtain ps ww where g: "gather_sources diag_api sample_offline 0 [\<lparr>so_Data = ''p'', so_Path = '''', so_URL = ''''\<rparr>] ([], []) = (Inr ps, ww)"
      "ps \<noteq> []"
    by (simp add: fetch_def p gather_cip_def convert_def Let_def) (simp add: sample_offline_def map_assign_def)
  ultimately have c: "CompilePolicies diag_api sample_offline sample_verification =
      (Inr \<lparr>vr_verification = sample_verification, vr_ipc = \<lparr>Policies = ps\<rparr>\<rparr>, ww)"
    by (simp add: CompilePolicies_def gather_policies_def sample_verification_def del: gather_sources.simps)
  have "decoders_agree sample_offline" by (simp add: decoders_agree_def sample_offline_def)
  from compiled_policies_validated [OF c this dl.field_error_laws_axioms] c g(2) show ?thesis by auto
qed

definition sample_verifier :: verifier where
  "sample_verifier = \<lparr>vr_verification = sample_verification,
     vr_ipc = \<lparr>Policies = [(''pass'', sample_webhook_cip\<lparr>wc_Authorities := [sample_static ''pass'']\<rparr>)]\<rparr>\<rparr>"

theorem offline_verify_exact_witness:
  "snd (Offline_Verify diag_api NoCache () sample_env (sample_pctx\<lparr>px_TypeMeta := Some ()\<rparr>)
     (\<lambda>_. \<lparr>sc_order = [0], sc_done = [False]\<rparr>) sample_kube sample_parser sample_offline sample_verifier sample_image_ref ''kc'' []) = None"
proof -
  let ?p = "sample_webhook_cip\<lparr>wc_Authorities := [sample_static ''pass'']\<rparr>" and ?pc = "sample_pctx\<lparr>px_TypeMeta := Some ()\<rparr>"
  have t: "getTypeMeta sample_offline ?pc = (''Pod'', ''v1'')" by (simp add: getTypeMeta_def sample_offline_def)
  have m: "GetMatchingPolicies sample_kube sample_parser (Some (vr_ipc sample_verifier)) (ref_Name sample_image_ref) ''Pod'' ''v1''
      (getObjectMeta sample_offline ?pc) = (Some [(''pass'', ?p)], None)"
    by (simp add: sample_verifier_def sample_parser_ab GetMatchingPolicies_def sample_kube_def sample_webhook_cip_def map_assign_def sample_match_ab)
  have v: "fst (ValidatePolicy diag_api NoCache () sample_env ?pc \<lparr>sc_order = [0], sc_done = [False]\<rparr> '''' sample_image_ref ?p
      ([] @ [WithOtherRemoteOptions ''kc''])) \<noteq> None"
    by (simp add: ValidatePolicy_def NoCache_def gather_def sample_check_static recv_authority_def map_assign_def sample_webhook_cip_def)
  show ?thesis unfolding offline_verify_exact [OF t m] using v by (simp only: list.simps option.simps list.pred_inject prod.case simp_thms)
qed

end
