(* ===== verification/GenReconciler.thy ===== *)
theory GenReconciler
  imports ConfigMaps V1alpha1 "HOL-Library.List_Lexorder" "HOL-Library.Char_ord"
begin

text \<open>
  The generated reconcilers, \<open>pkg/client/injection/reconciler/policy/\<close>: \<open>state.go\<close>,
  \<open>reconciler.go\<close> and the options of \<open>controller.go\<close>. The generator writes the same text for each
  kind of resource, so the definitions are over the accessors of a kind; \<open>ControllerRuns\<close>
  instantiates them for policies and trust roots. Everything the code calls (the API server,
  the lister, the event recorder, leader election and knative's processing of statuses) acts
  on a world, the type \<open>'w\<close>, and is a field of the reconciler. Left out are the construction of the event recorder, the
  configuration store a reconciler may have and \<open>DemoteFunc\<close>, which no controller of the program sets. That the business
  logic implements the wrong \<open>LeaderAware\<close> interface is a flag of it.
\<close>

section \<open>Kinds, events and clients\<close>

record ('r, 'st) kind_ops =
  ko_Meta :: "'r \<Rightarrow> ObjectMeta"
  ko_Status :: "'r \<Rightarrow> 'st"
  ko_set_Status :: "'st \<Rightarrow> 'r \<Rightarrow> 'r"

text \<open>
  A \<open>reconciler.Event\<close> that is not nil: a \<open>ReconcilerEvent\<close> (type, reason and text), an error
  that wraps one, the errors of the work queue, and any other error.
\<close>

datatype rec_event =
    ReconcilerEvent string string string
  | WrappedEvent string string string
  | SkipKey string
  | RequeueKey string
  | OtherError string

datatype api_err = Conflict string | ApiFailed string

fun api_err_text :: "api_err \<Rightarrow> string" where
  "api_err_text (Conflict e) = e"
| "api_err_text (ApiFailed e) = e"

text \<open>The merge patch of \<open>updateFinalizersFiltered\<close>; strings always marshal.\<close>

record finalizer_patch =
  fp_finalizers :: "string list"
  fp_resourceVersion :: string

record ('r, 'w) api_client =
  ac_Get :: "string \<Rightarrow> 'w \<Rightarrow> api_err + 'r"
  ac_UpdateStatus :: "'r \<Rightarrow> 'w \<Rightarrow> 'w \<times> api_err option"
  ac_Patch :: "string \<Rightarrow> finalizer_patch \<Rightarrow> 'w \<Rightarrow> 'w \<times> (api_err + 'r)"

text \<open>A call of the business logic: the resource it may have changed and the event, or a panic.\<close>

type_synonym ('r, 'w) doReconcile = "'r \<Rightarrow> 'w \<Rightarrow> 'w \<times> ('r \<times> rec_event option) option"

text \<open>The interfaces the business logic implements; \<open>None\<close> where the type assertion fails.\<close>

record ('r, 'w) rec_interface =
  ri_ReconcileKind :: "('r, 'w) doReconcile"
  ri_FinalizeKind :: "('r, 'w) doReconcile option"
  ri_ObserveKind :: "('r, 'w) doReconcile option"
  ri_ObserveDeletion :: "(string \<times> string \<Rightarrow> 'w \<Rightarrow> 'w \<times> rec_event option) option"
  ri_LeaderAware :: bool

record ('r, 'st, 'w) reconcilerImpl =
  rl_kind :: "('r, 'st) kind_ops"
  rl_Client :: "('r, 'w) api_client"
  rl_Lister_Get :: "string \<Rightarrow> 'w \<Rightarrow> get_err + 'r"
  rl_Recorder :: "string \<Rightarrow> string \<Rightarrow> 'w \<Rightarrow> 'w"
  rl_reconciler :: "('r, 'w) rec_interface"
  rl_finalizerName :: string
  rl_skipStatusUpdates :: bool
  rl_IsLeaderFor :: "string \<times> string \<Rightarrow> bool"
  rl_SplitMetaNamespaceKey :: "string \<Rightarrow> (string \<times> string) go_result"
  rl_PreProcess :: "'r \<Rightarrow> 'r"
  rl_PostProcess :: "'r \<Rightarrow> 'r \<Rightarrow> 'r"
  rl_DeepEqual :: "'st \<Rightarrow> 'st \<Rightarrow> bool"
  rl_RetryUpdateConflicts :: "(nat \<Rightarrow> 'w \<Rightarrow> 'w \<times> api_err option) \<Rightarrow> 'w \<Rightarrow> 'w \<times> api_err option"

section \<open>The state of a run\<close>

record rec_state =
  rs_key :: string
  rs_namespace :: string
  rs_name :: string
  rs_isROI :: bool
  rs_isLeader :: bool

definition newState :: "('r, 'st, 'w) reconcilerImpl \<Rightarrow> string \<Rightarrow> rec_state go_result" where
  "newState r key =
     (case rl_SplitMetaNamespaceKey r key of
        Inl e \<Rightarrow> Err (''invalid resource key: '' @ key)
      | Inr (namespace, name) \<Rightarrow>
          Ok \<lparr>rs_key = key, rs_namespace = namespace, rs_name = name,
              rs_isROI = (ri_ObserveKind (rl_reconciler r) \<noteq> None), rs_isLeader = rl_IsLeaderFor r (namespace, name)\<rparr>)"

definition isNotLeaderNorObserver :: "rec_state \<Rightarrow> bool" where
  "isNotLeaderNorObserver s = (\<not> rs_isLeader s \<and> \<not> rs_isROI s)"

text \<open>The method and its name; for an unknown method nothing is called.\<close>

datatype ('r, 'w) rec_method =
    DoReconcileKind "('r, 'w) doReconcile"
  | DoFinalizeKind "('r, 'w) doReconcile"
  | DoObserveKind "('r, 'w) doReconcile"
  | UnknownMethod

definition reconcileMethodFor :: "('r, 'w) rec_interface \<Rightarrow> rec_state \<Rightarrow> ObjectMeta \<Rightarrow> ('r, 'w) rec_method" where
  "reconcileMethodFor ri s m =
     (if om_DeletionTimestamp m = None then
        (if rs_isLeader s then DoReconcileKind (ri_ReconcileKind ri)
         else if rs_isROI s then
           (case ri_ObserveKind ri of Some f \<Rightarrow> DoObserveKind f | None \<Rightarrow> UnknownMethod)
         else UnknownMethod)
      else (case ri_FinalizeKind ri of
              Some fin \<Rightarrow> if rs_isLeader s then DoFinalizeKind fin else UnknownMethod
            | None \<Rightarrow> UnknownMethod))"

section \<open>Finalizers\<close>

text \<open>\<open>sets.String.List\<close>: the elements in increasing order.\<close>

definition sets_List :: "string list \<Rightarrow> string list" where
  "sets_List xs = sort (remdups xs)"

definition patch_finalizers :: "('r, 'st, 'w) reconcilerImpl \<Rightarrow> 'r \<Rightarrow> string list \<Rightarrow> 'w \<Rightarrow> 'w \<times> (api_err + 'r)" where
  "patch_finalizers r resource finalizers w =
     (let m = ko_Meta (rl_kind r) resource
      in case ac_Patch (rl_Client r) (om_Name m) \<lparr>fp_finalizers = finalizers, fp_resourceVersion = om_ResourceVersion m\<rparr> w of
           (w', Inl e) \<Rightarrow> (rl_Recorder r ''Warning'' ''FinalizerUpdateFailed'' w', Inl e)
         | (w', Inr updated) \<Rightarrow> (rl_Recorder r ''Normal'' ''FinalizerUpdate'' w', Inr updated))"

definition updateFinalizersFiltered :: "('r, 'st, 'w) reconcilerImpl \<Rightarrow> 'r \<Rightarrow> string set \<Rightarrow> 'w \<Rightarrow> 'w \<times> (api_err + 'r)" where
  "updateFinalizersFiltered r resource desiredFinalizers w =
     (let existing = om_Finalizers (ko_Meta (rl_kind r) resource); f = rl_finalizerName r
      in if f \<in> desiredFinalizers then
           (if f \<in> set existing then (w, Inr resource) else patch_finalizers r resource (existing @ [f]) w)
         else
           (if f \<notin> set existing then (w, Inr resource)
            else patch_finalizers r resource (sets_List (removeAll f existing)) w))"

definition setFinalizerIfFinalizer :: "('r, 'st, 'w) reconcilerImpl \<Rightarrow> 'r \<Rightarrow> 'w \<Rightarrow> 'w \<times> (api_err + 'r)" where
  "setFinalizerIfFinalizer r resource w =
     (if ri_FinalizeKind (rl_reconciler r) = None then (w, Inr resource)
      else (let m = ko_Meta (rl_kind r) resource; finalizers = set (om_Finalizers m)
            in updateFinalizersFiltered r resource
                 (if om_DeletionTimestamp m = None then insert (rl_finalizerName r) finalizers else finalizers) w))"

text \<open>The finalizer goes when finalization returned nil or an event of type Normal.\<close>

definition cleanly :: "rec_event option \<Rightarrow> bool" where
  "cleanly ev =
     (case ev of
        None \<Rightarrow> True
      | Some (ReconcilerEvent t _ _) \<Rightarrow> t = ''Normal''
      | Some (WrappedEvent t _ _) \<Rightarrow> t = ''Normal''
      | Some _ \<Rightarrow> False)"

definition clearFinalizer :: "('r, 'st, 'w) reconcilerImpl \<Rightarrow> 'r \<Rightarrow> rec_event option \<Rightarrow> 'w \<Rightarrow> 'w \<times> (api_err + 'r)" where
  "clearFinalizer r resource reconcileEvent w =
     (if ri_FinalizeKind (rl_reconciler r) = None then (w, Inr resource)
      else if om_DeletionTimestamp (ko_Meta (rl_kind r) resource) = None then (w, Inr resource)
      else (let finalizers = set (om_Finalizers (ko_Meta (rl_kind r) resource))
            in updateFinalizersFiltered r resource
                 (if cleanly reconcileEvent then finalizers - {rl_finalizerName r} else finalizers) w))"

section \<open>The status\<close>

text \<open>One attempt: the first uses the informer's object, later ones read it again.\<close>

definition update_attempt :: "('r, 'st, 'w) reconcilerImpl \<Rightarrow> 'r \<Rightarrow> 'r \<Rightarrow> nat \<Rightarrow> 'w \<Rightarrow> 'w \<times> api_err option" where
  "update_attempt r existing desired attempts w =
     (case (if attempts > 0 then ac_Get (rl_Client r) (om_Name (ko_Meta (rl_kind r) desired)) w else Inr existing) of
        Inl e \<Rightarrow> (w, Some e)
      | Inr ex \<Rightarrow>
          if rl_DeepEqual r (ko_Status (rl_kind r) ex) (ko_Status (rl_kind r) desired) then (w, None)
          else ac_UpdateStatus (rl_Client r) (ko_set_Status (rl_kind r) (ko_Status (rl_kind r) desired) ex) w)"

definition updateStatus :: "('r, 'st, 'w) reconcilerImpl \<Rightarrow> 'r \<Rightarrow> 'r \<Rightarrow> 'w \<Rightarrow> 'w \<times> api_err option" where
  "updateStatus r existing desired w = rl_RetryUpdateConflicts r (update_attempt r existing desired) w"

section \<open>Reconcile\<close>

text \<open>What \<open>Reconcile\<close> returns: nil or an error; or the panic of the business logic goes through.\<close>

datatype rec_return = Returned "rec_event option" | Crashed

text \<open>The end of \<open>Reconcile\<close>: the event is recorded and decides what is returned.\<close>

definition report_event :: "('r, 'st, 'w) reconcilerImpl \<Rightarrow> rec_event option \<Rightarrow> 'w \<Rightarrow> 'w \<times> rec_return" where
  "report_event r ev w =
     (case ev of
        None \<Rightarrow> (w, Returned None)
      | Some (ReconcilerEvent t reason msg) \<Rightarrow> (rl_Recorder r t reason w, Returned None)
      | Some (WrappedEvent t reason msg) \<Rightarrow> (rl_Recorder r t reason w, Returned ev)
      | Some (SkipKey e) \<Rightarrow> (w, Returned ev)
      | Some (RequeueKey e) \<Rightarrow> (w, Returned ev)
      | Some (OtherError e) \<Rightarrow> (rl_Recorder r ''Warning'' ''InternalError'' w, Returned ev))"

text \<open>The synchronisation of the status, then the event.\<close>

definition finish_run :: "('r, 'st, 'w) reconcilerImpl \<Rightarrow> bool \<Rightarrow> 'r \<Rightarrow> 'r \<Rightarrow> rec_event option \<Rightarrow> 'w \<Rightarrow> 'w \<times> rec_return" where
  "finish_run r isLeader original resource ev w =
     (if rl_skipStatusUpdates r \<or>
         rl_DeepEqual r (ko_Status (rl_kind r) original) (ko_Status (rl_kind r) resource) \<or> \<not> isLeader
      then report_event r ev w
      else (case updateStatus r original resource w of
              (w', Some e) \<Rightarrow> (rl_Recorder r ''Warning'' ''UpdateFailed'' w', Returned (Some (OtherError (api_err_text e))))
            | (w', None) \<Rightarrow> report_event r ev w'))"

definition run_reconcile :: "('r, 'st, 'w) reconcilerImpl \<Rightarrow> ('r, 'w) doReconcile \<Rightarrow> 'r \<Rightarrow> 'w \<Rightarrow> 'w \<times> rec_return" where
  "run_reconcile r doIt original w =
     (case setFinalizerIfFinalizer r original w of
        (w1, Inl e) \<Rightarrow> (w1, Returned (Some (OtherError (wrap_err ''failed to set finalizers'' (api_err_text e)))))
      | (w1, Inr resource) \<Rightarrow>
          (case doIt (if rl_skipStatusUpdates r then resource else rl_PreProcess r resource) w1 of
             (w2, None) \<Rightarrow> (w2, Crashed)
           | (w2, Some (res, ev)) \<Rightarrow>
               finish_run r True original (if rl_skipStatusUpdates r then res else rl_PostProcess r res original) ev w2))"

definition run_finalize :: "('r, 'st, 'w) reconcilerImpl \<Rightarrow> ('r, 'w) doReconcile \<Rightarrow> 'r \<Rightarrow> 'w \<Rightarrow> 'w \<times> rec_return" where
  "run_finalize r doIt original w =
     (case doIt original w of
        (w1, None) \<Rightarrow> (w1, Crashed)
      | (w1, Some (res, ev)) \<Rightarrow>
          (case clearFinalizer r res ev w1 of
             (w2, Inl e) \<Rightarrow> (w2, Returned (Some (OtherError (wrap_err ''failed to clear finalizers'' (api_err_text e)))))
           | (w2, Inr resource) \<Rightarrow> finish_run r True original resource ev w2))"

text \<open>
  \<open>configStore\<close> and the recorder only decorate the context handed to the business logic, whose
  inputs are explicit here.
\<close>

definition Reconcile :: "('r, 'st, 'w) reconcilerImpl \<Rightarrow> string \<Rightarrow> 'w \<Rightarrow> 'w \<times> rec_return" where
  "Reconcile r key w =
     (case newState r key of
        Inl e \<Rightarrow> (w, Returned None)
      | Inr s \<Rightarrow>
          if isNotLeaderNorObserver s then (w, Returned (Some (SkipKey key)))
          else (case rl_Lister_Get r (rs_name s) w of
                  Inl (NotFound _) \<Rightarrow>
                    (case ri_ObserveDeletion (rl_reconciler r) of
                       Some del \<Rightarrow> (case del (rs_namespace s, rs_name s) w of (w', ev) \<Rightarrow> (w', Returned ev))
                     | None \<Rightarrow> (w, Returned None))
                | Inl (GetFailed e) \<Rightarrow> (w, Returned (Some (OtherError e)))
                | Inr original \<Rightarrow>
                    (case reconcileMethodFor (rl_reconciler r) s (ko_Meta (rl_kind r) original) of
                       DoReconcileKind doIt \<Rightarrow> run_reconcile r doIt original w
                     | DoFinalizeKind doIt \<Rightarrow> run_finalize r doIt original w
                     | DoObserveKind doIt \<Rightarrow>
                         (case doIt original w of
                            (w1, None) \<Rightarrow> (w1, Crashed)
                          | (w1, Some (res, ev)) \<Rightarrow> finish_run r (rs_isLeader s) original res ev w1)
                     | UnknownMethod \<Rightarrow> finish_run r (rs_isLeader s) original original None w)))"

section \<open>Construction\<close>

text \<open>The options of knative's controller the generated constructors read.\<close>

record ('r, 'w) controller_options =
  opt_FinalizerName :: string
  opt_AgentName :: string
  opt_SkipStatusUpdates :: bool
  opt_PromoteFilterFunc :: "('r \<Rightarrow> bool) option"
  opt_PromoteFunc :: "(string \<Rightarrow> 'w \<Rightarrow> 'w) option"

definition apply_options :: "('r, 'st, 'w) reconcilerImpl \<Rightarrow> ('r, 'w) controller_options \<Rightarrow> ('r, 'st, 'w) reconcilerImpl" where
  "apply_options rec opts =
     (let r1 = (if opt_FinalizerName opts \<noteq> '''' then rec\<lparr>rl_finalizerName := opt_FinalizerName opts\<rparr> else rec)
      in if opt_SkipStatusUpdates opts then r1\<lparr>rl_skipStatusUpdates := True\<rparr> else r1)"

text \<open>\<open>logger.Fatal\<close>, which ends the process, is \<open>None\<close>.\<close>

definition NewReconciler :: "string \<Rightarrow> ('r, 'st, 'w) reconcilerImpl \<Rightarrow> ('r, 'w) controller_options list \<Rightarrow>
    ('r, 'st, 'w) reconcilerImpl option" where
  "NewReconciler defaultFinalizerName parts options =
     (if length options > 1 then None
      else if ri_LeaderAware (rl_reconciler parts) then None
      else Some (foldl apply_options (parts\<lparr>rl_finalizerName := defaultFinalizerName, rl_skipStatusUpdates := False\<rparr>) options))"

text \<open>
  \<open>NewImpl\<close> has in addition the name under which events are recorded, the filter of the promotion and the
  function that is told of it (by default one that does nothing); the last option that sets one wins.
\<close>

definition NewImpl :: "string \<Rightarrow> string \<Rightarrow> ('r, 'st, 'w) reconcilerImpl \<Rightarrow> ('r, 'w) controller_options list \<Rightarrow>
    (('r, 'st, 'w) reconcilerImpl \<times> string \<times> ('r \<Rightarrow> bool) option \<times> (string \<Rightarrow> 'w \<Rightarrow> 'w)) option" where
  "NewImpl defaultFinalizerName defaultControllerAgentName parts optionsFns =
     (if length optionsFns > 1 then None
      else Some
        (foldl apply_options (parts\<lparr>rl_finalizerName := defaultFinalizerName, rl_skipStatusUpdates := False\<rparr>) optionsFns,
         foldl (\<lambda>agentName opts. if opt_AgentName opts \<noteq> '''' then opt_AgentName opts else agentName)
           defaultControllerAgentName optionsFns,
         foldl (\<lambda>flt opts. case opt_PromoteFilterFunc opts of None \<Rightarrow> flt | Some g \<Rightarrow> Some g) None optionsFns,
         foldl (\<lambda>promoteFunc opts. case opt_PromoteFunc opts of None \<Rightarrow> promoteFunc | Some g \<Rightarrow> g) (\<lambda>_ w. w) optionsFns))"

text \<open>The promotion to leader of a bucket is signalled, then every listed resource that passes the filter is enqueued.\<close>

definition PromoteFunc :: "('r, 'st) kind_ops \<Rightarrow> ('r \<Rightarrow> bool) option \<times> (string \<Rightarrow> 'w \<Rightarrow> 'w) \<Rightarrow> ('w \<Rightarrow> 'r list go_result) \<Rightarrow>
    string \<Rightarrow> 'w \<Rightarrow> 'w \<times> (string \<times> string) list go_result" where
  "PromoteFunc ko promote list_all_resources bkt w =
     (let promoteFilterFunc = fst promote; w1 = snd promote bkt w
      in (w1, case list_all_resources w1 of
        Inl e \<Rightarrow> Err e
      | Inr all \<Rightarrow>
          Ok (map (\<lambda>elt. (om_Namespace (ko_Meta ko elt), om_Name (ko_Meta ko elt)))
                (filter (\<lambda>elt. case promoteFilterFunc of None \<Rightarrow> True | Some ok \<Rightarrow> ok elt) all))))"

section \<open>Runs of any kind\<close>

text \<open>Retrying as documented: at most so many attempts, the next one only after a conflict.\<close>

fun retry_loop :: "nat \<Rightarrow> (nat \<Rightarrow> 'w \<Rightarrow> 'w \<times> api_err option) \<Rightarrow> nat \<Rightarrow> 'w \<Rightarrow> 'w \<times> api_err option" where
  "retry_loop 0 f i w = f i w"
| "retry_loop (Suc n) f i w =
     (case f i w of
        (w', Some (Conflict e)) \<Rightarrow> retry_loop n f (Suc i) w'
      | (w', res) \<Rightarrow> (w', res))"

text \<open>What a kind of resource and the libraries promise.\<close>

locale reconciler_laws =
  fixes r :: "('r, 'st, 'w) reconcilerImpl"
  assumes set_status: "ko_Status (rl_kind r) (ko_set_Status (rl_kind r) st x) = st"
    and set_status_meta: "ko_Meta (rl_kind r) (ko_set_Status (rl_kind r) st x) = ko_Meta (rl_kind r) x"
    and equal_refl: "rl_DeepEqual r st st"
    and pre_meta: "ko_Meta (rl_kind r) (rl_PreProcess r x) = ko_Meta (rl_kind r) x"
    and post_meta: "ko_Meta (rl_kind r) (rl_PostProcess r x y) = ko_Meta (rl_kind r) x"
    and retries: "\<exists>n. \<forall>f w. rl_RetryUpdateConflicts r f w = retry_loop n f 0 w"
begin

text \<open>A property of the world that no attempt breaks is kept by the update of the status.\<close>

lemma retry_loop_keeps:
  assumes "\<And>i w. P w \<Longrightarrow> P (fst (f i w))" "P w"
  shows "P (fst (retry_loop n f i w))"
  using assms(2)
proof (induction n arbitrary: i w)
  case (Suc n)
  have "P (fst (f i w))" by (rule assms(1) [OF Suc.prems])
  with Suc.IH show ?case by (auto split: prod.splits option.splits api_err.splits)
qed (simp add: assms(1))

lemma updateStatus_keeps:
  assumes "\<And>x w. Q x \<Longrightarrow> P w \<Longrightarrow> P (fst (ac_UpdateStatus (rl_Client r) x w))"
    and "\<And>st x. Q x \<Longrightarrow> Q (ko_set_Status (rl_kind r) st x)" "Q existing"
    and "\<And>w x. ac_Get (rl_Client r) (om_Name (ko_Meta (rl_kind r) desired)) w = Inr x \<Longrightarrow> Q x" "P w"
  shows "P (fst (updateStatus r existing desired w))"
proof -
  obtain n where n: "\<forall>f w. rl_RetryUpdateConflicts r f w = retry_loop n f 0 w" using retries ..
  have "P (fst (update_attempt r existing desired i w))" if "P w" for i w
    using that assms(1-4) by (auto simp: update_attempt_def split: sum.splits if_splits)
  with n assms(5) show ?thesis by (simp add: updateStatus_def retry_loop_keeps)
qed

lemma finish_run_keeps:
  assumes "\<And>x w. Q x \<Longrightarrow> P w \<Longrightarrow> P (fst (ac_UpdateStatus (rl_Client r) x w))"
    and "\<And>st x. Q x \<Longrightarrow> Q (ko_set_Status (rl_kind r) st x)" "Q original"
    and "\<And>w x. ac_Get (rl_Client r) (om_Name (ko_Meta (rl_kind r) resource)) w = Inr x \<Longrightarrow> Q x"
    and "\<And>t a w. P w \<Longrightarrow> P (rl_Recorder r t a w)" "P w"
  shows "P (fst (finish_run r l original resource ev w))"
proof -
  have report: "P (fst (report_event r ev w))" if "P w" for w
    using that assms(5) by (auto simp: report_event_def split: option.splits rec_event.splits)
  have "P (fst (updateStatus r original resource w))" by (rule updateStatus_keeps [OF assms(1-4,6)])
  with report assms(5,6) show ?thesis
    by (auto simp: finish_run_def split: prod.splits option.splits)
qed

end

end
