(* ===== verification/ControllerRuns.thy ===== *)
theory ControllerRuns
  imports GenReconciler ReconcilerProperties TrustRootReconciler
begin

text \<open>
  The two controllers of the process: the generated reconciler over the business logic of
  policies and of trust roots, as \<open>NewController\<close> puts them together
  (\<open>pkg/reconciler/*/controller.go\<close>), in a cluster whose API server keeps every version of
  each object and whose lister lags behind it.
\<close>

section \<open>The world of a controller\<close>

text \<open>
  Per name the versions of the object since the start (\<open>None\<close> where there was none), the version
  the lister shows, the config map the controller maintains, the tracked references and the
  recorded events.
\<close>

record 'r cluster_world =
  wd_hist :: "string \<Rightarrow> 'r option list"
  wd_seen :: "string \<Rightarrow> nat"
  wd_cm :: "cm_data option"
  wd_tracks :: tracks
  wd_log :: "(string \<times> string) list"

definition listed_version :: "string \<Rightarrow> 'r cluster_world \<Rightarrow> get_err + 'r" where
  "listed_version n w =
     (case wd_hist w n ! wd_seen w n of None \<Rightarrow> Inl (NotFound ''not found'') | Some x \<Rightarrow> Inr x)"

definition add_version :: "string \<Rightarrow> 'r option \<Rightarrow> 'r cluster_world \<Rightarrow> 'r cluster_world" where
  "add_version n v w = w\<lparr>wd_hist := (wd_hist w)(n := wd_hist w n @ [v])\<rparr>"

definition log_event :: "string \<Rightarrow> string \<Rightarrow> 'r cluster_world \<Rightarrow> 'r cluster_world" where
  "log_event t reason w = w\<lparr>wd_log := wd_log w @ [(t, reason)]\<rparr>"

lemma add_version_simps [simp]:
  "wd_hist (add_version n v w) = (wd_hist w)(n := wd_hist w n @ [v])" "wd_seen (add_version n v w) = wd_seen w"
  "wd_cm (add_version n v w) = wd_cm w" "wd_tracks (add_version n v w) = wd_tracks w" "wd_log (add_version n v w) = wd_log w"
  by (simp_all add: add_version_def)

lemma log_event_simps [simp]:
  "wd_hist (log_event t a w) = wd_hist w" "wd_seen (log_event t a w) = wd_seen w"
  "wd_cm (log_event t a w) = wd_cm w" "wd_tracks (log_event t a w) = wd_tracks w"
  by (simp_all add: log_event_def)

section \<open>What the API server promises\<close>

definition rv_of :: "('r, 'st) kind_ops \<Rightarrow> 'r \<Rightarrow> string" where
  "rv_of ko x = om_ResourceVersion (ko_Meta ko x)"

definition deleted_obj :: "('r, 'st) kind_ops \<Rightarrow> 'r \<Rightarrow> bool" where
  "deleted_obj ko x = (om_DeletionTimestamp (ko_Meta ko x) \<noteq> None)"

definition has_fin :: "('r, 'st) kind_ops \<Rightarrow> string \<Rightarrow> 'r option \<Rightarrow> bool" where
  "has_fin ko f v = (case v of None \<Rightarrow> False | Some x \<Rightarrow> f \<in> set (om_Finalizers (ko_Meta ko x)))"

definition fresh_version :: "('r, 'st) kind_ops \<Rightarrow> 'r option list \<Rightarrow> 'r \<Rightarrow> bool" where
  "fresh_version ko h x = (\<forall>y. Some y \<in> set h \<longrightarrow> rv_of ko y \<noteq> rv_of ko x)"

text \<open>
  A patch of the finalizers is applied only to the version it names; without finalizers an object that is
  being deleted goes away. A call whose error is returned may have been applied (its answer was
  lost). An update of the status leaves the metadata alone.
\<close>

locale api_laws =
  fixes ko :: "('r, 'st) kind_ops" and cl :: "('r, 'r cluster_world) api_client"
  assumes patch_law: "ac_Patch cl n p w = (w', res) \<Longrightarrow>
      (w' = w \<and> (\<exists>e. res = Inl e)) \<or>
      (\<exists>x y. last (wd_hist w n) = Some x \<and> rv_of ko x = fp_resourceVersion p \<and>
         ko_Meta ko y = (ko_Meta ko x)\<lparr>om_Finalizers := fp_finalizers p, om_ResourceVersion := rv_of ko y\<rparr> \<and>
         ko_Status ko y = ko_Status ko x \<and> fresh_version ko (wd_hist w n) y \<and>
         w' = add_version n (if deleted_obj ko y \<and> fp_finalizers p = [] then None else Some y) w \<and>
         (res = Inr y \<or> (\<exists>e. res = Inl e)))"
    and status_law: "ac_UpdateStatus cl z w = (w', err) \<Longrightarrow>
      w' = w \<or>
      (\<exists>x y. last (wd_hist w (om_Name (ko_Meta ko z))) = Some x \<and> rv_of ko x = rv_of ko z \<and>
         ko_Meta ko y = (ko_Meta ko x)\<lparr>om_ResourceVersion := rv_of ko y\<rparr> \<and>
         fresh_version ko (wd_hist w (om_Name (ko_Meta ko z))) y \<and>
         w' = add_version (om_Name (ko_Meta ko z)) (Some y) w)"
    and get_law: "ac_Get cl n w = Inr x \<Longrightarrow> om_Name (ko_Meta ko x) = n"

section \<open>The finalizer guards the entry\<close>

text \<open>
  The invariant, per name. Versions carry the object's name and distinct resource versions. Once the lister
  has reached a version that is alive and has the finalizer, every later version has it. An
  entry in the config map means that the current version has it.
\<close>

definition alive_with :: "('r, 'st) kind_ops \<Rightarrow> string \<Rightarrow> 'r option \<Rightarrow> bool" where
  "alive_with ko f v = (has_fin ko f v \<and> (case v of None \<Rightarrow> False | Some x \<Rightarrow> \<not> deleted_obj ko x))"

definition versions_ok :: "('r, 'st) kind_ops \<Rightarrow> string \<Rightarrow> 'r option list \<Rightarrow> bool" where
  "versions_ok ko n h =
     ((\<forall>x. Some x \<in> set h \<longrightarrow> om_Name (ko_Meta ko x) = n) \<and>
      (\<forall>i j x y. i < length h \<and> j < length h \<and> h ! i = Some x \<and> h ! j = Some y \<and> rv_of ko x = rv_of ko y \<longrightarrow> i = j))"

definition guarded_from :: "('r, 'st) kind_ops \<Rightarrow> string \<Rightarrow> nat \<Rightarrow> 'r option list \<Rightarrow> bool" where
  "guarded_from ko f s h =
     (\<forall>i j. s \<le> i \<and> i \<le> j \<and> j < length h \<and> alive_with ko f (h ! i) \<longrightarrow> has_fin ko f (h ! j))"

definition name_inv :: "('r, 'st) kind_ops \<Rightarrow> string \<Rightarrow> string \<Rightarrow> 'r option list \<Rightarrow> nat \<Rightarrow> bool \<Rightarrow> bool" where
  "name_inv ko f n h s entry =
     (s < length h \<and> versions_ok ko n h \<and> guarded_from ko f s h \<and> (entry \<longrightarrow> has_fin ko f (last h)))"

definition world_inv :: "('r, 'st) kind_ops \<Rightarrow> string \<Rightarrow> 'r cluster_world \<Rightarrow> bool" where
  "world_inv ko f w = (\<forall>n. name_inv ko f n (wd_hist w n) (wd_seen w n) (data_of (wd_cm w) n \<noteq> None))"

lemma versions_ok_append:
  assumes "versions_ok ko n h" "\<forall>x. v = Some x \<longrightarrow> om_Name (ko_Meta ko x) = n \<and> fresh_version ko h x"
  shows "versions_ok ko n (h @ [v])"
proof -
  have "i = j" if "i < length (h @ [v])" "j < length (h @ [v])" "(h @ [v]) ! i = Some x" "(h @ [v]) ! j = Some y" "rv_of ko x = rv_of ko y" for i j x y
  proof -
    note lens = that(1,2)
    have fresh: "\<not> (k < length h \<and> h ! k = Some a \<and> v = Some b \<and> rv_of ko a = rv_of ko b)" for k a b
      using assms(2) unfolding fresh_version_def by (metis nth_mem)
    consider "i < length h" "j < length h" | "i < length h" "j = length h" | "i = length h" "j < length h" | "i = length h" "j = length h"
      using lens by (auto simp: less_Suc_eq)
    then show ?thesis
    proof cases
      case 1
      then show ?thesis using that assms(1) unfolding versions_ok_def by (simp add: nth_append)
    next
      case 2
      then show ?thesis using that fresh [of i x y] by (simp add: nth_append)
    next
      case 3
      then show ?thesis using that fresh [of j y x] by (simp add: nth_append)
    qed simp
  qed
  then show ?thesis using assms unfolding versions_ok_def by auto
qed

lemma name_inv_append:
  assumes "name_inv ko f n h s entry" "\<forall>x. v = Some x \<longrightarrow> om_Name (ko_Meta ko x) = n \<and> fresh_version ko h x"
    and "(\<exists>i. s \<le> i \<and> i < length h \<and> alive_with ko f (h ! i)) \<or> entry' \<Longrightarrow> has_fin ko f v"
  shows "name_inv ko f n (h @ [v]) s entry'"
proof -
  have "guarded_from ko f s (h @ [v])"
    unfolding guarded_from_def
  proof (intro allI impI, elim conjE)
    fix i j
    assume ij: "s \<le> i" "i \<le> j" "j < length (h @ [v])" "alive_with ko f ((h @ [v]) ! i)"
    show "has_fin ko f ((h @ [v]) ! j)"
    proof (cases "j < length h")
      case True
      with ij assms(1) show ?thesis by (auto simp: name_inv_def guarded_from_def nth_append)
    next
      case False
      with ij have "j = length h" by simp
      moreover have "has_fin ko f v" if "i < length h" using that ij assms(3) by (auto simp: nth_append)
      moreover have "has_fin ko f v" if "i = length h" using that ij(4) by (simp add: alive_with_def)
      ultimately show ?thesis using ij by (cases "i < length h") auto
    qed
  qed
  then show ?thesis using assms versions_ok_append [OF _ assms(2)] by (simp add: name_inv_def)
qed

text \<open>A version that keeps the finalizer of the current one can always be added.\<close>

lemma world_inv_keep:
  assumes "world_inv ko f w" "\<forall>x. v = Some x \<longrightarrow> om_Name (ko_Meta ko x) = n \<and> fresh_version ko (wd_hist w n) x"
    and "has_fin ko f (last (wd_hist w n)) \<Longrightarrow> has_fin ko f v"
  shows "world_inv ko f (add_version n v w)"
proof -
  let ?h = "wd_hist w n"
  have n: "name_inv ko f n ?h (wd_seen w n) (data_of (wd_cm w) n \<noteq> None)" using assms(1) by (simp add: world_inv_def)
  have "has_fin ko f v" if "(\<exists>i. wd_seen w n \<le> i \<and> i < length ?h \<and> alive_with ko f (?h ! i)) \<or> data_of (wd_cm w) n \<noteq> None"
  proof -
    have "has_fin ko f (last ?h)"
    proof (cases "data_of (wd_cm w) n = None")
      case True
      with that obtain i where "wd_seen w n \<le> i" "i < length ?h" "alive_with ko f (?h ! i)" by blast
      moreover have "guarded_from ko f (wd_seen w n) ?h" using n by (simp add: name_inv_def)
      moreover have "i \<le> length ?h - 1" "length ?h - 1 < length ?h" using \<open>i < length ?h\<close> by auto
      ultimately have "has_fin ko f (?h ! (length ?h - 1))" unfolding guarded_from_def by blast
      moreover have "?h \<noteq> []" using \<open>i < length ?h\<close> by auto
      ultimately show ?thesis by (simp add: last_conv_nth)
    qed (use n in \<open>simp add: name_inv_def\<close>)
    then show ?thesis by (rule assms(3))
  qed
  from name_inv_append [OF n assms(2) this] assms(1) show ?thesis by (simp add: world_inv_def)
qed

lemma world_inv_seen:
  assumes "world_inv ko f w" "wd_seen w n \<le> i" "i < length (wd_hist w n)"
  shows "world_inv ko f (w\<lparr>wd_seen := (wd_seen w)(n := i)\<rparr>)"
proof -
  have "guarded_from ko f i (wd_hist w n)" using assms unfolding world_inv_def name_inv_def guarded_from_def by (meson le_trans)
  then show ?thesis using assms by (simp add: world_inv_def name_inv_def)
qed

lemma current_named:
  assumes "world_inv ko f w" "last (wd_hist w n) = Some z"
  shows "om_Name (ko_Meta ko z) = n"
proof -
  have "wd_seen w n < length (wd_hist w n)" "versions_ok ko n (wd_hist w n)"
    using assms(1) by (auto simp: world_inv_def name_inv_def)
  moreover then have "Some z \<in> set (wd_hist w n)" using assms(2) by (metis last_in_set length_greater_0_conv not_less_zero neq0_conv)
  ultimately show ?thesis by (simp add: versions_ok_def)
qed

lemma world_inv_log: "world_inv ko f (log_event t a w) = world_inv ko f w"
  by (simp add: world_inv_def)

context api_laws
begin

lemma status_keeps:
  assumes "world_inv ko f w"
  shows "world_inv ko f (fst (ac_UpdateStatus cl z w))"
proof -
  obtain w' res where c: "ac_UpdateStatus cl z w = (w', res)" by force
  let ?n = "om_Name (ko_Meta ko z)"
  from status_law [OF c] show ?thesis
  proof
    assume "\<exists>x y. last (wd_hist w ?n) = Some x \<and> rv_of ko x = rv_of ko z \<and>
         ko_Meta ko y = (ko_Meta ko x)\<lparr>om_ResourceVersion := rv_of ko y\<rparr> \<and>
         fresh_version ko (wd_hist w ?n) y \<and> w' = add_version ?n (Some y) w"
    then obtain x y where l: "last (wd_hist w ?n) = Some x" and m: "ko_Meta ko y = (ko_Meta ko x)\<lparr>om_ResourceVersion := rv_of ko y\<rparr>"
      and fr: "fresh_version ko (wd_hist w ?n) y" and w': "w' = add_version ?n (Some y) w" by blast
    have nx: "om_Name (ko_Meta ko x) = ?n" by (rule current_named [OF assms l])
    have my: "om_Name (ko_Meta ko y) = om_Name (ko_Meta ko x)" "om_Finalizers (ko_Meta ko y) = om_Finalizers (ko_Meta ko x)"
      by (subst m, simp)+
    have "world_inv ko f (add_version ?n (Some y) w)"
      by (rule world_inv_keep [OF assms]) (use nx my fr l in \<open>auto simp: has_fin_def\<close>)
    then show ?thesis by (simp add: c w')
  qed (simp add: c assms)
qed

end

section \<open>A controller that keeps one entry per resource\<close>

text \<open>
  What the business logic promises to the generated reconciler: it changes the entry of its own
  resource only, and when finalization ends cleanly the entry is gone. \<open>fresh\<close> says that
  the lister of config maps shows the current one.
\<close>

definition own_entry :: "('r, 'st) kind_ops \<Rightarrow> 'r \<Rightarrow> 'r cluster_world \<Rightarrow> 'r cluster_world \<Rightarrow> bool" where
  "own_entry ko x w w' =
     (wd_hist w' = wd_hist w \<and> wd_seen w' = wd_seen w \<and>
      (\<forall>m. m \<noteq> om_Name (ko_Meta ko x) \<longrightarrow> data_of (wd_cm w') m = data_of (wd_cm w) m))"

definition finalized_entry :: "('r, 'st) kind_ops \<Rightarrow> 'r \<Rightarrow> 'r cluster_world \<Rightarrow> 'r cluster_world \<Rightarrow> ('r \<times> rec_event option) option \<Rightarrow> bool" where
  "finalized_entry ko x w w' out =
     (data_of (wd_cm w') (om_Name (ko_Meta ko x)) \<in> {None, data_of (wd_cm w) (om_Name (ko_Meta ko x))} \<and>
      (\<forall>y ev. out = Some (y, ev) \<longrightarrow> ko_Meta ko y = ko_Meta ko x \<and>
         (cleanly ev \<longrightarrow> data_of (wd_cm w') (om_Name (ko_Meta ko x)) = None)))"

definition elsewhere_same :: "string \<Rightarrow> 'r cluster_world \<Rightarrow> 'r cluster_world \<Rightarrow> bool" where
  "elsewhere_same n w w' = (wd_cm w' = wd_cm w \<and> wd_seen w' = wd_seen w \<and> (\<forall>m. m \<noteq> n \<longrightarrow> wd_hist w' m = wd_hist w m))"

locale entry_controller = reconciler_laws r + api_laws "rl_kind r" "rl_Client r"
  for r :: "('r, 'st, 'r cluster_world) reconcilerImpl" +
  fixes fin :: "('r, 'r cluster_world) doReconcile" and fresh :: "cm_data option \<Rightarrow> bool"
  assumes lister: "rl_Lister_Get r = listed_version"
    and recorder: "rl_Recorder r = log_event"
    and interfaces: "ri_FinalizeKind (rl_reconciler r) = Some fin" "ri_ObserveKind (rl_reconciler r) = None"
      "ri_ObserveDeletion (rl_reconciler r) = None"
    and reconciles: "ri_ReconcileKind (rl_reconciler r) x w = (w', out) \<Longrightarrow> fresh (wd_cm w) \<Longrightarrow>
      own_entry (rl_kind r) x w w' \<and> (\<forall>y ev. out = Some (y, ev) \<longrightarrow> ko_Meta (rl_kind r) y = ko_Meta (rl_kind r) x)"
    and finalizes: "fin x w = (w', out) \<Longrightarrow> fresh (wd_cm w) \<Longrightarrow>
      own_entry (rl_kind r) x w w' \<and> finalized_entry (rl_kind r) x w w' out"
begin

abbreviation (input) inv :: "'r cluster_world \<Rightarrow> bool" where
  "inv \<equiv> world_inv (rl_kind r) (rl_finalizerName r)"

lemma inv_name: "inv w \<Longrightarrow> name_inv (rl_kind r) (rl_finalizerName r) n (wd_hist w n) (wd_seen w n) (data_of (wd_cm w) n \<noteq> None)"
  by (simp add: world_inv_def)

lemma listed:
  assumes "inv w" "listed_version n w = Inr x"
  shows "wd_hist w n ! wd_seen w n = Some x" "wd_seen w n < length (wd_hist w n)" "om_Name (ko_Meta (rl_kind r) x) = n"
proof -
  show h: "wd_hist w n ! wd_seen w n = Some x" using assms(2) by (auto simp: listed_version_def split: option.splits)
  show l: "wd_seen w n < length (wd_hist w n)" using inv_name [OF assms(1)] by (simp add: name_inv_def)
  then have "Some x \<in> set (wd_hist w n)" using h by (metis nth_mem)
  then show "om_Name (ko_Meta (rl_kind r) x) = n" using inv_name [OF assms(1), of n] by (simp add: name_inv_def versions_ok_def)
qed

lemma patch_run:
  assumes "ac_Patch (rl_Client r) (om_Name (ko_Meta (rl_kind r) x))
      \<lparr>fp_finalizers = fs, fp_resourceVersion = om_ResourceVersion (ko_Meta (rl_kind r) x)\<rparr> w = (w', res)"
  shows "\<exists>t a. patch_finalizers r x fs w = (log_event t a w', res)"
  using assms by (cases res) (auto simp: patch_finalizers_def recorder)

text \<open>The finalizer is on the current version before the business logic runs.\<close>

lemma finalizer_set:
  assumes "inv w" "listed_version n w = Inr x" "\<not> deleted_obj (rl_kind r) x" "setFinalizerIfFinalizer r x w = (w1, res)"
  shows "inv w1 \<and> wd_cm w1 = wd_cm w \<and>
    (\<forall>y. res = Inr y \<longrightarrow> om_Name (ko_Meta (rl_kind r) y) = n \<and> has_fin (rl_kind r) (rl_finalizerName r) (last (wd_hist w1 n)))"
proof (cases "rl_finalizerName r \<in> set (om_Finalizers (ko_Meta (rl_kind r) x))")
  case True
  note x = listed [OF assms(1,2)]
  from True assms(3,4) have w1: "w1 = w" "res = Inr x"
    by (auto simp: setFinalizerIfFinalizer_def interfaces updateFinalizersFiltered_def Let_def deleted_obj_def)
  have "alive_with (rl_kind r) (rl_finalizerName r) (wd_hist w n ! wd_seen w n)"
    using True assms(3) x(1) by (simp add: alive_with_def has_fin_def)
  moreover have "wd_seen w n \<le> length (wd_hist w n) - 1" "length (wd_hist w n) - 1 < length (wd_hist w n)" using x(2) by auto
  ultimately have "has_fin (rl_kind r) (rl_finalizerName r) (wd_hist w n ! (length (wd_hist w n) - 1))"
    using inv_name [OF assms(1), of n] unfolding name_inv_def guarded_from_def by blast
  moreover have "wd_hist w n \<noteq> []" using x(2) by auto
  ultimately show ?thesis using w1 assms(1) x(3) by (simp add: last_conv_nth)
next
  case False
  note x = listed [OF assms(1,2)]
  let ?p = "\<lparr>fp_finalizers = om_Finalizers (ko_Meta (rl_kind r) x) @ [rl_finalizerName r],
    fp_resourceVersion = om_ResourceVersion (ko_Meta (rl_kind r) x)\<rparr>"
  obtain w' pres where p: "ac_Patch (rl_Client r) n ?p w = (w', pres)" by force
  obtain t a where "patch_finalizers r x (fp_finalizers ?p) w = (log_event t a w', pres)"
    using patch_run [of x "fp_finalizers ?p" w w' pres] p x(3) by auto
  then have run: "w1 = log_event t a w'" "res = pres"
    using assms(3,4) False by (auto simp: setFinalizerIfFinalizer_def interfaces updateFinalizersFiltered_def Let_def deleted_obj_def)
  from patch_law [OF p] show ?thesis
  proof
    assume "w' = w \<and> (\<exists>e. pres = Inl e)"
    then show ?thesis using run assms(1) by (auto simp: world_inv_log)
  next
    assume "\<exists>z y. last (wd_hist w n) = Some z \<and> rv_of (rl_kind r) z = fp_resourceVersion ?p \<and>
         ko_Meta (rl_kind r) y = (ko_Meta (rl_kind r) z)\<lparr>om_Finalizers := fp_finalizers ?p, om_ResourceVersion := rv_of (rl_kind r) y\<rparr> \<and>
         ko_Status (rl_kind r) y = ko_Status (rl_kind r) z \<and> fresh_version (rl_kind r) (wd_hist w n) y \<and>
         w' = add_version n (if deleted_obj (rl_kind r) y \<and> fp_finalizers ?p = [] then None else Some y) w \<and>
         (pres = Inr y \<or> (\<exists>e. pres = Inl e))"
    then obtain z y where z: "last (wd_hist w n) = Some z"
      and m: "ko_Meta (rl_kind r) y = (ko_Meta (rl_kind r) z)\<lparr>om_Finalizers := fp_finalizers ?p, om_ResourceVersion := rv_of (rl_kind r) y\<rparr>"
      and fr: "fresh_version (rl_kind r) (wd_hist w n) y" and w': "w' = add_version n (Some y) w"
      and pres: "pres = Inr y \<or> (\<exists>e. pres = Inl e)" by (elim exE conjE) simp
    have "om_Name (ko_Meta (rl_kind r) z) = n" by (rule current_named [OF assms(1) z])
    moreover have "om_Name (ko_Meta (rl_kind r) y) = om_Name (ko_Meta (rl_kind r) z)" by (subst m, simp)
    ultimately have ny: "om_Name (ko_Meta (rl_kind r) y) = n" by simp
    have "om_Finalizers (ko_Meta (rl_kind r) y) = fp_finalizers ?p" by (subst m, simp)
    then have fy: "has_fin (rl_kind r) (rl_finalizerName r) (Some y)" by (simp add: has_fin_def)
    have "inv (add_version n (Some y) w)" by (rule world_inv_keep [OF assms(1)]) (use ny fr fy in auto)
    then show ?thesis using run w' pres ny fy by (auto simp: world_inv_log)
  qed
qed

text \<open>The finalizer is taken away only from the version the lister shows, and only after the entry is gone.\<close>

lemma finalizer_cleared:
  assumes "inv w" "listed_version n w = Inr x" "deleted_obj (rl_kind r) x" "ko_Meta (rl_kind r) y = ko_Meta (rl_kind r) x"
    and "cleanly ev \<Longrightarrow> data_of (wd_cm w) n = None" "clearFinalizer r y ev w = (w1, res)"
  shows "inv w1 \<and> wd_cm w1 = wd_cm w"
proof (cases "cleanly ev \<and> rl_finalizerName r \<in> set (om_Finalizers (ko_Meta (rl_kind r) x))")
  case False
  then have "w1 = w"
    using assms(3,4,6) by (auto simp: clearFinalizer_def interfaces updateFinalizersFiltered_def Let_def deleted_obj_def split: if_splits)
  then show ?thesis using assms(1) by simp
next
  case True
  note x = listed [OF assms(1,2)]
  let ?p = "\<lparr>fp_finalizers = sets_List (removeAll (rl_finalizerName r) (om_Finalizers (ko_Meta (rl_kind r) x))),
    fp_resourceVersion = om_ResourceVersion (ko_Meta (rl_kind r) x)\<rparr>"
  obtain w' pres where p: "ac_Patch (rl_Client r) n ?p w = (w', pres)" by force
  obtain t a where "patch_finalizers r y (fp_finalizers ?p) w = (log_event t a w', pres)"
    using patch_run [of y "fp_finalizers ?p" w w' pres] p x(3) assms(4) by auto
  then have run: "w1 = log_event t a w'"
    using assms(3,4,6) True by (auto simp: clearFinalizer_def interfaces updateFinalizersFiltered_def Let_def deleted_obj_def)
  have "inv w' \<and> wd_cm w' = wd_cm w"
  proof (cases "w' = w")
    case False
    with patch_law [OF p] obtain z y where z: "last (wd_hist w n) = Some z" "rv_of (rl_kind r) z = rv_of (rl_kind r) x"
      and m: "ko_Meta (rl_kind r) y = (ko_Meta (rl_kind r) z)\<lparr>om_Finalizers := fp_finalizers ?p, om_ResourceVersion := rv_of (rl_kind r) y\<rparr>"
      and fr: "fresh_version (rl_kind r) (wd_hist w n) y"
      and w': "w' = add_version n (if deleted_obj (rl_kind r) y \<and> fp_finalizers ?p = [] then None else Some y) w"
      by (auto simp: rv_of_def)
    note inv_n = inv_name [OF assms(1), of n]
    have "wd_hist w n ! (length (wd_hist w n) - 1) = Some z" using z(1) x(2) by (metis last_conv_nth length_0_conv not_less_zero)
    then have last: "length (wd_hist w n) - 1 = wd_seen w n"
      using inv_n x(1,2) z(2) unfolding name_inv_def versions_ok_def by (metis diff_less less_nat_zero_code less_one linorder_neqE_nat)
    have dead: "\<not> alive_with (rl_kind r) (rl_finalizerName r) (wd_hist w n ! i)" if "wd_seen w n \<le> i" "i < length (wd_hist w n)" for i
    proof -
      have "i = wd_seen w n" using that last by linarith
      then show ?thesis using x(1) assms(3) by (simp add: alive_with_def)
    qed
    let ?v = "if deleted_obj (rl_kind r) y \<and> fp_finalizers ?p = [] then None else Some y"
    have "om_Name (ko_Meta (rl_kind r) y) = om_Name (ko_Meta (rl_kind r) z)" by (subst m, simp)
    then have "om_Name (ko_Meta (rl_kind r) y) = n" using current_named [OF assms(1) z(1)] by simp
    with fr have "\<forall>x. ?v = Some x \<longrightarrow> om_Name (ko_Meta (rl_kind r) x) = n \<and> fresh_version (rl_kind r) (wd_hist w n) x"
      by (auto split: if_splits)
    from name_inv_append [OF inv_n this, of False] dead
    have "name_inv (rl_kind r) (rl_finalizerName r) n (wd_hist w n @ [?v]) (wd_seen w n) False" by blast
    moreover have "data_of (wd_cm w) n = None" using True assms(5) by blast
    ultimately show ?thesis using assms(1) by (auto simp: w' world_inv_def)
  qed (use assms(1) in simp)
  then show ?thesis using run by (simp add: world_inv_log)
qed

text \<open>Every run keeps the invariant, whatever the server and the business logic answer.\<close>

lemma same_objects_inv:
  assumes "inv w" "wd_hist w' = wd_hist w" "wd_seen w' = wd_seen w"
    and "\<forall>m. m \<noteq> n \<longrightarrow> data_of (wd_cm w') m = data_of (wd_cm w) m"
    and "data_of (wd_cm w') n \<noteq> None \<Longrightarrow> has_fin (rl_kind r) (rl_finalizerName r) (last (wd_hist w n))"
  shows "inv w'"
  unfolding world_inv_def
proof
  fix m
  show "name_inv (rl_kind r) (rl_finalizerName r) m (wd_hist w' m) (wd_seen w' m) (data_of (wd_cm w') m \<noteq> None)"
    using inv_name [OF assms(1), of m] assms(2-5) by (cases "m = n") (auto simp: name_inv_def)
qed

lemma finish_inv: "inv w \<Longrightarrow> inv (fst (finish_run r l x y ev w))"
  by (rule finish_run_keeps [where Q = "\<lambda>_. True"]) (simp_all add: status_keeps recorder world_inv_log)

lemma run_reconcile_inv:
  assumes "inv w" "fresh (wd_cm w)" "listed_version n w = Inr x" "\<not> deleted_obj (rl_kind r) x"
  shows "inv (fst (run_reconcile r (ri_ReconcileKind (rl_reconciler r)) x w))"
proof -
  obtain w1 res where s: "setFinalizerIfFinalizer r x w = (w1, res)" by force
  note set = finalizer_set [OF assms(1,3,4) s]
  show ?thesis
  proof (cases res)
    case (Inl e)
    then show ?thesis using set s by (simp add: run_reconcile_def)
  next
    case (Inr y)
    let ?y = "if rl_skipStatusUpdates r then y else rl_PreProcess r y"
    obtain w2 out where d: "ri_ReconcileKind (rl_reconciler r) ?y w1 = (w2, out)" by force
    have "om_Name (ko_Meta (rl_kind r) ?y) = n" using set Inr by (simp add: pre_meta)
    with reconciles [OF d] set assms(2) have "inv w2"
      by (intro same_objects_inv [of w1 w2 n]) (auto simp: Inr own_entry_def)
    then show ?thesis using s Inr d by (auto simp: run_reconcile_def Let_def finish_inv split: option.splits prod.splits)
  qed
qed

lemma run_finalize_inv:
  assumes "inv w" "fresh (wd_cm w)" "listed_version n w = Inr x" "deleted_obj (rl_kind r) x"
  shows "inv (fst (run_finalize r fin x w))"
proof -
  obtain w1 out where d: "fin x w = (w1, out)" by force
  note x = listed [OF assms(1,3)]
  note f = finalizes [OF d assms(2), unfolded own_entry_def finalized_entry_def x(3)]
  have i1: "inv w1"
    by (rule same_objects_inv [OF assms(1), of w1 n]) (use f inv_name [OF assms(1), of n] in \<open>auto simp: name_inv_def\<close>)
  show ?thesis
  proof (cases out)
    case (Some p)
    obtain y ev where p: "p = (y, ev)" by force
    obtain w2 res where c: "clearFinalizer r y ev w1 = (w2, res)" by force
    have "listed_version n w1 = Inr x" using f assms(3) by (simp add: listed_version_def)
    from finalizer_cleared [OF i1 this assms(4) _ _ c] f Some p have "inv w2" by auto
    then show ?thesis using d Some p c by (auto simp: run_finalize_def finish_inv split: sum.splits)
  qed (use d i1 in \<open>simp add: run_finalize_def\<close>)
qed

text \<open>The end of a run touches the objects of its own name only, and not the config map.\<close>

lemma finish_elsewhere:
  assumes "om_Name (ko_Meta (rl_kind r) x) = n" "om_Name (ko_Meta (rl_kind r) y) = n"
  shows "elsewhere_same n w (fst (finish_run r l x y ev w))"
proof (rule finish_run_keeps [where Q = "\<lambda>x. om_Name (ko_Meta (rl_kind r) x) = n" and P = "elsewhere_same n w"])
  fix z v
  assume z: "om_Name (ko_Meta (rl_kind r) z) = n" and v: "elsewhere_same n w v"
  obtain v' err where c: "ac_UpdateStatus (rl_Client r) z v = (v', err)" by force
  from status_law [OF c] have "v' = v \<or> (\<exists>y. v' = add_version n (Some y) v)" unfolding z by blast
  then show "elsewhere_same n w (fst (ac_UpdateStatus (rl_Client r) z v))" using v by (auto simp: c elsewhere_same_def)
qed (use assms get_law in \<open>auto simp: set_status_meta recorder elsewhere_same_def\<close>)

lemma finish_run_equal:
  "rl_DeepEqual r (ko_Status (rl_kind r) x) (ko_Status (rl_kind r) y) \<Longrightarrow> finish_run r l x y None w = (w, Returned None)"
  by (simp add: finish_run_def report_event_def)

lemma Reconcile_inv:
  assumes "inv w" "fresh (wd_cm w)"
  shows "inv (fst (Reconcile r key w))"
proof (cases "newState r key")
  case (Inr s)
  show ?thesis
  proof (cases "isNotLeaderNorObserver s \<or> isl (listed_version (rs_name s) w)")
    case True
    then show ?thesis using Inr assms by (auto simp: Reconcile_def lister interfaces split: sum.splits get_err.splits)
  next
    case False
    then obtain x where x: "listed_version (rs_name s) w = Inr x" by (cases "listed_version (rs_name s) w") auto
    have "\<not> rs_isROI s" using Inr by (auto simp: newState_def interfaces split: sum.splits)
    with False have "rs_isLeader s" by (simp add: isNotLeaderNorObserver_def)
    then show ?thesis
      using Inr False x run_reconcile_inv [OF assms x] run_finalize_inv [OF assms x]
      by (auto simp: Reconcile_def lister reconcileMethodFor_def interfaces deleted_obj_def)
  qed
qed (simp add: Reconcile_def assms)

text \<open>
  A run on a deleted resource whose finalization succeeds, when the lister is current and the server applies
  the patch: the finalizer and the entry are gone, and so is the object if nobody else holds it.
\<close>

lemma cleaned_up:
  assumes "inv w" "fresh (wd_cm w)" "newState r key = Ok s" "rs_isLeader s" "rs_name s = n"
    and "last (wd_hist w n) = Some x" "wd_hist w n ! wd_seen w n = Some x" "deleted_obj (rl_kind r) x"
    and "rl_finalizerName r \<in> set (om_Finalizers (ko_Meta (rl_kind r) x))" "fin x w = (w1, Some (x, None))"
    and "\<forall>p. fp_resourceVersion p = rv_of (rl_kind r) x \<longrightarrow> \<not> isl (snd (ac_Patch (rl_Client r) n p w1))"
  shows "\<exists>w'. Reconcile r key w = (w', Returned None) \<and> data_of (wd_cm w') n = None \<and>
    \<not> has_fin (rl_kind r) (rl_finalizerName r) (last (wd_hist w' n)) \<and>
    (set (om_Finalizers (ko_Meta (rl_kind r) x)) = {rl_finalizerName r} \<longrightarrow> last (wd_hist w' n) = None)"
proof -
  let ?f = "rl_finalizerName r" and ?fs = "sets_List (removeAll (rl_finalizerName r) (om_Finalizers (ko_Meta (rl_kind r) x)))"
  let ?p = "\<lparr>fp_finalizers = ?fs, fp_resourceVersion = om_ResourceVersion (ko_Meta (rl_kind r) x)\<rparr>"
  have l: "listed_version n w = Inr x" using assms(7) by (simp add: listed_version_def)
  note x = listed [OF assms(1) l]
  have f: "wd_hist w1 = wd_hist w" "data_of (wd_cm w1) n = None"
    using finalizes [OF assms(10,2)] x(3) by (auto simp: own_entry_def finalized_entry_def cleanly_def)
  obtain w' res where p: "ac_Patch (rl_Client r) n ?p w1 = (w', res)" by force
  have "\<not> isl res" using spec [OF assms(11), of ?p] p by (simp add: rv_of_def)
  with patch_law [OF p] f(1) assms(6) obtain y where
    m: "ko_Meta (rl_kind r) y = (ko_Meta (rl_kind r) x)\<lparr>om_Finalizers := ?fs, om_ResourceVersion := rv_of (rl_kind r) y\<rparr>"
    and st: "ko_Status (rl_kind r) y = ko_Status (rl_kind r) x" and res: "res = Inr y"
    and w': "w' = add_version n (if deleted_obj (rl_kind r) y \<and> ?fs = [] then None else Some y) w1"
    by (auto simp: rv_of_def)
  obtain t a where pf: "patch_finalizers r x ?fs w1 = (log_event t a w', Inr y)"
    using patch_run [of x ?fs w1 w' res] p x(3) res by auto
  have "clearFinalizer r x None w1 = (log_event t a w', Inr y)"
    using assms(8,9) pf by (auto simp: clearFinalizer_def interfaces updateFinalizersFiltered_def Let_def deleted_obj_def cleanly_def)
  then have "run_finalize r fin x w = (log_event t a w', Returned None)"
    using assms(10) st by (simp add: run_finalize_def finish_run_equal equal_refl)
  then have run: "Reconcile r key w = (log_event t a w', Returned None)"
    using assms(3-5,8) l by (auto simp: Reconcile_def isNotLeaderNorObserver_def lister reconcileMethodFor_def interfaces deleted_obj_def)
  have "om_DeletionTimestamp (ko_Meta (rl_kind r) y) = om_DeletionTimestamp (ko_Meta (rl_kind r) x)"
    "om_Finalizers (ko_Meta (rl_kind r) y) = ?fs" by (subst m, simp)+
  then have "deleted_obj (rl_kind r) y" "\<not> has_fin (rl_kind r) ?f (Some y)"
    using assms(8) by (auto simp: deleted_obj_def has_fin_def sets_List_def)
  moreover have "?fs = []" if "set (om_Finalizers (ko_Meta (rl_kind r) x)) = {?f}"
    using that by (auto simp: sets_List_def removeAll_filter_not_eq filter_empty_conv)
  ultimately show ?thesis using run f(2) w' by (auto simp: has_fin_def)
qed

text \<open>A run on a live resource that has the finalizer: the config map is as the business logic left it.\<close>

lemma live_run:
  assumes "om_Name (ko_Meta (rl_kind r) x) = n" "fresh (wd_cm w)" "newState r key = Ok s" "rs_isLeader s" "rs_name s = n"
    and "listed_version n w = Inr x" "\<not> deleted_obj (rl_kind r) x"
    and "rl_finalizerName r \<in> set (om_Finalizers (ko_Meta (rl_kind r) x))" "\<not> rl_skipStatusUpdates r"
    and "ri_ReconcileKind (rl_reconciler r) (rl_PreProcess r x) w = (w2, Some (y, ev))"
  shows "elsewhere_same n w2 (fst (Reconcile r key w))"
proof -
  have "setFinalizerIfFinalizer r x w = (w, Inr x)"
    using assms(7,8) by (simp add: setFinalizerIfFinalizer_def interfaces updateFinalizersFiltered_def Let_def deleted_obj_def)
  then have "Reconcile r key w = finish_run r True x (rl_PostProcess r y x) ev w2"
    using assms(3-10)
    by (simp add: Reconcile_def isNotLeaderNorObserver_def lister reconcileMethodFor_def deleted_obj_def run_reconcile_def)
  moreover have "om_Name (ko_Meta (rl_kind r) y) = n" using reconciles [OF assms(10,2)] assms(1) by (simp add: pre_meta)
  ultimately show ?thesis using finish_elsewhere [OF assms(1)] by (simp add: post_meta)
qed

end

section \<open>A server\<close>

text \<open>A server with optimistic concurrency, over the setter of the metadata of a kind.\<close>

definition next_version :: "('r, 'st) kind_ops \<Rightarrow> 'r option list \<Rightarrow> string" where
  "next_version ko h = CHR ''v'' # concat (map (\<lambda>v. case v of None \<Rightarrow> [] | Some x \<Rightarrow> rv_of ko x) h)"

lemma next_version_fresh: "Some y \<in> set h \<Longrightarrow> rv_of ko y \<noteq> next_version ko h"
proof -
  assume "Some y \<in> set h"
  then have "length (rv_of ko y) < length (next_version ko h)"
    by (induction h) (auto simp: next_version_def split: option.splits)
  then show ?thesis by auto
qed

definition store_client :: "('r, 'st) kind_ops \<Rightarrow> (ObjectMeta \<Rightarrow> 'r \<Rightarrow> 'r) \<Rightarrow> ('r, 'r cluster_world) api_client" where
  "store_client ko set_meta = \<lparr>
     ac_Get = (\<lambda>n w. case last (wd_hist w n) of
                None \<Rightarrow> Inl (ApiFailed ''not found'')
              | Some x \<Rightarrow> if om_Name (ko_Meta ko x) = n then Inr x else Inl (ApiFailed ''not found'')),
     ac_UpdateStatus = (\<lambda>z w. let n = om_Name (ko_Meta ko z) in
                case last (wd_hist w n) of
                  None \<Rightarrow> (w, Some (ApiFailed ''not found''))
                | Some x \<Rightarrow>
                    if rv_of ko x \<noteq> rv_of ko z then (w, Some (Conflict ''the object has been modified''))
                    else (add_version n (Some (set_meta ((ko_Meta ko x)\<lparr>om_ResourceVersion := next_version ko (wd_hist w n)\<rparr>)
                            (ko_set_Status ko (ko_Status ko z) x))) w, None)),
     ac_Patch = (\<lambda>n p w. case last (wd_hist w n) of
                  None \<Rightarrow> (w, Inl (ApiFailed ''not found''))
                | Some x \<Rightarrow>
                    if rv_of ko x \<noteq> fp_resourceVersion p then (w, Inl (Conflict ''the object has been modified''))
                    else (let y = set_meta ((ko_Meta ko x)\<lparr>om_Finalizers := fp_finalizers p,
                                   om_ResourceVersion := next_version ko (wd_hist w n)\<rparr>) x
                          in (add_version n (if deleted_obj ko y \<and> fp_finalizers p = [] then None else Some y) w, Inr y)))\<rparr>"

lemma store_client_laws:
  assumes "\<And>m x. ko_Meta ko (set_meta m x) = m" "\<And>m x. ko_Status ko (set_meta m x) = ko_Status ko x"
  shows "api_laws ko (store_client ko set_meta)"
proof
  fix n p w w' res
  assume run: "ac_Patch (store_client ko set_meta) n p w = (w', res)"
  show "(w' = w \<and> (\<exists>e. res = Inl e)) \<or>
      (\<exists>x y. last (wd_hist w n) = Some x \<and> rv_of ko x = fp_resourceVersion p \<and>
         ko_Meta ko y = (ko_Meta ko x)\<lparr>om_Finalizers := fp_finalizers p, om_ResourceVersion := rv_of ko y\<rparr> \<and>
         ko_Status ko y = ko_Status ko x \<and> fresh_version ko (wd_hist w n) y \<and>
         w' = add_version n (if deleted_obj ko y \<and> fp_finalizers p = [] then None else Some y) w \<and>
         (res = Inr y \<or> (\<exists>e. res = Inl e)))"
  proof (cases "isl res")
    case False
    then obtain x where x: "last (wd_hist w n) = Some x" "rv_of ko x = fp_resourceVersion p"
      using run by (auto simp: store_client_def split: option.splits if_splits)
    let ?y = "set_meta ((ko_Meta ko x)\<lparr>om_Finalizers := fp_finalizers p, om_ResourceVersion := next_version ko (wd_hist w n)\<rparr>) x"
    have "w' = add_version n (if deleted_obj ko ?y \<and> fp_finalizers p = [] then None else Some ?y) w" "res = Inr ?y"
      using run x by (auto simp: store_client_def Let_def)
    moreover have "ko_Meta ko ?y = (ko_Meta ko x)\<lparr>om_Finalizers := fp_finalizers p, om_ResourceVersion := rv_of ko ?y\<rparr>"
      by (simp add: rv_of_def assms)
    moreover have "fresh_version ko (wd_hist w n) ?y"
      by (auto simp: fresh_version_def rv_of_def [of ko ?y] assms dest: next_version_fresh)
    ultimately show ?thesis using x assms(2) by blast
  qed (use run in \<open>auto simp: store_client_def Let_def split: option.splits if_splits\<close>)
next
  fix z w w' err
  assume run: "ac_UpdateStatus (store_client ko set_meta) z w = (w', err)"
  let ?n = "om_Name (ko_Meta ko z)"
  show "w' = w \<or> (\<exists>x y. last (wd_hist w ?n) = Some x \<and> rv_of ko x = rv_of ko z \<and>
         ko_Meta ko y = (ko_Meta ko x)\<lparr>om_ResourceVersion := rv_of ko y\<rparr> \<and>
         fresh_version ko (wd_hist w ?n) y \<and> w' = add_version ?n (Some y) w)"
  proof (cases "w' = w")
    case False
    then obtain x where x: "last (wd_hist w ?n) = Some x" "rv_of ko x = rv_of ko z"
      using run by (auto simp: store_client_def Let_def split: option.splits if_splits)
    let ?y = "set_meta ((ko_Meta ko x)\<lparr>om_ResourceVersion := next_version ko (wd_hist w ?n)\<rparr>) (ko_set_Status ko (ko_Status ko z) x)"
    have "w' = add_version ?n (Some ?y) w" using run x by (auto simp: store_client_def Let_def)
    moreover have "ko_Meta ko ?y = (ko_Meta ko x)\<lparr>om_ResourceVersion := rv_of ko ?y\<rparr>" by (simp add: rv_of_def assms)
    moreover have "fresh_version ko (wd_hist w ?n) ?y"
      by (auto simp: fresh_version_def rv_of_def [of ko ?y] assms dest: next_version_fresh)
    ultimately show ?thesis using x by blast
  qed simp
qed (auto simp: store_client_def split: option.splits if_splits)

end
