(* ===== verification/Controllers.thy ===== *)
theory Controllers
  imports ControllerRuns
begin

text \<open>
  The controllers of policies and trust roots as \<open>NewController\<close> builds them
  (\<open>pkg/reconciler/clusterimagepolicy/controller.go\<close>, \<open>pkg/reconciler/trustroot/controller.go\<close>), and what
  holds in every history of a cluster they run in.
\<close>

section \<open>The controller of policies\<close>

type_synonym 's cip_object = "'s resource_status ClusterImagePolicy"

definition CIP_kind :: "('s cip_object, 's resource_status) kind_ops" where
  "CIP_kind = \<lparr>ko_Meta = cip_ObjectMeta, ko_Status = cip_Status, ko_set_Status = (\<lambda>st c. c\<lparr>cip_Status := st\<rparr>)\<rparr>"

text \<open>The business logic in the world: the conditions it sets are part of the resource it was given.\<close>

definition CIP_reconcile :: "'s cond_api \<Rightarrow> ('p, 'b) rec_env \<Rightarrow> ('s cip_object, 's cip_object cluster_world) doReconcile" where
  "CIP_reconcile kc env cip w =
     (let res = CIP_ReconcileKind kc env cip (wd_cm w) (wd_tracks w);
          cip' = cip\<lparr>cip_Status := (cip_Status cip)\<lparr>rst_Conditions := rr_conds res\<rparr>\<rparr>
      in (w\<lparr>wd_cm := rr_server res, wd_tracks := rr_tracks res\<rparr>,
          case rr_event res of
            Done _ \<Rightarrow> Some (cip', None)
          | Fail e \<Rightarrow> Some (cip', Some (OtherError e))
          | Panicked \<Rightarrow> None))"

definition CIP_finalize :: "('p, 'b) rec_env \<Rightarrow> ('s cip_object, 's cip_object cluster_world) doReconcile" where
  "CIP_finalize env cip w =
     (case CIP_FinalizeKind env cip (wd_cm w) of
        (server, err) \<Rightarrow> (w\<lparr>wd_cm := server\<rparr>, Some (cip, map_option OtherError err)))"

definition CIP_logic :: "'s cond_api \<Rightarrow> ('p, 'b) rec_env \<Rightarrow> ('s cip_object, 's cip_object cluster_world) rec_interface" where
  "CIP_logic kc env = \<lparr>ri_ReconcileKind = CIP_reconcile kc env, ri_FinalizeKind = Some (CIP_finalize env),
     ri_ObserveKind = None, ri_ObserveDeletion = None, ri_LeaderAware = False\<rparr>"

definition CIP_defaultFinalizerName :: string where
  "CIP_defaultFinalizerName = ''clusterimagepolicies.policy.sigstore.dev''"

definition CIP_defaultControllerAgentName :: string where
  "CIP_defaultControllerAgentName = ''clusterimagepolicy-controller''"

definition CIP_finalizerName :: string where
  "CIP_finalizerName = ''clusterimagepolicies.policy.sigstore.dev''"

type_synonym ('r, 'st) library = "('r, 'st, 'r cluster_world) reconcilerImpl"

text \<open>The parts that come from the context (client, lister, recorder, the libraries) are given.\<close>

definition CIP_NewController :: "'s cond_api \<Rightarrow> ('p, 'b) rec_env \<Rightarrow> ('s cip_object, 's resource_status) library \<Rightarrow>
    (('s cip_object, 's resource_status) library \<times> string \<times> ('s cip_object \<Rightarrow> bool) option \<times> (string \<Rightarrow> 's cip_object cluster_world \<Rightarrow> 's cip_object cluster_world)) option" where
  "CIP_NewController kc env lib =
     NewImpl CIP_defaultFinalizerName CIP_defaultControllerAgentName (lib\<lparr>rl_kind := CIP_kind, rl_reconciler := CIP_logic kc env\<rparr>)
       [\<lparr>opt_FinalizerName = CIP_finalizerName, opt_AgentName = '''', opt_SkipStatusUpdates = False, opt_PromoteFilterFunc = None, opt_PromoteFunc = None\<rparr>]"

definition CIP_rec :: "'s cond_api \<Rightarrow> ('p, 'b) rec_env \<Rightarrow> ('s cip_object, 's resource_status) library \<Rightarrow>
    ('s cip_object, 's resource_status) library" where
  "CIP_rec kc env lib =
     lib\<lparr>rl_kind := CIP_kind, rl_reconciler := CIP_logic kc env, rl_finalizerName := CIP_finalizerName, rl_skipStatusUpdates := False\<rparr>"

lemma CIP_NewController_rec: "CIP_NewController kc env lib = Some (CIP_rec kc env lib, ''clusterimagepolicy-controller'', None, \<lambda>_ w. w)"
  by (simp add: CIP_NewController_def NewImpl_def apply_options_def CIP_rec_def CIP_finalizerName_def
      CIP_defaultControllerAgentName_def)

text \<open>
  The handlers of the informers, each there if its registration succeeded. Tracked secrets and config maps enqueue
  what the tracker says; the maintained config map in the system namespace enqueues every policy.
\<close>

datatype informer_event = ResourceEvent "string \<times> string" | SecretEvent string string | ConfigMapEvent string string

record informer_handlers =
  ih_resource :: bool
  ih_secret :: bool
  ih_configmap :: bool
  ih_resync :: bool

text \<open>
  Which keys an event of an informer enqueues. \<open>GlobalResync\<close> takes the keys of all policies from the informer's
  store: they are given as \<open>all\<close>.
\<close>

definition CIP_on_event :: "informer_handlers \<Rightarrow> (string \<Rightarrow> string \<Rightarrow> string \<Rightarrow> (string \<times> string) list) \<Rightarrow> string \<Rightarrow> (string \<times> string) list \<Rightarrow>
    informer_event \<Rightarrow> (string \<times> string) list" where
  "CIP_on_event ih onChanged systemNamespace all ev =
     (case ev of
        ResourceEvent key \<Rightarrow> if ih_resource ih then [key] else []
      | SecretEvent ns n \<Rightarrow> if ih_secret ih then onChanged ''Secret'' ns n else []
      | ConfigMapEvent ns n \<Rightarrow>
          (if ih_configmap ih then onChanged ''ConfigMap'' ns n else []) @
          (if ih_resync ih \<and> ns = systemNamespace \<and> n = ImagePoliciesConfigName then all else []))"

section \<open>The controller of trust roots\<close>

type_synonym 's tr_object = "'s resource_status TrustRoot"

definition TR_kind :: "('s tr_object, 's resource_status) kind_ops" where
  "TR_kind = \<lparr>ko_Meta = trt_ObjectMeta, ko_Status = trt_Status, ko_set_Status = (\<lambda>st c. c\<lparr>trt_Status := st\<rparr>)\<rparr>"

definition TR_reconcile :: "'s cond_api \<Rightarrow> ('p, 'b) trust_rec_env \<Rightarrow> ('s tr_object, 's tr_object cluster_world) doReconcile" where
  "TR_reconcile kc env tr w =
     (let res = TR_ReconcileKind kc env tr (wd_cm w)
      in (w\<lparr>wd_cm := rt_server res\<rparr>,
          Some (tr\<lparr>trt_Status := (trt_Status tr)\<lparr>rst_Conditions := rt_conds res\<rparr>\<rparr>, map_option OtherError (rt_event res))))"

definition TR_finalize :: "('p, 'b) trust_rec_env \<Rightarrow> ('s tr_object, 's tr_object cluster_world) doReconcile" where
  "TR_finalize env tr w =
     (case TR_FinalizeKind env tr (wd_cm w) of
        (server, err) \<Rightarrow> (w\<lparr>wd_cm := server\<rparr>, Some (tr, map_option OtherError err)))"

definition TR_logic :: "'s cond_api \<Rightarrow> ('p, 'b) trust_rec_env \<Rightarrow> ('s tr_object, 's tr_object cluster_world) rec_interface" where
  "TR_logic kc env = \<lparr>ri_ReconcileKind = TR_reconcile kc env, ri_FinalizeKind = Some (TR_finalize env),
     ri_ObserveKind = None, ri_ObserveDeletion = None, ri_LeaderAware = False\<rparr>"

definition TR_defaultFinalizerName :: string where
  "TR_defaultFinalizerName = ''trustroots.policy.sigstore.dev''"

definition TR_defaultControllerAgentName :: string where
  "TR_defaultControllerAgentName = ''trustroot-controller''"

definition TR_FinalizerName :: string where
  "TR_FinalizerName = ''trustroots.policy.sigstore.dev''"

definition TR_NewController :: "'s cond_api \<Rightarrow> ('p, 'b) trust_rec_env \<Rightarrow> ('s tr_object, 's resource_status) library \<Rightarrow>
    (('s tr_object, 's resource_status) library \<times> string \<times> ('s tr_object \<Rightarrow> bool) option \<times> (string \<Rightarrow> 's tr_object cluster_world \<Rightarrow> 's tr_object cluster_world)) option" where
  "TR_NewController kc env lib =
     NewImpl TR_defaultFinalizerName TR_defaultControllerAgentName (lib\<lparr>rl_kind := TR_kind, rl_reconciler := TR_logic kc env\<rparr>)
       [\<lparr>opt_FinalizerName = TR_FinalizerName, opt_AgentName = '''', opt_SkipStatusUpdates = False, opt_PromoteFilterFunc = None, opt_PromoteFunc = None\<rparr>]"

definition TR_rec :: "'s cond_api \<Rightarrow> ('p, 'b) trust_rec_env \<Rightarrow> ('s tr_object, 's resource_status) library \<Rightarrow>
    ('s tr_object, 's resource_status) library" where
  "TR_rec kc env lib =
     lib\<lparr>rl_kind := TR_kind, rl_reconciler := TR_logic kc env, rl_finalizerName := TR_FinalizerName, rl_skipStatusUpdates := False\<rparr>"

lemma TR_NewController_rec: "TR_NewController kc env lib = Some (TR_rec kc env lib, ''trustroot-controller'', None, \<lambda>_ w. w)"
  by (simp add: TR_NewController_def NewImpl_def apply_options_def TR_rec_def TR_FinalizerName_def
      TR_defaultControllerAgentName_def)

definition TR_on_event :: "informer_handlers \<Rightarrow> string \<Rightarrow> (string \<times> string) list \<Rightarrow> informer_event \<Rightarrow> (string \<times> string) list" where
  "TR_on_event ih systemNamespace all ev =
     (case ev of
        ResourceEvent key \<Rightarrow> if ih_resource ih then [key] else []
      | SecretEvent ns n \<Rightarrow> []
      | ConfigMapEvent ns n \<Rightarrow> if ih_resync ih \<and> ns = systemNamespace \<and> n = ''config-sigstore-keys'' then all else [])"

lemma CIP_reconcile_meta: "CIP_reconcile kc env x w = (w', Some (y, ev)) \<Longrightarrow> cip_ObjectMeta y = cip_ObjectMeta x"
  by (cases "rr_event (CIP_ReconcileKind kc env x (wd_cm w) (wd_tracks w))") (auto simp: CIP_reconcile_def Let_def)

section \<open>Both keep the contract of the generated reconciler\<close>

text \<open>The libraries a controller is built on.\<close>

definition library_ok :: "('r, 'st) kind_ops \<Rightarrow> ('r, 'st) library \<Rightarrow> bool" where
  "library_ok ko lib =
     (reconciler_laws (lib\<lparr>rl_kind := ko\<rparr>) \<and> api_laws ko (rl_Client lib) \<and>
      rl_Lister_Get lib = listed_version \<and> rl_Recorder lib = log_event)"

lemma CIP_kind_simps [simp]:
  "ko_Meta CIP_kind c = cip_ObjectMeta c" "ko_Status CIP_kind c = cip_Status c" "ko_set_Status CIP_kind st c = c\<lparr>cip_Status := st\<rparr>"
  by (simp_all add: CIP_kind_def)

lemma TR_kind_simps [simp]:
  "ko_Meta TR_kind c = trt_ObjectMeta c" "ko_Status TR_kind c = trt_Status c" "ko_set_Status TR_kind st c = c\<lparr>trt_Status := st\<rparr>"
  by (simp_all add: TR_kind_def)

lemma finalized_contract:
  assumes "w' = w\<lparr>wd_cm := server\<rparr>" "out = Some (x, map_option OtherError err)"
    and "data_of server = (if err = None then (data_of (wd_cm w))(om_Name (ko_Meta ko x) := None) else data_of (wd_cm w))"
  shows "own_entry ko x w w' \<and> finalized_entry ko x w w' out"
  using assms by (cases err) (auto simp: own_entry_def finalized_entry_def cleanly_def)

lemma CIP_entry_controller:
  fixes kc :: "'s cond_api"
  assumes "library_ok CIP_kind lib" "patch_laws (cv_patch (re_cm env))"
  shows "entry_controller (CIP_rec kc env lib) (CIP_finalize env) (up_to_date (re_ConfigMap env ImagePoliciesConfigName))"
proof -
  have lib: "reconciler_laws (CIP_rec kc env lib)" "api_laws (rl_kind (CIP_rec kc env lib)) (rl_Client (CIP_rec kc env lib))"
    and k: "rl_kind (CIP_rec kc env lib) = CIP_kind"
    using assms(1) by (simp_all add: library_ok_def CIP_rec_def reconciler_laws_def)
  show ?thesis
  proof (rule entry_controller.intro [OF lib], unfold_locales)
    fix x w w' out
    assume run: "ri_ReconcileKind (rl_reconciler (CIP_rec kc env lib)) x w = (w', out)"
      and fresh: "up_to_date (re_ConfigMap env ImagePoliciesConfigName) (wd_cm w)"
    from run have c: "CIP_reconcile kc env x w = (w', out)" by (simp add: CIP_rec_def CIP_logic_def)
    then have "w' = w\<lparr>wd_cm := rr_server (CIP_ReconcileKind kc env x (wd_cm w) (wd_tracks w)),
        wd_tracks := rr_tracks (CIP_ReconcileKind kc env x (wd_cm w) (wd_tracks w))\<rparr>"
      by (simp add: CIP_reconcile_def Let_def)
    then have own: "own_entry CIP_kind x w w'"
      using reconcile_data [OF assms(2) fresh refl, of kc x "wd_tracks w"] by (auto simp: own_entry_def)
    have meta: "\<forall>y ev. out = Some (y, ev) \<longrightarrow> cip_ObjectMeta y = cip_ObjectMeta x"
      using c by (blast dest: CIP_reconcile_meta)
    show "own_entry (rl_kind (CIP_rec kc env lib)) x w w' \<and>
        (\<forall>y ev. out = Some (y, ev) \<longrightarrow> ko_Meta (rl_kind (CIP_rec kc env lib)) y = ko_Meta (rl_kind (CIP_rec kc env lib)) x)"
      unfolding k CIP_kind_simps by (rule conjI [OF own meta])
  next
    fix x :: "'s cip_object" and w w' out
    assume run: "CIP_finalize env x w = (w', out)" and fresh: "up_to_date (re_ConfigMap env ImagePoliciesConfigName) (wd_cm w)"
    obtain server err where f: "CIP_FinalizeKind env x (wd_cm w) = (server, err)" by force
    have "data_of server = (if err = None then (data_of (wd_cm w))(om_Name (cip_ObjectMeta x) := None) else data_of (wd_cm w))"
      using finalize_data [OF assms(2) fresh, of x server] finalize_error [of env x "wd_cm w" server] f by (cases err) auto
    then show "own_entry (rl_kind (CIP_rec kc env lib)) x w w' \<and> finalized_entry (rl_kind (CIP_rec kc env lib)) x w w' out"
      using run f by (intro finalized_contract) (auto simp: CIP_finalize_def k)
  qed (use assms(1) in \<open>simp_all add: library_ok_def CIP_rec_def CIP_logic_def\<close>)
qed

lemma TR_reconcile_data:
  assumes "patch_laws (cv_patch (tre_cm env))" "up_to_date (tre_ConfigMap env) server" "m \<noteq> om_Name (trt_ObjectMeta tr)"
  shows "data_of (rt_server (TR_ReconcileKind kc env tr server)) m = data_of server m"
proof (cases "stored_keys env tr")
  case (Inl e)
  then show ?thesis by (simp add: TR_reconcile_run Let_def)
next
  case (Inr keys)
  obtain s' err where st: "TR_store env (om_Name (trt_ObjectMeta tr)) keys server = (s', err)" by force
  then have st': "store_entry (tre_cm env) (tre_ConfigMap env) (TR_Marshal env) (om_Name (trt_ObjectMeta tr)) keys server = (s', err)"
    by (simp add: TR_store_entry)
  have "data_of s' m = data_of server m"
  proof (cases err)
    case None
    with st' obtain entry where e: "TR_Marshal env keys = Ok entry"
      by (auto simp: store_entry_def NewConfigMap_def CreatePatch_def split: sum.splits get_err.splits)
    from patch_laws.store_entry_data [where marshal = "TR_Marshal env", OF assms(1,2) refl e st' [unfolded None]] assms(3)
    show ?thesis by simp
  next
    case (Some e)
    with store_entry_error [OF st' [unfolded Some]] show ?thesis by simp
  qed
  then show ?thesis by (cases err) (simp_all add: TR_reconcile_run Inr st Let_def)
qed

lemma TR_finalize_data:
  assumes "patch_laws (cv_patch (tre_cm env))" "up_to_date (tre_ConfigMap env) server" "TR_FinalizeKind env tr server = (server', err)"
  shows "data_of server' = (if err = None then (data_of server)(om_Name (trt_ObjectMeta tr) := None) else data_of server)"
proof (cases err)
  case (Some e)
  with assms(3) show ?thesis
    by (auto simp: TR_FinalizeKind_def removeTrustRootEntry_entry split: sum.splits get_err.splits dest: remove_entry_error)
next
  case None
  show ?thesis
  proof (cases server)
    case None': None
    with assms None show ?thesis by (auto simp: up_to_date_def TR_FinalizeKind_def)
  next
    case (Some d)
    with assms(2) obtain d' where l: "tre_ConfigMap env = Inr d'" "map_of d' = map_of d" by (auto simp: up_to_date_def)
    with assms(3) Some None have "remove_entry (tre_cm env) d' (om_Name (trt_ObjectMeta tr)) (Some d) = (server', None)"
      by (simp add: TR_FinalizeKind_def removeTrustRootEntry_entry)
    from patch_laws.remove_entry_data [OF assms(1) l(2) refl this] Some None show ?thesis by simp
  qed
qed

lemma TR_entry_controller:
  fixes kc :: "'s cond_api"
  assumes "library_ok TR_kind lib" "patch_laws (cv_patch (tre_cm env))"
  shows "entry_controller (TR_rec kc env lib) (TR_finalize env) (up_to_date (tre_ConfigMap env))"
proof -
  have lib: "reconciler_laws (TR_rec kc env lib)" "api_laws (rl_kind (TR_rec kc env lib)) (rl_Client (TR_rec kc env lib))"
    and k: "rl_kind (TR_rec kc env lib) = TR_kind"
    using assms(1) by (simp_all add: library_ok_def TR_rec_def reconciler_laws_def)
  show ?thesis
  proof (rule entry_controller.intro [OF lib], unfold_locales)
    fix x w w' out
    assume "ri_ReconcileKind (rl_reconciler (TR_rec kc env lib)) x w = (w', out)" and fresh: "up_to_date (tre_ConfigMap env) (wd_cm w)"
    then show "own_entry (rl_kind (TR_rec kc env lib)) x w w' \<and>
        (\<forall>y ev. out = Some (y, ev) \<longrightarrow> ko_Meta (rl_kind (TR_rec kc env lib)) y = ko_Meta (rl_kind (TR_rec kc env lib)) x)"
      using TR_reconcile_data [OF assms(2) fresh]
      by (auto simp: own_entry_def k TR_rec_def TR_logic_def TR_reconcile_def Let_def)
  next
    fix x :: "'s tr_object" and w w' out
    assume run: "TR_finalize env x w = (w', out)" and fresh: "up_to_date (tre_ConfigMap env) (wd_cm w)"
    obtain server err where f: "TR_FinalizeKind env x (wd_cm w) = (server, err)" by force
    show "own_entry (rl_kind (TR_rec kc env lib)) x w w' \<and> finalized_entry (rl_kind (TR_rec kc env lib)) x w w' out"
      using run f TR_finalize_data [OF assms(2) fresh f] by (intro finalized_contract) (auto simp: TR_finalize_def k)
  qed (use assms(1) in \<open>simp_all add: library_ok_def TR_rec_def TR_logic_def\<close>)
qed

section \<open>Histories of a cluster\<close>

text \<open>
  Other writers create, change and delete objects. They leave the finalizer of the controller alone, and the
  server does not drop an object that has a finalizer.
\<close>

definition other_write :: "('r, 'st) kind_ops \<Rightarrow> string \<Rightarrow> string \<Rightarrow> 'r option list \<Rightarrow> 'r option \<Rightarrow> bool" where
  "other_write ko f n h v =
     ((\<forall>x. v = Some x \<longrightarrow> om_Name (ko_Meta ko x) = n \<and> fresh_version ko h x) \<and> (has_fin ko f (last h) \<longrightarrow> has_fin ko f v))"

text \<open>
  The histories of a cluster with a controller: other writers, an informer that never goes back to an older
  version, and runs of the reconciler for any key, with any answers of the server, at times when the lister of config
  maps is current.
\<close>

inductive managed :: "('r, 'st) kind_ops \<Rightarrow> string \<Rightarrow> (('r, 'st) library \<times> (cm_data option \<Rightarrow> bool)) set \<Rightarrow> 'r cluster_world \<Rightarrow> bool"
  for ko :: "('r, 'st) kind_ops" and f :: string and C :: "(('r, 'st) library \<times> (cm_data option \<Rightarrow> bool)) set" where
  start: "\<forall>n. wd_hist w n = [None] \<and> wd_seen w n = 0 \<Longrightarrow> data_of (wd_cm w) = Map.empty \<Longrightarrow> managed ko f C w"
| written: "managed ko f C w \<Longrightarrow> other_write ko f n (wd_hist w n) v \<Longrightarrow> managed ko f C (add_version n v w)"
| informed: "managed ko f C w \<Longrightarrow> wd_seen w n \<le> i \<Longrightarrow> i < length (wd_hist w n) \<Longrightarrow>
    managed ko f C (w\<lparr>wd_seen := (wd_seen w)(n := i)\<rparr>)"
| reconciled: "managed ko f C w \<Longrightarrow> (r, fresh) \<in> C \<Longrightarrow> fresh (wd_cm w) \<Longrightarrow> managed ko f C (fst (Reconcile r key w))"

lemma managed_inv:
  assumes "managed ko f C w"
    and "\<And>r fresh. (r, fresh) \<in> C \<Longrightarrow> rl_kind r = ko \<and> rl_finalizerName r = f \<and> (\<exists>fin. entry_controller r fin fresh)"
  shows "world_inv ko f w"
  using assms(1)
proof (induction rule: managed.induct)
  case (start w)
  have "guarded_from ko f 0 [None]" by (auto simp: guarded_from_def alive_with_def has_fin_def)
  with start show ?case by (simp add: world_inv_def name_inv_def versions_ok_def)
next
  case (written w n v)
  then show ?case by (intro world_inv_keep) (auto simp: other_write_def)
next
  case (informed w n i)
  then show ?case by (intro world_inv_seen)
next
  case (reconciled w r fresh key)
  with assms(2) entry_controller.Reconcile_inv show ?case by metis
qed

lemma managed_entry:
  assumes "world_inv ko f w" "data_of (wd_cm w) n = Some v"
  shows "\<exists>x. last (wd_hist w n) = Some x \<and> f \<in> set (om_Finalizers (ko_Meta ko x))"
proof -
  have "has_fin ko f (last (wd_hist w n))" using assms by (simp add: world_inv_def name_inv_def)
  then show ?thesis by (cases "last (wd_hist w n)") (auto simp: has_fin_def)
qed

text \<open>The controllers of policies that \<open>NewController\<close> builds, with what the lister of config maps answers.\<close>

definition CIP_controllers :: "'s cond_api \<Rightarrow> ('p, 'b) rec_env set \<Rightarrow> ('s cip_object, 's resource_status) library set \<Rightarrow>
    (('s cip_object, 's resource_status) library \<times> (cm_data option \<Rightarrow> bool)) set" where
  "CIP_controllers kc E L = {(r, up_to_date (re_ConfigMap env ImagePoliciesConfigName)) |
     r env lib agent flt. env \<in> E \<and> lib \<in> L \<and> CIP_NewController kc env lib = Some (r, agent, flt)}"

definition TR_controllers :: "'s cond_api \<Rightarrow> ('p, 'b) trust_rec_env set \<Rightarrow> ('s tr_object, 's resource_status) library set \<Rightarrow>
    (('s tr_object, 's resource_status) library \<times> (cm_data option \<Rightarrow> bool)) set" where
  "TR_controllers kc E L = {(r, up_to_date (tre_ConfigMap env)) |
     r env lib agent flt. env \<in> E \<and> lib \<in> L \<and> TR_NewController kc env lib = Some (r, agent, flt)}"

lemma CIP_managed_inv:
  assumes "managed CIP_kind CIP_finalizerName (CIP_controllers kc E L) w"
    and "\<forall>lib \<in> L. library_ok CIP_kind lib" "\<forall>env \<in> E. patch_laws (cv_patch (re_cm env))"
  shows "world_inv CIP_kind CIP_finalizerName w"
proof (rule managed_inv [OF assms(1)])
  fix r fresh
  assume "(r, fresh) \<in> CIP_controllers kc E L"
  then obtain env lib where "env \<in> E" "lib \<in> L" and r: "r = CIP_rec kc env lib" "fresh = up_to_date (re_ConfigMap env ImagePoliciesConfigName)"
    by (auto simp: CIP_controllers_def CIP_NewController_rec)
  with assms(2,3) CIP_entry_controller [of lib env kc]
  show "rl_kind r = CIP_kind \<and> rl_finalizerName r = CIP_finalizerName \<and> (\<exists>fin. entry_controller r fin fresh)"
    by (auto simp: CIP_rec_def)
qed

lemma TR_managed_inv:
  assumes "managed TR_kind TR_FinalizerName (TR_controllers kc E L) w"
    and "\<forall>lib \<in> L. library_ok TR_kind lib" "\<forall>env \<in> E. patch_laws (cv_patch (tre_cm env))"
  shows "world_inv TR_kind TR_FinalizerName w"
proof (rule managed_inv [OF assms(1)])
  fix r fresh
  assume "(r, fresh) \<in> TR_controllers kc E L"
  then obtain env lib where "env \<in> E" "lib \<in> L" and r: "r = TR_rec kc env lib" "fresh = up_to_date (tre_ConfigMap env)"
    by (auto simp: TR_controllers_def TR_NewController_rec)
  with assms(2,3) TR_entry_controller [of lib env kc]
  show "rl_kind r = TR_kind \<and> rl_finalizerName r = TR_FinalizerName \<and> (\<exists>fin. entry_controller r fin fresh)"
    by (auto simp: TR_rec_def)
qed


text \<open>The same for trust roots.\<close>

lemma trust_root_entries_backed:
  assumes "managed TR_kind TR_FinalizerName (TR_controllers kc E L) w"
    and "\<forall>lib \<in> L. library_ok TR_kind lib" "\<forall>env \<in> E. patch_laws (cv_patch (tre_cm env))"
    and "data_of (wd_cm w) n = Some v"
  shows "\<exists>x. last (wd_hist w n) = Some x \<and> TR_FinalizerName \<in> set (om_Finalizers (trt_ObjectMeta x))"
  using managed_entry [OF TR_managed_inv [OF assms(1-3)] assms(4)] by simp

text \<open>
  The lister of config maps has to be current: when it does not show an entry that is there, finalization removes
  nothing, reports success and the finalizer goes.
\<close>

lemma stale_lister_leaves_entry:
  assumes "patch_laws (cv_patch (re_cm env))" "re_ConfigMap env ImagePoliciesConfigName = Inr d"
    and "map_of d (om_Name (cip_ObjectMeta cip)) = None"
  shows "CIP_FinalizeKind env cip server = (server, None)"
proof -
  let ?n = "om_Name (cip_ObjectMeta cip)"
  have "map_of d = map_of (del_key ?n d)" using assms(3) by auto
  from patch_laws.same_empty [OF assms(1) this] show ?thesis
    by (simp add: CIP_FinalizeKind_def assms(2) removeCIPEntry_def remove_entry_def CreateRemovePatch_def patch_bytes_def)
qed

section \<open>Progress\<close>

text \<open>A server that applies every patch whose version is current.\<close>

definition server_answers :: "('r, 'st) kind_ops \<Rightarrow> ('r, 'r cluster_world) api_client \<Rightarrow> bool" where
  "server_answers ko cl =
     (\<forall>n p w x. last (wd_hist w n) = Some x \<longrightarrow> fp_resourceVersion p = rv_of ko x \<longrightarrow> \<not> isl (snd (ac_Patch cl n p w)))"

lemma finalize_total:
  assumes "patch_laws (cv_patch (re_cm env))" "writes_ok (re_cm env)" "up_to_date (re_ConfigMap env ImagePoliciesConfigName) server"
  shows "\<exists>server'. CIP_FinalizeKind env cip server = (server', None)"
proof (cases server)
  case None
  with assms(3) show ?thesis by (auto simp: up_to_date_def CIP_FinalizeKind_def)
next
  case (Some d)
  with assms(3) obtain d' where "re_ConfigMap env ImagePoliciesConfigName = Inr d'" "map_of d' = map_of d"
    by (auto simp: up_to_date_def)
  with patch_laws.remove_entry_total [OF assms(1,2) refl] Some show ?thesis by (simp add: CIP_FinalizeKind_def removeCIPEntry_def)
qed

lemma CIP_newState:
  "rl_SplitMetaNamespaceKey lib key = Ok (ns, n) \<Longrightarrow>
     newState (CIP_rec kc env lib) key =
       Ok \<lparr>rs_key = key, rs_namespace = ns, rs_name = n, rs_isROI = False, rs_isLeader = rl_IsLeaderFor lib (ns, n)\<rparr>"
  by (simp add: newState_def CIP_rec_def CIP_logic_def)

text \<open>
  C28 A deleted policy goes away. Whatever happened before, once the leader runs with current listers
  on a policy that is being deleted, and writes are applied, one run ends without an error: the entry and the
  finalizer are gone, and the object itself is gone unless somebody else's finalizer holds it.
\<close>

theorem deleted_policy_cleaned_up:
  assumes "managed CIP_kind CIP_finalizerName (CIP_controllers kc E L) w"
    and "\<forall>lib \<in> L. library_ok CIP_kind lib" "\<forall>env \<in> E. patch_laws (cv_patch (re_cm env))" "lib \<in> L" "env \<in> E"
    and "CIP_NewController kc env lib = Some (r, agent, flt)" "rl_SplitMetaNamespaceKey lib key = Ok (ns, n)" "rl_IsLeaderFor lib (ns, n)"
    and "up_to_date (re_ConfigMap env ImagePoliciesConfigName) (wd_cm w)" "writes_ok (re_cm env)" "server_answers CIP_kind (rl_Client lib)"
    and "last (wd_hist w n) = Some x" "wd_hist w n ! wd_seen w n = Some x" "om_DeletionTimestamp (cip_ObjectMeta x) \<noteq> None"
    and "CIP_finalizerName \<in> set (om_Finalizers (cip_ObjectMeta x))"
  shows "\<exists>w'. Reconcile r key w = (w', Returned None) \<and> data_of (wd_cm w') n = None \<and>
    \<not> has_fin CIP_kind CIP_finalizerName (last (wd_hist w' n)) \<and>
    (set (om_Finalizers (cip_ObjectMeta x)) = {CIP_finalizerName} \<longrightarrow> last (wd_hist w' n) = None)"
proof -
  let ?r = "CIP_rec kc env lib"
  have r: "r = ?r" using assms(6) by (simp add: CIP_NewController_rec)
  have lib: "library_ok CIP_kind lib" and pl: "patch_laws (cv_patch (re_cm env))" using assms(2-5) by auto
  have k: "rl_kind ?r = CIP_kind" "rl_finalizerName ?r = CIP_finalizerName" "rl_Client ?r = rl_Client lib" by (simp_all add: CIP_rec_def)
  have inv: "world_inv (rl_kind ?r) (rl_finalizerName ?r) w" unfolding k by (rule CIP_managed_inv [OF assms(1-3)])
  obtain server' where f: "CIP_FinalizeKind env x (wd_cm w) = (server', None)" using finalize_total [OF pl assms(10,9)] by blast
  then have fin: "CIP_finalize env x w = (w\<lparr>wd_cm := server'\<rparr>, Some (x, None))" by (simp add: CIP_finalize_def)
  have "\<forall>p. fp_resourceVersion p = rv_of (rl_kind ?r) x \<longrightarrow> \<not> isl (snd (ac_Patch (rl_Client ?r) n p (w\<lparr>wd_cm := server'\<rparr>)))"
    using assms(11,12) unfolding k server_answers_def by simp
  from entry_controller.cleaned_up [OF CIP_entry_controller [OF lib pl] inv assms(9) CIP_newState [OF assms(7)] _ _ assms(12,13) _ _ fin this]
    assms(8,14,15)
  show ?thesis unfolding r k by (simp add: deleted_obj_def)
qed

text \<open>
  The keys of a global resync, worked off one after the other; the environment of each run depends on
  the config map at that time. Keys of cluster-scoped resources are their names.
\<close>

definition resync :: "'s cond_api \<Rightarrow> (cm_data option \<Rightarrow> ('p, 'b) rec_env) \<Rightarrow> ('s cip_object, 's resource_status) library \<Rightarrow>
    (string \<times> string) list \<Rightarrow> 's cip_object cluster_world \<Rightarrow> 's cip_object cluster_world" where
  "resync kc E lib keys w = foldl (\<lambda>w k. fst (Reconcile (CIP_rec kc (E (wd_cm w)) lib) (snd k) w)) w keys"

text \<open>An environment whose lister of config maps is current and in which every write succeeds.\<close>

definition calm_env :: "(cm_data option \<Rightarrow> ('p, 'b) rec_env) \<Rightarrow> bool" where
  "calm_env E =
     (\<forall>d. patch_laws (cv_patch (re_cm (E d))) \<and> writes_ok (re_cm (E d)) \<and> (\<forall>c. is_ok (re_marshal (E d) c)) \<and>
          up_to_date (re_ConfigMap (E d) ImagePoliciesConfigName) d)"

text \<open>A policy the controller can work on: listed, alive, with the finalizer, and led by this replica.\<close>

definition workable :: "('s cip_object, 's resource_status) library \<Rightarrow> 's cip_object cluster_world \<Rightarrow> string \<Rightarrow> 's cip_object \<Rightarrow> bool" where
  "workable lib w n x =
     (listed_version n w = Inr x \<and> om_Name (cip_ObjectMeta x) = n \<and> om_DeletionTimestamp (cip_ObjectMeta x) = None \<and>
      CIP_finalizerName \<in> set (om_Finalizers (cip_ObjectMeta x)) \<and>
      (\<exists>ns. rl_SplitMetaNamespaceKey lib n = Ok (ns, n) \<and> rl_IsLeaderFor lib (ns, n)))"

lemma CIP_reconcile_runs:
  assumes "patch_laws (cv_patch (re_cm env))" "writes_ok (re_cm env)" "\<forall>w. is_ok (re_marshal env w)"
    and "up_to_date (re_ConfigMap env ImagePoliciesConfigName) (wd_cm w)" "inlined_cip env x \<noteq> Panicked"
  shows "\<exists>w' y ev. CIP_reconcile kc env x w = (w', Some (y, ev)) \<and> wd_hist w' = wd_hist w \<and> wd_seen w' = wd_seen w \<and>
    data_of (wd_cm w') = (data_of (wd_cm w))(om_Name (cip_ObjectMeta x) := wanted_entry env x)"
proof -
  let ?res = "CIP_ReconcileKind kc env x (wd_cm w) (wd_tracks w)"
  have "rr_event ?res \<noteq> Panicked"
  proof (cases "inlined_cip env x")
    case (Done c)
    show ?thesis
      by (rule reconcile_stored [OF assms(1,2) spec [OF assms(3)] assms(4) Done, of kc "wd_tracks w"]) simp
  qed (use assms(5) reconcile_failed(2) [of env x _ kc "wd_cm w" "wd_tracks w"] in auto)
  then show ?thesis
    using reconciled_data [OF assms, of kc "wd_tracks w"] by (cases "rr_event ?res") (auto simp: CIP_reconcile_def Let_def)
qed

lemma live_policy_run:
  assumes "library_ok CIP_kind lib" "calm_env E" "workable lib w n x"
    and "inlined_cip (E (wd_cm w)) (rl_PreProcess lib x) \<noteq> Panicked" "w' = fst (Reconcile (CIP_rec kc (E (wd_cm w)) lib) n w)"
  shows "wd_seen w' = wd_seen w" "\<forall>m. m \<noteq> n \<longrightarrow> wd_hist w' m = wd_hist w m"
    and "data_of (wd_cm w') = (data_of (wd_cm w))(n := wanted_entry (E (wd_cm w)) (rl_PreProcess lib x))"
proof -
  let ?env = "E (wd_cm w)" and ?r = "CIP_rec kc (E (wd_cm w)) lib"
  have env: "patch_laws (cv_patch (re_cm ?env))" "writes_ok (re_cm ?env)" "\<forall>c. is_ok (re_marshal ?env c)"
    "up_to_date (re_ConfigMap ?env ImagePoliciesConfigName) (wd_cm w)" using assms(2) by (auto simp: calm_env_def)
  have k: "rl_kind ?r = CIP_kind" "rl_finalizerName ?r = CIP_finalizerName" "rl_PreProcess ?r = rl_PreProcess lib"
    "\<not> rl_skipStatusUpdates ?r" "ri_ReconcileKind (rl_reconciler ?r) = CIP_reconcile kc ?env"
    by (simp_all add: CIP_rec_def CIP_logic_def)
  note ec = CIP_entry_controller [OF assms(1) env(1), of kc]
  from assms(3) obtain ns where l: "listed_version n w = Inr x" and nx: "om_Name (ko_Meta (rl_kind ?r) x) = n" and s: "rl_SplitMetaNamespaceKey lib n = Ok (ns, n)" "rl_IsLeaderFor lib (ns, n)"
    by (auto simp: workable_def k)
  obtain w2 y ev where c: "CIP_reconcile kc ?env (rl_PreProcess lib x) w = (w2, Some (y, ev))"
    and w2: "wd_hist w2 = wd_hist w" "wd_seen w2 = wd_seen w"
      "data_of (wd_cm w2) = (data_of (wd_cm w))(om_Name (cip_ObjectMeta (rl_PreProcess lib x)) := wanted_entry ?env (rl_PreProcess lib x))"
    using CIP_reconcile_runs [OF env assms(4), of kc] by blast
  have "om_Name (cip_ObjectMeta (rl_PreProcess lib x)) = n"
    using reconciler_laws.pre_meta [OF entry_controller.axioms(1) [OF ec], of x] nx unfolding k CIP_kind_simps by simp
  moreover have "elsewhere_same n w2 w'"
    unfolding assms(5)
    by (rule entry_controller.live_run [OF ec nx env(4) CIP_newState [OF s(1)] _ _ l])
      (use assms(3) s c in \<open>auto simp: k workable_def deleted_obj_def\<close>)
  ultimately show "wd_seen w' = wd_seen w" "\<forall>m. m \<noteq> n \<longrightarrow> wd_hist w' m = wd_hist w m"
    "data_of (wd_cm w') = (data_of (wd_cm w))(n := wanted_entry ?env (rl_PreProcess lib x))"
    using w2 by (auto simp: elsewhere_same_def)
qed

lemma resync_entries:
  assumes "library_ok CIP_kind lib" "calm_env E" "distinct ns" "\<forall>n \<in> set ns. workable lib w n (obj n)"
    and "\<forall>n \<in> set ns. \<forall>d. inlined_cip (E d) (rl_PreProcess lib (obj n)) \<noteq> Panicked \<and>
           wanted_entry (E d) (rl_PreProcess lib (obj n)) = W n"
  shows "data_of (wd_cm (resync kc E lib (map (\<lambda>n. ('''', n)) ns) w)) = (\<lambda>m. if m \<in> set ns then W m else data_of (wd_cm w) m)"
  using assms(3-5)
proof (induction ns arbitrary: w)
  case Nil
  then show ?case by (simp add: resync_def)
next
  case (Cons n ns)
  define w' where "w' = fst (Reconcile (CIP_rec kc (E (wd_cm w)) lib) n w)"
  have n: "workable lib w n (obj n)" "inlined_cip (E (wd_cm w)) (rl_PreProcess lib (obj n)) \<noteq> Panicked"
    "wanted_entry (E (wd_cm w)) (rl_PreProcess lib (obj n)) = W n" using Cons.prems by auto
  note run = live_policy_run [OF assms(1,2) n(1,2) w'_def]
  have "workable lib w' m (obj m)" if "m \<in> set ns" for m
  proof -
    have "m \<noteq> n" using Cons.prems(1) that by auto
    then have "listed_version m w' = listed_version m w" using run(1,2) by (simp add: listed_version_def)
    moreover have "workable lib w m (obj m)" using Cons.prems(2) that by simp
    ultimately show ?thesis by (simp add: workable_def)
  qed
  with Cons.IH [of w'] Cons.prems(1,3)
  have "data_of (wd_cm (resync kc E lib (map (\<lambda>n. ('''', n)) ns) w')) = (\<lambda>m. if m \<in> set ns then W m else data_of (wd_cm w') m)"
    by simp
  moreover have "resync kc E lib (map (\<lambda>n. ('''', n)) (n # ns)) w = resync kc E lib (map (\<lambda>n. ('''', n)) ns) w'"
    by (simp add: resync_def w'_def)
  ultimately show ?case using run(3) n(3) by (auto simp: fun_eq_iff)
qed

text \<open>
  C29 A global resync repairs the config map under calm conditions. Suppose the maintained config map was changed or
  deleted behind the controller's back, and the informer's event enqueues the keys of all listed policies, in any order.
  Suppose further that each listed policy is alive, carries the finalizer and is led by this replica, that every write
  succeeds and the lister of config maps shows it before the next run, that inlining neither panics nor depends on the
  maintained config map, and that no tracked resource is waiting for the event. Once the keys are worked
  off, the entry of every listed policy is the one its reconciliation wants, or is absent where something cannot be
  inlined; all other entries are as they were.
\<close>

theorem resync_restores_entries:
  assumes "library_ok CIP_kind lib" "calm_env E" "ih_resync ih" "\<forall>kind nsp n. onChanged kind nsp n = []"
    and "all = map (\<lambda>n. ('''', n)) ns" "distinct ns" "set ns = {n. \<exists>x. listed_version n w = Inr x}"
    and "\<forall>n x. listed_version n w = Inr x \<longrightarrow> workable lib w n x \<and>
           (\<forall>d. inlined_cip (E d) (rl_PreProcess lib x) \<noteq> Panicked \<and> wanted_entry (E d) (rl_PreProcess lib x) = W n)"
  shows "data_of (wd_cm (resync kc E lib (CIP_on_event ih onChanged sysns all (ConfigMapEvent sysns ImagePoliciesConfigName)) w)) =
    (\<lambda>m. if \<exists>x. listed_version m w = Inr x then W m else data_of (wd_cm w) m)"
proof -
  define obj where "obj n = (SOME x. listed_version n w = Inr x)" for n
  have obj: "listed_version n w = Inr (obj n)" if "n \<in> set ns" for n
    using that assms(7) unfolding obj_def by (auto intro: someI_ex)
  have "\<forall>n \<in> set ns. workable lib w n (obj n)"
    "\<forall>n \<in> set ns. \<forall>d. inlined_cip (E d) (rl_PreProcess lib (obj n)) \<noteq> Panicked \<and> wanted_entry (E d) (rl_PreProcess lib (obj n)) = W n"
    using obj assms(8) by blast+
  from resync_entries [OF assms(1,2,6) this] show ?thesis using assms(3-5,7) by (simp add: CIP_on_event_def)
qed

section \<open>A small cluster\<close>

definition sample_library :: "('r, 'st) kind_ops \<Rightarrow> (ObjectMeta \<Rightarrow> 'r \<Rightarrow> 'r) \<Rightarrow> ('r, 'r cluster_world) rec_interface \<Rightarrow> ('r, 'st) library" where
  "sample_library ko set_meta logic = \<lparr>rl_kind = ko, rl_Client = store_client ko set_meta, rl_Lister_Get = listed_version,
     rl_Recorder = log_event, rl_reconciler = logic, rl_finalizerName = '''', rl_skipStatusUpdates = False,
     rl_IsLeaderFor = (\<lambda>_. True), rl_SplitMetaNamespaceKey = (\<lambda>k. Ok ('''', k)), rl_PreProcess = id, rl_PostProcess = (\<lambda>x _. x),
     rl_DeepEqual = (=), rl_RetryUpdateConflicts = (\<lambda>f w. retry_loop 4 f 0 w)\<rparr>"

lemma sample_library_ok:
  assumes "\<And>m x. ko_Meta ko (set_meta m x) = m" "\<And>m x. ko_Status ko (set_meta m x) = ko_Status ko x"
    and "\<And>st x. ko_Status ko (ko_set_Status ko st x) = st" "\<And>st x. ko_Meta ko (ko_set_Status ko st x) = ko_Meta ko x"
  shows "library_ok ko (sample_library ko set_meta logic)"
proof -
  have "reconciler_laws ((sample_library ko set_meta logic)\<lparr>rl_kind := ko\<rparr>)"
    by unfold_locales (auto simp: sample_library_def assms)
  then show ?thesis using store_client_laws [OF assms(1,2)] by (simp add: library_ok_def sample_library_def)
qed

definition sample_cip_env :: "cm_data option \<Rightarrow> (cm_op, cm_op) rec_env" where
  "sample_cip_env d = sample_rec_env (case d of None \<Rightarrow> Inl (NotFound ''none'') | Some d \<Rightarrow> Inr d)"

definition cip_library :: "(cond_table cip_object, cond_table resource_status) library" where
  "cip_library = sample_library CIP_kind (\<lambda>m c. c\<lparr>cip_ObjectMeta := m\<rparr>) (CIP_logic table_api (sample_cip_env None))"

definition tr_library :: "(cond_table tr_object, cond_table resource_status) library" where
  "tr_library = sample_library TR_kind (\<lambda>m c. c\<lparr>trt_ObjectMeta := m\<rparr>) (TR_logic table_api sample_trust_rec)"

lemma sample_libraries: "library_ok CIP_kind cip_library" "library_ok TR_kind tr_library"
  unfolding cip_library_def tr_library_def by (rule sample_library_ok; simp)+

lemma sample_calm: "calm_env sample_cip_env"
  using sample_patch_laws sample_writes_ok
  by (auto simp: calm_env_def sample_cip_env_def up_to_date_def sample_rec_env_def is_ok_def split: option.splits)

interpretation cip_ctl: entry_controller "CIP_rec table_api (sample_cip_env None) cip_library" "CIP_finalize (sample_cip_env None)"
    "up_to_date (re_ConfigMap (sample_cip_env None) ImagePoliciesConfigName)"
  by (rule CIP_entry_controller [OF sample_libraries(1)]) (simp add: sample_cip_env_def sample_patch_laws)

interpretation tr_ctl: entry_controller "TR_rec table_api sample_trust_rec tr_library" "TR_finalize sample_trust_rec"
    "up_to_date (tre_ConfigMap sample_trust_rec)"
  by (rule TR_entry_controller [OF sample_libraries(2)]) (simp add: sample_trust_rec_def diff.patch_laws_axioms)

text \<open>A policy that has the finalizer, alive or being deleted, and the world after it was created and seen.\<close>

definition sample_object :: "string option \<Rightarrow> cond_table cip_object" where
  "sample_object del = (sample_secret_cip ''keys'')\<lparr>cip_ObjectMeta :=
     (cip_ObjectMeta (sample_secret_cip ''keys''))\<lparr>om_Finalizers := [CIP_finalizerName], om_DeletionTimestamp := del\<rparr>\<rparr>"

definition sample_world :: "string option \<Rightarrow> cond_table cip_object cluster_world" where
  "sample_world del = \<lparr>wd_hist = (\<lambda>n. if n = ''policy'' then [None, Some (sample_object del)] else [None]),
     wd_seen = (\<lambda>n. if n = ''policy'' then 1 else 0), wd_cm = None, wd_tracks = [], wd_log = []\<rparr>"

lemma sample_world_managed: "managed CIP_kind CIP_finalizerName C (sample_world del)"
proof -
  let ?w0 = "\<lparr>wd_hist = (\<lambda>n. [None]), wd_seen = (\<lambda>n. 0), wd_cm = None, wd_tracks = [], wd_log = []\<rparr> :: cond_table cip_object cluster_world"
  have n: "om_Name (cip_ObjectMeta (sample_object del)) = ''policy''"
    by (simp add: sample_object_def sample_secret_cip_def sample_ready_cip_def)
  have "managed CIP_kind CIP_finalizerName C ?w0" by (rule managed.start) simp_all
  then have "managed CIP_kind CIP_finalizerName C (add_version ''policy'' (Some (sample_object del)) ?w0)"
    by (rule managed.written) (simp add: other_write_def fresh_version_def has_fin_def n)
  then have "managed CIP_kind CIP_finalizerName C
      ((add_version ''policy'' (Some (sample_object del)) ?w0)\<lparr>wd_seen := (wd_seen (add_version ''policy'' (Some (sample_object del)) ?w0))(''policy'' := 1)\<rparr>)"
    by (rule managed.informed) (simp_all add: add_version_def)
  moreover have "(add_version ''policy'' (Some (sample_object del)) ?w0)\<lparr>wd_seen := (wd_seen (add_version ''policy'' (Some (sample_object del)) ?w0))(''policy'' := 1)\<rparr> =
      sample_world del"
    by (auto simp: sample_world_def add_version_def fun_eq_iff)
  ultimately show ?thesis by simp
qed

lemma sample_object_inlined: "inlined_cip (sample_cip_env d) (sample_object None) =
    Done ((sample_object None)\<lparr>cip_Spec := zero_Spec\<lparr>cs_Authorities := [zero_Authority\<lparr>au_Key := Some (zero_KeyRef\<lparr>kr_Data := ''pem''\<rparr>)\<rparr>]\<rparr>\<rparr>)"
  by (simp add: inline_defs sample_cip_env_def sample_rec_env_def sample_object_def sample_secret_cip_def sample_ready_cip_def zero_defs
      sample_externals_def)

lemma sample_object_wanted: "wanted_entry (sample_cip_env d) (sample_object None) = Some ''uid-17''"
  by (simp add: wanted_entry_def sample_object_inlined)
    (simp add: sample_cip_env_def sample_rec_env_def ConvertClusterImagePolicyV1alpha1ToWebhook_def sample_object_def sample_secret_cip_def
      sample_ready_cip_def)

lemma sample_workable: "workable cip_library (sample_world None) ''policy'' (sample_object None)"
  by (simp add: workable_def listed_version_def sample_world_def cip_library_def sample_library_def)
    (simp add: sample_object_def sample_secret_cip_def sample_ready_cip_def)

lemma sample_env_laws: "patch_laws (cv_patch (re_cm (sample_cip_env d)))"
  by (simp add: sample_cip_env_def sample_patch_laws)


theorem deleted_policy_cleaned_up_witness:
  "\<exists>w'. Reconcile (CIP_rec table_api (sample_cip_env None) cip_library) ''policy'' (sample_world (Some ''now'')) = (w', Returned None) \<and>
     last (wd_hist w' ''policy'') = None"
proof -
  let ?w = "sample_world (Some ''now'')" and ?x = "sample_object (Some ''now'')"
  have m: "managed CIP_kind CIP_finalizerName (CIP_controllers table_api {sample_cip_env None} {cip_library}) ?w"
    by (rule sample_world_managed)
  have lib: "rl_SplitMetaNamespaceKey cip_library ''policy'' = Ok ('''', ''policy'')" "rl_IsLeaderFor cip_library ('''', ''policy'')"
    and sv: "server_answers CIP_kind (rl_Client cip_library)"
    by (auto simp: cip_library_def sample_library_def server_answers_def store_client_def Let_def)
  have env: "up_to_date (re_ConfigMap (sample_cip_env None) ImagePoliciesConfigName) (wd_cm ?w)" "writes_ok (re_cm (sample_cip_env None))"
    using sample_calm by (auto simp: calm_env_def sample_world_def)
  have x: "last (wd_hist ?w ''policy'') = Some ?x" "wd_hist ?w ''policy'' ! wd_seen ?w ''policy'' = Some ?x"
    "om_DeletionTimestamp (cip_ObjectMeta ?x) \<noteq> None" "om_Finalizers (cip_ObjectMeta ?x) = [CIP_finalizerName]"
    by (simp_all add: sample_world_def sample_object_def)
  show ?thesis
    using deleted_policy_cleaned_up [OF m _ _ _ _ CIP_NewController_rec lib env sv x(1-3)] sample_libraries(1) sample_env_laws x(4)
    by auto
qed

theorem resync_restores_entries_witness:
  "data_of (wd_cm (resync table_api sample_cip_env cip_library [('''', ''policy'')]
     ((sample_world None)\<lparr>wd_cm := Some [(''other'', ''x'')]\<rparr>))) = [''other'' \<mapsto> ''x'', ''policy'' \<mapsto> ''uid-17'']"
proof -
  let ?w = "(sample_world None)\<lparr>wd_cm := Some [(''other'', ''x'')]\<rparr>"
    and ?ih = "\<lparr>ih_resource = True, ih_secret = True, ih_configmap = True, ih_resync = True\<rparr>"
  have work: "workable cip_library ?w ''policy'' (sample_object None)"
    using sample_workable by (simp add: workable_def listed_version_def)
  have pre: "rl_PreProcess cip_library = id" by (simp add: cip_library_def sample_library_def)
  have l: "listed_version n ?w = Inr x \<longleftrightarrow> n = ''policy'' \<and> x = sample_object None" for n x
    by (auto simp: listed_version_def sample_world_def)
  have "data_of (wd_cm (resync table_api sample_cip_env cip_library
      (CIP_on_event ?ih (\<lambda>_ _ _. []) ''ns'' [('''', ''policy'')] (ConfigMapEvent ''ns'' ImagePoliciesConfigName)) ?w)) =
      (\<lambda>m. if \<exists>x. listed_version m ?w = Inr x then Some ''uid-17'' else data_of (wd_cm ?w) m)"
    by (rule resync_restores_entries [OF sample_libraries(1) sample_calm, where ns = "[''policy'']"])
      (use work in \<open>simp_all add: l pre sample_object_inlined sample_object_wanted\<close>)
  then show ?thesis by (simp add: CIP_on_event_def fun_eq_iff l)
qed

end
