(* ===== verification/WebhookMain.thy ===== *)
theory WebhookMain
  imports Admission TufClient
begin

text \<open>
  The process of the webhook, \<open>cmd/webhook/main.go\<close>, with the values it hands around in Go contexts:
  \<open>pkg/apis/config/store.go\<close>, the store of \<open>pkg/config/store.go\<close>, \<open>pkg/webhook/gm/context.go\<close>, the callbacks of
  \<open>pkg/apis/duck/v1beta1\<close> and the periods of \<open>pkg/reconciler/clusterimagepolicy/controller.go\<close>. knative builds a fresh
  context for every admission request; only what the controllers put into it reaches the validator.
\<close>

section \<open>Values in a context\<close>

text \<open>A key that is not set, or set to a nil pointer, reads as nil.\<close>

type_synonym hsm_client = "nat \<Rightarrow> VerifyRequest \<Rightarrow> bool go_result"

record 'c ctx_values =
  cx_kubeclient :: bool
  cx_Config :: "webhook_config option"
  cx_PCConfig :: "PolicyControllerConfig option"
  cx_gmClient :: "hsm_client option"
  cx_gmCache :: "'c Cache option"
  cx_policyResync :: "int option"
  cx_trustrootResync :: "int option"

text \<open>The callbacks are called with the context they were found in.\<close>

record ('c, 'v, 'fe) webhook_ctx = "'c ctx_values" +
  cx_PodScalableValidator :: "('c ctx_values \<Rightarrow> 'v request \<Rightarrow> 'v pod_scalable \<Rightarrow> 'fe option) option"
  cx_PodScalableDefaulter :: "('c ctx_values \<Rightarrow> 'v request \<Rightarrow> 'v pod_scalable \<Rightarrow> 'v pod_scalable) option"
  cx_PodValidator :: "('c ctx_values \<Rightarrow> 'v request \<Rightarrow> 'v pod_resource \<Rightarrow> 'fe option) option"
  cx_PodDefaulter :: "('c ctx_values \<Rightarrow> 'v request \<Rightarrow> 'v pod_resource \<Rightarrow> 'v pod_resource) option"
  cx_PodSpecValidator :: "('c ctx_values \<Rightarrow> 'v request \<Rightarrow> 'v pod_resource \<Rightarrow> 'fe option) option"
  cx_PodSpecDefaulter :: "('c ctx_values \<Rightarrow> 'v request \<Rightarrow> 'v pod_resource \<Rightarrow> 'v pod_resource) option"
  cx_CronJobValidator :: "('c ctx_values \<Rightarrow> 'v request \<Rightarrow> 'v pod_resource \<Rightarrow> 'fe option) option"
  cx_CronJobDefaulter :: "('c ctx_values \<Rightarrow> 'v request \<Rightarrow> 'v pod_resource \<Rightarrow> 'v pod_resource) option"

definition empty_ctx :: "('c, 'v, 'fe) webhook_ctx" where
  "empty_ctx = \<lparr>cx_kubeclient = False, cx_Config = None, cx_PCConfig = None, cx_gmClient = None, cx_gmCache = None,
     cx_policyResync = None, cx_trustrootResync = None, cx_PodScalableValidator = None, cx_PodScalableDefaulter = None,
     cx_PodValidator = None, cx_PodDefaulter = None, cx_PodSpecValidator = None, cx_PodSpecDefaulter = None,
     cx_CronJobValidator = None, cx_CronJobDefaulter = None\<rparr>"

definition values_of :: "('c, 'v, 'fe) webhook_ctx \<Rightarrow> 'c ctx_values" where
  "values_of ctx = ctx_values.truncate ctx"

definition WithClient :: "hsm_client option \<Rightarrow> ('c, 'x) ctx_values_scheme \<Rightarrow> ('c, 'x) ctx_values_scheme" where
  "WithClient c ctx = ctx\<lparr>cx_gmClient := c\<rparr>"

definition ClientFromContext :: "('c, 'x) ctx_values_scheme \<Rightarrow> hsm_client option" where
  "ClientFromContext ctx = cx_gmClient ctx"

definition WithCache :: "'c Cache option \<Rightarrow> ('c, 'x) ctx_values_scheme \<Rightarrow> ('c, 'x) ctx_values_scheme" where
  "WithCache cache ctx = ctx\<lparr>cx_gmCache := cache\<rparr>"

definition CacheFromContext :: "('c, 'x) ctx_values_scheme \<Rightarrow> 'c Cache option" where
  "CacheFromContext ctx = cx_gmCache ctx"

definition Resync_ToContext :: "int \<Rightarrow> ('c, 'x) ctx_values_scheme \<Rightarrow> ('c, 'x) ctx_values_scheme" where
  "Resync_ToContext duration ctx = ctx\<lparr>cx_policyResync := Some duration\<rparr>"

text \<open>\<open>controller.DefaultResyncPeriod\<close> is ten hours.\<close>

definition Resync_FromContextOrDefaults :: "('c, 'x) ctx_values_scheme \<Rightarrow> int" where
  "Resync_FromContextOrDefaults ctx = (case cx_policyResync ctx of Some x \<Rightarrow> x | None \<Rightarrow> 10 * 3600 * 10 ^ 9)"

definition TUF_WithPeriod :: "int \<Rightarrow> ('c, 'x) ctx_values_scheme \<Rightarrow> ('c, 'x) ctx_values_scheme" where
  "TUF_WithPeriod duration ctx = ctx\<lparr>cx_trustrootResync := TUF_ToContext (cx_trustrootResync ctx) duration\<rparr>"

section \<open>The callbacks of scalable resources\<close>

definition WithPodScalableValidator :: "('c ctx_values \<Rightarrow> 'v request \<Rightarrow> 'v pod_scalable \<Rightarrow> 'fe option) \<Rightarrow>
    ('c, 'v, 'fe) webhook_ctx \<Rightarrow> ('c, 'v, 'fe) webhook_ctx" where
  "WithPodScalableValidator psv ctx = ctx\<lparr>cx_PodScalableValidator := Some psv\<rparr>"

definition GetPodScalableValidator :: "('c, 'v, 'fe) webhook_ctx \<Rightarrow>
    ('c ctx_values \<Rightarrow> 'v request \<Rightarrow> 'v pod_scalable \<Rightarrow> 'fe option) option" where
  "GetPodScalableValidator ctx = cx_PodScalableValidator ctx"

definition PodScalable_Validate :: "('c, 'v, 'fe) webhook_ctx \<Rightarrow> 'v request \<Rightarrow> 'v pod_scalable \<Rightarrow> 'fe option" where
  "PodScalable_Validate ctx rq ps =
     (case GetPodScalableValidator ctx of Some psv \<Rightarrow> psv (values_of ctx) rq ps | None \<Rightarrow> None)"

definition WithPodScalableDefaulter :: "('c ctx_values \<Rightarrow> 'v request \<Rightarrow> 'v pod_scalable \<Rightarrow> 'v pod_scalable) \<Rightarrow>
    ('c, 'v, 'fe) webhook_ctx \<Rightarrow> ('c, 'v, 'fe) webhook_ctx" where
  "WithPodScalableDefaulter psd ctx = ctx\<lparr>cx_PodScalableDefaulter := Some psd\<rparr>"

definition GetPodScalableDefaulter :: "('c, 'v, 'fe) webhook_ctx \<Rightarrow>
    ('c ctx_values \<Rightarrow> 'v request \<Rightarrow> 'v pod_scalable \<Rightarrow> 'v pod_scalable) option" where
  "GetPodScalableDefaulter ctx = cx_PodScalableDefaulter ctx"

definition PodScalable_SetDefaults :: "('c, 'v, 'fe) webhook_ctx \<Rightarrow> 'v request \<Rightarrow> 'v pod_scalable \<Rightarrow> 'v pod_scalable" where
  "PodScalable_SetDefaults ctx rq ps =
     (case GetPodScalableDefaulter ctx of Some psd \<Rightarrow> psd (values_of ctx) rq ps | None \<Rightarrow> ps)"

section \<open>The configuration stores\<close>

text \<open>
  knative's untyped store keeps per config map the last value its constructor made (nothing before the first load).
  A config map whose constructor fails is ignored, or ends the process (\<open>None\<close>) when it is the first.
\<close>

locale untyped_store_laws =
  fixes on_changed :: "('d \<Rightarrow> 'a go_result) \<Rightarrow> 'd \<Rightarrow> 'a option \<Rightarrow> 'a option option"
  assumes parsed: "construct d = Ok v \<Longrightarrow> on_changed construct d st = Some (Some v)"
    and rejected: "construct d = Err e \<Longrightarrow> on_changed construct d (Some old) = Some (Some old)"
    and not_initialised: "construct d = Err e \<Longrightarrow> on_changed construct d None = None"
begin

text \<open>The store over a sequence of config maps.\<close>

fun watch :: "('d \<Rightarrow> 'a go_result) \<Rightarrow> 'd list \<Rightarrow> 'a option \<Rightarrow> 'a option option" where
  "watch construct [] st = Some st"
| "watch construct (d # ds) st = (case on_changed construct d st of None \<Rightarrow> None | Some st' \<Rightarrow> watch construct ds st')"

lemma watch_loaded: "watch construct ds (Some old) =
    Some (Some (foldl (\<lambda>v d. case construct d of Inl e \<Rightarrow> v | Inr v' \<Rightarrow> v') old ds))"
proof (induction ds arbitrary: old)
  case (Cons d ds)
  then show ?case by (cases "construct d") (simp_all add: parsed rejected)
qed simp

lemma watch_first: "ds \<noteq> [] \<Longrightarrow> watch construct ds None \<noteq> None \<longleftrightarrow> is_ok (construct (hd ds))"
  by (cases ds; cases "construct (hd ds)") (auto simp: parsed not_initialised watch_loaded is_ok_def)

end

definition simple_store :: "('d \<Rightarrow> 'a go_result) \<Rightarrow> 'd \<Rightarrow> 'a option \<Rightarrow> 'a option option" where
  "simple_store construct d st =
     (case construct d of Inr v \<Rightarrow> Some (Some v) | Inl e \<Rightarrow> (case st of None \<Rightarrow> None | Some old \<Rightarrow> Some (Some old)))"

interpretation simple: untyped_store_laws simple_store
  by unfold_locales (simp_all add: simple_store_def)

text \<open>
  \<open>NewStore\<close> of the image policies has two config maps, each with its constructor; loading a value
  that was never stored fails the type assertion and panics (\<open>None\<close>).
\<close>

record config_store =
  cst_image :: "ImagePolicyConfig option"
  cst_keys :: "SigstoreKeysMap option"

record cm_parsers =
  cp_image :: "string \<Rightarrow> WClusterImagePolicy go_result"
  cp_keys :: "string \<Rightarrow> pb_TrustedRoot go_result"

definition Config_Load :: "config_store \<Rightarrow> webhook_config option" where
  "Config_Load s =
     (case cst_image s of
        None \<Rightarrow> None
      | Some ipc \<Rightarrow> (case cst_keys s of
                       None \<Rightarrow> None
                     | Some keys \<Rightarrow> Some \<lparr>wcf_ImagePolicyConfig = Some ipc, wcf_SigstoreKeysConfig = Some keys\<rparr>))"

definition Config_ToContext :: "webhook_config \<Rightarrow> ('c, 'x) ctx_values_scheme \<Rightarrow> ('c, 'x) ctx_values_scheme" where
  "Config_ToContext c ctx = ctx\<lparr>cx_Config := Some c\<rparr>"

definition Config_FromContext :: "('c, 'x) ctx_values_scheme \<Rightarrow> webhook_config option" where
  "Config_FromContext ctx = cx_Config ctx"

definition Config_FromContextOrDefaults :: "cm_parsers \<Rightarrow> ('c, 'x) ctx_values_scheme \<Rightarrow> webhook_config" where
  "Config_FromContextOrDefaults cp ctx =
     (case Config_FromContext ctx of
        Some cfg \<Rightarrow> cfg
      | None \<Rightarrow>
          \<lparr>wcf_ImagePolicyConfig = (case NewImagePoliciesConfigFromMap (cp_image cp) [] of Inl e \<Rightarrow> None | Inr c \<Rightarrow> Some c),
           wcf_SigstoreKeysConfig = (case NewSigstoreKeysFromMap (cp_keys cp) [] of Inl e \<Rightarrow> None | Inr m \<Rightarrow> Some m)\<rparr>)"

definition Config_Store_ToContext :: "config_store \<Rightarrow> ('c, 'x) ctx_values_scheme \<Rightarrow> ('c, 'x) ctx_values_scheme option" where
  "Config_Store_ToContext s ctx = map_option (\<lambda>c. Config_ToContext c ctx) (Config_Load s)"

text \<open>The store of the controller's configuration has one config map.\<close>

definition PC_Load :: "PolicyControllerConfig option \<Rightarrow> PolicyControllerConfig option" where
  "PC_Load s = s"

definition PC_ToContext :: "PolicyControllerConfig \<Rightarrow> ('c, 'x) ctx_values_scheme \<Rightarrow> ('c, 'x) ctx_values_scheme" where
  "PC_ToContext c ctx = ctx\<lparr>cx_PCConfig := Some c\<rparr>"

definition PC_Store_ToContext :: "PolicyControllerConfig option \<Rightarrow> ('c, 'x) ctx_values_scheme \<Rightarrow> ('c, 'x) ctx_values_scheme option" where
  "PC_Store_ToContext s ctx = map_option (\<lambda>c. PC_ToContext c ctx) (PC_Load s)"

section \<open>Start-up\<close>

text \<open>\<open>strconv.Atoi\<close>: a sign and decimal digits, within 64 bits.\<close>

definition digit_val :: "char \<Rightarrow> int option" where
  "digit_val c = (if 48 \<le> (of_char c :: int) \<and> of_char c \<le> (57 :: int) then Some (of_char c - 48) else None)"

fun digits_val :: "int \<Rightarrow> string \<Rightarrow> int option" where
  "digits_val acc [] = Some acc"
| "digits_val acc (c # cs) = (case digit_val c of None \<Rightarrow> None | Some d \<Rightarrow> digits_val (10 * acc + d) cs)"

definition Atoi :: "string \<Rightarrow> int go_result" where
  "Atoi s =
     (let (neg, ds) = (case s of [] \<Rightarrow> (False, []) | c # cs \<Rightarrow>
                         if c = CHR ''-'' then (True, cs) else if c = CHR ''+'' then (False, cs) else (False, s))
      in if ds = [] then Err ''invalid syntax''
         else (case digits_val 0 ds of
                 None \<Rightarrow> Err ''invalid syntax''
               | Some n \<Rightarrow>
                   (let v = (if neg then - n else n)
                    in if v < - (2 ^ 63) \<or> 2 ^ 63 \<le> v then Err ''value out of range'' else Ok v)))"

definition envInt :: "(string \<Rightarrow> string) \<Rightarrow> string \<Rightarrow> int \<Rightarrow> int" where
  "envInt getenv key dflt =
     (let raw = getenv key
      in if raw = '''' then dflt
         else (case Atoi raw of Inl e \<Rightarrow> dflt | Inr v \<Rightarrow> if v < 0 then dflt else v))"

definition DefaultCacheCapacity :: int where "DefaultCacheCapacity = 4096"
definition DefaultCacheTTLSeconds :: int where "DefaultCacheTTLSeconds = 30"

text \<open>\<open>time.Duration(n) * time.Second\<close>, a product of 64-bit integers.\<close>

definition duration_s :: "int \<Rightarrow> int" where
  "duration_s n = sint ((word_of_int n :: 64 word) * 1000000000)"

record main_flags =
  mf_secure_port :: int
  mf_tuf_mirror :: string
  mf_tuf_root :: string
  mf_disable_tuf :: bool
  mf_policy_resync :: int
  mf_trustroot_resync :: int

record 'c main_env =
  me_getenv :: "string \<Rightarrow> string"
  me_ReadFile :: "string \<Rightarrow> string go_result"
  me_tuf_Initialize_err :: "string \<Rightarrow> string option \<Rightarrow> string option"
  me_NewClient :: hsm_client
  me_lru :: "'c lru_ops"

text \<open>
  \<open>webhook.WithOptions\<close> takes the options by value: the context keeps the copy made before the flags are
  parsed, while the flag is stored in the local variable.
\<close>

record webhook_options =
  wo_ServiceName :: string
  wo_Port :: int
  wo_SecretName :: string

record 'c main_state =
  ms_ctx_options :: webhook_options
  ms_local_options :: webhook_options
  ms_ctx :: "'c ctx_values"
  ms_ValidResourceNames :: "string list"

definition initial_options :: webhook_options where
  "initial_options = \<lparr>wo_ServiceName = ''webhook'', wo_Port = 8443, wo_SecretName = ''webhook-certs''\<rparr>"

text \<open>The part that sets up TUF; an error is a panic.\<close>

definition init_tuf :: "'c main_env \<Rightarrow> main_flags \<Rightarrow> string option" where
  "init_tuf me fl =
     (if mf_disable_tuf fl then None
      else (let rootBytes = (if mf_tuf_root fl \<noteq> '''' then map_sum id Some (me_ReadFile me (mf_tuf_root fl)) else Inr None)
            in case rootBytes of
                 Inl e \<Rightarrow> Some (''Failed to read alternate TUF root file '' @ mf_tuf_root fl @ '' : '' @ e)
               | Inr bs \<Rightarrow>
                   (case me_tuf_Initialize_err me (mf_tuf_mirror fl) bs of
                      Some e \<Rightarrow> Some (''Failed to initialize TUF client from '' @ mf_tuf_root fl @ '' : '' @ e)
                    | None \<Rightarrow> None)))"

definition ValidResourceNames :: "string list" where
  "ValidResourceNames = [''replicasets'', ''deployments'', ''pods'', ''cronjobs'', ''jobs'', ''statefulsets'', ''daemonsets'']"

definition root_values :: "'c ctx_values" where
  "root_values = \<lparr>cx_kubeclient = False, cx_Config = None, cx_PCConfig = None, cx_gmClient = None, cx_gmCache = None,
     cx_policyResync = None, cx_trustrootResync = None\<rparr>"

definition main :: "'c main_env \<Rightarrow> main_flags \<Rightarrow> 'c main_state go_result" where
  "main me fl =
     (case init_tuf me fl of
        Some e \<Rightarrow> Err e
      | None \<Rightarrow>
          (let cacheCap = envInt (me_getenv me) ''GM_CACHE_CAPACITY'' DefaultCacheCapacity;
               cacheTTL = duration_s (envInt (me_getenv me) ''GM_CACHE_TTL_SECONDS'' DefaultCacheTTLSeconds)
           in Ok \<lparr>ms_ctx_options = initial_options,
                  ms_local_options = initial_options\<lparr>wo_Port := mf_secure_port fl\<rparr>,
                  ms_ctx = WithCache (Some (NewCache (me_lru me) cacheCap cacheTTL))
                    (WithClient (Some (me_NewClient me))
                      (TUF_WithPeriod (mf_trustroot_resync fl) (Resync_ToContext (mf_policy_resync fl) root_values))),
                  ms_ValidResourceNames = ValidResourceNames\<rparr>))"

section \<open>The webhooks\<close>

datatype duck_type = DuckPod | DuckPodScalable | DuckWithPod | DuckCronJob

datatype crd_wrapper = crdNoStatusUpdatesOrDeletes | crdEphemeralContainers

fun SupportedSubResources :: "crd_wrapper \<Rightarrow> string list" where
  "SupportedSubResources crdNoStatusUpdatesOrDeletes = ['''']"
| "SupportedSubResources crdEphemeralContainers = [''/ephemeralcontainers'', '''']"

fun SupportedVerbs :: "crd_wrapper \<Rightarrow> string list" where
  "SupportedVerbs crdNoStatusUpdatesOrDeletes = [''CREATE'', ''UPDATE'']"
| "SupportedVerbs crdEphemeralContainers = [''CREATE'', ''UPDATE'']"

definition webhook_types :: "((string \<times> string \<times> string) \<times> crd_wrapper \<times> duck_type) list" where
  "webhook_types = [
     (('''', ''v1'', ''Pod''), crdEphemeralContainers, DuckPod),
     ((''apps'', ''v1'', ''ReplicaSet''), crdNoStatusUpdatesOrDeletes, DuckPodScalable),
     ((''apps'', ''v1'', ''Deployment''), crdNoStatusUpdatesOrDeletes, DuckPodScalable),
     ((''apps'', ''v1'', ''StatefulSet''), crdNoStatusUpdatesOrDeletes, DuckPodScalable),
     ((''apps'', ''v1'', ''DaemonSet''), crdNoStatusUpdatesOrDeletes, DuckWithPod),
     ((''batch'', ''v1'', ''Job''), crdNoStatusUpdatesOrDeletes, DuckWithPod),
     ((''batch'', ''v1'', ''CronJob''), crdNoStatusUpdatesOrDeletes, DuckCronJob),
     ((''batch'', ''v1beta1'', ''CronJob''), crdNoStatusUpdatesOrDeletes, DuckCronJob)]"

definition typesCIP :: "(string \<times> string \<times> string) list" where
  "typesCIP = [(''policy.sigstore.dev'', ''v1alpha1'', ''ClusterImagePolicy''), (''policy.sigstore.dev'', ''v1alpha1'', ''TrustRoot''),
     (''policy.sigstore.dev'', ''v1beta1'', ''ClusterImagePolicy'')]"

text \<open>The environment of a request: what the validator finds in the context.\<close>

definition request_env :: "('k, 'cfg, 'v, 'fe, 'c) admission_env \<Rightarrow> 'c ctx_values \<Rightarrow> ('k, 'cfg, 'v, 'fe, 'c) admission_env" where
  "request_env ae cx =
     ae\<lparr>ae_env := (ae_env ae)\<lparr>ve_Config := Config_FromContext cx, ve_PCConfig := cx_PCConfig cx,
          ve_gm := (ve_gm (ae_env ae))\<lparr>ge_client := ClientFromContext cx\<rparr>, ve_gm_cache := CacheFromContext cx\<rparr>\<rparr>"

text \<open>
  The function that infuses the context of a validating request; the GM client and cache are those of the
  context the controller was built with. \<open>None\<close> is the panic of a store without a value.
\<close>

definition validating_ctx :: "('k, 'cfg, 'v, 'fe, 'c) admission_env \<Rightarrow> pod_env \<Rightarrow> config_store \<Rightarrow> PolicyControllerConfig option \<Rightarrow>
    'c ctx_values \<Rightarrow> ('c, 'v, 'fe) webhook_ctx \<Rightarrow> ('c, 'v, 'fe) webhook_ctx option" where
  "validating_ctx ae pe store pcStore root ctx =
     (case Config_Store_ToContext store (ctx\<lparr>cx_kubeclient := True\<rparr>) of
        None \<Rightarrow> None
      | Some ctx1 \<Rightarrow>
          (case PC_Store_ToContext pcStore ctx1 of
             None \<Rightarrow> None
           | Some ctx2 \<Rightarrow>
               Some (WithCache (CacheFromContext root) (WithClient (ClientFromContext root)
                 ((WithPodScalableValidator (\<lambda>cx. ValidatePodScalable (request_env ae cx) pe) ctx2)
                    \<lparr>cx_PodValidator := Some (\<lambda>cx. ValidatePod (request_env ae cx) pe),
                     cx_PodSpecValidator := Some (\<lambda>cx. ValidatePodSpecable (request_env ae cx) pe),
                     cx_CronJobValidator := Some (\<lambda>cx. ValidateCronJob (request_env ae cx) pe)\<rparr>)))))"

definition mutating_ctx :: "'c verify_env \<Rightarrow> pod_env \<Rightarrow> 'c ctx_values \<Rightarrow> ('c, 'v, 'fe) webhook_ctx \<Rightarrow> ('c, 'v, 'fe) webhook_ctx" where
  "mutating_ctx env pe root ctx =
     WithCache (CacheFromContext root) (WithClient (ClientFromContext root)
       ((WithPodScalableDefaulter (\<lambda>cx. ResolvePodScalable env pe) (ctx\<lparr>cx_kubeclient := True\<rparr>))
          \<lparr>cx_PodDefaulter := Some (\<lambda>cx. ResolvePod env pe),
           cx_PodSpecDefaulter := Some (\<lambda>cx. ResolvePodSpecable env pe),
           cx_CronJobDefaulter := Some (\<lambda>cx. ResolveCronJob env pe)\<rparr>))"

definition policy_validating_ctx :: "PolicyControllerConfig option \<Rightarrow> ('c, 'v, 'fe) webhook_ctx \<Rightarrow> ('c, 'v, 'fe) webhook_ctx option" where
  "policy_validating_ctx pcStore ctx = PC_Store_ToContext pcStore ctx"

section \<open>What reaches a request\<close>

text \<open>
  The validation of a decoded object by its duck type. The duck types of knative do what \<open>PodScalable.Validate\<close> does: they call
  the callback found in the context, and admit when there is none. An object is given as a scalable one, of which the
  other duck types have no replicas.
\<close>

definition duck_validate :: "('c, 'v, 'fe) webhook_ctx \<Rightarrow> duck_type \<Rightarrow> 'v request \<Rightarrow> 'v pod_scalable \<Rightarrow> 'fe option" where
  "duck_validate ctx d rq r =
     (let call = (\<lambda>callback. case callback of Some f \<Rightarrow> f (values_of ctx) rq (pod_resource.truncate r) | None \<Rightarrow> None)
      in case d of
           DuckPod \<Rightarrow> call (cx_PodValidator ctx)
         | DuckPodScalable \<Rightarrow> PodScalable_Validate ctx rq r
         | DuckWithPod \<Rightarrow> call (cx_PodSpecValidator ctx)
         | DuckCronJob \<Rightarrow> call (cx_CronJobValidator ctx))"

text \<open>The answer to a request about a group, version and kind; \<open>None\<close> if the webhook is not registered for it.\<close>

definition served_validation :: "('c, 'v, 'fe) webhook_ctx \<Rightarrow> string \<times> string \<times> string \<Rightarrow> 'v request \<Rightarrow> 'v pod_scalable \<Rightarrow>
    'fe option option" where
  "served_validation ctx gvk rq r = map_option (\<lambda>t. duck_validate ctx (snd t) rq r) (map_of webhook_types gvk)"

text \<open>Without a callback, or without a configuration in the context, everything would be admitted.\<close>

lemma unwired_admits:
  "cx_PodScalableValidator ctx = None \<Longrightarrow> PodScalable_Validate ctx rq ps = None"
  "ve_ParseReference (ae_env ae) img = Ok ref \<Longrightarrow> ve_Config (ae_env ae) = None \<Longrightarrow>
     validateContainerImage ae img namespace field i kind apiVersion labels ro = None"
  by (simp_all add: PodScalable_Validate_def GetPodScalableValidator_def validateContainerImage_def Let_def)

text \<open>
  C30 From start-up to the request: if the process came up and the infused context of a validating request exists, both
  stores were loaded, and the request is answered by the validator over the loaded image policies, trust root keys and
  controller configuration, with the HSM client and the cache made at start-up: a pod by \<open>ValidatePod\<close>; a replica set, deployment
  or stateful set by \<open>ValidatePodScalable\<close>; a daemon set or job by \<open>ValidatePodSpecable\<close>; a cron job of either version by
  \<open>ValidateCronJob\<close>. The webhook is registered for these kinds and no other.
\<close>

theorem requests_reach_validator:
  assumes "main me fl = Ok ms" "validating_ctx ae pe store pcStore (ms_ctx ms) ctx0 = Some ctx"
  shows "\<exists>ipc keys pcc. cst_image store = Some ipc \<and> cst_keys store = Some keys \<and> pcStore = Some pcc \<and>
    (let ae' = ae\<lparr>ae_env := (ae_env ae)\<lparr>
               ve_Config := Some \<lparr>wcf_ImagePolicyConfig = Some ipc, wcf_SigstoreKeysConfig = Some keys\<rparr>, ve_PCConfig := Some pcc,
               ve_gm := (ve_gm (ae_env ae))\<lparr>ge_client := Some (me_NewClient me)\<rparr>,
               ve_gm_cache := Some (NewCache (me_lru me) (envInt (me_getenv me) ''GM_CACHE_CAPACITY'' 4096)
                 (duration_s (envInt (me_getenv me) ''GM_CACHE_TTL_SECONDS'' 30)))\<rparr>\<rparr>
     in \<forall>gvk rq r. served_validation ctx gvk rq r =
          (if gvk = ('''', ''v1'', ''Pod'') then Some (ValidatePod ae' pe rq (pod_resource.truncate r))
           else if gvk \<in> {(''apps'', ''v1'', ''ReplicaSet''), (''apps'', ''v1'', ''Deployment''), (''apps'', ''v1'', ''StatefulSet'')}
           then Some (ValidatePodScalable ae' pe rq r)
           else if gvk \<in> {(''apps'', ''v1'', ''DaemonSet''), (''batch'', ''v1'', ''Job'')}
           then Some (ValidatePodSpecable ae' pe rq (pod_resource.truncate r))
           else if gvk \<in> {(''batch'', ''v1'', ''CronJob''), (''batch'', ''v1beta1'', ''CronJob'')}
           then Some (ValidateCronJob ae' pe rq (pod_resource.truncate r))
           else None))"
proof -
  from assms(1) have ms: "ms_ctx ms = WithCache (Some (NewCache (me_lru me) (envInt (me_getenv me) ''GM_CACHE_CAPACITY'' 4096)
      (duration_s (envInt (me_getenv me) ''GM_CACHE_TTL_SECONDS'' 30))))
      (WithClient (Some (me_NewClient me)) (TUF_WithPeriod (mf_trustroot_resync fl) (Resync_ToContext (mf_policy_resync fl) root_values)))"
    by (auto simp: main_def Let_def DefaultCacheCapacity_def DefaultCacheTTLSeconds_def split: option.splits)
  from assms(2) obtain ipc keys pcc where st: "cst_image store = Some ipc" "cst_keys store = Some keys" "pcStore = Some pcc"
    by (auto simp: validating_ctx_def Config_Store_ToContext_def Config_Load_def PC_Store_ToContext_def PC_Load_def split: option.splits)
  let ?ae = "ae\<lparr>ae_env := (ae_env ae)\<lparr>
               ve_Config := Some \<lparr>wcf_ImagePolicyConfig = Some ipc, wcf_SigstoreKeysConfig = Some keys\<rparr>, ve_PCConfig := Some pcc,
               ve_gm := (ve_gm (ae_env ae))\<lparr>ge_client := Some (me_NewClient me)\<rparr>,
               ve_gm_cache := Some (NewCache (me_lru me) (envInt (me_getenv me) ''GM_CACHE_CAPACITY'' 4096)
                 (duration_s (envInt (me_getenv me) ''GM_CACHE_TTL_SECONDS'' 30)))\<rparr>\<rparr>"
  note defs = validating_ctx_def Config_Store_ToContext_def Config_Load_def PC_Store_ToContext_def PC_Load_def Config_ToContext_def
    PC_ToContext_def WithCache_def WithClient_def WithPodScalableValidator_def CacheFromContext_def ClientFromContext_def
  have d: "duck_validate ctx d rq r = (case d of
        DuckPod \<Rightarrow> ValidatePod ?ae pe rq (pod_resource.truncate r)
      | DuckPodScalable \<Rightarrow> ValidatePodScalable ?ae pe rq r
      | DuckWithPod \<Rightarrow> ValidatePodSpecable ?ae pe rq (pod_resource.truncate r)
      | DuckCronJob \<Rightarrow> ValidateCronJob ?ae pe rq (pod_resource.truncate r))" for d rq r
    using assms(2) st
    by (auto simp: ms defs TUF_WithPeriod_def TUF_ToContext_def Resync_ToContext_def PodScalable_Validate_def GetPodScalableValidator_def
        request_env_def values_of_def ctx_values.truncate_def Config_FromContext_def duck_validate_def split: duck_type.split)
  have "\<forall>gvk rq r. served_validation ctx gvk rq r =
          (if gvk = ('''', ''v1'', ''Pod'') then Some (ValidatePod ?ae pe rq (pod_resource.truncate r))
           else if gvk \<in> {(''apps'', ''v1'', ''ReplicaSet''), (''apps'', ''v1'', ''Deployment''), (''apps'', ''v1'', ''StatefulSet'')}
           then Some (ValidatePodScalable ?ae pe rq r)
           else if gvk \<in> {(''apps'', ''v1'', ''DaemonSet''), (''batch'', ''v1'', ''Job'')}
           then Some (ValidatePodSpecable ?ae pe rq (pod_resource.truncate r))
           else if gvk \<in> {(''batch'', ''v1'', ''CronJob''), (''batch'', ''v1beta1'', ''CronJob'')}
           then Some (ValidateCronJob ?ae pe rq (pod_resource.truncate r))
           else None)"
    unfolding served_validation_def d webhook_types_def by auto
  with st show ?thesis unfolding Let_def by blast
qed

text \<open>
  The period of \<open>--trustroot-resync-period\<close> is put into the root context only: a request refreshes the public trust root
  with the default period.
\<close>

lemma trustroot_period_not_bridged:
  assumes "validating_ctx ae pe store pcStore root empty_ctx = Some ctx"
  shows "TUF_FromContextOrDefaults (cx_trustrootResync (values_of ctx)) = 36000000000000"
  using assms
  by (auto simp: validating_ctx_def Config_Store_ToContext_def Config_Load_def PC_Store_ToContext_def PC_Load_def Config_ToContext_def
      PC_ToContext_def WithCache_def WithClient_def WithPodScalableValidator_def values_of_def ctx_values.truncate_def empty_ctx_def
      TUF_FromContextOrDefaults_def split: option.splits)

text \<open>The flag \<open>--secure-port\<close> has no effect on the port the webhook serves on.\<close>

lemma secure_port_ignored: "main me fl = Ok ms \<Longrightarrow> wo_Port (ms_ctx_options ms) = 8443"
  by (auto simp: main_def Let_def initial_options_def split: option.splits)

text \<open>The names of the resources policies may select are those of the registered types, as the comment in \<open>main\<close> demands.\<close>

lemma resource_names_match_types:
  "set (map (\<lambda>t. ToLower (snd (snd (fst t))) @ ''s'') webhook_types) = set ValidResourceNames"
  unfolding webhook_types_def ValidResourceNames_def by code_simp

section \<open>The cache of GM answers\<close>

lemma duration_s_exact: "0 \<le> n \<Longrightarrow> n * 1000000000 < 2 ^ 63 \<Longrightarrow> duration_s n = n * 1000000000"
proof -
  assume n: "0 \<le> n" "n * 1000000000 < 2 ^ 63"
  have "(word_of_int n :: 64 word) * 1000000000 = word_of_int (n * 1000000000)" by simp
  then have "duration_s n = signed_take_bit 63 (n * 1000000000)" by (simp only: duration_s_def) (simp only: signed_of_int, simp)
  also have "\<dots> = n * 1000000000" using n by (intro signed_take_bit_int_eq_self) auto
  finally show ?thesis .
qed

lemma digit_val_nonneg: "digit_val c = Some d \<Longrightarrow> 0 \<le> d"
  by (auto simp: digit_val_def split: if_splits)

lemma digits_val_nonneg: "digits_val acc cs = Some n \<Longrightarrow> 0 \<le> acc \<Longrightarrow> 0 \<le> n"
proof (induction cs arbitrary: acc)
  case (Cons c cs)
  then obtain d where "digit_val c = Some d" "digits_val (10 * acc + d) cs = Some n" by (auto split: option.splits)
  with Cons digit_val_nonneg show ?case by fastforce
qed simp

lemma envInt_range: "0 \<le> dflt \<Longrightarrow> dflt < 2 ^ 63 \<Longrightarrow> 0 \<le> envInt getenv key dflt \<and> envInt getenv key dflt < 2 ^ 63"
  by (auto simp: envInt_def Atoi_def Let_def split: sum.splits option.splits if_splits prod.splits)

text \<open>
  The settings of the cache: a missing, malformed or negative variable selects the default, so the numbers are never
  negative; up to 9223372036 seconds the lifetime is exact, and the cache is off exactly when one of the two is zero.
\<close>

lemma gm_cache_settings:
  fixes getenv :: "string \<Rightarrow> string" and ops :: "'c lru_ops"
  defines "cap \<equiv> envInt getenv ''GM_CACHE_CAPACITY'' DefaultCacheCapacity"
    and "ttl \<equiv> envInt getenv ''GM_CACHE_TTL_SECONDS'' DefaultCacheTTLSeconds"
  shows "0 \<le> cap" "0 \<le> ttl"
    and "ttl \<le> 9223372036 \<Longrightarrow> duration_s ttl = ttl * 1000000000 \<and>
      (ca_c (NewCache ops cap (duration_s ttl)) = None \<longleftrightarrow> cap = 0 \<or> ttl = 0)"
proof -
  show cap: "0 \<le> cap" and ttl: "0 \<le> ttl"
    using envInt_range [of DefaultCacheCapacity getenv "''GM_CACHE_CAPACITY''"]
      envInt_range [of DefaultCacheTTLSeconds getenv "''GM_CACHE_TTL_SECONDS''"]
    by (auto simp: cap_def ttl_def DefaultCacheCapacity_def DefaultCacheTTLSeconds_def)
  assume "ttl \<le> 9223372036"
  then have "duration_s ttl = ttl * 1000000000" using ttl by (intro duration_s_exact) auto
  then show "duration_s ttl = ttl * 1000000000 \<and> (ca_c (NewCache ops cap (duration_s ttl)) = None \<longleftrightarrow> cap = 0 \<or> ttl = 0)"
    using cap ttl by (auto simp: NewCache_def)
qed

text \<open>One second more wraps around to a negative duration, which turns the cache off.\<close>

lemma gm_cache_ttl_wraps: "ca_c (NewCache ops cap (duration_s 9223372037)) = None"
proof -
  have "duration_s 9223372037 < 0" by (simp add: duration_s_def)
  then show ?thesis by (simp add: NewCache_def)
qed

text \<open>
  The configuration a running webhook uses: for each of its two config maps the last one that parsed. One that does not parse
  leaves the policies as they were.
\<close>

lemma last_good_configuration:
  assumes "untyped_store_laws oc"
  shows "untyped_store_laws.watch oc (NewImagePoliciesConfigFromMap (cp_image cp)) ds (Some old) =
    Some (Some (foldl (\<lambda>v d. case NewImagePoliciesConfigFromMap (cp_image cp) d of Inl e \<Rightarrow> v | Inr v' \<Rightarrow> v') old ds))"
  by (rule untyped_store_laws.watch_loaded [OF assms])

definition sample_main_env :: "lru_list main_env" where
  "sample_main_env = \<lparr>me_getenv = (\<lambda>k. if k = ''GM_CACHE_TTL_SECONDS'' then ''60'' else ''''), me_ReadFile = (\<lambda>_. Err ''no such file''),
     me_tuf_Initialize_err = (\<lambda>_ _. None), me_NewClient = (\<lambda>_ _. Ok True), me_lru = list_lru\<rparr>"

definition sample_flags :: main_flags where
  "sample_flags = \<lparr>mf_secure_port = 9443, mf_tuf_mirror = '''', mf_tuf_root = '''', mf_disable_tuf = False, mf_policy_resync = 1,
     mf_trustroot_resync = 2\<rparr>"

lemma sample_ttl: "envInt (me_getenv sample_main_env) ''GM_CACHE_TTL_SECONDS'' 30 = 60"
  by (simp add: envInt_def sample_main_env_def Atoi_def digit_val_def)

theorem requests_reach_validator_witness:
  "\<exists>(ctx :: (lru_list, unit, diag_list) webhook_ctx) (ae' :: (unit, unit, unit, diag_list, lru_list) admission_env).
     (\<forall>rq r. served_validation ctx ('''', ''v1'', ''Pod'') rq r = Some (ValidatePod ae' sample_pod_env rq (pod_resource.truncate r)) \<and>
        served_validation ctx (''apps'', ''v1'', ''Deployment'') rq r = Some (ValidatePodScalable ae' sample_pod_env rq r) \<and>
        served_validation ctx (''batch'', ''v1'', ''CronJob'') rq r = Some (ValidateCronJob ae' sample_pod_env rq (pod_resource.truncate r))) \<and>
     ge_client (ve_gm (ae_env ae')) \<noteq> None \<and>
     ve_gm_cache (ae_env ae') = Some (NewCache list_lru 4096 60000000000) \<and> ve_PCConfig (ae_env ae') = Some default_PolicyControllerConfig"
proof -
  let ?store = "\<lparr>cst_image = Some \<lparr>Policies = sample_policies\<rparr>, cst_keys = Some Map.empty\<rparr>"
  obtain ms where ms: "main sample_main_env sample_flags = Ok ms"
    by (simp add: main_def init_tuf_def sample_flags_def sample_main_env_def Let_def)
  obtain ctx where c: "validating_ctx (sample_admission sample_policies) sample_pod_env ?store (Some default_PolicyControllerConfig)
      (ms_ctx ms) empty_ctx = Some ctx"
    by (simp add: validating_ctx_def Config_Store_ToContext_def Config_Load_def PC_Store_ToContext_def PC_Load_def)
  have sample: "duration_s 60 = 60000000000" "envInt (me_getenv sample_main_env) ''GM_CACHE_CAPACITY'' 4096 = 4096"
    "me_lru sample_main_env = list_lru"
    by (simp_all add: duration_s_exact envInt_def sample_main_env_def)
  let ?ae = "\<lambda>keys pcc. (sample_admission sample_policies)\<lparr>ae_env := (ae_env (sample_admission sample_policies))\<lparr>
      ve_Config := Some \<lparr>wcf_ImagePolicyConfig = Some \<lparr>Policies = sample_policies\<rparr>, wcf_SigstoreKeysConfig = Some keys\<rparr>,
      ve_PCConfig := Some pcc,
      ve_gm := (ve_gm (ae_env (sample_admission sample_policies)))\<lparr>ge_client := Some (me_NewClient sample_main_env)\<rparr>,
      ve_gm_cache := Some (NewCache list_lru 4096 60000000000)\<rparr>\<rparr>"
  let ?kinds = "\<lambda>ae' rq r. \<lambda>gvk. if gvk = ('''', ''v1'', ''Pod'') then Some (ValidatePod ae' sample_pod_env rq (pod_resource.truncate r))
           else if gvk \<in> {(''apps'', ''v1'', ''ReplicaSet''), (''apps'', ''v1'', ''Deployment''), (''apps'', ''v1'', ''StatefulSet'')}
           then Some (ValidatePodScalable ae' sample_pod_env rq r)
           else if gvk \<in> {(''apps'', ''v1'', ''DaemonSet''), (''batch'', ''v1'', ''Job'')}
           then Some (ValidatePodSpecable ae' sample_pod_env rq (pod_resource.truncate r))
           else if gvk \<in> {(''batch'', ''v1'', ''CronJob''), (''batch'', ''v1beta1'', ''CronJob'')}
           then Some (ValidateCronJob ae' sample_pod_env rq (pod_resource.truncate r)) else None"
  from requests_reach_validator [OF ms c, unfolded Let_def] obtain ipc keys pcc where
    pcc: "cst_image ?store = Some ipc" "Some default_PolicyControllerConfig = Some pcc"
    and v: "\<forall>gvk rq r. served_validation ctx gvk rq r = ?kinds ((sample_admission sample_policies)\<lparr>ae_env := (ae_env (sample_admission sample_policies))\<lparr>
      ve_Config := Some \<lparr>wcf_ImagePolicyConfig = Some ipc, wcf_SigstoreKeysConfig = Some keys\<rparr>,
      ve_PCConfig := Some pcc,
      ve_gm := (ve_gm (ae_env (sample_admission sample_policies)))\<lparr>ge_client := Some (me_NewClient sample_main_env)\<rparr>,
      ve_gm_cache := Some (NewCache (me_lru sample_main_env) (envInt (me_getenv sample_main_env) ''GM_CACHE_CAPACITY'' 4096)
                 (duration_s (envInt (me_getenv sample_main_env) ''GM_CACHE_TTL_SECONDS'' 30)))\<rparr>\<rparr>) rq r gvk"
    by (elim exE conjE)
  from pcc(1) have ipc: "ipc = \<lparr>Policies = sample_policies\<rparr>" by simp
  have k: "served_validation ctx gvk rq r = ?kinds (?ae keys pcc) rq r gvk" for gvk rq r
    using v by (simp only: sample sample_ttl ipc)
  have "ge_client (ve_gm (ae_env (?ae keys pcc))) \<noteq> None"
    "ve_gm_cache (ae_env (?ae keys pcc)) = Some (NewCache list_lru 4096 60000000000)"
    "ve_PCConfig (ae_env (?ae keys pcc)) = Some default_PolicyControllerConfig"
    using pcc by simp_all
  then show ?thesis by (intro exI [of _ ctx] exI [of _ "?ae keys pcc"]) (simp add: k)
qed

end
