(* ===== verification/Tester.thy ===== *)
theory Tester
  imports OfflinePolicy TrustRootReconciler WebhookMain
begin

text \<open>
  The command \<open>cmd/tester\<close>: it compiles one policy from a file or URL, adds the parts of a resource and a
  custom trust root to the context and verifies one image. The flags decide the steps; the exit code is the verdict.
\<close>

section \<open>The logger\<close>

datatype zap_base = DevelopmentConfig | ProductionConfig
datatype zap_level = DebugLevel | InfoLevel | WarnLevel | ErrorLevel'

type_synonym zap_config = "zap_base \<times> zap_level"

text \<open>A level other than the four panics (\<open>None\<close>); \<open>getSugaredLogger\<close> never passes one.\<close>

definition setSugaredLogger :: "(zap_config \<Rightarrow> string option) \<Rightarrow> string \<Rightarrow> zap_config go_result option" where
  "setSugaredLogger build logLevel =
     (let built = (\<lambda>cfg. Some (case build cfg of None \<Rightarrow> Ok cfg | Some e \<Rightarrow> Err (wrap_err ''failed to build logger'' e)))
      in if logLevel = ''debug'' then built (DevelopmentConfig, DebugLevel)
         else if logLevel = ''info'' then built (DevelopmentConfig, InfoLevel)
         else if logLevel = ''warn'' then built (ProductionConfig, WarnLevel)
         else if logLevel = ''error'' then built (ProductionConfig, ErrorLevel')
         else None)"

definition getSugaredLogger :: "(zap_config \<Rightarrow> string option) \<Rightarrow> string \<Rightarrow> zap_config go_result option" where
  "getSugaredLogger build value =
     (if value \<in> {''debug'', ''info'', ''warn'', ''error''} then setSugaredLogger build value else Some (Err ''invalid log level''))"

lemma getSugaredLogger_total: "getSugaredLogger build value \<noteq> None"
  by (auto simp: getSugaredLogger_def setSugaredLogger_def Let_def)

section \<open>The trust root\<close>

definition GetKeysFromTrustRoot :: "('p, 'b) trust_rec_env \<Rightarrow> 'st TrustRoot \<Rightarrow> pb_TrustedRoot go_result" where
  "GetKeysFromTrustRoot env tr =
     (case tr_Remote (trt_Spec tr) of
        Some remote \<Rightarrow>
          (case ClientFromRemote (tre_tuf env) (re_Mirror remote) (re_Root remote) (re_Targets remote) of
             Inl e \<Rightarrow> Err (wrap_err ''failed to initialize TUF client from remote'' e)
           | Inr client \<Rightarrow> GetSigstoreKeysFromTuf env client '''')
      | None \<Rightarrow>
          (case tr_Repository (trt_Spec tr) of
             Some repository \<Rightarrow>
               (case ClientFromSerializedMirror (tre_tuf env) (ry_MirrorFS repository) (ry_Root repository) (ry_Targets repository)
                       DefaultTUFRepoPrefix of
                  Inl e \<Rightarrow> Err (wrap_err ''failed to initialize TUF client from remote'' e)
                | Inr client \<Rightarrow> GetSigstoreKeysFromTuf env client '''')
           | None \<Rightarrow>
               (case tr_SigstoreKeys (trt_Spec tr) of
                  Some sk \<Rightarrow> ConvertSigstoreKeys (tre_decode env) (tre_x env) (tre_GetTransparencyLogID env) sk
                | None \<Rightarrow> Err ''provided trust root configuration is not supported'')))"

section \<open>The command\<close>

record tester_flags =
  tf_policy :: string
  tf_version :: bool
  tf_image :: string
  tf_resource :: string
  tf_trustroot :: string
  tf_log_level :: string
  tf_enable_oci11 :: bool

text \<open>
  What the process runs on: the environments of verification, of offline policies and of trust roots, the files, and
  the YAML decoders. \<open>te_object\<close> makes a JSON object of a map. The context of the command holds no result cache, so
  results are not cached.
\<close>

record ('j, 's, 'v, 'cfg, 'fe, 'c, 'p, 'b, 'st) tester_env =
  te_ae :: "(unit, 'cfg, 'v, 'fe, 'c) admission_env"
  te_scheds :: "WClusterImagePolicy \<Rightarrow> schedule"
  te_oe :: "('j, 's, 'v) offline_env"
  te_tre :: "('p, 'b) trust_rec_env"
  te_Build_err :: "zap_config \<Rightarrow> string option"
  te_ReadFile :: "string \<Rightarrow> string go_result"
  te_resource_Unmarshal :: "string \<Rightarrow> (string \<rightharpoonup> 'v) go_result"
  te_object :: "(string \<times> 'v) list \<Rightarrow> 'v"
  te_tr_Unmarshal :: "string \<Rightarrow> 'st TrustRoot go_result"
  te_cp :: cm_parsers

text \<open>The ends of a run: the usage text, the version, \<open>log.Fatal\<close>, the report of errors and warnings, or success.\<close>

datatype 'fe tester_end = UsageExit | VersionExit | FatalExit "'fe go_error" | Reported "string list" "'fe ww_line list" | Verified

fun exit_code :: "'fe tester_end \<Rightarrow> nat" where
  "exit_code VersionExit = 0"
| "exit_code Verified = 0"
| "exit_code UsageExit = 1"
| "exit_code (FatalExit e) = 1"
| "exit_code (Reported es ws) = 1"

definition tester_ctx :: "tester_flags \<Rightarrow> 'c ctx_values" where
  "tester_ctx fl =
     (if tf_enable_oci11 fl
      then PC_ToContext \<lparr>pcc_NoMatchPolicy = ''deny'', pcc_FailOnEmptyAuthorities = True, pcc_EnableOCI11 = True\<rparr> root_values
      else root_values)"

definition tester_source :: "string \<Rightarrow> PolicySource" where
  "tester_source path =
     (if HasPrefix path ''https://'' \<or> HasPrefix path ''http://'' then \<lparr>so_Data = '''', so_Path = '''', so_URL = path\<rparr>
      else \<lparr>so_Data = '''', so_Path = path, so_URL = ''''\<rparr>)"

definition tester_verification :: "string \<Rightarrow> PolicyVerification" where
  "tester_verification path = \<lparr>vf_NoMatchPolicy = ''deny'', vf_Policies = Some [tester_source path]\<rparr>"

text \<open>The validators run without a status or spec scope and with the configuration of the context; no resource names are registered.\<close>

definition tester_oe :: "('j, 's, 'v) offline_env \<Rightarrow> 'c ctx_values \<Rightarrow> ('j, 's, 'v) offline_env" where
  "tester_oe oe ctx = oe\<lparr>oe_ctx := \<lparr>vc_InStatusUpdate = False, vc_InSpec = False, vc_Config = cx_PCConfig ctx, vc_ValidResourceNames = []\<rparr>\<rparr>"

text \<open>\<open>Validate\<close> fetched the source once already when \<open>Compile\<close> fetches it.\<close>

definition next_round :: "('j, 's, 'v) offline_env \<Rightarrow> ('j, 's, 'v) offline_env" where
  "next_round oe = oe\<lparr>oe_ReadFile := (\<lambda>r. oe_ReadFile oe (Suc r)), oe_http_Get := (\<lambda>r. oe_http_Get oe (Suc r))\<rparr>"

definition add_resource :: "('j, 's, 'v, 'cfg, 'fe, 'c, 'p, 'b, 'st) tester_env \<Rightarrow> string \<Rightarrow> ('cfg, 'v) policy_ctx \<Rightarrow> ('cfg, 'v) policy_ctx go_result" where
  "add_resource te path pc =
     (if path = '''' then Ok pc
      else case te_ReadFile te path of
             Inl e \<Rightarrow> Err e
           | Inr raw \<Rightarrow>
               (case te_resource_Unmarshal te raw of
                  Inl e \<Rightarrow> Err e
                | Inr uo \<Rightarrow>
                    (case uo ''metadata'' of
                       None \<Rightarrow> Err ''kubernetes resource is missing metadata key''
                     | Some m \<Rightarrow>
                         (case uo ''spec'' of
                            None \<Rightarrow> Err ''kubernetes resource is missing spec key''
                          | Some spec \<Rightarrow>
                              (case uo ''kind'' of
                                 None \<Rightarrow> Err ''kubernetes resource is missing kind key''
                               | Some kind \<Rightarrow>
                                   (case uo ''apiVersion'' of
                                      None \<Rightarrow> Err ''kubernetes resource is missing apiVersion key''
                                    | Some apiVersion \<Rightarrow>
                                        Ok (IncludeTypeMeta (IncludeSpec (IncludeObjectMeta pc m) spec)
                                             (te_object te [(''kind'', kind), (''apiVersion'', apiVersion)]))))))))"

definition add_trust_root :: "('j, 's, 'v, 'cfg, 'fe, 'c, 'p, 'b, 'st) tester_env \<Rightarrow> string \<Rightarrow> 'c ctx_values \<Rightarrow> 'c ctx_values go_result" where
  "add_trust_root te path ctx =
     (if path = '''' then Ok ctx
      else case te_ReadFile te path of
             Inl e \<Rightarrow> Err e
           | Inr raw \<Rightarrow>
               (case te_tr_Unmarshal te raw of
                  Inl e \<Rightarrow> Err e
                | Inr tr \<Rightarrow>
                    (case GetKeysFromTrustRoot (te_tre te) tr of
                       Inl e \<Rightarrow> Err e
                     | Inr keys \<Rightarrow>
                         Ok (Config_ToContext ((Config_FromContextOrDefaults (te_cp te) ctx)
                               \<lparr>wcf_SigstoreKeysConfig := Some [om_Name (trt_ObjectMeta tr) \<mapsto> keys]\<rparr>) ctx))))"

text \<open>\<open>strings.Trim(s, "\n")\<close>\<close>

definition trim_newlines :: "string \<Rightarrow> string" where
  "trim_newlines s = rev (dropWhile (\<lambda>c. c = CHR 0x0A) (rev (dropWhile (\<lambda>c. c = CHR 0x0A) s)))"

definition tester_verify :: "('j, 's, 'v, 'cfg, 'fe, 'c, 'p, 'b, 'st) tester_env \<Rightarrow> 'c ctx_values \<Rightarrow> ('cfg, 'v) policy_ctx \<Rightarrow> verifier \<Rightarrow>
    reference \<Rightarrow> 'fe ww_line list \<times> 'fe go_error option" where
  "tester_verify te ctx pc vfy ref =
     Offline_Verify (ae_api (te_ae te)) NoCache () (ae_env (request_env (te_ae te) ctx)) pc (te_scheds te) (ae_kube (te_ae te))
       (ae_ParseWeak (te_ae te)) (te_oe te) vfy ref ''DefaultKeychain'' []"

definition tester_main :: "('j, 's, 'v, 'cfg, 'fe, 'c, 'p, 'b, 'st) tester_env \<Rightarrow> tester_flags \<Rightarrow> 'fe tester_end" where
  "tester_main te fl =
     (let api = ae_api (te_ae te); ctx = tester_ctx fl; oe = tester_oe (te_oe te) ctx; v = tester_verification (tf_policy fl);
          pc = (ae_pc (te_ae te))\<lparr>px_Spec := None, px_ObjectMeta := None, px_TypeMeta := None\<rparr>
      in if (case getSugaredLogger (te_Build_err te) (tf_log_level fl) of Some (Inr _) \<Rightarrow> False | _ \<Rightarrow> True) then UsageExit
         else if tf_version fl then VersionExit
         else if tf_policy fl = '''' \<or> tf_image fl = '''' then UsageExit
         else case (case PolicyVerification_Validate api oe v of None \<Rightarrow> None | Some err \<Rightarrow> Filter api ErrorLevel (Some err)) of
                Some errorFE \<Rightarrow> FatalExit (FieldErr errorFE)
              | None \<Rightarrow>
          (case ve_ParseReference (ae_env (te_ae te)) (tf_image fl) of
             Inl e \<Rightarrow> FatalExit (PlainError e)
           | Inr ref \<Rightarrow>
          (case CompilePolicies api (next_round oe) v of
             (Inl e, ww) \<Rightarrow> FatalExit e
           | (Inr vfy, ww) \<Rightarrow>
          (case add_resource te (tf_resource fl) pc of
             Inl e \<Rightarrow> FatalExit (PlainError e)
           | Inr pc' \<Rightarrow>
          (case add_trust_root te (tf_trustroot fl) ctx of
             Inl e \<Rightarrow> FatalExit (PlainError e)
           | Inr ctx' \<Rightarrow>
          (case tester_verify te ctx' pc' vfy ref of
             (ww', None) \<Rightarrow> Verified
           | (ww', Some e) \<Rightarrow> Reported [trim_newlines (err_of api e)] (ww @ ww')))))))"

section \<open>What a successful run shows\<close>

definition resource_ctx :: "('j, 's, 'v, 'cfg, 'fe, 'c, 'p, 'b, 'st) tester_env \<Rightarrow> tester_flags \<Rightarrow> ('cfg, 'v) policy_ctx go_result" where
  "resource_ctx te fl = add_resource te (tf_resource fl) ((ae_pc (te_ae te))\<lparr>px_Spec := None, px_ObjectMeta := None, px_TypeMeta := None\<rparr>)"

lemma tester_main_Verified:
  assumes "tester_main te fl = Verified"
  obtains ref vfy ww pc ctx where "ve_ParseReference (ae_env (te_ae te)) (tf_image fl) = Ok ref"
    "CompilePolicies (ae_api (te_ae te)) (next_round (tester_oe (te_oe te) (tester_ctx fl :: 'c ctx_values)))
       (tester_verification (tf_policy fl)) = (Inr vfy, ww)"
    "resource_ctx te fl = Ok pc" "add_trust_root te (tf_trustroot fl) (tester_ctx fl) = Ok ctx"
    "snd (tester_verify (te :: ('j, 's, 'v, 'cfg, 'fe, 'c, 'p, 'b, 'st) tester_env) ctx pc vfy ref) = None"
  using assms unfolding tester_main_def Let_def resource_ctx_def
  by (auto split: if_splits option.splits sum.splits prod.splits)

lemma Compile_verification: "CompilePolicies api env v = (Inr vfy, ww) \<Longrightarrow> vr_verification vfy = v"
  by (auto simp: CompilePolicies_def split: option.splits prod.splits sum.splits)

text \<open>
  C31 When the tester reports success for an image, the policy file compiled to policies that the validators accept, at
  least one of them matches the image, and every matching policy has a result or reports nothing but warnings: an image that
  no policy covers is never reported as verified.
\<close>

theorem tester_verified:
  fixes te :: "('j, 's, 'v, 'cfg, 'fe, 'c, 'p, 'b, 'st) tester_env"
  assumes "tester_main te fl = Verified" "decoders_agree (te_oe te)" "field_error_laws (ae_api (te_ae te))"
  defines "oe \<equiv> next_round (tester_oe (te_oe te) (tester_ctx fl :: 'c ctx_values))"
  shows "\<exists>ref vfy ww pc ctx ms. ve_ParseReference (ae_env (te_ae te)) (tf_image fl) = Ok ref \<and>
    CompilePolicies (ae_api (te_ae te)) oe (tester_verification (tf_policy fl)) = (Inr vfy, ww) \<and>
    list_all (compiled_from_validated (ae_api (te_ae te)) oe) (Policies (vr_ipc vfy)) \<and>
    resource_ctx te fl = Ok pc \<and> add_trust_root te (tf_trustroot fl) (tester_ctx fl) = Ok ctx \<and>
    GetMatchingPolicies (ae_kube (te_ae te)) (ae_ParseWeak (te_ae te)) (Some (vr_ipc vfy)) (ref_Name ref)
      (fst (getTypeMeta (te_oe te) pc)) (snd (getTypeMeta (te_oe te) pc)) (getObjectMeta (te_oe te) pc) = (Some ms, None) \<and>
    ms \<noteq> [] \<and>
    list_all (\<lambda>(n, p).
      fst (ValidatePolicy (ae_api (te_ae te)) NoCache () (ae_env (request_env (te_ae te) ctx)) pc (te_scheds te p) '''' ref p
             [WithOtherRemoteOptions ''DefaultKeychain'']) \<noteq> None \<or>
      only_warns (ae_api (te_ae te))
        (snd (ValidatePolicy (ae_api (te_ae te)) NoCache () (ae_env (request_env (te_ae te) ctx)) pc (te_scheds te p) '''' ref p
               [WithOtherRemoteOptions ''DefaultKeychain'']))) ms"
proof -
  from tester_main_Verified [OF assms(1)] obtain ref vfy ww pc ctx
    where s: "ve_ParseReference (ae_env (te_ae te)) (tf_image fl) = Ok ref"
      and c: "CompilePolicies (ae_api (te_ae te)) oe (tester_verification (tf_policy fl)) = (Inr vfy, ww)"
      and r: "resource_ctx te fl = Ok pc" "add_trust_root te (tf_trustroot fl) (tester_ctx fl) = Ok ctx"
      and v: "snd (tester_verify te ctx pc vfy ref) = None" unfolding oe_def by metis
  have "decoders_agree oe" using assms(2) by (simp add: oe_def decoders_agree_def next_round_def tester_oe_def)
  from CompilePolicies_good [OF c this assms(3)] have g: "list_all (compiled_from_validated (ae_api (te_ae te)) oe) (Policies (vr_ipc vfy))" by simp
  have nm: "vf_NoMatchPolicy (vr_verification vfy) = ''deny''" using Compile_verification [OF c] by (simp add: tester_verification_def)
  obtain matches err where m: "GetMatchingPolicies (ae_kube (te_ae te)) (ae_ParseWeak (te_ae te)) (Some (vr_ipc vfy)) (ref_Name ref)
      (fst (getTypeMeta (te_oe te) pc)) (snd (getTypeMeta (te_oe te) pc)) (getObjectMeta (te_oe te) pc) = (matches, err)"
    by fastforce
  note ve = v [unfolded tester_verify_def Offline_Verify_None [OF prod.collapse [symmetric] m]]
  from ve nm obtain q qs where "matches = Some (q # qs)" "err = None" by (auto split: option.splits list.splits)
  with ve have "list_all (\<lambda>(n, p).
      fst (ValidatePolicy (ae_api (te_ae te)) NoCache () (ae_env (request_env (te_ae te) ctx)) pc (te_scheds te p) '''' ref p
             [WithOtherRemoteOptions ''DefaultKeychain'']) \<noteq> None \<or>
      only_warns (ae_api (te_ae te))
        (snd (ValidatePolicy (ae_api (te_ae te)) NoCache () (ae_env (request_env (te_ae te) ctx)) pc (te_scheds te p) '''' ref p
               [WithOtherRemoteOptions ''DefaultKeychain'']))) (q # qs)"
    by (simp only: option.simps list.simps append.simps simp_thms)
  with s c g r m \<open>matches = _\<close> \<open>err = _\<close> show ?thesis by blast
qed

section \<open>Where the tester and the cluster differ\<close>

text \<open>For keys given inline the tester uses those the reconciler stores.\<close>

lemma inline_keys_agree:
  "tr_Remote (trt_Spec tr) = None \<Longrightarrow> tr_Repository (trt_Spec tr) = None \<Longrightarrow> tr_SigstoreKeys (trt_Spec tr) \<noteq> None \<Longrightarrow>
    GetKeysFromTrustRoot env tr = trust_root_keys env tr"
  by (auto simp: GetKeysFromTrustRoot_def trust_root_keys_def)

text \<open>
  For a TUF repository it asks for the target with the empty name instead of the trusted root: a repository the reconciler
  accepts is refused.
\<close>

lemma repository_trusted_root_not_read:
  "is_ok (trust_root_keys sample_trust_rec sample_trust_root) \<and> \<not> is_ok (GetKeysFromTrustRoot sample_trust_rec sample_trust_root)"
  by (simp add: GetKeysFromTrustRoot_def trust_root_keys_def sample_trust_root_def getSigstoreKeysFromRemote_def ClientFromRemote_def
      GetSigstoreKeysFromTuf_def GetTarget_def sample_trust_rec_def sample_tuf_def is_ok_def GetTopLevelTargets_def newRawUpdater_def
      empty_TrustedRoot_def Let_def)

text \<open>The context of the tester has no HSM client: an authority with a GM signature never passes.\<close>

lemma add_trust_root_gm: "add_trust_root te path ctx = Ok ctx' \<Longrightarrow> cx_gmClient ctx' = cx_gmClient ctx"
  by (auto simp: add_trust_root_def Config_ToContext_def split: if_splits sum.splits)

lemma tester_gm_fails:
  assumes "add_trust_root te path (tester_ctx fl) = Ok ctx" "wa_Static a = None" "wa_Attestations a = []"
    and "wa_Key a = None" "wa_Keyless a = None" "wa_RFC3161Timestamp a = None" "wa_GMSignature a \<noteq> None"
  shows "\<not> ar_pass (check_authority (ae_env (request_env ae ctx)) namespace ref ro a)"
proof -
  have "cx_gmClient ctx = None"
    using add_trust_root_gm [OF assms(1)] by (simp add: tester_ctx_def PC_ToContext_def root_values_def)
  then have "\<exists>e. fst (Verify (ve_gm (ae_env (request_env ae ctx))) (ve_gm_cache (ae_env (request_env ae ctx))) ref (wa_GMSignature a)) = Err e"
    by (simp add: request_env_def ClientFromContext_def Verify_def split: option.splits)
  then obtain e where "fst (Verify (ve_gm (ae_env (request_env ae ctx))) (ve_gm_cache (ae_env (request_env ae ctx))) ref (wa_GMSignature a)) = Err e"
    by blast
  then show ?thesis using assms(2-)
    by (auto simp: check_authority_def ValidatePolicySignaturesForAuthority_def failed_authority_def ar_pass_def Let_def
        split: sum.splits)
qed

section \<open>A run of the tester\<close>

text \<open>A policy file whose only policy lets every image pass that its glob names, and a run on one such image.\<close>

definition tester_cip :: "unit ClusterImagePolicy" where
  "tester_cip = \<lparr>cip_ObjectMeta = sample_meta,
     cip_Spec = zero_Spec\<lparr>cs_Images := [\<lparr>ip_Glob = ''a*''\<rparr>],
       cs_Authorities := [zero_Authority\<lparr>au_Static := Some \<lparr>st_Action = ''pass'', st_Message = ''''\<rparr>\<rparr>]\<rparr>, cip_Status = ()\<rparr>"

definition tester_offline :: "(string, unit, unit) offline_env" where
  "tester_offline = sample_offline\<lparr>oe_Decode_alpha := (\<lambda>_. Ok tester_cip), oe_Unmarshal_alpha := (\<lambda>_. Ok tester_cip),
     oe_ReadFile := (\<lambda>_ _. Ok ''p'')\<rparr>"

definition sample_tester :: "(string, unit, unit, unit, diag_list, lru_list, cm_op, cm_op, cond_table resource_status) tester_env" where
  "sample_tester = \<lparr>te_ae = sample_admission [], te_scheds = (\<lambda>_. \<lparr>sc_order = [0], sc_done = [False]\<rparr>), te_oe = tester_offline,
     te_tre = sample_trust_rec, te_Build_err = (\<lambda>_. None), te_ReadFile = (\<lambda>_. Err ''no such file''),
     te_resource_Unmarshal = (\<lambda>_. Err ''no yaml''), te_object = (\<lambda>_. ()), te_tr_Unmarshal = (\<lambda>_. Err ''no yaml''),
     te_cp = \<lparr>cp_image = (\<lambda>_. Err ''no yaml''), cp_keys = (\<lambda>_. Err ''no yaml'')\<rparr>\<rparr>"

definition tester_run_flags :: tester_flags where
  "tester_run_flags = \<lparr>tf_policy = ''p.yaml'', tf_version = False, tf_image = ''ab'', tf_resource = '''', tf_trustroot = '''',
     tf_log_level = ''info'', tf_enable_oci11 = False\<rparr>"

lemma tester_cip_ok:
  "\<not> blocks diag_api (ClusterImagePolicy_Validate diag_api sample_externals
     \<lparr>vc_InStatusUpdate = False, vc_InSpec = False, vc_Config = None, vc_ValidResourceNames = []\<rparr> (ClusterImagePolicy_SetDefaults tester_cip))"
proof -
  let ?c = "\<lparr>vc_InStatusUpdate = False, vc_InSpec = False, vc_Config = None, vc_ValidResourceNames = []\<rparr>"
  have "spec_ok sample_externals ?c (cip_Spec tester_cip)"
    by (simp add: tester_cip_def sample_defs zero_defs spec_ok_def glob_ok_def glob_chars_def lower_letters_def upper_letters_def
        digits10_def authority_ok_def verifier_count_def)
  from spec_ok_defaults [OF this] show ?thesis
    by (simp add: ClusterImagePolicy_Validate_def ClusterImagePolicy_SetDefaults_def dl.blocks_Spec_Validate)
qed

definition run_ctx :: "lru_list ctx_values" where
  "run_ctx = root_values"

lemma tester_parsed:
  "\<exists>w. ParseClusterImagePolicies diag_api (tester_oe tester_offline run_ctx) ''p'' = (w, Inr [tester_cip])"
  "\<exists>w. ParseClusterImagePolicies diag_api (next_round (tester_oe tester_offline run_ctx)) ''p'' = (w, Inr [tester_cip])"
  by (rule parsed_document [OF _ tester_cip_ok];
      simp add: tester_oe_def tester_offline_def next_round_def run_ctx_def root_values_def sample_offline_def)+

lemma tester_file:
  "oe_ReadFile (tester_oe tester_offline ctx) r f = Ok ''p''" "oe_ReadFile (next_round (tester_oe tester_offline ctx)) r f = Ok ''p''"
  by (simp_all add: tester_oe_def tester_offline_def next_round_def)

lemma tester_validated:
  "PolicyVerification_Validate diag_api (tester_oe tester_offline run_ctx) (tester_verification ''p.yaml'') = None"
  "PolicyVerification_Validate diag_api (next_round (tester_oe tester_offline run_ctx)) (tester_verification ''p.yaml'') = None"
  using tester_parsed
  by (auto simp: PolicyVerification_Validate_def tester_verification_def tester_source_def HasPrefix_def indexed_def PolicySource_Validate_def
      fields_set_def fetch_def tester_file dl.Also_nil dl.ViaFieldIndex_nil)

text \<open>The policy as it is compiled, and the run.\<close>

definition tester_compiled :: WClusterImagePolicy where
  "tester_compiled = ConvertClusterImagePolicyV1alpha1ToWebhook (ClusterImagePolicy_SetDefaults tester_cip)"

lemma tester_compiles:
  "\<exists>ww. CompilePolicies diag_api (next_round (tester_oe tester_offline run_ctx)) (tester_verification ''p.yaml'') =
     (Inr \<lparr>vr_verification = tester_verification ''p.yaml'', vr_ipc = \<lparr>Policies = [(''policy'', tester_compiled)]\<rparr>\<rparr>, ww)"
proof -
  obtain w where p: "ParseClusterImagePolicies diag_api (next_round (tester_oe tester_offline run_ctx)) ''p'' = (w, Inr [tester_cip])"
    using tester_parsed(2) by blast
  have u: "oe_compiled_Marshal_err (next_round (tester_oe tester_offline run_ctx)) x = None"
    "oe_compiled_Unmarshal (next_round (tester_oe tester_offline run_ctx)) x = Ok x" for x
    by (simp_all add: next_round_def tester_oe_def tester_offline_def sample_offline_def)
  have n: "om_Name (cip_ObjectMeta (ClusterImagePolicy_SetDefaults tester_cip)) = ''policy''"
    by (simp add: ClusterImagePolicy_SetDefaults_def tester_cip_def sample_meta_def)
  have "fetch (next_round (tester_oe tester_offline run_ctx)) 1 (tester_source ''p.yaml'') = Ok ''p''"
    by (simp add: fetch_def tester_source_def HasPrefix_def tester_file)
  with p have "\<exists>ww. gather_policies diag_api (next_round (tester_oe tester_offline run_ctx)) [tester_source ''p.yaml''] =
      (Inr \<lparr>Policies = [(''policy'', tester_compiled)]\<rparr>, ww)"
    by (simp add: gather_policies_def gather_cip_def convert_def u n Let_def map_assign_def tester_compiled_def)
  moreover have "vf_Policies (tester_verification ''p.yaml'') = Some [tester_source ''p.yaml'']" by (simp add: tester_verification_def)
  ultimately show ?thesis using tester_validated(2) by (auto simp: CompilePolicies_def)
qed

lemma show_0: "show_nat 0 = ''0''"
  by code_simp

lemma tester_passes:
  "wc_Authorities tester_compiled = [a] \<Longrightarrow> check_authority env ns ref ro a =
     \<lparr>ar_name = ''authority-0'', ar_static = True, ar_attestations = [], ar_signatures = [], ar_err = None\<rparr>"
  by (auto simp: check_authority_def SourceSignaturePullSecretsOpts_def Let_def default_authority_def zero_defs show_0
      convertAuthorityV1Alpha1ToWebhook_def convertStaticRefV1Alpha1ToWebhook_def convertAttestationsV1Alpha1ToWebhook_def
      tester_compiled_def ConvertClusterImagePolicyV1alpha1ToWebhook_def ClusterImagePolicy_SetDefaults_def
      ClusterImagePolicySpec_SetDefaults_def tester_cip_def indexed_def)

lemma tester_compiled_fields:
  "wc_Images tester_compiled = [\<lparr>ip_Glob = ''a*''\<rparr>]" "wc_Match tester_compiled = []" "wc_Policy tester_compiled = None"
  "\<exists>a. wc_Authorities tester_compiled = [a]"
  by (simp_all add: tester_compiled_def ConvertClusterImagePolicyV1alpha1ToWebhook_def ClusterImagePolicy_SetDefaults_def Let_def
      ClusterImagePolicySpec_SetDefaults_def tester_cip_def indexed_def zero_defs)

lemma tester_run: "tester_main sample_tester tester_run_flags = Verified"
proof -
  obtain a where a: "wc_Authorities tester_compiled = [a]" using tester_compiled_fields(4) by blast
  let ?vfy = "\<lparr>vr_verification = tester_verification ''p.yaml'', vr_ipc = \<lparr>Policies = [(''policy'', tester_compiled)]\<rparr>\<rparr>"
  have t: "getTypeMeta tester_offline sample_pctx = ('''', '''')" by (simp add: getTypeMeta_def sample_pctx_def)
  have m: "GetMatchingPolicies sample_kube sample_parser (Some (vr_ipc ?vfy)) (ref_Name sample_image_ref) '''' ''''
      (getObjectMeta tester_offline sample_pctx) = (Some [(''policy'', tester_compiled)], None)"
    by (simp add: sample_parser_ab GetMatchingPolicies_def sample_kube_def tester_compiled_fields map_assign_def sample_match_ab)
  have p: "fst (ValidatePolicy diag_api NoCache () env sample_pctx \<lparr>sc_order = [0], sc_done = [False]\<rparr> '''' sample_image_ref tester_compiled ro) \<noteq> None"
    for env :: "lru_list verify_env" and ro
    by (simp add: ValidatePolicy_def NoCache_def gather_def a tester_passes [OF a] recv_authority_def map_assign_def tester_compiled_fields)
  have v: "snd (tester_verify sample_tester run_ctx sample_pctx ?vfy sample_image_ref) = None"
  proof -
    have "te_oe sample_tester = tester_offline" "te_ae sample_tester = sample_admission []"
      "te_scheds sample_tester = (\<lambda>_. \<lparr>sc_order = [0], sc_done = [False]\<rparr>)" "ae_kube (sample_admission []) = sample_kube"
      "ae_ParseWeak (sample_admission []) = sample_parser" by (simp_all add: sample_tester_def sample_admission_def)
    then show ?thesis using p unfolding tester_verify_def by (simp add: Offline_Verify_None [OF t m])
  qed
  obtain ww where c: "CompilePolicies diag_api (next_round (tester_oe tester_offline run_ctx)) (tester_verification ''p.yaml'') = (Inr ?vfy, ww)"
    using tester_compiles by blast
  have "tester_ctx tester_run_flags = run_ctx" by (simp add: tester_ctx_def tester_run_flags_def run_ctx_def)
  moreover have "ve_ParseReference (ae_env (sample_admission [])) ''ab'' = Ok sample_image_ref"
    by (simp add: sample_admission_def sample_env_def sample_parser_ab)
  moreover have "(ae_pc (sample_admission []))\<lparr>px_Spec := None, px_ObjectMeta := None, px_TypeMeta := None\<rparr> = sample_pctx"
    by (simp add: sample_admission_def sample_pctx_def)
  moreover obtain ww' where "tester_verify sample_tester run_ctx sample_pctx ?vfy sample_image_ref = (ww', None)"
    using v by (metis prod.collapse)
  ultimately show ?thesis using tester_validated(1) c
    by (simp add: tester_main_def Let_def) (simp add: sample_tester_def tester_run_flags_def getSugaredLogger_def setSugaredLogger_def
        add_resource_def add_trust_root_def)
qed

theorem tester_verified_witness:
  "\<exists>(ref :: reference) vfy ww ms. CompilePolicies diag_api (next_round (tester_oe tester_offline (tester_ctx tester_run_flags :: lru_list ctx_values)))
       (tester_verification ''p.yaml'') = (Inr vfy, ww) \<and>
     GetMatchingPolicies sample_kube sample_parser (Some (vr_ipc vfy)) (ref_Name ref) '''' '''' [] = (Some ms, None) \<and> ms \<noteq> []"
proof -
  have f: "te_oe sample_tester = tester_offline" "te_ae sample_tester = sample_admission []" by (simp_all add: sample_tester_def)
  have d: "decoders_agree (te_oe sample_tester)" by (simp add: sample_tester_def decoders_agree_def tester_offline_def sample_offline_def)
  have l: "field_error_laws (ae_api (te_ae sample_tester))" using dl.field_error_laws_axioms by (simp add: sample_tester_def)
  have r: "resource_ctx sample_tester tester_run_flags = Ok sample_pctx"
    by (simp add: resource_ctx_def add_resource_def tester_run_flags_def sample_tester_def sample_admission_def sample_pctx_def)
  have m: "getTypeMeta tester_offline sample_pctx = ('''', '''')" "getObjectMeta tester_offline sample_pctx = []"
    "ae_kube (sample_admission []) = sample_kube" "ae_ParseWeak (sample_admission []) = sample_parser"
    "tf_policy tester_run_flags = ''p.yaml''"
    by (simp_all add: getTypeMeta_def getObjectMeta_def sample_pctx_def sample_admission_def tester_run_flags_def)
  from tester_verified [OF tester_run d l] obtain ref :: reference and vfy ww pc ms where
    c: "CompilePolicies (ae_api (te_ae sample_tester)) (next_round (tester_oe (te_oe sample_tester) (tester_ctx tester_run_flags :: lru_list ctx_values)))
       (tester_verification (tf_policy tester_run_flags)) = (Inr vfy, ww)"
    and pc: "resource_ctx sample_tester tester_run_flags = Ok pc"
    and g: "GetMatchingPolicies (ae_kube (te_ae sample_tester)) (ae_ParseWeak (te_ae sample_tester)) (Some (vr_ipc vfy)) (ref_Name ref)
      (fst (getTypeMeta (te_oe sample_tester) pc)) (snd (getTypeMeta (te_oe sample_tester) pc)) (getObjectMeta (te_oe sample_tester) pc) =
      (Some ms, None)" "ms \<noteq> []"
    by blast
  have "pc = sample_pctx" using pc r by simp
  then have "GetMatchingPolicies sample_kube sample_parser (Some (vr_ipc vfy)) (ref_Name ref) '''' '''' [] = (Some ms, None)"
    using g(1) by (simp add: f m)
  with c g(2) show ?thesis unfolding f m sample_admission_fields by blast
qed

end
