(* ===== verification/GoHeap.thy ===== *)
theory GoHeap
  imports PC_Prelude "HOL-Library.Sublist"
begin

text \<open>
  Go values with pointers and slices in an explicit heap, as far as generated deep copies need them: variables and arrays
  are cells of the heap, a pointer names an element of one, a slice a window of one. A copy is correct when it denotes the same
  value and shares no cell with the original; the rules at the end show that for copies made field by field.
\<close>

named_theorems copy_rules

section \<open>Values, types and heaps\<close>

datatype gval =
    Str string
  | Num int
  | Flag bool
  | Ptr "(nat \<times> nat) option"
  | Slice "(nat \<times> nat \<times> nat) option"
  | Struct "(string \<times> gval) list"

datatype gtype =
    TString
  | TInt
  | TBool
  | TPtr gtype
  | TSlice gtype
  | TStruct "(string \<times> gtype) list"

text \<open>An address is the index of an array of the heap; memory is never freed.\<close>

type_synonym heap = "gval list list"

definition get_field :: "string \<Rightarrow> gval \<Rightarrow> gval" where
  "get_field n v = (case v of Struct fs \<Rightarrow> (case map_of fs n of Some x \<Rightarrow> x | None \<Rightarrow> Ptr None) | _ \<Rightarrow> Ptr None)"

definition set_field :: "string \<Rightarrow> gval \<Rightarrow> gval \<Rightarrow> gval" where
  "set_field n x v = (case v of Struct fs \<Rightarrow> Struct (map (\<lambda>p. if fst p = n then (n, x) else p) fs) | _ \<Rightarrow> v)"

definition field_names :: "gval \<Rightarrow> string list option" where
  "field_names v = (case v of Struct fs \<Rightarrow> Some (map fst fs) | _ \<Rightarrow> None)"

lemma field_names_set [simp]: "field_names (set_field n x v) = field_names v"
  by (cases v) (auto simp: field_names_def set_field_def comp_def intro: map_cong)

lemma get_set_field:
  assumes "field_names v = Some ns" "n \<in> set ns"
  shows "get_field m (set_field n x v) = (if m = n then x else get_field m v)"
proof -
  obtain fs where v: "v = Struct fs" and ns: "ns = map fst fs" using assms(1) by (cases v) (auto simp: field_names_def)
  have "map_of (map (\<lambda>p. if fst p = n then (n, x) else p) fs) m = (if m = n \<and> n \<in> fst ` set fs then Some x else map_of fs m)"
  proof (induction fs)
    case (Cons p fs)
    then show ?case by (cases p) (cases "m = n"; simp)
  qed simp
  then show ?thesis using assms(2) by (auto simp: v ns get_field_def set_field_def)
qed

section \<open>Typing, meaning and footprint\<close>

definition window :: "heap \<Rightarrow> nat \<times> nat \<times> nat \<Rightarrow> gval list" where
  "window h s = (case s of (a, off, len) \<Rightarrow> take len (drop off (h ! a)))"

fun wt :: "heap \<Rightarrow> gtype \<Rightarrow> gval \<Rightarrow> bool" where
  "wt h TString v = (case v of Str _ \<Rightarrow> True | _ \<Rightarrow> False)"
| "wt h TInt v = (case v of Num _ \<Rightarrow> True | _ \<Rightarrow> False)"
| "wt h TBool v = (case v of Flag _ \<Rightarrow> True | _ \<Rightarrow> False)"
| "wt h (TPtr T) v =
     (case v of
        Ptr None \<Rightarrow> True
      | Ptr (Some (a, i)) \<Rightarrow> a < length h \<and> i < length (h ! a) \<and> wt h T (h ! a ! i)
      | _ \<Rightarrow> False)"
| "wt h (TSlice T) v =
     (case v of
        Slice None \<Rightarrow> True
      | Slice (Some (a, off, len)) \<Rightarrow> a < length h \<and> off + len \<le> length (h ! a) \<and> list_all (wt h T) (window h (a, off, len))
      | _ \<Rightarrow> False)"
| "wt h (TStruct fs) v = (field_names v = Some (map fst fs) \<and> list_all (\<lambda>p. wt h (snd p) (get_field (fst p) v)) fs)"

text \<open>The value without its addresses, and the arrays it is spread over.\<close>

datatype deep = DBase gval | DNil | DPtr deep | DSlice "deep list" | DStruct "(string \<times> deep) list"

fun den :: "heap \<Rightarrow> gtype \<Rightarrow> gval \<Rightarrow> deep" where
  "den h (TPtr T) v = (case v of Ptr (Some (a, i)) \<Rightarrow> DPtr (den h T (h ! a ! i)) | _ \<Rightarrow> DNil)"
| "den h (TSlice T) v = (case v of Slice (Some s) \<Rightarrow> DSlice (map (den h T) (window h s)) | _ \<Rightarrow> DNil)"
| "den h (TStruct fs) v = DStruct (map (\<lambda>p. (fst p, den h (snd p) (get_field (fst p) v))) fs)"
| "den h T v = DBase v"

fun reach :: "heap \<Rightarrow> gtype \<Rightarrow> gval \<Rightarrow> nat set" where
  "reach h (TPtr T) v = (case v of Ptr (Some (a, i)) \<Rightarrow> insert a (reach h T (h ! a ! i)) | _ \<Rightarrow> {})"
| "reach h (TSlice T) v = (case v of Slice (Some s) \<Rightarrow> insert (fst s) (\<Union>(set (map (reach h T) (window h s)))) | _ \<Rightarrow> {})"
| "reach h (TStruct fs) v = \<Union>(set (map (\<lambda>p. reach h (snd p) (get_field (fst p) v)) fs))"
| "reach h T v = {}"

lemmas base_cases = gval.splits option.splits prod.splits

text \<open>Heaps that agree on the footprint agree on everything.\<close>

lemma agree:
  assumes "wt h T v" "length h \<le> length h'" "\<forall>a \<in> reach h T v. h' ! a = h ! a"
  shows "wt h' T v \<and> den h' T v = den h T v \<and> reach h' T v = reach h T v"
  using assms
proof (induction T arbitrary: v)
  case (TPtr T)
  show ?case
  proof (cases "\<exists>a i. v = Ptr (Some (a, i))")
    case True
    then obtain a i where v: "v = Ptr (Some (a, i))" by blast
    with TPtr.prems have "h' ! a = h ! a" "a < length h'" by auto
    with TPtr v show ?thesis by auto
  next
    case False
    with TPtr.prems show ?thesis by (auto split: base_cases)
  qed
next
  case (TSlice T)
  show ?case
  proof (cases "\<exists>s. v = Slice (Some s)")
    case True
    then obtain a off len where v: "v = Slice (Some (a, off, len))" by (metis prod_cases3)
    with TSlice.prems have w: "window h' (a, off, len) = window h (a, off, len)" "a < length h'" "h' ! a = h ! a" by (auto simp: window_def)
    have "wt h' T x \<and> den h' T x = den h T x \<and> reach h' T x = reach h T x" if "x \<in> set (window h (a, off, len))" for x
      using TSlice that v by (auto simp: list_all_iff)
    with TSlice.prems(1) v w show ?thesis by (auto simp: list_all_iff)
  next
    case False
    with TSlice.prems show ?thesis by (auto split: base_cases)
  qed
next
  case (TStruct fs)
  have "wt h' (snd p) x \<and> den h' (snd p) x = den h (snd p) x \<and> reach h' (snd p) x = reach h (snd p) x"
    if "p \<in> set fs" "x = get_field (fst p) v" for p x
    using TStruct.IH [of p "snd p" x] TStruct.prems that by (auto simp: list_all_iff snds.simps)
  with TStruct.prems(1) show ?case by (auto simp: list_all_iff)
qed auto

lemma reach_bounded: "wt h T v \<Longrightarrow> reach h T v \<subseteq> {..<length h}"
proof (induction T arbitrary: v)
  case (TStruct fs)
  have "reach h (snd p) (get_field (fst p) v) \<subseteq> {..<length h}" if "p \<in> set fs" for p
    using TStruct.IH [of p "snd p"] TStruct.prems that by (auto simp: list_all_iff snds.simps)
  then show ?case by auto
next
  case (TSlice T)
  then show ?case by (fastforce simp: list_all_iff split: base_cases)
next
  case (TPtr T)
  then show ?case by (fastforce split: base_cases)
qed auto

lemma agree_prefix:
  assumes "wt h T v" "prefix h h'"
  shows "wt h' T v \<and> den h' T v = den h T v \<and> reach h' T v = reach h T v"
proof (rule agree [OF assms(1)])
  show "length h \<le> length h'" using assms(2) by (rule prefix_length_le)
  show "\<forall>a \<in> reach h T v. h' ! a = h ! a"
    using reach_bounded [OF assms(1)] assms(2) by (auto simp: prefix_def nth_append)
qed

section \<open>Copying\<close>

text \<open>
  A copy function takes the value and the heap and returns the copy and the heap with what it allocated. (An array is filled
  before it is allocated here, and allocated before it is filled in Go; the addresses differ, nothing else.)
\<close>

type_synonym copier = "gval \<Rightarrow> heap \<Rightarrow> gval \<times> heap"

text \<open>Plain assignment, the copying of the elements of a slice, \<open>new\<close> and \<open>make\<close>.\<close>

definition assign :: copier where
  "assign v h = (v, h)"

fun copy_all :: "copier \<Rightarrow> gval list \<Rightarrow> heap \<Rightarrow> gval list \<times> heap" where
  "copy_all f [] h = ([], h)"
| "copy_all f (v # vs) h = (case f v h of (x, h1) \<Rightarrow> case copy_all f vs h1 of (xs, h2) \<Rightarrow> (x # xs, h2))"

definition new_into :: "copier \<Rightarrow> copier" where
  "new_into f v h =
     (case v of
        Ptr (Some (a, i)) \<Rightarrow> (case f (h ! a ! i) h of (x, h1) \<Rightarrow> (Ptr (Some (length h1, 0)), h1 @ [[x]]))
      | _ \<Rightarrow> (v, h))"

definition make_into :: "copier \<Rightarrow> copier" where
  "make_into f v h =
     (case v of
        Slice (Some (a, off, len)) \<Rightarrow>
          (case copy_all f (window h (a, off, len)) h of (xs, h1) \<Rightarrow> (Slice (Some (length h1, 0, length xs)), h1 @ [xs]))
      | _ \<Rightarrow> (v, h))"

text \<open>
  \<open>*out = *in\<close>, followed by statements that each write one field of \<open>out\<close>, computed from the same field of \<open>in\<close>.
\<close>

definition copy_field :: "gval \<Rightarrow> gval \<times> heap \<Rightarrow> string \<times> copier \<Rightarrow> gval \<times> heap" where
  "copy_field src st stmt =
     (case st of (out, h) \<Rightarrow> case stmt of (n, f) \<Rightarrow> case f (get_field n src) h of (x, h') \<Rightarrow> (set_field n x out, h'))"

definition copy_fields :: "(string \<times> copier) list \<Rightarrow> copier" where
  "copy_fields stmts src h = foldl (copy_field src) (src, h) stmts"

section \<open>Correct copies\<close>

text \<open>Of type, equal, on cells that did not exist before, and without touching those that did.\<close>

definition copied :: "heap \<Rightarrow> gtype \<Rightarrow> gval \<Rightarrow> gval \<Rightarrow> heap \<Rightarrow> bool" where
  "copied h T v v' h' = (prefix h h' \<and> wt h' T v' \<and> den h' T v' = den h T v \<and> (\<forall>a \<in> reach h' T v'. length h \<le> a))"

definition copies :: "gtype \<Rightarrow> copier \<Rightarrow> bool" where
  "copies T f = (\<forall>v h. wt h T v \<longrightarrow> (case f v h of (v', h') \<Rightarrow> copied h T v v' h'))"

lemma copiesD: "copies T f \<Longrightarrow> wt h T v \<Longrightarrow> f v h = (v', h') \<Longrightarrow> copied h T v v' h'"
  by (auto simp: copies_def split: prod.splits)

lemma copiesI: "(\<And>v h v' h'. wt h T v \<Longrightarrow> f v h = (v', h') \<Longrightarrow> copied h T v v' h') \<Longrightarrow> copies T f"
  by (auto simp: copies_def split: prod.splits)

text \<open>A copy made later in a longer heap is one of the value in the shorter heap.\<close>

lemma copied_later:
  assumes "copied h1 T v v' h2" "wt h T v" "prefix h h1"
  shows "copied h T v v' h2"
proof -
  have "length h \<le> length h1" using assms(3) by (rule prefix_length_le)
  with assms agree_prefix [OF assms(2,3)] show ?thesis
    by (auto simp: copied_def dest: prefix_order.trans)
qed

lemma copied_extend:
  assumes "copied h T v v' h1" "prefix h1 h2"
  shows "copied h T v v' h2"
  using assms agree_prefix [of h1 T v' h2] by (auto simp: copied_def dest: prefix_order.trans)

text \<open>A type without pointers.\<close>

fun plain :: "gtype \<Rightarrow> bool" where
  "plain (TPtr T) = False"
| "plain (TSlice T) = False"
| "plain (TStruct fs) = list_all (\<lambda>p. plain (snd p)) fs"
| "plain T = True"

lemma plain_reach: "plain T \<Longrightarrow> reach h T v = {}"
proof (induction T arbitrary: v)
  case (TStruct fs)
  then show ?case by (fastforce simp: list_all_iff snds.simps)
qed auto

lemma copies_assign [copy_rules]: "plain T \<Longrightarrow> copies T assign"
  by (auto simp: copies_def copied_def assign_def plain_reach)

lemma copies_new_into [copy_rules]:
  assumes "copies T f"
  shows "copies (TPtr T) (new_into f)"
proof (rule copiesI)
  fix v h v' h'
  assume w: "wt h (TPtr T) v" and r: "new_into f v h = (v', h')"
  show "copied h (TPtr T) v v' h'"
  proof (cases "\<exists>a i. v = Ptr (Some (a, i))")
    case True
    then obtain a i where v: "v = Ptr (Some (a, i))" by blast
    obtain x h1 where x: "f (h ! a ! i) h = (x, h1)" by fastforce
    from w v have "wt h T (h ! a ! i)" by simp
    from copiesD [OF assms this x] have c: "copied h T (h ! a ! i) x h1" .
    from copied_extend [OF this, of "h1 @ [[x]]"] have c2: "copied h T (h ! a ! i) x (h1 @ [[x]])" by simp
    have "length h \<le> length h1" using c by (simp add: copied_def prefix_length_le)
    with c2 r x v show ?thesis by (auto simp: copied_def new_into_def nth_append)
  next
    case False
    with w r show ?thesis by (auto simp: copied_def new_into_def split: base_cases)
  qed
qed

lemma copied_all:
  assumes "copies T f" "list_all (wt h T) vs" "copy_all f vs h = (xs, h')"
  shows "prefix h h' \<and> list_all2 (\<lambda>v x. copied h T v x h') vs xs"
  using assms(2,3)
proof (induction vs arbitrary: h xs)
  case (Cons v vs)
  obtain x h1 where x: "f v h = (x, h1)" by fastforce
  obtain ys where ys: "copy_all f vs h1 = (ys, h')" "xs = x # ys" using Cons.prems(2) x by (auto split: prod.splits)
  have c: "copied h T v x h1" using copiesD [OF assms(1) _ x] Cons.prems(1) by simp
  then have p: "prefix h h1" by (simp add: copied_def)
  then have "list_all (wt h1 T) vs" using Cons.prems(1) agree_prefix [OF _ p] by (auto simp: list_all_iff)
  from Cons.IH [OF this ys(1)] have r: "prefix h1 h'" "list_all2 (\<lambda>v x. copied h1 T v x h') vs ys" by auto
  have "list_all2 (\<lambda>v x. copied h T v x h') vs ys"
    using r(2) Cons.prems(1) copied_later [OF _ _ p] by (auto simp: list_all2_conv_all_nth list_all_length)
  with c r p ys(2) copied_extend [OF c r(1)] show ?case by (auto dest: prefix_order.trans)
qed simp

lemma copies_make_into [copy_rules]:
  assumes "copies T f"
  shows "copies (TSlice T) (make_into f)"
proof (rule copiesI)
  fix v h v' h'
  assume w: "wt h (TSlice T) v" and r: "make_into f v h = (v', h')"
  show "copied h (TSlice T) v v' h'"
  proof (cases "\<exists>s. v = Slice (Some s)")
    case True
    then obtain a off len where v: "v = Slice (Some (a, off, len))" by (metis prod_cases3)
    obtain xs h1 where x: "copy_all f (window h (a, off, len)) h = (xs, h1)" by fastforce
    from w v have "list_all (wt h T) (window h (a, off, len))" by simp
    from copied_all [OF assms this x] have p: "prefix h h1"
      and c: "list_all2 (\<lambda>v x. copied h T v x h1) (window h (a, off, len)) xs" by auto
    have "list_all2 (\<lambda>v x. copied h T v x (h1 @ [xs])) (window h (a, off, len)) xs"
      using c by (rule list_all2_mono) (simp add: copied_extend)
    then have n: "length xs = length (window h (a, off, len))"
      "\<And>i. i < length xs \<Longrightarrow> copied h T (window h (a, off, len) ! i) (xs ! i) (h1 @ [xs])"
      by (auto simp: list_all2_conv_all_nth)
    have d1: "list_all (wt (h1 @ [xs]) T) xs" using n(2) by (simp add: list_all_length copied_def)
    have d2: "map (den (h1 @ [xs]) T) xs = map (den h T) (window h (a, off, len))"
      using n by (intro nth_equalityI) (simp_all add: copied_def)
    have d3: "\<forall>b \<in> reach (h1 @ [xs]) T x. length h \<le> b" if "x \<in> set xs" for x
    proof -
      from that obtain i where "i < length xs" "x = xs ! i" by (auto simp: in_set_conv_nth)
      with n(2) [of i] show ?thesis by (simp add: copied_def)
    qed
    note d = d1 d2 d3
    have "length h \<le> length h1" using p by (rule prefix_length_le)
    with d r x v p show ?thesis by (auto simp: copied_def make_into_def window_def)
  next
    case False
    with w r show ?thesis by (auto simp: copied_def make_into_def split: base_cases)
  qed
qed

text \<open>
  The fields of a struct: after some of the statements, the fields they name are copied and the others are still those of the
  original.
\<close>

definition partly_copied :: "heap \<Rightarrow> (string \<times> gtype) list \<Rightarrow> gval \<Rightarrow> string set \<Rightarrow> gval \<times> heap \<Rightarrow> bool" where
  "partly_copied h fs v done st =
     (field_names (fst st) = Some (map fst fs) \<and> prefix h (snd st) \<and>
      list_all (\<lambda>(n, T). if n \<in> done then copied h T (get_field n v) (get_field n (fst st)) (snd st)
                         else get_field n (fst st) = get_field n v) fs)"

lemma copy_field_step:
  assumes "wt h (TStruct fs) v" "distinct (map fst fs)" "partly_copied h fs v done st" "(n, T) \<in> set fs" "copies T f" "n \<notin> done"
  shows "partly_copied h fs v (insert n done) (copy_field v st (n, f))"
proof -
  obtain out h1 where st: "st = (out, h1)" by fastforce
  obtain x h2 where x: "f (get_field n v) h1 = (x, h2)" by fastforce
  from assms(3) st have o: "field_names out = Some (map fst fs)" and p: "prefix h h1"
    and l: "\<And>m U. (m, U) \<in> set fs \<Longrightarrow>
      if m \<in> done then copied h U (get_field m v) (get_field m out) h1 else get_field m out = get_field m v"
    by (auto simp: partly_copied_def list_all_iff)
  have w: "wt h T (get_field n v)" using assms(1,4) by (auto simp: list_all_iff)
  then have "wt h1 T (get_field n v)" using agree_prefix p by blast
  from copiesD [OF assms(5) this x] have c1: "copied h1 T (get_field n v) x h2" .
  then have p2: "prefix h1 h2" by (simp add: copied_def)
  have c: "copied h T (get_field n v) x h2" using copied_later [OF c1 w p] .
  have g: "get_field m (set_field n x out) = (if m = n then x else get_field m out)" for m
    using get_set_field [OF o] assms(4) by force
  have "U = T" if "(n, U) \<in> set fs" for U using that assms(2,4) by (metis eq_key_imp_eq_value)
  with c l copied_extend [OF _ p2] assms(6) have
    "if m \<in> insert n done then copied h U (get_field m v) (get_field m (set_field n x out)) h2
     else get_field m (set_field n x out) = get_field m v" if "(m, U) \<in> set fs" for m U
    using that by (auto simp: g split: if_splits)
  moreover have "prefix h h2" using p p2 by (rule prefix_order.trans)
  ultimately show ?thesis by (auto simp: partly_copied_def st copy_field_def x o list_all_iff)
qed

lemma copy_fields_steps:
  assumes "wt h (TStruct fs) v" "distinct (map fst fs)"
    and "\<forall>(n, f) \<in> set stmts. \<exists>T. (n, T) \<in> set fs \<and> copies T f" "distinct (map fst stmts)"
  shows "partly_copied h fs v (fst ` set stmts) (copy_fields stmts v h)"
  using assms(3,4)
proof (induction stmts rule: rev_induct)
  case Nil
  have "field_names v = Some (map fst fs)" using assms(1) by simp
  then show ?case by (simp add: copy_fields_def partly_copied_def list_all_iff case_prod_beta)
next
  case (snoc s stmts)
  obtain n f where s: "s = (n, f)" by fastforce
  with snoc.prems obtain T where "(n, T) \<in> set fs" "copies T f" "n \<notin> fst ` set stmts" by auto
  from copy_field_step [OF assms(1,2) _ this] snoc show ?case by (simp add: s copy_fields_def)
qed

text \<open>
  A struct is copied correctly when every statement is a correct copy of its field and every field that is not just data has
  one.
\<close>

lemma copies_struct:
  assumes "distinct (map fst fs)" "distinct (map fst stmts)"
    and "list_all (\<lambda>(n, f). case map_of fs n of None \<Rightarrow> False | Some T \<Rightarrow> copies T f) stmts"
    and "list_all (\<lambda>(n, T). plain T \<or> n \<in> fst ` set stmts) fs"
  shows "copies (TStruct fs) (copy_fields stmts)"
proof (rule copiesI)
  fix v h v' h'
  assume w: "wt h (TStruct fs) v" and r: "copy_fields stmts v h = (v', h')"
  have "\<forall>(n, f) \<in> set stmts. \<exists>T. (n, T) \<in> set fs \<and> copies T f"
    using assms(3) by (fastforce simp: list_all_iff dest: map_of_SomeD split: option.splits)
  from copy_fields_steps [OF w assms(1) this assms(2)] r
  have c: "partly_copied h fs v (fst ` set stmts) (v', h')" by simp
  then have p: "prefix h h'" and names: "field_names v' = Some (map fst fs)" by (auto simp: partly_copied_def)
  have f: "copied h T (get_field n v) (get_field n v') h'" if "(n, T) \<in> set fs" for n T
  proof (cases "n \<in> fst ` set stmts")
    case True
    have "\<forall>x \<in> set fs. case x of (n, T) \<Rightarrow> if n \<in> fst ` set stmts then copied h T (get_field n v) (get_field n v') h'
        else get_field n v' = get_field n v" using c unfolding partly_copied_def list_all_iff fst_conv snd_conv by (elim conjE)
    from bspec [OF this that] True show ?thesis by (simp only: prod.case if_True)
  next
    case False
    with c that assms(4) have e: "get_field n v' = get_field n v" and "plain T" by (auto simp: partly_copied_def list_all_iff)
    moreover have "wt h T (get_field n v)" using w that by (auto simp: list_all_iff)
    ultimately show ?thesis using agree_prefix [OF _ p] p by (simp add: copied_def plain_reach)
  qed
  then have "wt h' (TStruct fs) v'" "den h' (TStruct fs) v' = den h (TStruct fs) v"
    "\<forall>a \<in> reach h' (TStruct fs) v'. length h \<le> a"
    using names by (auto simp: copied_def list_all_iff)
  with p show "copied h (TStruct fs) v v' h'" by (simp add: copied_def)
qed

section \<open>Writing\<close>

definition store_to :: "heap \<Rightarrow> nat \<times> nat \<times> gval \<Rightarrow> heap" where
  "store_to h w = (case w of (a, i, x) \<Rightarrow> h[a := (h ! a)[i := x]])"

text \<open>Whatever is written to other cells, a value stays what it was.\<close>

lemma writes_elsewhere:
  assumes "wt h T v" "\<forall>(a, i, x) \<in> set ws. a \<notin> reach h T v"
  shows "wt (foldl store_to h ws) T v \<and> den (foldl store_to h ws) T v = den h T v"
proof -
  have "length (foldl store_to h ws) = length h \<and> (\<forall>a \<in> reach h T v. foldl store_to h ws ! a = h ! a)"
    using assms(2)
  proof (induction ws rule: rev_induct)
    case (snoc w ws)
    obtain a i x where w: "w = (a, i, x)" by (cases w)
    have st: "store_to k (a, i, x) = k[a := (k ! a)[i := x]]" for k by (simp add: store_to_def)
    have "a \<noteq> b" if "b \<in> reach h T v" for b using snoc.prems w that by auto
    with w snoc show ?case by (auto simp: st)
  qed simp
  with agree [OF assms(1), of "foldl store_to h ws"] show ?thesis by auto
qed

section \<open>DeepCopy\<close>

text \<open>\<open>DeepCopy\<close> of a pointer: nil, or a new variable that is copied into.\<close>

type_synonym deep_copier = "(nat \<times> nat) option \<Rightarrow> heap \<Rightarrow> (nat \<times> nat) option \<times> heap"

definition deep_copy :: "copier \<Rightarrow> deep_copier" where
  "deep_copy f p h =
     (case p of
        None \<Rightarrow> (None, h)
      | Some (a, i) \<Rightarrow> (case f (h ! a ! i) h of (x, h1) \<Rightarrow> (Some (length h1, 0), h1 @ [[x]])))"

lemma deep_copy_new: "deep_copy f p h = (q, h') \<longleftrightarrow> new_into f (Ptr p) h = (Ptr q, h')"
  by (auto simp: deep_copy_def new_into_def split: option.splits prod.splits)

lemma deep_copy_prefix:
  assumes "copies T f" "wt h (TPtr T) (Ptr p)" "deep_copy f p h = (q, h')"
  shows "prefix h h'" "q = None \<longleftrightarrow> p = None"
proof -
  show "prefix h h'" using copiesD [OF copies_new_into [OF assms(1)] assms(2)] assms(3) unfolding deep_copy_new by (simp add: copied_def)
  show "q = None \<longleftrightarrow> p = None" using assms(3) by (auto simp: deep_copy_def split: option.splits prod.splits)
qed

text \<open>
  The copy equals the original, and whatever is then done to what the copy consists of, the original stays as it was.
\<close>

lemma deep_copy_independent:
  assumes "copies T f" "wt h (TPtr T) (Ptr p)" "deep_copy f p h = (q, h')"
  shows "wt h' (TPtr T) (Ptr q)" "den h' (TPtr T) (Ptr q) = den h (TPtr T) (Ptr p)"
    "reach h' (TPtr T) (Ptr q) \<inter> reach h' (TPtr T) (Ptr p) = {}"
    "\<forall>(a, i, x) \<in> set ws. a \<in> reach h' (TPtr T) (Ptr q) \<Longrightarrow>
       den (foldl store_to h' ws) (TPtr T) (Ptr p) = den h (TPtr T) (Ptr p)"
proof -
  have "new_into f (Ptr p) h = (Ptr q, h')" using assms(3) by (simp only: deep_copy_new)
  from copiesD [OF copies_new_into [OF assms(1)] assms(2) this] have c: "copied h (TPtr T) (Ptr p) (Ptr q) h'" .
  then show "wt h' (TPtr T) (Ptr q)" "den h' (TPtr T) (Ptr q) = den h (TPtr T) (Ptr p)" by (auto simp: copied_def)
  have o: "wt h' (TPtr T) (Ptr p)" "den h' (TPtr T) (Ptr p) = den h (TPtr T) (Ptr p)"
    "reach h' (TPtr T) (Ptr p) = reach h (TPtr T) (Ptr p)"
    using agree_prefix [OF assms(2), of h'] c by (simp_all only: copied_def)
  show d: "reach h' (TPtr T) (Ptr q) \<inter> reach h' (TPtr T) (Ptr p) = {}"
    using c reach_bounded [OF assms(2)] unfolding o(3) copied_def by fastforce
  assume "\<forall>(a, i, x) \<in> set ws. a \<in> reach h' (TPtr T) (Ptr q)"
  then have "\<forall>(a, i, x) \<in> set ws. a \<notin> reach h' (TPtr T) (Ptr p)" using d by blast
  from writes_elsewhere [OF o(1) this] o(2) show "den (foldl store_to h' ws) (TPtr T) (Ptr p) = den h (TPtr T) (Ptr p)" by simp
qed

end
