(* ===== verification/DeepCopies.thy ===== *)
theory DeepCopies
  imports GoHeap
begin

text \<open>
  The generated deep copies \<open>pkg/apis/policy/v1alpha1/zz_generated.deepcopy.go\<close> and
  \<open>pkg/apis/duck/v1beta1/zz_generated.deepcopy.go\<close> on the heap of \<open>GoHeap\<close>. For each struct its Go type, with the fields in the
  order of the source, the statements of \<open>DeepCopyInto\<close> after \<open>*out = *in\<close>, and \<open>DeepCopy\<close>. Structs of other packages are given by
  their type and, where they are not just data, their own \<open>DeepCopyInto\<close>.
\<close>

section \<open>Structs of other packages\<close>

record copy_externals =
  dx_URL_T :: gtype
  dx_URL :: copier
  dx_ObjectMeta_T :: gtype
  dx_ObjectMeta :: copier
  dx_ListMeta_T :: gtype
  dx_ListMeta :: copier
  dx_Status_T :: gtype
  dx_Status :: copier
  dx_LabelSelector_T :: gtype
  dx_LabelSelector :: copier
  dx_PodTemplateSpec_T :: gtype
  dx_PodTemplateSpec :: copier
  dx_TypeMeta_T :: gtype
  dx_SecretReference_T :: gtype
  dx_LocalObjectReference_T :: gtype
  dx_GroupVersionResource_T :: gtype

section \<open>Policies and trust roots\<close>

definition ConfigMapReference_T :: "copy_externals \<Rightarrow> gtype" where
  "ConfigMapReference_T x = TStruct [(''Name'', TString), (''Namespace'', TString), (''Key'', TString)]"

definition ConfigMapReference_DeepCopyInto :: "copy_externals \<Rightarrow> copier" where
  "ConfigMapReference_DeepCopyInto x = copy_fields []"

definition ConfigMapReference_DeepCopy :: "copy_externals \<Rightarrow> deep_copier" where
  "ConfigMapReference_DeepCopy x = deep_copy (ConfigMapReference_DeepCopyInto x)"

definition RemotePolicy_T :: "copy_externals \<Rightarrow> gtype" where
  "RemotePolicy_T x = TStruct [(''URL'', dx_URL_T x), (''Sha256sum'', TString)]"

definition RemotePolicy_DeepCopyInto :: "copy_externals \<Rightarrow> copier" where
  "RemotePolicy_DeepCopyInto x = copy_fields [(''URL'', dx_URL x)]"

definition RemotePolicy_DeepCopy :: "copy_externals \<Rightarrow> deep_copier" where
  "RemotePolicy_DeepCopy x = deep_copy (RemotePolicy_DeepCopyInto x)"

definition Policy_T :: "copy_externals \<Rightarrow> gtype" where
  "Policy_T x = TStruct [(''Type'', TString), (''Data'', TString), (''Remote'', TPtr (RemotePolicy_T x)),
     (''ConfigMapRef'', TPtr (ConfigMapReference_T x)), (''FetchConfigFile'', TPtr TBool), (''IncludeSpec'', TPtr TBool),
     (''IncludeObjectMeta'', TPtr TBool), (''IncludeTypeMeta'', TPtr TBool)]"

definition Policy_DeepCopyInto :: "copy_externals \<Rightarrow> copier" where
  "Policy_DeepCopyInto x = copy_fields [(''Remote'', new_into (RemotePolicy_DeepCopyInto x)), (''ConfigMapRef'', new_into assign),
     (''FetchConfigFile'', new_into assign), (''IncludeSpec'', new_into assign), (''IncludeObjectMeta'', new_into assign),
     (''IncludeTypeMeta'', new_into assign)]"

definition Policy_DeepCopy :: "copy_externals \<Rightarrow> deep_copier" where
  "Policy_DeepCopy x = deep_copy (Policy_DeepCopyInto x)"

definition Attestation_T :: "copy_externals \<Rightarrow> gtype" where
  "Attestation_T x = TStruct [(''Name'', TString), (''PredicateType'', TString), (''Policy'', TPtr (Policy_T x))]"

definition Attestation_DeepCopyInto :: "copy_externals \<Rightarrow> copier" where
  "Attestation_DeepCopyInto x = copy_fields [(''Policy'', new_into (Policy_DeepCopyInto x))]"

definition Attestation_DeepCopy :: "copy_externals \<Rightarrow> deep_copier" where
  "Attestation_DeepCopy x = deep_copy (Attestation_DeepCopyInto x)"

definition GMSignerRef_T :: "copy_externals \<Rightarrow> gtype" where
  "GMSignerRef_T x = TStruct [(''AppID'', TString), (''NodeID'', TString), (''UserID'', TString)]"

definition GMSignerRef_DeepCopyInto :: "copy_externals \<Rightarrow> copier" where
  "GMSignerRef_DeepCopyInto x = copy_fields []"

definition GMSignerRef_DeepCopy :: "copy_externals \<Rightarrow> deep_copier" where
  "GMSignerRef_DeepCopy x = deep_copy (GMSignerRef_DeepCopyInto x)"

definition GMSignatureRef_T :: "copy_externals \<Rightarrow> gtype" where
  "GMSignatureRef_T x = TStruct [(''VerifyURL'', TString), (''TenantID'', TString), (''Signer'', GMSignerRef_T x), (''RequestTimeoutMs'', TInt)]"

definition GMSignatureRef_DeepCopyInto :: "copy_externals \<Rightarrow> copier" where
  "GMSignatureRef_DeepCopyInto x = copy_fields [(''Signer'', assign)]"

definition GMSignatureRef_DeepCopy :: "copy_externals \<Rightarrow> deep_copier" where
  "GMSignatureRef_DeepCopy x = deep_copy (GMSignatureRef_DeepCopyInto x)"

definition KeyRef_T :: "copy_externals \<Rightarrow> gtype" where
  "KeyRef_T x = TStruct [(''SecretRef'', TPtr (dx_SecretReference_T x)), (''Data'', TString), (''KMS'', TString), (''HashAlgorithm'', TString)]"

definition KeyRef_DeepCopyInto :: "copy_externals \<Rightarrow> copier" where
  "KeyRef_DeepCopyInto x = copy_fields [(''SecretRef'', new_into assign)]"

definition KeyRef_DeepCopy :: "copy_externals \<Rightarrow> deep_copier" where
  "KeyRef_DeepCopy x = deep_copy (KeyRef_DeepCopyInto x)"

definition Identity_T :: "copy_externals \<Rightarrow> gtype" where
  "Identity_T x = TStruct [(''Issuer'', TString), (''Subject'', TString), (''IssuerRegExp'', TString), (''SubjectRegExp'', TString)]"

definition Identity_DeepCopyInto :: "copy_externals \<Rightarrow> copier" where
  "Identity_DeepCopyInto x = copy_fields []"

definition Identity_DeepCopy :: "copy_externals \<Rightarrow> deep_copier" where
  "Identity_DeepCopy x = deep_copy (Identity_DeepCopyInto x)"

definition KeylessRef_T :: "copy_externals \<Rightarrow> gtype" where
  "KeylessRef_T x = TStruct [(''URL'', TPtr (dx_URL_T x)), (''Identities'', TSlice (Identity_T x)), (''CACert'', TPtr (KeyRef_T x)),
     (''TrustRootRef'', TString), (''InsecureIgnoreSCT'', TPtr TBool)]"

definition KeylessRef_DeepCopyInto :: "copy_externals \<Rightarrow> copier" where
  "KeylessRef_DeepCopyInto x = copy_fields [(''URL'', new_into (dx_URL x)), (''Identities'', make_into assign), (''CACert'', new_into (KeyRef_DeepCopyInto x)),
     (''InsecureIgnoreSCT'', new_into assign)]"

definition KeylessRef_DeepCopy :: "copy_externals \<Rightarrow> deep_copier" where
  "KeylessRef_DeepCopy x = deep_copy (KeylessRef_DeepCopyInto x)"

definition RFC3161Timestamp_T :: "copy_externals \<Rightarrow> gtype" where
  "RFC3161Timestamp_T x = TStruct [(''TrustRootRef'', TString)]"

definition RFC3161Timestamp_DeepCopyInto :: "copy_externals \<Rightarrow> copier" where
  "RFC3161Timestamp_DeepCopyInto x = copy_fields []"

definition RFC3161Timestamp_DeepCopy :: "copy_externals \<Rightarrow> deep_copier" where
  "RFC3161Timestamp_DeepCopy x = deep_copy (RFC3161Timestamp_DeepCopyInto x)"

definition Source_T :: "copy_externals \<Rightarrow> gtype" where
  "Source_T x = TStruct [(''OCI'', TString), (''SignaturePullSecrets'', TSlice (dx_LocalObjectReference_T x)), (''TagPrefix'', TPtr TString)]"

definition Source_DeepCopyInto :: "copy_externals \<Rightarrow> copier" where
  "Source_DeepCopyInto x = copy_fields [(''SignaturePullSecrets'', make_into assign), (''TagPrefix'', new_into assign)]"

definition Source_DeepCopy :: "copy_externals \<Rightarrow> deep_copier" where
  "Source_DeepCopy x = deep_copy (Source_DeepCopyInto x)"

definition StaticRef_T :: "copy_externals \<Rightarrow> gtype" where
  "StaticRef_T x = TStruct [(''Action'', TString), (''Message'', TString)]"

definition StaticRef_DeepCopyInto :: "copy_externals \<Rightarrow> copier" where
  "StaticRef_DeepCopyInto x = copy_fields []"

definition StaticRef_DeepCopy :: "copy_externals \<Rightarrow> deep_copier" where
  "StaticRef_DeepCopy x = deep_copy (StaticRef_DeepCopyInto x)"

definition TLog_T :: "copy_externals \<Rightarrow> gtype" where
  "TLog_T x = TStruct [(''URL'', TPtr (dx_URL_T x)), (''TrustRootRef'', TString)]"

definition TLog_DeepCopyInto :: "copy_externals \<Rightarrow> copier" where
  "TLog_DeepCopyInto x = copy_fields [(''URL'', new_into (dx_URL x))]"

definition TLog_DeepCopy :: "copy_externals \<Rightarrow> deep_copier" where
  "TLog_DeepCopy x = deep_copy (TLog_DeepCopyInto x)"

definition Authority_T :: "copy_externals \<Rightarrow> gtype" where
  "Authority_T x = TStruct [(''Name'', TString), (''Key'', TPtr (KeyRef_T x)), (''Keyless'', TPtr (KeylessRef_T x)),
     (''Static'', TPtr (StaticRef_T x)), (''Sources'', TSlice (Source_T x)), (''CTLog'', TPtr (TLog_T x)),
     (''Attestations'', TSlice (Attestation_T x)), (''RFC3161Timestamp'', TPtr (RFC3161Timestamp_T x)),
     (''GMSignature'', TPtr (GMSignatureRef_T x)), (''SignatureFormat'', TString)]"

definition Authority_DeepCopyInto :: "copy_externals \<Rightarrow> copier" where
  "Authority_DeepCopyInto x = copy_fields [(''Key'', new_into (KeyRef_DeepCopyInto x)), (''Keyless'', new_into (KeylessRef_DeepCopyInto x)),
     (''Static'', new_into assign), (''Sources'', make_into (Source_DeepCopyInto x)),
     (''CTLog'', new_into (TLog_DeepCopyInto x)), (''Attestations'', make_into (Attestation_DeepCopyInto x)),
     (''RFC3161Timestamp'', new_into assign), (''GMSignature'', new_into assign)]"

definition Authority_DeepCopy :: "copy_externals \<Rightarrow> deep_copier" where
  "Authority_DeepCopy x = deep_copy (Authority_DeepCopyInto x)"

definition DistinguishedName_T :: "copy_externals \<Rightarrow> gtype" where
  "DistinguishedName_T x = TStruct [(''Organization'', TString), (''CommonName'', TString)]"

definition DistinguishedName_DeepCopyInto :: "copy_externals \<Rightarrow> copier" where
  "DistinguishedName_DeepCopyInto x = copy_fields []"

definition DistinguishedName_DeepCopy :: "copy_externals \<Rightarrow> deep_copier" where
  "DistinguishedName_DeepCopy x = deep_copy (DistinguishedName_DeepCopyInto x)"

definition CertificateAuthority_T :: "copy_externals \<Rightarrow> gtype" where
  "CertificateAuthority_T x = TStruct [(''Subject'', DistinguishedName_T x), (''URI'', dx_URL_T x), (''CertChain'', TSlice TInt)]"

definition CertificateAuthority_DeepCopyInto :: "copy_externals \<Rightarrow> copier" where
  "CertificateAuthority_DeepCopyInto x = copy_fields [(''Subject'', assign), (''URI'', dx_URL x), (''CertChain'', make_into assign)]"

definition CertificateAuthority_DeepCopy :: "copy_externals \<Rightarrow> deep_copier" where
  "CertificateAuthority_DeepCopy x = deep_copy (CertificateAuthority_DeepCopyInto x)"

definition ImagePattern_T :: "copy_externals \<Rightarrow> gtype" where
  "ImagePattern_T x = TStruct [(''Glob'', TString)]"

definition ImagePattern_DeepCopyInto :: "copy_externals \<Rightarrow> copier" where
  "ImagePattern_DeepCopyInto x = copy_fields []"

definition ImagePattern_DeepCopy :: "copy_externals \<Rightarrow> deep_copier" where
  "ImagePattern_DeepCopy x = deep_copy (ImagePattern_DeepCopyInto x)"

definition MatchResource_T :: "copy_externals \<Rightarrow> gtype" where
  "MatchResource_T x = TStruct [(''GroupVersionResource'', dx_GroupVersionResource_T x), (''ResourceSelector'', TPtr (dx_LabelSelector_T x))]"

definition MatchResource_DeepCopyInto :: "copy_externals \<Rightarrow> copier" where
  "MatchResource_DeepCopyInto x = copy_fields [(''GroupVersionResource'', assign), (''ResourceSelector'', new_into (dx_LabelSelector x))]"

definition MatchResource_DeepCopy :: "copy_externals \<Rightarrow> deep_copier" where
  "MatchResource_DeepCopy x = deep_copy (MatchResource_DeepCopyInto x)"

definition ClusterImagePolicySpec_T :: "copy_externals \<Rightarrow> gtype" where
  "ClusterImagePolicySpec_T x = TStruct [(''Images'', TSlice (ImagePattern_T x)), (''Authorities'', TSlice (Authority_T x)), (''Policy'', TPtr (Policy_T x)),
     (''Mode'', TString), (''Match'', TSlice (MatchResource_T x))]"

definition ClusterImagePolicySpec_DeepCopyInto :: "copy_externals \<Rightarrow> copier" where
  "ClusterImagePolicySpec_DeepCopyInto x = copy_fields [(''Images'', make_into assign), (''Authorities'', make_into (Authority_DeepCopyInto x)),
     (''Policy'', new_into (Policy_DeepCopyInto x)), (''Match'', make_into (MatchResource_DeepCopyInto x))]"

definition ClusterImagePolicySpec_DeepCopy :: "copy_externals \<Rightarrow> deep_copier" where
  "ClusterImagePolicySpec_DeepCopy x = deep_copy (ClusterImagePolicySpec_DeepCopyInto x)"

definition ClusterImagePolicyStatus_T :: "copy_externals \<Rightarrow> gtype" where
  "ClusterImagePolicyStatus_T x = TStruct [(''Status'', dx_Status_T x)]"

definition ClusterImagePolicyStatus_DeepCopyInto :: "copy_externals \<Rightarrow> copier" where
  "ClusterImagePolicyStatus_DeepCopyInto x = copy_fields [(''Status'', dx_Status x)]"

definition ClusterImagePolicyStatus_DeepCopy :: "copy_externals \<Rightarrow> deep_copier" where
  "ClusterImagePolicyStatus_DeepCopy x = deep_copy (ClusterImagePolicyStatus_DeepCopyInto x)"

definition ClusterImagePolicy_T :: "copy_externals \<Rightarrow> gtype" where
  "ClusterImagePolicy_T x = TStruct [(''TypeMeta'', dx_TypeMeta_T x), (''ObjectMeta'', dx_ObjectMeta_T x), (''Spec'', ClusterImagePolicySpec_T x),
     (''Status'', ClusterImagePolicyStatus_T x)]"

definition ClusterImagePolicy_DeepCopyInto :: "copy_externals \<Rightarrow> copier" where
  "ClusterImagePolicy_DeepCopyInto x = copy_fields [(''TypeMeta'', assign), (''ObjectMeta'', dx_ObjectMeta x), (''Spec'', ClusterImagePolicySpec_DeepCopyInto x),
     (''Status'', ClusterImagePolicyStatus_DeepCopyInto x)]"

definition ClusterImagePolicy_DeepCopy :: "copy_externals \<Rightarrow> deep_copier" where
  "ClusterImagePolicy_DeepCopy x = deep_copy (ClusterImagePolicy_DeepCopyInto x)"

definition ClusterImagePolicy_DeepCopyObject :: "copy_externals \<Rightarrow> deep_copier" where
  "ClusterImagePolicy_DeepCopyObject x p h = (case ClusterImagePolicy_DeepCopy x p h of (Some c, h') \<Rightarrow> (Some c, h') | (None, h') \<Rightarrow> (None, h'))"

definition ClusterImagePolicyList_T :: "copy_externals \<Rightarrow> gtype" where
  "ClusterImagePolicyList_T x = TStruct [(''TypeMeta'', dx_TypeMeta_T x), (''ListMeta'', dx_ListMeta_T x), (''Items'', TSlice (ClusterImagePolicy_T x))]"

definition ClusterImagePolicyList_DeepCopyInto :: "copy_externals \<Rightarrow> copier" where
  "ClusterImagePolicyList_DeepCopyInto x = copy_fields [(''TypeMeta'', assign), (''ListMeta'', dx_ListMeta x), (''Items'', make_into (ClusterImagePolicy_DeepCopyInto x))]"

definition ClusterImagePolicyList_DeepCopy :: "copy_externals \<Rightarrow> deep_copier" where
  "ClusterImagePolicyList_DeepCopy x = deep_copy (ClusterImagePolicyList_DeepCopyInto x)"

definition ClusterImagePolicyList_DeepCopyObject :: "copy_externals \<Rightarrow> deep_copier" where
  "ClusterImagePolicyList_DeepCopyObject x p h = (case ClusterImagePolicyList_DeepCopy x p h of (Some c, h') \<Rightarrow> (Some c, h') | (None, h') \<Rightarrow> (None, h'))"

definition Remote_T :: "copy_externals \<Rightarrow> gtype" where
  "Remote_T x = TStruct [(''Root'', TSlice TInt), (''Mirror'', dx_URL_T x), (''Targets'', TString), (''TrustedRootTarget'', TString)]"

definition Remote_DeepCopyInto :: "copy_externals \<Rightarrow> copier" where
  "Remote_DeepCopyInto x = copy_fields [(''Root'', make_into assign), (''Mirror'', dx_URL x)]"

definition Remote_DeepCopy :: "copy_externals \<Rightarrow> deep_copier" where
  "Remote_DeepCopy x = deep_copy (Remote_DeepCopyInto x)"

definition Repository_T :: "copy_externals \<Rightarrow> gtype" where
  "Repository_T x = TStruct [(''Root'', TSlice TInt), (''MirrorFS'', TSlice TInt), (''Targets'', TString), (''TrustedRootTarget'', TString)]"

definition Repository_DeepCopyInto :: "copy_externals \<Rightarrow> copier" where
  "Repository_DeepCopyInto x = copy_fields [(''Root'', make_into assign), (''MirrorFS'', make_into assign)]"

definition Repository_DeepCopy :: "copy_externals \<Rightarrow> deep_copier" where
  "Repository_DeepCopy x = deep_copy (Repository_DeepCopyInto x)"

definition TransparencyLogInstance_T :: "copy_externals \<Rightarrow> gtype" where
  "TransparencyLogInstance_T x = TStruct [(''BaseURL'', dx_URL_T x), (''HashAlgorithm'', TString), (''PublicKey'', TSlice TInt)]"

definition TransparencyLogInstance_DeepCopyInto :: "copy_externals \<Rightarrow> copier" where
  "TransparencyLogInstance_DeepCopyInto x = copy_fields [(''BaseURL'', dx_URL x), (''PublicKey'', make_into assign)]"

definition TransparencyLogInstance_DeepCopy :: "copy_externals \<Rightarrow> deep_copier" where
  "TransparencyLogInstance_DeepCopy x = deep_copy (TransparencyLogInstance_DeepCopyInto x)"

definition SigstoreKeys_T :: "copy_externals \<Rightarrow> gtype" where
  "SigstoreKeys_T x = TStruct [(''CertificateAuthorities'', TSlice (CertificateAuthority_T x)), (''TLogs'', TSlice (TransparencyLogInstance_T x)),
     (''CTLogs'', TSlice (TransparencyLogInstance_T x)), (''TimeStampAuthorities'', TSlice (CertificateAuthority_T x))]"

definition SigstoreKeys_DeepCopyInto :: "copy_externals \<Rightarrow> copier" where
  "SigstoreKeys_DeepCopyInto x = copy_fields [(''CertificateAuthorities'', make_into (CertificateAuthority_DeepCopyInto x)),
     (''TLogs'', make_into (TransparencyLogInstance_DeepCopyInto x)),
     (''CTLogs'', make_into (TransparencyLogInstance_DeepCopyInto x)),
     (''TimeStampAuthorities'', make_into (CertificateAuthority_DeepCopyInto x))]"

definition SigstoreKeys_DeepCopy :: "copy_externals \<Rightarrow> deep_copier" where
  "SigstoreKeys_DeepCopy x = deep_copy (SigstoreKeys_DeepCopyInto x)"

definition TrustRootSpec_T :: "copy_externals \<Rightarrow> gtype" where
  "TrustRootSpec_T x = TStruct [(''Remote'', TPtr (Remote_T x)), (''Repository'', TPtr (Repository_T x)), (''SigstoreKeys'', TPtr (SigstoreKeys_T x))]"

definition TrustRootSpec_DeepCopyInto :: "copy_externals \<Rightarrow> copier" where
  "TrustRootSpec_DeepCopyInto x = copy_fields [(''Remote'', new_into (Remote_DeepCopyInto x)), (''Repository'', new_into (Repository_DeepCopyInto x)),
     (''SigstoreKeys'', new_into (SigstoreKeys_DeepCopyInto x))]"

definition TrustRootSpec_DeepCopy :: "copy_externals \<Rightarrow> deep_copier" where
  "TrustRootSpec_DeepCopy x = deep_copy (TrustRootSpec_DeepCopyInto x)"

definition TrustRootStatus_T :: "copy_externals \<Rightarrow> gtype" where
  "TrustRootStatus_T x = TStruct [(''Status'', dx_Status_T x)]"

definition TrustRootStatus_DeepCopyInto :: "copy_externals \<Rightarrow> copier" where
  "TrustRootStatus_DeepCopyInto x = copy_fields [(''Status'', dx_Status x)]"

definition TrustRootStatus_DeepCopy :: "copy_externals \<Rightarrow> deep_copier" where
  "TrustRootStatus_DeepCopy x = deep_copy (TrustRootStatus_DeepCopyInto x)"

definition TrustRoot_T :: "copy_externals \<Rightarrow> gtype" where
  "TrustRoot_T x = TStruct [(''TypeMeta'', dx_TypeMeta_T x), (''ObjectMeta'', dx_ObjectMeta_T x), (''Spec'', TrustRootSpec_T x),
     (''Status'', TrustRootStatus_T x)]"

definition TrustRoot_DeepCopyInto :: "copy_externals \<Rightarrow> copier" where
  "TrustRoot_DeepCopyInto x = copy_fields [(''TypeMeta'', assign), (''ObjectMeta'', dx_ObjectMeta x), (''Spec'', TrustRootSpec_DeepCopyInto x),
     (''Status'', TrustRootStatus_DeepCopyInto x)]"

definition TrustRoot_DeepCopy :: "copy_externals \<Rightarrow> deep_copier" where
  "TrustRoot_DeepCopy x = deep_copy (TrustRoot_DeepCopyInto x)"

definition TrustRoot_DeepCopyObject :: "copy_externals \<Rightarrow> deep_copier" where
  "TrustRoot_DeepCopyObject x p h = (case TrustRoot_DeepCopy x p h of (Some c, h') \<Rightarrow> (Some c, h') | (None, h') \<Rightarrow> (None, h'))"

definition TrustRootList_T :: "copy_externals \<Rightarrow> gtype" where
  "TrustRootList_T x = TStruct [(''TypeMeta'', dx_TypeMeta_T x), (''ListMeta'', dx_ListMeta_T x), (''Items'', TSlice (TrustRoot_T x))]"

definition TrustRootList_DeepCopyInto :: "copy_externals \<Rightarrow> copier" where
  "TrustRootList_DeepCopyInto x = copy_fields [(''TypeMeta'', assign), (''ListMeta'', dx_ListMeta x), (''Items'', make_into (TrustRoot_DeepCopyInto x))]"

definition TrustRootList_DeepCopy :: "copy_externals \<Rightarrow> deep_copier" where
  "TrustRootList_DeepCopy x = deep_copy (TrustRootList_DeepCopyInto x)"

definition TrustRootList_DeepCopyObject :: "copy_externals \<Rightarrow> deep_copier" where
  "TrustRootList_DeepCopyObject x p h = (case TrustRootList_DeepCopy x p h of (Some c, h') \<Rightarrow> (Some c, h') | (None, h') \<Rightarrow> (None, h'))"

section \<open>Scalable resources\<close>

definition PodScalableSpec_T :: "copy_externals \<Rightarrow> gtype" where
  "PodScalableSpec_T x = TStruct [(''Replicas'', TPtr TInt), (''Selector'', TPtr (dx_LabelSelector_T x)), (''Template'', dx_PodTemplateSpec_T x)]"

definition PodScalableSpec_DeepCopyInto :: "copy_externals \<Rightarrow> copier" where
  "PodScalableSpec_DeepCopyInto x = copy_fields [(''Replicas'', new_into assign), (''Selector'', new_into (dx_LabelSelector x)), (''Template'', dx_PodTemplateSpec x)]"

definition PodScalableSpec_DeepCopy :: "copy_externals \<Rightarrow> deep_copier" where
  "PodScalableSpec_DeepCopy x = deep_copy (PodScalableSpec_DeepCopyInto x)"

definition PodScalableStatus_T :: "copy_externals \<Rightarrow> gtype" where
  "PodScalableStatus_T x = TStruct [(''Replicas'', TInt)]"

definition PodScalableStatus_DeepCopyInto :: "copy_externals \<Rightarrow> copier" where
  "PodScalableStatus_DeepCopyInto x = copy_fields []"

definition PodScalableStatus_DeepCopy :: "copy_externals \<Rightarrow> deep_copier" where
  "PodScalableStatus_DeepCopy x = deep_copy (PodScalableStatus_DeepCopyInto x)"

definition PodScalable_T :: "copy_externals \<Rightarrow> gtype" where
  "PodScalable_T x = TStruct [(''TypeMeta'', dx_TypeMeta_T x), (''ObjectMeta'', dx_ObjectMeta_T x), (''Spec'', PodScalableSpec_T x),
     (''Status'', PodScalableStatus_T x)]"

definition PodScalable_DeepCopyInto :: "copy_externals \<Rightarrow> copier" where
  "PodScalable_DeepCopyInto x = copy_fields [(''TypeMeta'', assign), (''ObjectMeta'', dx_ObjectMeta x), (''Spec'', PodScalableSpec_DeepCopyInto x),
     (''Status'', assign)]"

definition PodScalable_DeepCopy :: "copy_externals \<Rightarrow> deep_copier" where
  "PodScalable_DeepCopy x = deep_copy (PodScalable_DeepCopyInto x)"

definition PodScalable_DeepCopyObject :: "copy_externals \<Rightarrow> deep_copier" where
  "PodScalable_DeepCopyObject x p h = (case PodScalable_DeepCopy x p h of (Some c, h') \<Rightarrow> (Some c, h') | (None, h') \<Rightarrow> (None, h'))"

definition PodScalableList_T :: "copy_externals \<Rightarrow> gtype" where
  "PodScalableList_T x = TStruct [(''TypeMeta'', dx_TypeMeta_T x), (''ListMeta'', dx_ListMeta_T x), (''Items'', TSlice (PodScalable_T x))]"

definition PodScalableList_DeepCopyInto :: "copy_externals \<Rightarrow> copier" where
  "PodScalableList_DeepCopyInto x = copy_fields [(''TypeMeta'', assign), (''ListMeta'', dx_ListMeta x), (''Items'', make_into (PodScalable_DeepCopyInto x))]"

definition PodScalableList_DeepCopy :: "copy_externals \<Rightarrow> deep_copier" where
  "PodScalableList_DeepCopy x = deep_copy (PodScalableList_DeepCopyInto x)"

definition PodScalableList_DeepCopyObject :: "copy_externals \<Rightarrow> deep_copier" where
  "PodScalableList_DeepCopyObject x p h = (case PodScalableList_DeepCopy x p h of (Some c, h') \<Rightarrow> (Some c, h') | (None, h') \<Rightarrow> (None, h'))"

section \<open>Every copy is correct\<close>

text \<open>What the other packages promise: their deep copies are correct, and the structs that are assigned hold no pointers.\<close>

locale deep_copy_laws =
  fixes x :: copy_externals
  assumes URL_copies [copy_rules]: "copies (dx_URL_T x) (dx_URL x)"
    and ObjectMeta_copies [copy_rules]: "copies (dx_ObjectMeta_T x) (dx_ObjectMeta x)"
    and ListMeta_copies [copy_rules]: "copies (dx_ListMeta_T x) (dx_ListMeta x)"
    and Status_copies [copy_rules]: "copies (dx_Status_T x) (dx_Status x)"
    and LabelSelector_copies [copy_rules]: "copies (dx_LabelSelector_T x) (dx_LabelSelector x)"
    and PodTemplateSpec_copies [copy_rules]: "copies (dx_PodTemplateSpec_T x) (dx_PodTemplateSpec x)"
    and data_structs [copy_rules]: "plain (dx_TypeMeta_T x)" "plain (dx_SecretReference_T x)" "plain (dx_LocalObjectReference_T x)"
      "plain (dx_GroupVersionResource_T x)"
begin

lemma ConfigMapReference_plain [copy_rules]: "plain (ConfigMapReference_T x)"
  by (simp add: ConfigMapReference_T_def copy_rules)

lemma ConfigMapReference_copies [copy_rules]: "copies (ConfigMapReference_T x) (ConfigMapReference_DeepCopyInto x)"
  unfolding ConfigMapReference_T_def ConfigMapReference_DeepCopyInto_def by (rule copies_struct) (simp_all add: copy_rules)

lemma RemotePolicy_copies [copy_rules]: "copies (RemotePolicy_T x) (RemotePolicy_DeepCopyInto x)"
  unfolding RemotePolicy_T_def RemotePolicy_DeepCopyInto_def by (rule copies_struct) (simp_all add: copy_rules)

lemma Policy_copies [copy_rules]: "copies (Policy_T x) (Policy_DeepCopyInto x)"
  unfolding Policy_T_def Policy_DeepCopyInto_def by (rule copies_struct) (simp_all add: copy_rules)

lemma Attestation_copies [copy_rules]: "copies (Attestation_T x) (Attestation_DeepCopyInto x)"
  unfolding Attestation_T_def Attestation_DeepCopyInto_def by (rule copies_struct) (simp_all add: copy_rules)

lemma GMSignerRef_plain [copy_rules]: "plain (GMSignerRef_T x)"
  by (simp add: GMSignerRef_T_def copy_rules)

lemma GMSignerRef_copies [copy_rules]: "copies (GMSignerRef_T x) (GMSignerRef_DeepCopyInto x)"
  unfolding GMSignerRef_T_def GMSignerRef_DeepCopyInto_def by (rule copies_struct) (simp_all add: copy_rules)

lemma GMSignatureRef_plain [copy_rules]: "plain (GMSignatureRef_T x)"
  by (simp add: GMSignatureRef_T_def copy_rules)

lemma GMSignatureRef_copies [copy_rules]: "copies (GMSignatureRef_T x) (GMSignatureRef_DeepCopyInto x)"
  unfolding GMSignatureRef_T_def GMSignatureRef_DeepCopyInto_def by (rule copies_struct) (simp_all add: copy_rules)

lemma KeyRef_copies [copy_rules]: "copies (KeyRef_T x) (KeyRef_DeepCopyInto x)"
  unfolding KeyRef_T_def KeyRef_DeepCopyInto_def by (rule copies_struct) (simp_all add: copy_rules)

lemma Identity_plain [copy_rules]: "plain (Identity_T x)"
  by (simp add: Identity_T_def copy_rules)

lemma Identity_copies [copy_rules]: "copies (Identity_T x) (Identity_DeepCopyInto x)"
  unfolding Identity_T_def Identity_DeepCopyInto_def by (rule copies_struct) (simp_all add: copy_rules)

lemma KeylessRef_copies [copy_rules]: "copies (KeylessRef_T x) (KeylessRef_DeepCopyInto x)"
  unfolding KeylessRef_T_def KeylessRef_DeepCopyInto_def by (rule copies_struct) (simp_all add: copy_rules)

lemma RFC3161Timestamp_plain [copy_rules]: "plain (RFC3161Timestamp_T x)"
  by (simp add: RFC3161Timestamp_T_def copy_rules)

lemma RFC3161Timestamp_copies [copy_rules]: "copies (RFC3161Timestamp_T x) (RFC3161Timestamp_DeepCopyInto x)"
  unfolding RFC3161Timestamp_T_def RFC3161Timestamp_DeepCopyInto_def by (rule copies_struct) (simp_all add: copy_rules)

lemma Source_copies [copy_rules]: "copies (Source_T x) (Source_DeepCopyInto x)"
  unfolding Source_T_def Source_DeepCopyInto_def by (rule copies_struct) (simp_all add: copy_rules)

lemma StaticRef_plain [copy_rules]: "plain (StaticRef_T x)"
  by (simp add: StaticRef_T_def copy_rules)

lemma StaticRef_copies [copy_rules]: "copies (StaticRef_T x) (StaticRef_DeepCopyInto x)"
  unfolding StaticRef_T_def StaticRef_DeepCopyInto_def by (rule copies_struct) (simp_all add: copy_rules)

lemma TLog_copies [copy_rules]: "copies (TLog_T x) (TLog_DeepCopyInto x)"
  unfolding TLog_T_def TLog_DeepCopyInto_def by (rule copies_struct) (simp_all add: copy_rules)

lemma Authority_copies [copy_rules]: "copies (Authority_T x) (Authority_DeepCopyInto x)"
  unfolding Authority_T_def Authority_DeepCopyInto_def by (rule copies_struct) (simp_all add: copy_rules)

lemma DistinguishedName_plain [copy_rules]: "plain (DistinguishedName_T x)"
  by (simp add: DistinguishedName_T_def copy_rules)

lemma DistinguishedName_copies [copy_rules]: "copies (DistinguishedName_T x) (DistinguishedName_DeepCopyInto x)"
  unfolding DistinguishedName_T_def DistinguishedName_DeepCopyInto_def by (rule copies_struct) (simp_all add: copy_rules)

lemma CertificateAuthority_copies [copy_rules]: "copies (CertificateAuthority_T x) (CertificateAuthority_DeepCopyInto x)"
  unfolding CertificateAuthority_T_def CertificateAuthority_DeepCopyInto_def by (rule copies_struct) (simp_all add: copy_rules)

lemma ImagePattern_plain [copy_rules]: "plain (ImagePattern_T x)"
  by (simp add: ImagePattern_T_def copy_rules)

lemma ImagePattern_copies [copy_rules]: "copies (ImagePattern_T x) (ImagePattern_DeepCopyInto x)"
  unfolding ImagePattern_T_def ImagePattern_DeepCopyInto_def by (rule copies_struct) (simp_all add: copy_rules)

lemma MatchResource_copies [copy_rules]: "copies (MatchResource_T x) (MatchResource_DeepCopyInto x)"
  unfolding MatchResource_T_def MatchResource_DeepCopyInto_def by (rule copies_struct) (simp_all add: copy_rules)

lemma ClusterImagePolicySpec_copies [copy_rules]: "copies (ClusterImagePolicySpec_T x) (ClusterImagePolicySpec_DeepCopyInto x)"
  unfolding ClusterImagePolicySpec_T_def ClusterImagePolicySpec_DeepCopyInto_def by (rule copies_struct) (simp_all add: copy_rules)

lemma ClusterImagePolicyStatus_copies [copy_rules]: "copies (ClusterImagePolicyStatus_T x) (ClusterImagePolicyStatus_DeepCopyInto x)"
  unfolding ClusterImagePolicyStatus_T_def ClusterImagePolicyStatus_DeepCopyInto_def by (rule copies_struct) (simp_all add: copy_rules)

lemma ClusterImagePolicy_copies [copy_rules]: "copies (ClusterImagePolicy_T x) (ClusterImagePolicy_DeepCopyInto x)"
  unfolding ClusterImagePolicy_T_def ClusterImagePolicy_DeepCopyInto_def by (rule copies_struct) (simp_all add: copy_rules)

lemma ClusterImagePolicyList_copies [copy_rules]: "copies (ClusterImagePolicyList_T x) (ClusterImagePolicyList_DeepCopyInto x)"
  unfolding ClusterImagePolicyList_T_def ClusterImagePolicyList_DeepCopyInto_def by (rule copies_struct) (simp_all add: copy_rules)

lemma Remote_copies [copy_rules]: "copies (Remote_T x) (Remote_DeepCopyInto x)"
  unfolding Remote_T_def Remote_DeepCopyInto_def by (rule copies_struct) (simp_all add: copy_rules)

lemma Repository_copies [copy_rules]: "copies (Repository_T x) (Repository_DeepCopyInto x)"
  unfolding Repository_T_def Repository_DeepCopyInto_def by (rule copies_struct) (simp_all add: copy_rules)

lemma TransparencyLogInstance_copies [copy_rules]: "copies (TransparencyLogInstance_T x) (TransparencyLogInstance_DeepCopyInto x)"
  unfolding TransparencyLogInstance_T_def TransparencyLogInstance_DeepCopyInto_def by (rule copies_struct) (simp_all add: copy_rules)

lemma SigstoreKeys_copies [copy_rules]: "copies (SigstoreKeys_T x) (SigstoreKeys_DeepCopyInto x)"
  unfolding SigstoreKeys_T_def SigstoreKeys_DeepCopyInto_def by (rule copies_struct) (simp_all add: copy_rules)

lemma TrustRootSpec_copies [copy_rules]: "copies (TrustRootSpec_T x) (TrustRootSpec_DeepCopyInto x)"
  unfolding TrustRootSpec_T_def TrustRootSpec_DeepCopyInto_def by (rule copies_struct) (simp_all add: copy_rules)

lemma TrustRootStatus_copies [copy_rules]: "copies (TrustRootStatus_T x) (TrustRootStatus_DeepCopyInto x)"
  unfolding TrustRootStatus_T_def TrustRootStatus_DeepCopyInto_def by (rule copies_struct) (simp_all add: copy_rules)

lemma TrustRoot_copies [copy_rules]: "copies (TrustRoot_T x) (TrustRoot_DeepCopyInto x)"
  unfolding TrustRoot_T_def TrustRoot_DeepCopyInto_def by (rule copies_struct) (simp_all add: copy_rules)

lemma TrustRootList_copies [copy_rules]: "copies (TrustRootList_T x) (TrustRootList_DeepCopyInto x)"
  unfolding TrustRootList_T_def TrustRootList_DeepCopyInto_def by (rule copies_struct) (simp_all add: copy_rules)

lemma PodScalableSpec_copies [copy_rules]: "copies (PodScalableSpec_T x) (PodScalableSpec_DeepCopyInto x)"
  unfolding PodScalableSpec_T_def PodScalableSpec_DeepCopyInto_def by (rule copies_struct) (simp_all add: copy_rules)

lemma PodScalableStatus_plain [copy_rules]: "plain (PodScalableStatus_T x)"
  by (simp add: PodScalableStatus_T_def copy_rules)

lemma PodScalableStatus_copies [copy_rules]: "copies (PodScalableStatus_T x) (PodScalableStatus_DeepCopyInto x)"
  unfolding PodScalableStatus_T_def PodScalableStatus_DeepCopyInto_def by (rule copies_struct) (simp_all add: copy_rules)

lemma PodScalable_copies [copy_rules]: "copies (PodScalable_T x) (PodScalable_DeepCopyInto x)"
  unfolding PodScalable_T_def PodScalable_DeepCopyInto_def by (rule copies_struct) (simp_all add: copy_rules)

lemma PodScalableList_copies [copy_rules]: "copies (PodScalableList_T x) (PodScalableList_DeepCopyInto x)"
  unfolding PodScalableList_T_def PodScalableList_DeepCopyInto_def by (rule copies_struct) (simp_all add: copy_rules)

end

end
