(* ===== verification/DeepCopiesBeta.thy ===== *)
theory DeepCopiesBeta
  imports DeepCopies
begin

text \<open>
  The generated deep copies \<open>pkg/apis/policy/v1beta1/zz_generated.deepcopy.go\<close>, and what holds for the copies of all resources.
\<close>

section \<open>Policies of version v1beta1\<close>

definition B_ConfigMapReference_T :: "copy_externals \<Rightarrow> gtype" where
  "B_ConfigMapReference_T x = TStruct [(''Name'', TString), (''Namespace'', TString), (''Key'', TString)]"

definition B_ConfigMapReference_DeepCopyInto :: "copy_externals \<Rightarrow> copier" where
  "B_ConfigMapReference_DeepCopyInto x = copy_fields []"

definition B_ConfigMapReference_DeepCopy :: "copy_externals \<Rightarrow> deep_copier" where
  "B_ConfigMapReference_DeepCopy x = deep_copy (B_ConfigMapReference_DeepCopyInto x)"

definition B_RemotePolicy_T :: "copy_externals \<Rightarrow> gtype" where
  "B_RemotePolicy_T x = TStruct [(''URL'', dx_URL_T x), (''Sha256sum'', TString)]"

definition B_RemotePolicy_DeepCopyInto :: "copy_externals \<Rightarrow> copier" where
  "B_RemotePolicy_DeepCopyInto x = copy_fields [(''URL'', dx_URL x)]"

definition B_RemotePolicy_DeepCopy :: "copy_externals \<Rightarrow> deep_copier" where
  "B_RemotePolicy_DeepCopy x = deep_copy (B_RemotePolicy_DeepCopyInto x)"

definition B_Policy_T :: "copy_externals \<Rightarrow> gtype" where
  "B_Policy_T x = TStruct [(''Type'', TString), (''Data'', TString), (''Remote'', TPtr (B_RemotePolicy_T x)),
     (''ConfigMapRef'', TPtr (B_ConfigMapReference_T x)), (''FetchConfigFile'', TPtr TBool), (''IncludeSpec'', TPtr TBool),
     (''IncludeObjectMeta'', TPtr TBool), (''IncludeTypeMeta'', TPtr TBool)]"

definition B_Policy_DeepCopyInto :: "copy_externals \<Rightarrow> copier" where
  "B_Policy_DeepCopyInto x = copy_fields [(''Remote'', new_into (B_RemotePolicy_DeepCopyInto x)), (''ConfigMapRef'', new_into assign),
     (''FetchConfigFile'', new_into assign), (''IncludeSpec'', new_into assign), (''IncludeObjectMeta'', new_into assign),
     (''IncludeTypeMeta'', new_into assign)]"

definition B_Policy_DeepCopy :: "copy_externals \<Rightarrow> deep_copier" where
  "B_Policy_DeepCopy x = deep_copy (B_Policy_DeepCopyInto x)"

definition B_Attestation_T :: "copy_externals \<Rightarrow> gtype" where
  "B_Attestation_T x = TStruct [(''Name'', TString), (''PredicateType'', TString), (''Policy'', TPtr (B_Policy_T x))]"

definition B_Attestation_DeepCopyInto :: "copy_externals \<Rightarrow> copier" where
  "B_Attestation_DeepCopyInto x = copy_fields [(''Policy'', new_into (B_Policy_DeepCopyInto x))]"

definition B_Attestation_DeepCopy :: "copy_externals \<Rightarrow> deep_copier" where
  "B_Attestation_DeepCopy x = deep_copy (B_Attestation_DeepCopyInto x)"

definition B_GMSignerRef_T :: "copy_externals \<Rightarrow> gtype" where
  "B_GMSignerRef_T x = TStruct [(''AppID'', TString), (''NodeID'', TString), (''UserID'', TString)]"

definition B_GMSignerRef_DeepCopyInto :: "copy_externals \<Rightarrow> copier" where
  "B_GMSignerRef_DeepCopyInto x = copy_fields []"

definition B_GMSignerRef_DeepCopy :: "copy_externals \<Rightarrow> deep_copier" where
  "B_GMSignerRef_DeepCopy x = deep_copy (B_GMSignerRef_DeepCopyInto x)"

definition B_GMSignatureRef_T :: "copy_externals \<Rightarrow> gtype" where
  "B_GMSignatureRef_T x = TStruct [(''VerifyURL'', TString), (''TenantID'', TString), (''Signer'', B_GMSignerRef_T x), (''RequestTimeoutMs'', TInt)]"

definition B_GMSignatureRef_DeepCopyInto :: "copy_externals \<Rightarrow> copier" where
  "B_GMSignatureRef_DeepCopyInto x = copy_fields [(''Signer'', assign)]"

definition B_GMSignatureRef_DeepCopy :: "copy_externals \<Rightarrow> deep_copier" where
  "B_GMSignatureRef_DeepCopy x = deep_copy (B_GMSignatureRef_DeepCopyInto x)"

definition B_KeyRef_T :: "copy_externals \<Rightarrow> gtype" where
  "B_KeyRef_T x = TStruct [(''SecretRef'', TPtr (dx_SecretReference_T x)), (''Data'', TString), (''KMS'', TString), (''HashAlgorithm'', TString)]"

definition B_KeyRef_DeepCopyInto :: "copy_externals \<Rightarrow> copier" where
  "B_KeyRef_DeepCopyInto x = copy_fields [(''SecretRef'', new_into assign)]"

definition B_KeyRef_DeepCopy :: "copy_externals \<Rightarrow> deep_copier" where
  "B_KeyRef_DeepCopy x = deep_copy (B_KeyRef_DeepCopyInto x)"

definition B_Identity_T :: "copy_externals \<Rightarrow> gtype" where
  "B_Identity_T x = TStruct [(''Issuer'', TString), (''Subject'', TString), (''IssuerRegExp'', TString), (''SubjectRegExp'', TString)]"

definition B_Identity_DeepCopyInto :: "copy_externals \<Rightarrow> copier" where
  "B_Identity_DeepCopyInto x = copy_fields []"

definition B_Identity_DeepCopy :: "copy_externals \<Rightarrow> deep_copier" where
  "B_Identity_DeepCopy x = deep_copy (B_Identity_DeepCopyInto x)"

definition B_KeylessRef_T :: "copy_externals \<Rightarrow> gtype" where
  "B_KeylessRef_T x = TStruct [(''URL'', TPtr (dx_URL_T x)), (''Identities'', TSlice (B_Identity_T x)), (''CACert'', TPtr (B_KeyRef_T x)),
     (''TrustRootRef'', TString), (''InsecureIgnoreSCT'', TPtr TBool)]"

definition B_KeylessRef_DeepCopyInto :: "copy_externals \<Rightarrow> copier" where
  "B_KeylessRef_DeepCopyInto x = copy_fields [(''URL'', new_into (dx_URL x)), (''Identities'', make_into assign), (''CACert'', new_into (B_KeyRef_DeepCopyInto x)),
     (''InsecureIgnoreSCT'', new_into assign)]"

definition B_KeylessRef_DeepCopy :: "copy_externals \<Rightarrow> deep_copier" where
  "B_KeylessRef_DeepCopy x = deep_copy (B_KeylessRef_DeepCopyInto x)"

definition B_RFC3161Timestamp_T :: "copy_externals \<Rightarrow> gtype" where
  "B_RFC3161Timestamp_T x = TStruct [(''TrustRootRef'', TString)]"

definition B_RFC3161Timestamp_DeepCopyInto :: "copy_externals \<Rightarrow> copier" where
  "B_RFC3161Timestamp_DeepCopyInto x = copy_fields []"

definition B_RFC3161Timestamp_DeepCopy :: "copy_externals \<Rightarrow> deep_copier" where
  "B_RFC3161Timestamp_DeepCopy x = deep_copy (B_RFC3161Timestamp_DeepCopyInto x)"

definition B_Source_T :: "copy_externals \<Rightarrow> gtype" where
  "B_Source_T x = TStruct [(''OCI'', TString), (''SignaturePullSecrets'', TSlice (dx_LocalObjectReference_T x)), (''TagPrefix'', TPtr TString)]"

definition B_Source_DeepCopyInto :: "copy_externals \<Rightarrow> copier" where
  "B_Source_DeepCopyInto x = copy_fields [(''SignaturePullSecrets'', make_into assign), (''TagPrefix'', new_into assign)]"

definition B_Source_DeepCopy :: "copy_externals \<Rightarrow> deep_copier" where
  "B_Source_DeepCopy x = deep_copy (B_Source_DeepCopyInto x)"

definition B_StaticRef_T :: "copy_externals \<Rightarrow> gtype" where
  "B_StaticRef_T x = TStruct [(''Action'', TString), (''Message'', TString)]"

definition B_StaticRef_DeepCopyInto :: "copy_externals \<Rightarrow> copier" where
  "B_StaticRef_DeepCopyInto x = copy_fields []"

definition B_StaticRef_DeepCopy :: "copy_externals \<Rightarrow> deep_copier" where
  "B_StaticRef_DeepCopy x = deep_copy (B_StaticRef_DeepCopyInto x)"

definition B_TLog_T :: "copy_externals \<Rightarrow> gtype" where
  "B_TLog_T x = TStruct [(''URL'', TPtr (dx_URL_T x)), (''TrustRootRef'', TString)]"

definition B_TLog_DeepCopyInto :: "copy_externals \<Rightarrow> copier" where
  "B_TLog_DeepCopyInto x = copy_fields [(''URL'', new_into (dx_URL x))]"

definition B_TLog_DeepCopy :: "copy_externals \<Rightarrow> deep_copier" where
  "B_TLog_DeepCopy x = deep_copy (B_TLog_DeepCopyInto x)"

definition B_Authority_T :: "copy_externals \<Rightarrow> gtype" where
  "B_Authority_T x = TStruct [(''Name'', TString), (''Key'', TPtr (B_KeyRef_T x)), (''Keyless'', TPtr (B_KeylessRef_T x)),
     (''Static'', TPtr (B_StaticRef_T x)), (''Sources'', TSlice (B_Source_T x)), (''CTLog'', TPtr (B_TLog_T x)),
     (''Attestations'', TSlice (B_Attestation_T x)), (''RFC3161Timestamp'', TPtr (B_RFC3161Timestamp_T x)),
     (''GMSignature'', TPtr (B_GMSignatureRef_T x)), (''SignatureFormat'', TString)]"

definition B_Authority_DeepCopyInto :: "copy_externals \<Rightarrow> copier" where
  "B_Authority_DeepCopyInto x = copy_fields [(''Key'', new_into (B_KeyRef_DeepCopyInto x)), (''Keyless'', new_into (B_KeylessRef_DeepCopyInto x)),
     (''Static'', new_into assign), (''Sources'', make_into (B_Source_DeepCopyInto x)),
     (''CTLog'', new_into (B_TLog_DeepCopyInto x)), (''Attestations'', make_into (B_Attestation_DeepCopyInto x)),
     (''RFC3161Timestamp'', new_into assign), (''GMSignature'', new_into assign)]"

definition B_Authority_DeepCopy :: "copy_externals \<Rightarrow> deep_copier" where
  "B_Authority_DeepCopy x = deep_copy (B_Authority_DeepCopyInto x)"

definition B_ImagePattern_T :: "copy_externals \<Rightarrow> gtype" where
  "B_ImagePattern_T x = TStruct [(''Glob'', TString)]"

definition B_ImagePattern_DeepCopyInto :: "copy_externals \<Rightarrow> copier" where
  "B_ImagePattern_DeepCopyInto x = copy_fields []"

definition B_ImagePattern_DeepCopy :: "copy_externals \<Rightarrow> deep_copier" where
  "B_ImagePattern_DeepCopy x = deep_copy (B_ImagePattern_DeepCopyInto x)"

definition B_MatchResource_T :: "copy_externals \<Rightarrow> gtype" where
  "B_MatchResource_T x = TStruct [(''GroupVersionResource'', dx_GroupVersionResource_T x), (''ResourceSelector'', TPtr (dx_LabelSelector_T x))]"

definition B_MatchResource_DeepCopyInto :: "copy_externals \<Rightarrow> copier" where
  "B_MatchResource_DeepCopyInto x = copy_fields [(''GroupVersionResource'', assign), (''ResourceSelector'', new_into (dx_LabelSelector x))]"

definition B_MatchResource_DeepCopy :: "copy_externals \<Rightarrow> deep_copier" where
  "B_MatchResource_DeepCopy x = deep_copy (B_MatchResource_DeepCopyInto x)"

definition B_ClusterImagePolicySpec_T :: "copy_externals \<Rightarrow> gtype" where
  "B_ClusterImagePolicySpec_T x = TStruct [(''Images'', TSlice (B_ImagePattern_T x)), (''Authorities'', TSlice (B_Authority_T x)),
     (''Policy'', TPtr (B_Policy_T x)), (''Mode'', TString), (''Match'', TSlice (B_MatchResource_T x))]"

definition B_ClusterImagePolicySpec_DeepCopyInto :: "copy_externals \<Rightarrow> copier" where
  "B_ClusterImagePolicySpec_DeepCopyInto x = copy_fields [(''Images'', make_into assign), (''Authorities'', make_into (B_Authority_DeepCopyInto x)),
     (''Policy'', new_into (B_Policy_DeepCopyInto x)), (''Match'', make_into (B_MatchResource_DeepCopyInto x))]"

definition B_ClusterImagePolicySpec_DeepCopy :: "copy_externals \<Rightarrow> deep_copier" where
  "B_ClusterImagePolicySpec_DeepCopy x = deep_copy (B_ClusterImagePolicySpec_DeepCopyInto x)"

definition B_ClusterImagePolicyStatus_T :: "copy_externals \<Rightarrow> gtype" where
  "B_ClusterImagePolicyStatus_T x = TStruct [(''Status'', dx_Status_T x)]"

definition B_ClusterImagePolicyStatus_DeepCopyInto :: "copy_externals \<Rightarrow> copier" where
  "B_ClusterImagePolicyStatus_DeepCopyInto x = copy_fields [(''Status'', dx_Status x)]"

definition B_ClusterImagePolicyStatus_DeepCopy :: "copy_externals \<Rightarrow> deep_copier" where
  "B_ClusterImagePolicyStatus_DeepCopy x = deep_copy (B_ClusterImagePolicyStatus_DeepCopyInto x)"

definition B_ClusterImagePolicy_T :: "copy_externals \<Rightarrow> gtype" where
  "B_ClusterImagePolicy_T x = TStruct [(''TypeMeta'', dx_TypeMeta_T x), (''ObjectMeta'', dx_ObjectMeta_T x), (''Spec'', B_ClusterImagePolicySpec_T x),
     (''Status'', B_ClusterImagePolicyStatus_T x)]"

definition B_ClusterImagePolicy_DeepCopyInto :: "copy_externals \<Rightarrow> copier" where
  "B_ClusterImagePolicy_DeepCopyInto x = copy_fields [(''TypeMeta'', assign), (''ObjectMeta'', dx_ObjectMeta x), (''Spec'', B_ClusterImagePolicySpec_DeepCopyInto x),
     (''Status'', B_ClusterImagePolicyStatus_DeepCopyInto x)]"

definition B_ClusterImagePolicy_DeepCopy :: "copy_externals \<Rightarrow> deep_copier" where
  "B_ClusterImagePolicy_DeepCopy x = deep_copy (B_ClusterImagePolicy_DeepCopyInto x)"

definition B_ClusterImagePolicy_DeepCopyObject :: "copy_externals \<Rightarrow> deep_copier" where
  "B_ClusterImagePolicy_DeepCopyObject x p h = (case B_ClusterImagePolicy_DeepCopy x p h of (Some c, h') \<Rightarrow> (Some c, h') | (None, h') \<Rightarrow> (None, h'))"

definition B_ClusterImagePolicyList_T :: "copy_externals \<Rightarrow> gtype" where
  "B_ClusterImagePolicyList_T x = TStruct [(''TypeMeta'', dx_TypeMeta_T x), (''ListMeta'', dx_ListMeta_T x), (''Items'', TSlice (B_ClusterImagePolicy_T x))]"

definition B_ClusterImagePolicyList_DeepCopyInto :: "copy_externals \<Rightarrow> copier" where
  "B_ClusterImagePolicyList_DeepCopyInto x = copy_fields [(''TypeMeta'', assign), (''ListMeta'', dx_ListMeta x), (''Items'', make_into (B_ClusterImagePolicy_DeepCopyInto x))]"

definition B_ClusterImagePolicyList_DeepCopy :: "copy_externals \<Rightarrow> deep_copier" where
  "B_ClusterImagePolicyList_DeepCopy x = deep_copy (B_ClusterImagePolicyList_DeepCopyInto x)"

definition B_ClusterImagePolicyList_DeepCopyObject :: "copy_externals \<Rightarrow> deep_copier" where
  "B_ClusterImagePolicyList_DeepCopyObject x p h = (case B_ClusterImagePolicyList_DeepCopy x p h of (Some c, h') \<Rightarrow> (Some c, h') | (None, h') \<Rightarrow> (None, h'))"

context deep_copy_laws
begin

lemma B_ConfigMapReference_plain [copy_rules]: "plain (B_ConfigMapReference_T x)"
  by (simp add: B_ConfigMapReference_T_def copy_rules)

lemma B_ConfigMapReference_copies [copy_rules]: "copies (B_ConfigMapReference_T x) (B_ConfigMapReference_DeepCopyInto x)"
  unfolding B_ConfigMapReference_T_def B_ConfigMapReference_DeepCopyInto_def by (rule copies_struct) (simp_all add: copy_rules)

lemma B_RemotePolicy_copies [copy_rules]: "copies (B_RemotePolicy_T x) (B_RemotePolicy_DeepCopyInto x)"
  unfolding B_RemotePolicy_T_def B_RemotePolicy_DeepCopyInto_def by (rule copies_struct) (simp_all add: copy_rules)

lemma B_Policy_copies [copy_rules]: "copies (B_Policy_T x) (B_Policy_DeepCopyInto x)"
  unfolding B_Policy_T_def B_Policy_DeepCopyInto_def by (rule copies_struct) (simp_all add: copy_rules)

lemma B_Attestation_copies [copy_rules]: "copies (B_Attestation_T x) (B_Attestation_DeepCopyInto x)"
  unfolding B_Attestation_T_def B_Attestation_DeepCopyInto_def by (rule copies_struct) (simp_all add: copy_rules)

lemma B_GMSignerRef_plain [copy_rules]: "plain (B_GMSignerRef_T x)"
  by (simp add: B_GMSignerRef_T_def copy_rules)

lemma B_GMSignerRef_copies [copy_rules]: "copies (B_GMSignerRef_T x) (B_GMSignerRef_DeepCopyInto x)"
  unfolding B_GMSignerRef_T_def B_GMSignerRef_DeepCopyInto_def by (rule copies_struct) (simp_all add: copy_rules)

lemma B_GMSignatureRef_plain [copy_rules]: "plain (B_GMSignatureRef_T x)"
  by (simp add: B_GMSignatureRef_T_def copy_rules)

lemma B_GMSignatureRef_copies [copy_rules]: "copies (B_GMSignatureRef_T x) (B_GMSignatureRef_DeepCopyInto x)"
  unfolding B_GMSignatureRef_T_def B_GMSignatureRef_DeepCopyInto_def by (rule copies_struct) (simp_all add: copy_rules)

lemma B_KeyRef_copies [copy_rules]: "copies (B_KeyRef_T x) (B_KeyRef_DeepCopyInto x)"
  unfolding B_KeyRef_T_def B_KeyRef_DeepCopyInto_def by (rule copies_struct) (simp_all add: copy_rules)

lemma B_Identity_plain [copy_rules]: "plain (B_Identity_T x)"
  by (simp add: B_Identity_T_def copy_rules)

lemma B_Identity_copies [copy_rules]: "copies (B_Identity_T x) (B_Identity_DeepCopyInto x)"
  unfolding B_Identity_T_def B_Identity_DeepCopyInto_def by (rule copies_struct) (simp_all add: copy_rules)

lemma B_KeylessRef_copies [copy_rules]: "copies (B_KeylessRef_T x) (B_KeylessRef_DeepCopyInto x)"
  unfolding B_KeylessRef_T_def B_KeylessRef_DeepCopyInto_def by (rule copies_struct) (simp_all add: copy_rules)

lemma B_RFC3161Timestamp_plain [copy_rules]: "plain (B_RFC3161Timestamp_T x)"
  by (simp add: B_RFC3161Timestamp_T_def copy_rules)

lemma B_RFC3161Timestamp_copies [copy_rules]: "copies (B_RFC3161Timestamp_T x) (B_RFC3161Timestamp_DeepCopyInto x)"
  unfolding B_RFC3161Timestamp_T_def B_RFC3161Timestamp_DeepCopyInto_def by (rule copies_struct) (simp_all add: copy_rules)

lemma B_Source_copies [copy_rules]: "copies (B_Source_T x) (B_Source_DeepCopyInto x)"
  unfolding B_Source_T_def B_Source_DeepCopyInto_def by (rule copies_struct) (simp_all add: copy_rules)

lemma B_StaticRef_plain [copy_rules]: "plain (B_StaticRef_T x)"
  by (simp add: B_StaticRef_T_def copy_rules)

lemma B_StaticRef_copies [copy_rules]: "copies (B_StaticRef_T x) (B_StaticRef_DeepCopyInto x)"
  unfolding B_StaticRef_T_def B_StaticRef_DeepCopyInto_def by (rule copies_struct) (simp_all add: copy_rules)

lemma B_TLog_copies [copy_rules]: "copies (B_TLog_T x) (B_TLog_DeepCopyInto x)"
  unfolding B_TLog_T_def B_TLog_DeepCopyInto_def by (rule copies_struct) (simp_all add: copy_rules)

lemma B_Authority_copies [copy_rules]: "copies (B_Authority_T x) (B_Authority_DeepCopyInto x)"
  unfolding B_Authority_T_def B_Authority_DeepCopyInto_def by (rule copies_struct) (simp_all add: copy_rules)

lemma B_ImagePattern_plain [copy_rules]: "plain (B_ImagePattern_T x)"
  by (simp add: B_ImagePattern_T_def copy_rules)

lemma B_ImagePattern_copies [copy_rules]: "copies (B_ImagePattern_T x) (B_ImagePattern_DeepCopyInto x)"
  unfolding B_ImagePattern_T_def B_ImagePattern_DeepCopyInto_def by (rule copies_struct) (simp_all add: copy_rules)

lemma B_MatchResource_copies [copy_rules]: "copies (B_MatchResource_T x) (B_MatchResource_DeepCopyInto x)"
  unfolding B_MatchResource_T_def B_MatchResource_DeepCopyInto_def by (rule copies_struct) (simp_all add: copy_rules)

lemma B_ClusterImagePolicySpec_copies [copy_rules]: "copies (B_ClusterImagePolicySpec_T x) (B_ClusterImagePolicySpec_DeepCopyInto x)"
  unfolding B_ClusterImagePolicySpec_T_def B_ClusterImagePolicySpec_DeepCopyInto_def by (rule copies_struct) (simp_all add: copy_rules)

lemma B_ClusterImagePolicyStatus_copies [copy_rules]: "copies (B_ClusterImagePolicyStatus_T x) (B_ClusterImagePolicyStatus_DeepCopyInto x)"
  unfolding B_ClusterImagePolicyStatus_T_def B_ClusterImagePolicyStatus_DeepCopyInto_def by (rule copies_struct) (simp_all add: copy_rules)

lemma B_ClusterImagePolicy_copies [copy_rules]: "copies (B_ClusterImagePolicy_T x) (B_ClusterImagePolicy_DeepCopyInto x)"
  unfolding B_ClusterImagePolicy_T_def B_ClusterImagePolicy_DeepCopyInto_def by (rule copies_struct) (simp_all add: copy_rules)

lemma B_ClusterImagePolicyList_copies [copy_rules]: "copies (B_ClusterImagePolicyList_T x) (B_ClusterImagePolicyList_DeepCopyInto x)"
  unfolding B_ClusterImagePolicyList_T_def B_ClusterImagePolicyList_DeepCopyInto_def by (rule copies_struct) (simp_all add: copy_rules)

end

section \<open>Copies of resources\<close>

text \<open>The resources the API server and the informers hand around, each with the function that copies it.\<close>

definition object_copies :: "copy_externals \<Rightarrow> (gtype \<times> deep_copier) list" where
  "object_copies x = [
     (ClusterImagePolicy_T x, ClusterImagePolicy_DeepCopyObject x),
     (ClusterImagePolicyList_T x, ClusterImagePolicyList_DeepCopyObject x),
     (TrustRoot_T x, TrustRoot_DeepCopyObject x),
     (TrustRootList_T x, TrustRootList_DeepCopyObject x),
     (PodScalable_T x, PodScalable_DeepCopyObject x),
     (PodScalableList_T x, PodScalableList_DeepCopyObject x),
     (B_ClusterImagePolicy_T x, B_ClusterImagePolicy_DeepCopyObject x),
     (B_ClusterImagePolicyList_T x, B_ClusterImagePolicyList_DeepCopyObject x)]"

lemma object_copy:
  assumes "deep_copy_laws x" "(T, dc) \<in> set (object_copies x)"
  shows "\<exists>f. dc = deep_copy f \<and> copies T f"
proof -
  note c = deep_copy_laws.ClusterImagePolicy_copies deep_copy_laws.ClusterImagePolicyList_copies deep_copy_laws.TrustRoot_copies
    deep_copy_laws.TrustRootList_copies deep_copy_laws.PodScalable_copies deep_copy_laws.PodScalableList_copies
    deep_copy_laws.B_ClusterImagePolicy_copies deep_copy_laws.B_ClusterImagePolicyList_copies
  have o: "(\<lambda>p h. case deep_copy f p h of (Some c, h') \<Rightarrow> (Some c, h') | (None, h') \<Rightarrow> (None, h')) = deep_copy f" for f
    by (intro ext) (auto split: prod.splits option.splits)
  note d = ClusterImagePolicy_DeepCopyObject_def ClusterImagePolicyList_DeepCopyObject_def TrustRoot_DeepCopyObject_def
    TrustRootList_DeepCopyObject_def PodScalable_DeepCopyObject_def PodScalableList_DeepCopyObject_def
    B_ClusterImagePolicy_DeepCopyObject_def B_ClusterImagePolicyList_DeepCopyObject_def ClusterImagePolicy_DeepCopy_def
    ClusterImagePolicyList_DeepCopy_def TrustRoot_DeepCopy_def TrustRootList_DeepCopy_def PodScalable_DeepCopy_def PodScalableList_DeepCopy_def
    B_ClusterImagePolicy_DeepCopy_def B_ClusterImagePolicyList_DeepCopy_def
  have e: "ClusterImagePolicy_DeepCopyObject x = deep_copy (ClusterImagePolicy_DeepCopyInto x)"
    "ClusterImagePolicyList_DeepCopyObject x = deep_copy (ClusterImagePolicyList_DeepCopyInto x)"
    "TrustRoot_DeepCopyObject x = deep_copy (TrustRoot_DeepCopyInto x)" "TrustRootList_DeepCopyObject x = deep_copy (TrustRootList_DeepCopyInto x)"
    "PodScalable_DeepCopyObject x = deep_copy (PodScalable_DeepCopyInto x)" "PodScalableList_DeepCopyObject x = deep_copy (PodScalableList_DeepCopyInto x)"
    "B_ClusterImagePolicy_DeepCopyObject x = deep_copy (B_ClusterImagePolicy_DeepCopyInto x)"
    "B_ClusterImagePolicyList_DeepCopyObject x = deep_copy (B_ClusterImagePolicyList_DeepCopyInto x)"
    by (intro ext; simp add: d o [THEN fun_cong, THEN fun_cong])+
  show ?thesis using assms(2) c [OF assms(1)] by (auto simp: object_copies_def e)
qed

text \<open>
  C32 The copy of a resource denotes the same value and shares no memory with it: whatever is written to any of the cells the copy
  consists of, the original (which belongs to the informer's cache) keeps its value.
\<close>

theorem resource_copies_independent:
  assumes "deep_copy_laws x" "(T, dc) \<in> set (object_copies x)" "wt h (TPtr T) (Ptr p)" "dc p h = (q, h')"
  shows "den h' (TPtr T) (Ptr q) = den h (TPtr T) (Ptr p) \<and>
    ((\<forall>(a, i, v) \<in> set ws. a \<in> reach h' (TPtr T) (Ptr q)) \<longrightarrow>
       den (foldl store_to h' ws) (TPtr T) (Ptr p) = den h (TPtr T) (Ptr p))"
proof -
  obtain f where f: "dc = deep_copy f" "copies T f" using object_copy [OF assms(1,2)] by blast
  with deep_copy_independent(2,4) [OF f(2) assms(3)] assms(4) show ?thesis by blast
qed

section \<open>A policy and its copy\<close>

definition sample_externals_T :: copy_externals where
  "sample_externals_T = \<lparr>
     dx_URL_T = TStruct [(''Scheme'', TString), (''User'', TPtr (TStruct [(''username'', TString)])), (''Host'', TString)],
     dx_URL = copy_fields [(''User'', new_into assign)],
     dx_ObjectMeta_T = TStruct [(''Name'', TString), (''Finalizers'', TSlice TString)],
     dx_ObjectMeta = copy_fields [(''Finalizers'', make_into assign)],
     dx_ListMeta_T = TStruct [(''ResourceVersion'', TString), (''RemainingItemCount'', TPtr TInt)],
     dx_ListMeta = copy_fields [(''RemainingItemCount'', new_into assign)],
     dx_Status_T = TStruct [(''ObservedGeneration'', TInt), (''Conditions'', TSlice (TStruct [(''Type'', TString), (''Status'', TString)]))],
     dx_Status = copy_fields [(''Conditions'', make_into assign)],
     dx_LabelSelector_T = TStruct [(''MatchExpressions'', TSlice (TStruct [(''Key'', TString), (''Values'', TSlice TString)]))],
     dx_LabelSelector = copy_fields [(''MatchExpressions'', make_into (copy_fields [(''Values'', make_into assign)]))],
     dx_PodTemplateSpec_T = TStruct [(''Containers'', TSlice (TStruct [(''Image'', TString)]))],
     dx_PodTemplateSpec = copy_fields [(''Containers'', make_into assign)],
     dx_TypeMeta_T = TStruct [(''Kind'', TString), (''APIVersion'', TString)],
     dx_SecretReference_T = TStruct [(''Name'', TString), (''Namespace'', TString)],
     dx_LocalObjectReference_T = TStruct [(''Name'', TString)],
     dx_GroupVersionResource_T = TStruct [(''Group'', TString), (''Version'', TString), (''Resource'', TString)]\<rparr>"

interpretation sample_copies: deep_copy_laws sample_externals_T
  by unfold_locales (auto simp: sample_externals_T_def intro!: copies_struct copy_rules)

definition sample_cells :: heap where
  "sample_cells = [
     [Struct [(''TypeMeta'', Struct [(''Kind'', Str ''ClusterImagePolicy''), (''APIVersion'', Str ''policy.sigstore.dev/v1alpha1'')]),
        (''ObjectMeta'', Struct [(''Name'', Str ''policy''), (''Finalizers'', Slice (Some (2, 0, 1)))]),
        (''Spec'', Struct [(''Images'', Slice (Some (1, 1, 1))), (''Authorities'', Slice None), (''Policy'', Ptr None), (''Mode'', Str ''enforce''),
           (''Match'', Slice None)]),
        (''Status'', Struct [(''Status'', Struct [(''ObservedGeneration'', Num 1), (''Conditions'', Slice None)])])]],
     [Struct [(''Glob'', Str ''old'')], Struct [(''Glob'', Str ''ghcr.io/**'')]],
     [Str ''finalizer'']]"

lemma sample_cells_wt: "wt sample_cells (TPtr (ClusterImagePolicy_T sample_externals_T)) (Ptr (Some (0, 0)))"
  by (simp add: sample_cells_def ClusterImagePolicy_T_def ClusterImagePolicySpec_T_def ClusterImagePolicyStatus_T_def ImagePattern_T_def
      sample_externals_T_def field_names_def get_field_def window_def)

definition sample_copy_cells :: heap where
  "sample_copy_cells = sample_cells @ [
     [Str ''finalizer''],
     [Struct [(''Glob'', Str ''ghcr.io/**'')]],
     [Struct [(''TypeMeta'', Struct [(''Kind'', Str ''ClusterImagePolicy''), (''APIVersion'', Str ''policy.sigstore.dev/v1alpha1'')]),
        (''ObjectMeta'', Struct [(''Name'', Str ''policy''), (''Finalizers'', Slice (Some (3, 0, 1)))]),
        (''Spec'', Struct [(''Images'', Slice (Some (4, 0, 1))), (''Authorities'', Slice None), (''Policy'', Ptr None), (''Mode'', Str ''enforce''),
           (''Match'', Slice None)]),
        (''Status'', Struct [(''Status'', Struct [(''ObservedGeneration'', Num 1), (''Conditions'', Slice None)])])]]]"

lemma sample_copy: "ClusterImagePolicy_DeepCopyObject sample_externals_T (Some (0, 0)) sample_cells = (Some (5, 0), sample_copy_cells)"
  by (simp add: ClusterImagePolicy_DeepCopyObject_def ClusterImagePolicy_DeepCopy_def deep_copy_def ClusterImagePolicy_DeepCopyInto_def
      sample_cells_def sample_copy_cells_def ClusterImagePolicySpec_DeepCopyInto_def ClusterImagePolicyStatus_DeepCopyInto_def sample_externals_T_def
      copy_fields_def copy_field_def get_field_def set_field_def assign_def new_into_def make_into_def window_def)

lemma sample_object_copy:
  "(ClusterImagePolicy_T sample_externals_T, ClusterImagePolicy_DeepCopyObject sample_externals_T) \<in> set (object_copies sample_externals_T)"
  by (simp add: object_copies_def)

theorem resource_copies_independent_witness:
  "den (store_to sample_copy_cells (4, 0, Struct [(''Glob'', Str ''**'')])) (TPtr (ClusterImagePolicy_T sample_externals_T)) (Ptr (Some (0, 0))) =
     den sample_cells (TPtr (ClusterImagePolicy_T sample_externals_T)) (Ptr (Some (0, 0)))"
proof -
  have "4 \<in> reach sample_copy_cells (TPtr (ClusterImagePolicy_T sample_externals_T)) (Ptr (Some (5, 0)))"
    by (simp add: sample_copy_cells_def sample_cells_def ClusterImagePolicy_T_def ClusterImagePolicySpec_T_def ClusterImagePolicyStatus_T_def
        sample_externals_T_def get_field_def)
  then show ?thesis
    using resource_copies_independent [OF sample_copies.deep_copy_laws_axioms sample_object_copy sample_cells_wt sample_copy,
        of "[(4, 0, Struct [(''Glob'', Str ''**'')])]"]
    by simp
qed

end
