(* ===== verification/RegistryAuth.thy ===== *)
theory RegistryAuth
  imports PC_Prelude
begin

text \<open>
  The registry credentials of \<open>pkg/webhook/registryauth\<close>: the credential helper for Azure registries and the key chain it is the
  last element of. Azure's libraries are fields of a record; key chains are an interface.
\<close>

section \<open>The helper for Azure registries\<close>

record azure_env =
  az_NewDefaultAzureCredential_err :: "string option"
  az_GetToken :: "string list \<Rightarrow> string go_result"
  az_url_Parse :: "string \<Rightarrow> string go_result"
  az_Getenv :: "string \<Rightarrow> string"
  az_GetFromExchange :: "string \<Rightarrow> string \<Rightarrow> string \<Rightarrow> string \<Rightarrow> string \<Rightarrow> string \<Rightarrow> string option go_result"

definition isACR :: "string \<Rightarrow> bool" where
  "isACR registryURL = HasSuffix registryURL ''.azurecr.io''"

definition ACR_Add :: "string option" where
  "ACR_Add = Some ''add is unimplemented''"

definition ACR_Delete :: "string \<Rightarrow> string option" where
  "ACR_Delete registryURL = Some ''delete is unimplemented''"

definition ACR_List :: "(string \<times> string) list go_result" where
  "ACR_List = Err ''list is unimplemented''"

text \<open>A response without a token is dereferenced: the panic is \<open>None\<close>.\<close>

definition ACR_Get :: "azure_env \<Rightarrow> string \<Rightarrow> (string \<times> string) go_result option" where
  "ACR_Get env registryURL =
     (if \<not> isACR registryURL then Some (Err ''not an ACR registry'')
      else case az_NewDefaultAzureCredential_err env of
             Some e \<Rightarrow> Some (Err (wrap_err ''failed to obtain a credential'' e))
           | None \<Rightarrow>
      (case az_GetToken env [''https://management.azure.com/.default''] of
         Inl e \<Rightarrow> Some (Err (wrap_err ''failed to get token'' e))
       | Inr accessToken \<Rightarrow>
      (case az_url_Parse env (''https://'' @ registryURL) of
         Inl e \<Rightarrow> Some (Err (wrap_err ''failed to parse registry URL'' e))
       | Inr registryWithScheme \<Rightarrow>
           (let tenantID = az_Getenv env ''AZURE_TENANT_ID''
            in if tenantID = '''' then Some (Err ''AZURE_TENANT_ID environment variable not found'')
               else case az_GetFromExchange env registryWithScheme ''access_token'' registryURL tenantID '''' accessToken of
                      Inl e \<Rightarrow> Some (Err (wrap_err ''failed to get refresh token'' e))
                    | Inr None \<Rightarrow> None
                    | Inr (Some refreshToken) \<Rightarrow> Some (Ok (''00000000-0000-0000-0000-000000000000'', refreshToken))))))"

section \<open>The key chain\<close>

datatype authenticator = Anonymous | Credentials string string | OtherAuth string

text \<open>
  A chain asks its members in order and takes the first answer that is not anonymous; the chain of a helper is anonymous where the
  helper fails. An error of a member ends the search.
\<close>

locale keychain_laws =
  fixes resolve :: "'kc \<Rightarrow> string \<Rightarrow> authenticator go_result"
    and NewMultiKeychain :: "'kc list \<Rightarrow> 'kc"
    and NewKeychainFromHelper :: "(string \<Rightarrow> (string \<times> string) go_result option) \<Rightarrow> 'kc"
  assumes multi_nil: "resolve (NewMultiKeychain []) r = Ok Anonymous"
    and multi_cons: "resolve (NewMultiKeychain (k # ks)) r =
          (case resolve k r of Inl e \<Rightarrow> Err e | Inr Anonymous \<Rightarrow> resolve (NewMultiKeychain ks) r | Inr a \<Rightarrow> Ok a)"
    and helper_ok: "h r = Some (Ok (u, p)) \<Longrightarrow> resolve (NewKeychainFromHelper h) r = Ok (Credentials u p)"
    and helper_err: "h r = Some (Err e) \<Longrightarrow> resolve (NewKeychainFromHelper h) r = Ok Anonymous"
begin

lemma multi_anonymous_prefix:
  "(\<forall>k \<in> set ks. resolve k r = Ok Anonymous) \<Longrightarrow> resolve (NewMultiKeychain (ks @ ks')) r = resolve (NewMultiKeychain ks') r"
  by (induction ks) (auto simp: multi_cons)

lemma multi_first:
  assumes "resolve (NewMultiKeychain ks) r = Ok a" "a \<noteq> Anonymous"
  shows "\<exists>pre k post. ks = pre @ k # post \<and> (\<forall>j \<in> set pre. resolve j r = Ok Anonymous) \<and> resolve k r = Ok a"
  using assms
proof (induction ks)
  case (Cons k ks)
  show ?case
  proof (cases "resolve k r = Ok Anonymous")
    case True
    with Cons obtain pre j post where "ks = pre @ j # post" "\<forall>i \<in> set pre. resolve i r = Ok Anonymous" "resolve j r = Ok a"
      by (auto simp: multi_cons)
    with True show ?thesis by (intro exI [of _ "k # pre"] exI [of _ j] exI [of _ post]) simp
  next
    case False
    with Cons.prems have "resolve k r = Ok a" by (auto simp: multi_cons split: sum.splits authenticator.splits)
    then show ?thesis by (intro exI [of _ "[]"] exI [of _ k] exI [of _ ks]) simp
  qed
qed (simp add: multi_nil)

end

record 'kc keychain_env =
  ke_kauth_New :: "'kc go_result"
  ke_DefaultKeychain :: 'kc
  ke_google_Keychain :: 'kc
  ke_amazonKeychain :: 'kc
  ke_azure :: azure_env

definition NewK8sKeychain :: "('kc list \<Rightarrow> 'kc) \<Rightarrow> ((string \<Rightarrow> (string \<times> string) go_result option) \<Rightarrow> 'kc) \<Rightarrow> 'kc keychain_env \<Rightarrow> 'kc go_result" where
  "NewK8sKeychain multi fromHelper env =
     (case ke_kauth_New env of
        Inl e \<Rightarrow> Err e
      | Inr k8s \<Rightarrow>
          Ok (multi [k8s, ke_DefaultKeychain env, ke_google_Keychain env, ke_amazonKeychain env, fromHelper (ACR_Get (ke_azure env))]))"

text \<open>
  An Azure token is only ever obtained for, and sent to, a registry under \<open>azurecr.io\<close>, and only when the pull secrets and all other
  chains have nothing for it.
\<close>

lemma ACR_Get_registry: "ACR_Get env r = Some (Ok c) \<Longrightarrow> suffix ''.azurecr.io'' r"
  by (auto simp: ACR_Get_def isACR_def HasSuffix_def split: if_splits)

lemma azure_last:
  assumes "keychain_laws resolve multi fromHelper" "NewK8sKeychain multi fromHelper env = Ok kc" "ke_kauth_New env = Ok k8s"
    and "\<forall>k \<in> {k8s, ke_DefaultKeychain env, ke_google_Keychain env, ke_amazonKeychain env}. resolve k r = Ok Anonymous"
    and "ACR_Get (ke_azure env) r \<noteq> None"
  shows "resolve kc r = (case ACR_Get (ke_azure env) r of Some (Inr (u, p)) \<Rightarrow> Ok (Credentials u p) | _ \<Rightarrow> Ok Anonymous)"
proof -
  have "kc = multi ([k8s, ke_DefaultKeychain env, ke_google_Keychain env, ke_amazonKeychain env] @ [fromHelper (ACR_Get (ke_azure env))])"
    using assms(2,3) by (simp add: NewK8sKeychain_def)
  with assms(4) have "resolve kc r = resolve (multi [fromHelper (ACR_Get (ke_azure env))]) r"
    by (simp only: keychain_laws.multi_anonymous_prefix [OF assms(1)] list.set ball_simps simp_thms)
  also have "\<dots> = (case ACR_Get (ke_azure env) r of Some (Inr (u, p)) \<Rightarrow> Ok (Credentials u p) | _ \<Rightarrow> Ok Anonymous)"
    using assms(5) keychain_laws.multi_cons [OF assms(1)] keychain_laws.multi_nil [OF assms(1)]
      keychain_laws.helper_ok [OF assms(1), of "ACR_Get (ke_azure env)" r] keychain_laws.helper_err [OF assms(1), of "ACR_Get (ke_azure env)" r]
    by (auto split: sum.splits option.splits)
  finally show ?thesis .
qed

text \<open>For any other registry every credential comes from the pull secrets or one of the other chains.\<close>

lemma other_registries:
  assumes "keychain_laws resolve multi fromHelper" "NewK8sKeychain multi fromHelper env = Ok kc" "ke_kauth_New env = Ok k8s"
    and "\<not> isACR r" "resolve kc r = Ok a" "a \<noteq> Anonymous"
  shows "\<exists>k \<in> {k8s, ke_DefaultKeychain env, ke_google_Keychain env, ke_amazonKeychain env}. resolve k r = Ok a"
proof -
  let ?az = "fromHelper (ACR_Get (ke_azure env))"
  let ?ks = "[k8s, ke_DefaultKeychain env, ke_google_Keychain env, ke_amazonKeychain env, ?az]"
  have kc: "kc = multi ?ks" using assms(2,3) by (simp add: NewK8sKeychain_def)
  have "resolve ?az r = Ok Anonymous"
    using assms(4) by (intro keychain_laws.helper_err [OF assms(1)]) (simp add: ACR_Get_def)
  with assms(6) have "resolve ?az r \<noteq> Ok a" by simp
  moreover from keychain_laws.multi_first [OF assms(1) assms(5) [unfolded kc] assms(6)]
  obtain pre k post where "?ks = pre @ k # post" "resolve k r = Ok a" by blast
  then have "\<exists>k \<in> set ?ks. resolve k r = Ok a" by (metis in_set_conv_decomp)
  ultimately show ?thesis by auto
qed

text \<open>Key chains as functions from registries to answers.\<close>

definition multi_fun :: "(string \<Rightarrow> authenticator go_result) list \<Rightarrow> string \<Rightarrow> authenticator go_result" where
  "multi_fun ks r =
     foldr (\<lambda>k rest. case k r of Inl e \<Rightarrow> Err e | Inr Anonymous \<Rightarrow> rest | Inr a \<Rightarrow> Ok a) ks (Ok Anonymous)"

definition helper_fun :: "(string \<Rightarrow> (string \<times> string) go_result option) \<Rightarrow> string \<Rightarrow> authenticator go_result" where
  "helper_fun h r = (case h r of Some (Inr (u, p)) \<Rightarrow> Ok (Credentials u p) | _ \<Rightarrow> Ok Anonymous)"

interpretation fun_chain: keychain_laws "\<lambda>k. k" multi_fun helper_fun
  by unfold_locales (auto simp: multi_fun_def helper_fun_def split: sum.splits authenticator.splits)

end
