(* ===== verification/ApiDocs.thy ===== *)
theory ApiDocs
  imports PC_Prelude
begin

text \<open>
  \<open>cmd/api-docs/main.go\<close>, which prints the documentation of the API types as Markdown: the cleaning of comments, the names and types
  of fields with their links, and the page. Go's parser is not modelled: a source is what \<open>go/doc\<close> finds in it, and the message for a
  file that does not parse is left out. A description is shown to stay inside its cell of the table, and the links between sections
  to agree with the table of contents.
\<close>

section \<open>Sources\<close>

datatype ast_expr =
    Ident string
  | StarExpr ast_expr
  | SelectorExpr string string
  | ArrayType ast_expr
  | MapType ast_expr ast_expr
  | OtherExpr

text \<open>A field: its names (none for an embedded field), the \<open>json\<close> part of its tag if it has a tag, its comment and its type.\<close>

record ast_field =
  af_Names :: "string list"
  af_json :: "string option"
  af_Doc :: string
  af_Type :: ast_expr

text \<open>A declared type; the fields only of a struct.\<close>

record doc_type =
  dt_Name :: string
  dt_Doc :: string
  dt_Fields :: "ast_field list option"

record Pair =
  pa_Name :: string
  pa_Doc :: string
  pa_Type :: string
  pa_Mandatory :: bool

section \<open>Comments\<close>

definition newline :: char where "newline = CHR 0x0A"
definition tab :: char where "tab = CHR 0x09"
definition backslash :: char where "backslash = CHR 0x5C"
definition quote :: char where "quote = CHR 0x22"

definition TrimLeft :: "string \<Rightarrow> char \<Rightarrow> string" where
  "TrimLeft s c = dropWhile (\<lambda>d. d = c) s"

definition TrimRight :: "string \<Rightarrow> char \<Rightarrow> string" where
  "TrimRight s c = rev (dropWhile (\<lambda>d. d = c) (rev s))"

definition doc_line :: "string \<Rightarrow> string \<Rightarrow> string" where
  "doc_line buffer rawLine =
     (let line = TrimRight rawLine CHR '' ''; leading = TrimLeft line CHR '' ''
      in if line = '''' then butlast buffer @ [newline, newline]
         else if HasPrefix leading ''TODO'' then buffer
         else if HasPrefix leading ''+'' then buffer
         else if HasPrefix line '' '' \<or> HasPrefix line [tab] then butlast buffer @ [newline] @ line @ [newline]
         else buffer @ line @ '' '')"

definition fmtRawDoc :: "string \<Rightarrow> string" where
  "fmtRawDoc rawDoc0 =
     (let rawDoc = hd (str_split ''---'' rawDoc0);
          buffer = foldl doc_line '''' (split_on newline rawDoc);
          d0 = TrimRight buffer newline;
          d1 = ReplaceAll d0 [backslash, quote] [quote];
          d2 = ReplaceAll d1 [quote] [backslash, quote];
          d3 = ReplaceAll d2 [newline] [backslash, CHR ''n''];
          d4 = ReplaceAll d3 [tab] [backslash, CHR ''t'']
      in ReplaceAll d4 ''|'' [backslash, CHR ''|''])"

section \<open>Links, names and types\<close>

definition doc_links :: "string \<rightharpoonup> string" where
  "doc_links =
     [''metav1.ObjectMeta'' \<mapsto> ''https://kubernetes.io/docs/reference/generated/kubernetes-api/v1.25/#objectmeta-v1-meta'',
      ''metav1.ListMeta'' \<mapsto> ''https://kubernetes.io/docs/reference/generated/kubernetes-api/v1.25/#listmeta-v1-meta'',
      ''metav1.LabelSelector'' \<mapsto> ''https://kubernetes.io/docs/reference/generated/kubernetes-api/v1.25/#labelselector-v1-meta'',
      ''metav1.GroupVersionResource'' \<mapsto> ''https://kubernetes.io/docs/reference/generated/kubernetes-api/v1.25/#groupversionresource-v1-meta'',
      ''v1.SecretReference'' \<mapsto> ''https://kubernetes.io/docs/reference/generated/kubernetes-api/v1.25/#secretreference-v1-core'',
      ''v1.LocalObjectReference'' \<mapsto> ''https://kubernetes.io/docs/reference/generated/kubernetes-api/v1.25/#localobjectreference-v1-core'']"

definition wrapInLink :: "string \<Rightarrow> string \<Rightarrow> string" where
  "wrapInLink txt link = ''['' @ txt @ ''](''  @ link @ '')''"

definition toLink :: "(string \<rightharpoonup> string) \<Rightarrow> string \<Rightarrow> string" where
  "toLink selfLinks typeName =
     (case selfLinks typeName of
        Some selfLink \<Rightarrow> wrapInLink typeName selfLink
      | None \<Rightarrow> (case doc_links typeName of Some link \<Rightarrow> wrapInLink typeName link | None \<Rightarrow> typeName))"

fun fieldType :: "(string \<rightharpoonup> string) \<Rightarrow> ast_expr \<Rightarrow> string" where
  "fieldType sl (Ident n) = toLink sl n"
| "fieldType sl (StarExpr e) = toLink sl (fieldType sl e)"
| "fieldType sl (SelectorExpr pkg t) = toLink sl (pkg @ ''.'' @ t)"
| "fieldType sl (ArrayType e) = ''[]'' @ toLink sl (fieldType sl e)"
| "fieldType sl (MapType k v) = ''map['' @ toLink sl (fieldType sl k) @ '']'' @ toLink sl (fieldType sl v)"
| "fieldType sl OtherExpr = ''''"

text \<open>The name in JSON; \<open>None\<close> is the panic of an embedded field that is not a plain name.\<close>

definition fieldName :: "ast_field \<Rightarrow> string option" where
  "fieldName f =
     (let jsonTag = (case af_json f of Some t \<Rightarrow> t | None \<Rightarrow> '''')
      in if af_json f \<noteq> None \<and> str_contains jsonTag ''inline'' then Some ''-''
         else (let name = hd (split_on CHR '','' jsonTag)
               in if name \<noteq> '''' then Some name
                  else (case af_Names f of
                          n # _ \<Rightarrow> Some n
                        | [] \<Rightarrow> (case af_Type f of Ident n \<Rightarrow> Some n | _ \<Rightarrow> None))))"

definition fieldRequired :: "ast_field \<Rightarrow> bool" where
  "fieldRequired f = (case af_json f of Some jsonTag \<Rightarrow> \<not> str_contains jsonTag ''omitempty'' | None \<Rightarrow> False)"

section \<open>The page\<close>

text \<open>The rows of the fields; the loop over the files skips those that do not parse (\<open>None\<close>).\<close>

fun field_rows :: "(string \<rightharpoonup> string) \<Rightarrow> ast_field list \<Rightarrow> Pair list option" where
  "field_rows sl [] = Some []"
| "field_rows sl (f # fs) =
     (case fieldName f of
        None \<Rightarrow> None
      | Some n \<Rightarrow>
          map_option (\<lambda>rest. if n = ''-'' then rest
              else \<lparr>pa_Name = n, pa_Doc = fmtRawDoc (af_Doc f), pa_Type = fieldType sl (af_Type f), pa_Mandatory = fieldRequired f\<rparr> # rest)
            (field_rows sl fs))"

fun type_rows :: "(string \<rightharpoonup> string) \<Rightarrow> doc_type list \<Rightarrow> Pair list list option" where
  "type_rows sl [] = Some []"
| "type_rows sl (t # ts) =
     (case dt_Fields t of
        None \<Rightarrow> type_rows sl ts
      | Some fs \<Rightarrow>
          (case field_rows sl fs of
             None \<Rightarrow> None
           | Some rows \<Rightarrow>
               map_option (Cons (\<lparr>pa_Name = dt_Name t, pa_Doc = fmtRawDoc (dt_Doc t), pa_Type = '''', pa_Mandatory = False\<rparr> # rows))
                 (type_rows sl ts)))"

definition ParseDocumentationFrom :: "(string \<rightharpoonup> string) \<Rightarrow> doc_type list option list \<Rightarrow> Pair list list option" where
  "ParseDocumentationFrom sl srcs = type_rows sl (concat (List.map_filter id srcs))"

definition toSectionLink :: "string \<Rightarrow> string" where
  "toSectionLink name = ReplaceAll (ToLower name) '' '' ''-''"

definition print_row :: "Pair \<Rightarrow> string" where
  "print_row f = ''| '' @ pa_Name f @ '' | '' @ pa_Doc f @ '' | '' @ pa_Type f @ '' | '' @ (if pa_Mandatory f then ''true'' else ''false'') @ '' |'' @ [newline]"

definition printTOC :: "Pair list list \<Rightarrow> string" where
  "printTOC types =
     [newline] @ ''## Table of Contents'' @ [newline] @
     concat (map (\<lambda>t. if length t > 1 then ''* ['' @ pa_Name (hd t) @ ''](#'' @ toSectionLink (pa_Name (hd t)) @ '')'' @ [newline] else '''') types)"

definition print_type :: "Pair list \<Rightarrow> string" where
  "print_type t =
     [newline] @ ''## '' @ pa_Name (hd t) @ [newline, newline] @ pa_Doc (hd t) @ [newline, newline] @
     (if length t > 1
      then ''| Field | Description | Scheme | Required |'' @ [newline] @ ''| ----- | ----------- | ------ | -------- |'' @ [newline] @
           concat (map print_row (tl t)) @ [newline] @ ''[Back to TOC](#table-of-contents)'' @ [newline]
      else '''')"

definition self_links :: "Pair list list \<Rightarrow> string \<rightharpoonup> string" where
  "self_links types = foldl (\<lambda>sl t. sl(pa_Name (hd t) \<mapsto> ''#'' @ ToLower (pa_Name (hd t)))) Map.empty types"

definition printAPIDocs :: "string \<Rightarrow> doc_type list option list \<Rightarrow> string option" where
  "printAPIDocs version paths =
     (case ParseDocumentationFrom Map.empty paths of
        None \<Rightarrow> None
      | Some types0 \<Rightarrow>
          (case ParseDocumentationFrom (self_links types0) paths of
             None \<Rightarrow> None
           | Some types \<Rightarrow>
               Some ([newline, newline] @ ''# API Documentation ('' @ version @ '')'' @ [newline, newline] @
                 ''> This document is automatically generated from the API definition in the code.'' @ [newline] @
                 printTOC types @ concat (map print_type types))))"

section \<open>Cells and links\<close>

text \<open>\<open>bars_escaped p s\<close>: after the character \<open>p\<close>, every bar in \<open>s\<close> has a backslash before it.\<close>

fun bars_escaped :: "char \<Rightarrow> string \<Rightarrow> bool" where
  "bars_escaped p [] = True"
| "bars_escaped p (c # cs) = ((c = CHR ''|'' \<longrightarrow> p = backslash) \<and> bars_escaped c cs)"

definition cell_text :: "string \<Rightarrow> bool" where
  "cell_text s \<longleftrightarrow> newline \<notin> set s \<and> tab \<notin> set s \<and> bars_escaped CHR '' '' s"

lemma bars_escaped_ReplaceAll: "bars_escaped p (ReplaceAll s ''|'' [backslash, CHR ''|''])"
  by (induction s arbitrary: p) (auto simp: ReplaceAll_char backslash_def)

lemma set_ReplaceAll_char: "set (ReplaceAll s [a] new) = set s - {a} \<union> (if a \<in> set s then set new else {})"
  by (auto simp: ReplaceAll_char split: if_splits)

lemma fmtRawDoc_cell_text: "cell_text (fmtRawDoc d)"
proof -
  obtain x where x: "fmtRawDoc d =
      ReplaceAll (ReplaceAll (ReplaceAll x [newline] [backslash, CHR ''n'']) [tab] [backslash, CHR ''t'']) ''|'' [backslash, CHR ''|'']"
    by (simp add: fmtRawDoc_def Let_def)
  have "newline \<notin> set (fmtRawDoc d)" "tab \<notin> set (fmtRawDoc d)"
    unfolding x set_ReplaceAll_char by (auto simp: newline_def tab_def backslash_def)
  then show ?thesis by (simp add: cell_text_def x bars_escaped_ReplaceAll)
qed

lemma field_rows_cells: "field_rows sl fs = Some rows \<Longrightarrow> r \<in> set rows \<Longrightarrow> cell_text (pa_Doc r) \<and> pa_Name r \<noteq> ''-''"
proof (induction fs arbitrary: rows)
  case (Cons f fs)
  then obtain n rest where "fieldName f = Some n" "field_rows sl fs = Some rest"
    by (auto split: option.splits)
  with Cons show ?case by (auto simp: fmtRawDoc_cell_text split: if_splits)
qed simp

lemma type_rows_cells:
  "type_rows sl ts = Some types \<Longrightarrow> t \<in> set types \<Longrightarrow> t \<noteq> [] \<and> (\<forall>r \<in> set t. cell_text (pa_Doc r))"
proof (induction ts arbitrary: types)
  case (Cons d ts)
  show ?case
  proof (cases "dt_Fields d")
    case None
    with Cons show ?thesis by simp
  next
    case (Some fs)
    with Cons.prems(1) obtain rows rest where "field_rows sl fs = Some rows" "type_rows sl ts = Some rest"
        "types = (\<lparr>pa_Name = dt_Name d, pa_Doc = fmtRawDoc (dt_Doc d), pa_Type = '''', pa_Mandatory = False\<rparr> # rows) # rest"
      by (auto split: option.splits)
    with Cons show ?thesis by (auto simp: fmtRawDoc_cell_text field_rows_cells)
  qed
qed simp

text \<open>Every row of the table is one line of the page, whatever the comments hold.\<close>

lemma print_row_line:
  assumes "ParseDocumentationFrom sl srcs = Some types" "t \<in> set types" "r \<in> set t"
    and "newline \<notin> set (pa_Name r)" "newline \<notin> set (pa_Type r)"
  shows "\<exists>l. print_row r = l @ [newline] \<and> newline \<notin> set l"
proof -
  have "cell_text (pa_Doc r)" using type_rows_cells assms(1-3) by (auto simp: ParseDocumentationFrom_def)
  with assms(4,5) show ?thesis
    by (intro exI [of _ "butlast (print_row r)"]) (simp add: print_row_def cell_text_def butlast_append newline_def)
qed

text \<open>The names of the types do not depend on the links, so the second parse finds the sections of the first.\<close>

lemma field_rows_links: "map_option (map pa_Name) (field_rows sl fs) = map_option (map pa_Name) (field_rows sl' fs)"
proof (induction fs)
  case (Cons f fs)
  then show ?case
    by (cases "field_rows sl fs"; cases "field_rows sl' fs") (auto split: option.splits)
qed simp

lemma type_rows_links:
  "map_option (map (map pa_Name)) (type_rows sl ts) = map_option (map (map pa_Name)) (type_rows sl' ts)"
proof (induction ts)
  case (Cons t ts)
  show ?case
  proof (cases "dt_Fields t")
    case None
    with Cons show ?thesis by simp
  next
    case (Some fs)
    with Cons field_rows_links [of sl fs sl'] show ?thesis
      by (cases "field_rows sl fs"; cases "field_rows sl' fs"; cases "type_rows sl ts"; cases "type_rows sl' ts") auto
  qed
qed simp

lemma self_links_eq:
  "self_links types n = (if \<exists>t \<in> set types. pa_Name (hd t) = n then Some (''#'' @ ToLower n) else None)"
  by (induction types rule: rev_induct) (auto simp: self_links_def)

lemma ReplaceAll_char_id: "a \<notin> set s \<Longrightarrow> ReplaceAll s [a] new = s"
  unfolding ReplaceAll_char by (induction s) auto

lemma section_links_agree:
  assumes "CHR '' '' \<notin> set (ToLower n)" "self_links types n = Some l"
  shows "l = ''#'' @ toSectionLink n"
  using assms by (simp add: self_links_eq toSectionLink_def ReplaceAll_char_id split: if_splits)

end
