(* ===== verification/InformerFactory.thy ===== *)
theory InformerFactory
  imports ConfigMaps V1alpha1
begin

text \<open>
  The generated informers and listers of \<open>pkg/client\<close>: the factory that creates one informer per kind and shares it
  (\<open>informers/externalversions/factory.go\<close>, \<open>generic.go\<close>), the informers of the three kinds, which have the same text, and the
  listers. client-go's informers, the clients and the index are parameters. The factory's methods hold its lock, so a history is a
  sequence of whole calls, interleaved with the ends of the goroutines they started.
\<close>

section \<open>The factory\<close>

datatype rtype = CIP_v1alpha1 | TrustRoot_v1alpha1 | CIP_v1beta1

record ('cl, 'inf, 'o) sharedInformerFactory =
  sf_client :: 'cl
  sf_namespace :: string
  sf_tweakListOptions :: "('o \<Rightarrow> 'o) option"
  sf_defaultResync :: int
  sf_customResync :: "rtype \<rightharpoonup> int"
  sf_informers :: "rtype \<rightharpoonup> 'inf"
  sf_startedInformers :: "rtype \<rightharpoonup> bool"
  sf_wg :: int
  sf_shuttingDown :: bool

text \<open>The pairs of the map in the order in which Go visits them; two objects may have the same type.\<close>

definition WithCustomResyncConfig :: "(rtype \<times> int) list \<Rightarrow> ('cl, 'inf, 'o) sharedInformerFactory \<Rightarrow> ('cl, 'inf, 'o) sharedInformerFactory" where
  "WithCustomResyncConfig resyncConfig f = foldl (\<lambda>f (k, v). f\<lparr>sf_customResync := (sf_customResync f)(k \<mapsto> v)\<rparr>) f resyncConfig"

definition WithTweakListOptions :: "('o \<Rightarrow> 'o) option \<Rightarrow> ('cl, 'inf, 'o) sharedInformerFactory \<Rightarrow> ('cl, 'inf, 'o) sharedInformerFactory" where
  "WithTweakListOptions tweak f = f\<lparr>sf_tweakListOptions := tweak\<rparr>"

definition WithNamespace :: "string \<Rightarrow> ('cl, 'inf, 'o) sharedInformerFactory \<Rightarrow> ('cl, 'inf, 'o) sharedInformerFactory" where
  "WithNamespace ns f = f\<lparr>sf_namespace := ns\<rparr>"

definition NewSharedInformerFactoryWithOptions ::
  "'cl \<Rightarrow> int \<Rightarrow> (('cl, 'inf, 'o) sharedInformerFactory \<Rightarrow> ('cl, 'inf, 'o) sharedInformerFactory) list \<Rightarrow> ('cl, 'inf, 'o) sharedInformerFactory" where
  "NewSharedInformerFactoryWithOptions client resync options =
     foldl (\<lambda>f opt. opt f)
       \<lparr>sf_client = client, sf_namespace = '''', sf_tweakListOptions = None, sf_defaultResync = resync, sf_customResync = Map.empty,
        sf_informers = Map.empty, sf_startedInformers = Map.empty, sf_wg = 0, sf_shuttingDown = False\<rparr> options"

definition NewSharedInformerFactory :: "'cl \<Rightarrow> int \<Rightarrow> ('cl, 'inf, 'o) sharedInformerFactory" where
  "NewSharedInformerFactory client resync = NewSharedInformerFactoryWithOptions client resync []"

definition NewFilteredSharedInformerFactory :: "'cl \<Rightarrow> int \<Rightarrow> string \<Rightarrow> ('o \<Rightarrow> 'o) option \<Rightarrow> ('cl, 'inf, 'o) sharedInformerFactory" where
  "NewFilteredSharedInformerFactory client resync ns tweak =
     NewSharedInformerFactoryWithOptions client resync [WithNamespace ns, WithTweakListOptions tweak]"

definition InformerFor :: "rtype \<Rightarrow> ('cl \<Rightarrow> int \<Rightarrow> 'inf) \<Rightarrow> ('cl, 'inf, 'o) sharedInformerFactory \<Rightarrow> 'inf \<times> ('cl, 'inf, 'o) sharedInformerFactory" where
  "InformerFor informerType newFunc f =
     (case sf_informers f informerType of
        Some informer \<Rightarrow> (informer, f)
      | None \<Rightarrow>
          (let resyncPeriod = (case sf_customResync f informerType of Some d \<Rightarrow> d | None \<Rightarrow> sf_defaultResync f);
               informer = newFunc (sf_client f) resyncPeriod
           in (informer, f\<lparr>sf_informers := (sf_informers f)(informerType \<mapsto> informer)\<rparr>)))"

definition started :: "('cl, 'inf, 'o) sharedInformerFactory \<Rightarrow> rtype \<Rightarrow> bool" where
  "started f t = (sf_startedInformers f t = Some True)"

text \<open>The factory with the goroutines that run its informers, each with the channel that stops it.\<close>

record ('cl, 'inf, 'o, 'ch) informer_process =
  ip_factory :: "('cl, 'inf, 'o) sharedInformerFactory"
  ip_running :: "(rtype \<times> 'inf \<times> 'ch) list"

definition start_one :: "'ch \<Rightarrow> ('cl, 'inf, 'o, 'ch) informer_process \<Rightarrow> rtype \<times> 'inf \<Rightarrow> ('cl, 'inf, 'o, 'ch) informer_process" where
  "start_one stopCh p e =
     (let f = ip_factory p; informerType = fst e; informer = snd e
      in if started f informerType then p
         else \<lparr>ip_factory = f\<lparr>sf_wg := sf_wg f + 1, sf_startedInformers := (sf_startedInformers f)(informerType \<mapsto> True)\<rparr>,
               ip_running = (informerType, informer, stopCh) # ip_running p\<rparr>)"

text \<open>\<open>entries\<close> is the map of informers in the order in which Go visits it.\<close>

definition Factory_Start :: "'ch \<Rightarrow> (rtype \<times> 'inf) list \<Rightarrow> ('cl, 'inf, 'o, 'ch) informer_process \<Rightarrow> ('cl, 'inf, 'o, 'ch) informer_process" where
  "Factory_Start stopCh entries p = (if sf_shuttingDown (ip_factory p) then p else foldl (start_one stopCh) p entries)"

text \<open>A goroutine that returns from \<open>Run\<close>.\<close>

definition informer_ends :: "rtype \<times> 'inf \<times> 'ch \<Rightarrow> ('cl, 'inf, 'o, 'ch) informer_process \<Rightarrow> ('cl, 'inf, 'o, 'ch) informer_process" where
  "informer_ends g p = p\<lparr>ip_factory := (ip_factory p)\<lparr>sf_wg := sf_wg (ip_factory p) - 1\<rparr>, ip_running := remove1 g (ip_running p)\<rparr>"

text \<open>\<open>Shutdown\<close> under the lock, and the condition under which its wait returns.\<close>

definition Factory_Shutdown :: "('cl, 'inf, 'o, 'ch) informer_process \<Rightarrow> ('cl, 'inf, 'o, 'ch) informer_process" where
  "Factory_Shutdown p = p\<lparr>ip_factory := (ip_factory p)\<lparr>sf_shuttingDown := True\<rparr>\<rparr>"

definition shutdown_returns :: "('cl, 'inf, 'o, 'ch) informer_process \<Rightarrow> bool" where
  "shutdown_returns p \<longleftrightarrow> sf_shuttingDown (ip_factory p) \<and> sf_wg (ip_factory p) = 0"

definition WaitForCacheSync :: "('ch \<Rightarrow> 'inf \<Rightarrow> bool) \<Rightarrow> 'ch \<Rightarrow> ('cl, 'inf, 'o) sharedInformerFactory \<Rightarrow> rtype \<rightharpoonup> bool" where
  "WaitForCacheSync sync stopCh f =
     (let informers = (\<lambda>t. if started f t then sf_informers f t else None)
      in (\<lambda>t. map_option (sync stopCh) (informers t)))"

section \<open>The informers and listers of a kind\<close>

record ('cl, 'inf, 'o, 'l, 'wt, 'ix) informer_env =
  ie_List :: "'cl \<Rightarrow> rtype \<Rightarrow> 'o \<Rightarrow> 'l go_result"
  ie_Watch :: "'cl \<Rightarrow> rtype \<Rightarrow> 'o \<Rightarrow> 'wt go_result"
  ie_NewSharedIndexInformer :: "('o \<Rightarrow> 'l go_result) \<Rightarrow> ('o \<Rightarrow> 'wt go_result) \<Rightarrow> rtype \<Rightarrow> int \<Rightarrow> 'ix \<Rightarrow> 'inf"
  ie_NamespaceIndexers :: 'ix

definition tweaked :: "('o \<Rightarrow> 'o) option \<Rightarrow> 'o \<Rightarrow> 'o" where
  "tweaked tweak options = (case tweak of Some g \<Rightarrow> g options | None \<Rightarrow> options)"

definition NewFilteredInformer :: "('cl, 'inf, 'o, 'l, 'wt, 'ix) informer_env \<Rightarrow> rtype \<Rightarrow> 'cl \<Rightarrow> int \<Rightarrow> 'ix \<Rightarrow> ('o \<Rightarrow> 'o) option \<Rightarrow> 'inf" where
  "NewFilteredInformer env t client resync indexers tweak =
     ie_NewSharedIndexInformer env (\<lambda>options. ie_List env client t (tweaked tweak options))
       (\<lambda>options. ie_Watch env client t (tweaked tweak options)) t resync indexers"

definition NewInformer :: "('cl, 'inf, 'o, 'l, 'wt, 'ix) informer_env \<Rightarrow> rtype \<Rightarrow> 'cl \<Rightarrow> int \<Rightarrow> 'ix \<Rightarrow> 'inf" where
  "NewInformer env t client resync indexers = NewFilteredInformer env t client resync indexers None"

definition defaultInformer :: "('cl, 'inf, 'o, 'l, 'wt, 'ix) informer_env \<Rightarrow> rtype \<Rightarrow> ('o \<Rightarrow> 'o) option \<Rightarrow> 'cl \<Rightarrow> int \<Rightarrow> 'inf" where
  "defaultInformer env t tweak client resync = NewFilteredInformer env t client resync (ie_NamespaceIndexers env) tweak"

text \<open>\<open>f.Policy().V1alpha1().TrustRoots().Informer()\<close> and its like: the list options of the factory go to the new informer.\<close>

definition Informer :: "('cl, 'inf, 'o, 'l, 'wt, 'ix) informer_env \<Rightarrow> rtype \<Rightarrow> ('cl, 'inf, 'o) sharedInformerFactory \<Rightarrow>
    'inf \<times> ('cl, 'inf, 'o) sharedInformerFactory" where
  "Informer env t f = InformerFor t (defaultInformer env t (sf_tweakListOptions f)) f"

definition policy_GroupName :: string where "policy_GroupName = ''policy.sigstore.dev''"

definition resource_of :: "rtype \<Rightarrow> GroupVersionResource" where
  "resource_of t =
     (case t of
        CIP_v1alpha1 \<Rightarrow> \<lparr>gvr_Group = policy_GroupName, gvr_Version = ''v1alpha1'', gvr_Resource = ''clusterimagepolicies''\<rparr>
      | TrustRoot_v1alpha1 \<Rightarrow> \<lparr>gvr_Group = policy_GroupName, gvr_Version = ''v1alpha1'', gvr_Resource = ''trustroots''\<rparr>
      | CIP_v1beta1 \<Rightarrow> \<lparr>gvr_Group = policy_GroupName, gvr_Version = ''v1beta1'', gvr_Resource = ''clusterimagepolicies''\<rparr>)"

definition gvr_String :: "GroupVersionResource \<Rightarrow> string" where
  "gvr_String r = gvr_Group r @ ''/'' @ gvr_Version r @ '', Resource='' @ gvr_Resource r"

record 'inf genericInformer =
  gi_informer :: 'inf
  gi_resource :: "string \<times> string"

definition ForResource :: "('cl, 'inf, 'o, 'l, 'wt, 'ix) informer_env \<Rightarrow> GroupVersionResource \<Rightarrow> ('cl, 'inf, 'o) sharedInformerFactory \<Rightarrow>
    'inf genericInformer go_result \<times> ('cl, 'inf, 'o) sharedInformerFactory" where
  "ForResource env resource f =
     (let found = (\<lambda>t. case Informer env t f of (i, f') \<Rightarrow>
             (Ok \<lparr>gi_informer = i, gi_resource = (gvr_Group resource, gvr_Resource resource)\<rparr>, f'))
      in if resource = resource_of CIP_v1alpha1 then found CIP_v1alpha1
         else if resource = resource_of TrustRoot_v1alpha1 then found TrustRoot_v1alpha1
         else if resource = resource_of CIP_v1beta1 then found CIP_v1beta1
         else (Err (''no informer found for '' @ gvr_String resource), f))"

text \<open>A lister reads the index of its informer. The text of a not-found error is apimachinery's.\<close>

definition Lister_List :: "('ix \<Rightarrow> 'sel \<Rightarrow> 'obj list go_result) \<Rightarrow> 'ix \<Rightarrow> 'sel \<Rightarrow> 'obj list go_result" where
  "Lister_List ListAll indexer selector = ListAll indexer selector"

definition Lister_Get :: "('ix \<Rightarrow> string \<Rightarrow> 'obj option go_result) \<Rightarrow> (string \<Rightarrow> string \<Rightarrow> string \<Rightarrow> string) \<Rightarrow> string \<Rightarrow> 'ix \<Rightarrow> string \<Rightarrow> get_err + 'obj" where
  "Lister_Get GetByKey NewNotFound singular indexer name =
     (case GetByKey indexer name of
        Inl e \<Rightarrow> Inl (GetFailed e)
      | Inr None \<Rightarrow> Inl (NotFound (NewNotFound policy_GroupName singular name))
      | Inr (Some obj) \<Rightarrow> Inr obj)"

section \<open>Histories\<close>

definition entries_of :: "('cl, 'inf, 'o) sharedInformerFactory \<Rightarrow> (rtype \<times> 'inf) list \<Rightarrow> bool" where
  "entries_of f entries \<longleftrightarrow> distinct (map fst entries) \<and> map_of entries = sf_informers f"

definition fresh_factory :: "('cl, 'inf, 'o) sharedInformerFactory \<Rightarrow> bool" where
  "fresh_factory f \<longleftrightarrow> sf_informers f = Map.empty \<and> sf_startedInformers f = Map.empty \<and> sf_wg f = 0 \<and> \<not> sf_shuttingDown f"

inductive factory_step :: "('cl, 'inf, 'o, 'ch) informer_process \<Rightarrow> ('cl, 'inf, 'o, 'ch) informer_process \<Rightarrow> bool" where
  requested: "InformerFor t newFunc (ip_factory p) = (i, f') \<Longrightarrow> factory_step p (p\<lparr>ip_factory := f'\<rparr>)"
| start: "entries_of (ip_factory p) entries \<Longrightarrow> factory_step p (Factory_Start stopCh entries p)"
| ends: "g \<in> set (ip_running p) \<Longrightarrow> factory_step p (informer_ends g p)"
| shutdown: "factory_step p (Factory_Shutdown p)"

inductive_cases factory_stepE: "factory_step p p'"

text \<open>The wait group counts the goroutines, each of which runs the shared informer of a kind that is marked as started.\<close>

definition factory_inv :: "('cl, 'inf, 'o, 'ch) informer_process \<Rightarrow> bool" where
  "factory_inv p \<longleftrightarrow>
     sf_wg (ip_factory p) = int (length (ip_running p)) \<and> distinct (map fst (ip_running p)) \<and>
     (\<forall>(t, i, c) \<in> set (ip_running p). started (ip_factory p) t \<and> sf_informers (ip_factory p) t = Some i)"

lemma InformerFor_keeps:
  assumes "InformerFor t newFunc f = (i, f')"
  shows "sf_informers f' t = Some i" "sf_informers f \<subseteq>\<^sub>m sf_informers f'" "sf_startedInformers f' = sf_startedInformers f"
    "sf_wg f' = sf_wg f" "sf_shuttingDown f' = sf_shuttingDown f"
  using assms by (auto simp: InformerFor_def Let_def map_le_def split: option.splits)

lemma fresh_WithNamespace: "fresh_factory f \<Longrightarrow> fresh_factory (WithNamespace ns f)"
  by (simp add: fresh_factory_def WithNamespace_def)

lemma fresh_WithTweakListOptions: "fresh_factory f \<Longrightarrow> fresh_factory (WithTweakListOptions tweak f)"
  by (simp add: fresh_factory_def WithTweakListOptions_def)

lemma fresh_WithCustomResyncConfig: "fresh_factory f \<Longrightarrow> fresh_factory (WithCustomResyncConfig cfg f)"
  unfolding WithCustomResyncConfig_def
  by (induction cfg arbitrary: f) (simp_all add: fresh_factory_def split_beta)

lemma new_factory_fresh:
  assumes "\<forall>opt \<in> set options. \<forall>f. fresh_factory f \<longrightarrow> fresh_factory (opt f)"
  shows "fresh_factory (NewSharedInformerFactoryWithOptions client resync options)"
proof -
  have "fresh_factory (foldl (\<lambda>f opt. opt f) f options)" if "fresh_factory f" for f
    using assms that by (induction options arbitrary: f) auto
  then show ?thesis by (simp add: NewSharedInformerFactoryWithOptions_def fresh_factory_def)
qed

lemma start_one_keeps [simp]:
  "sf_informers (ip_factory (start_one c p e)) = sf_informers (ip_factory p)"
  "sf_shuttingDown (ip_factory (start_one c p e)) = sf_shuttingDown (ip_factory p)"
  "started (ip_factory (start_one c p e)) t \<longleftrightarrow> t = fst e \<or> started (ip_factory p) t"
  by (auto simp: start_one_def Let_def started_def)

lemma start_one_inv: "factory_inv p \<Longrightarrow> sf_informers (ip_factory p) (fst e) = Some (snd e) \<Longrightarrow> factory_inv (start_one c p e)"
  by (auto simp: factory_inv_def start_one_def Let_def started_def)

lemma start_entries:
  assumes "factory_inv p" "\<forall>e \<in> set entries. sf_informers (ip_factory p) (fst e) = Some (snd e)" "p' = foldl (start_one c) p entries"
  shows "factory_inv p' \<and> sf_informers (ip_factory p') = sf_informers (ip_factory p) \<and>
    sf_shuttingDown (ip_factory p') = sf_shuttingDown (ip_factory p) \<and>
    (\<forall>t. started (ip_factory p') t \<longleftrightarrow> t \<in> fst ` set entries \<or> started (ip_factory p) t)"
  using assms
proof (induction entries arbitrary: p)
  case (Cons e entries)
  from Cons.prems have "factory_inv (start_one c p e)" by (simp add: start_one_inv)
  with Cons.IH [of "start_one c p e"] Cons.prems show ?case by auto
qed simp

lemma entries_of_informers: "entries_of f entries \<Longrightarrow> e \<in> set entries \<Longrightarrow> sf_informers f (fst e) = Some (snd e)"
  unfolding entries_of_def by (metis map_of_is_SomeI prod.collapse)

lemma informer_ends_inv:
  assumes "factory_inv p" "g \<in> set (ip_running p)"
  shows "factory_inv (informer_ends g p)"
proof -
  let ?r = "remove1 g (ip_running p)"
  have d: "distinct (map fst (ip_running p))" using assms(1) by (simp add: factory_inv_def)
  then have "set ?r \<subseteq> set (ip_running p)" "distinct ?r" by (simp_all add: set_remove1_subset distinct_map)
  then have "distinct (map fst ?r)" using d by (auto simp: distinct_map intro: inj_on_subset)
  moreover have "int (length ?r) = int (length (ip_running p)) - 1"
    using assms(2) length_pos_if_in_set [OF assms(2)] by (simp only: length_remove1 if_True)
  ultimately show ?thesis
    using assms(1) \<open>set ?r \<subseteq> _\<close> by (auto simp: factory_inv_def informer_ends_def started_def)
qed

lemma InformerFor_inv:
  assumes "factory_inv p" "InformerFor t newFunc (ip_factory p) = (i, f')"
  shows "factory_inv (p\<lparr>ip_factory := f'\<rparr>)"
proof -
  note k = InformerFor_keeps [OF assms(2)]
  have "sf_informers f' s = Some j" if "sf_informers (ip_factory p) s = Some j" for s j
    using k(2) that by (metis domI map_le_def)
  with assms(1) show ?thesis by (auto simp: factory_inv_def started_def k(3,4))
qed

lemma factory_step_inv:
  assumes "factory_step p p'" "factory_inv p"
  shows "factory_inv p' \<and> sf_informers (ip_factory p) \<subseteq>\<^sub>m sf_informers (ip_factory p') \<and>
    (\<forall>t. started (ip_factory p) t \<longrightarrow> started (ip_factory p') t) \<and>
    (sf_shuttingDown (ip_factory p) \<longrightarrow> sf_shuttingDown (ip_factory p') \<and> set (ip_running p') \<subseteq> set (ip_running p))"
  using assms
proof (cases rule: factory_step.cases)
  case (requested t newFunc i f')
  note k = InformerFor_keeps [OF requested(2)]
  from InformerFor_inv [OF assms(2) requested(2)] k requested(1) show ?thesis by (simp add: started_def)
next
  case (start entries stopCh)
  show ?thesis
  proof (cases "sf_shuttingDown (ip_factory p)")
    case False
    with start_entries [OF assms(2) _ refl, of entries stopCh] entries_of_informers [OF start(2)] start(1) show ?thesis
      by (auto simp: Factory_Start_def)
  qed (use start assms(2) in \<open>simp add: Factory_Start_def\<close>)
next
  case (ends g)
  with informer_ends_inv [OF assms(2) ends(2)] show ?thesis
    using set_remove1_subset [of g "ip_running p"] by (auto simp: informer_ends_def started_def)
next
  case shutdown
  with assms(2) show ?thesis by (simp add: Factory_Shutdown_def factory_inv_def started_def)
qed

lemma factory_runs_inv:
  assumes "factory_step\<^sup>*\<^sup>* p p'" "factory_inv p"
  shows "factory_inv p' \<and> sf_informers (ip_factory p) \<subseteq>\<^sub>m sf_informers (ip_factory p') \<and>
    (\<forall>t. started (ip_factory p) t \<longrightarrow> started (ip_factory p') t) \<and>
    (sf_shuttingDown (ip_factory p) \<longrightarrow> sf_shuttingDown (ip_factory p') \<and> set (ip_running p') \<subseteq> set (ip_running p))"
  using assms
proof (induction rule: rtranclp_induct)
  case (step q r)
  with factory_step_inv [OF step.hyps(2)] show ?case by (auto intro: map_le_trans)
qed simp

text \<open>Who asks for the informer of a kind, at any time, gets the same one.\<close>

lemma informer_shared:
  assumes "fresh_factory (ip_factory p0)" "ip_running p0 = []" "factory_step\<^sup>*\<^sup>* p0 p" "factory_step\<^sup>*\<^sup>* p q"
    and "sf_informers (ip_factory p) t = Some i"
  shows "fst (InformerFor t newFunc (ip_factory q)) = i"
proof -
  have "factory_inv p0" using assms(1,2) by (simp add: factory_inv_def fresh_factory_def)
  then have "factory_inv p" using factory_runs_inv [OF assms(3)] by blast
  then have "sf_informers (ip_factory p) \<subseteq>\<^sub>m sf_informers (ip_factory q)" using factory_runs_inv [OF assms(4)] by blast
  with assms(5) have "sf_informers (ip_factory q) t = Some i" by (metis domI map_le_def)
  then show ?thesis by (simp add: InformerFor_def)
qed

text \<open>Once the wait of \<open>Shutdown\<close> returned nothing runs, and nothing ever will.\<close>

lemma shutdown_final:
  assumes "fresh_factory (ip_factory p0)" "ip_running p0 = []" "factory_step\<^sup>*\<^sup>* p0 p" "shutdown_returns p" "factory_step\<^sup>*\<^sup>* p q"
  shows "ip_running q = []"
proof -
  have "factory_inv p0" using assms(1,2) by (simp add: factory_inv_def fresh_factory_def)
  then have p: "factory_inv p" using factory_runs_inv [OF assms(3)] by blast
  with assms(4) have "ip_running p = []" by (simp add: factory_inv_def shutdown_returns_def)
  with factory_runs_inv [OF assms(5) p] assms(4) show ?thesis by (simp add: shutdown_returns_def)
qed

text \<open>\<open>Start\<close> starts every informer that was asked for, and waits are for exactly those.\<close>

lemma start_complete:
  assumes "factory_inv p" "entries_of (ip_factory p) entries" "\<not> sf_shuttingDown (ip_factory p)"
  shows "dom (WaitForCacheSync sync c (ip_factory (Factory_Start c entries p))) = dom (sf_informers (ip_factory p))"
proof -
  have "fst ` set entries = dom (sf_informers (ip_factory p))"
    using assms(2) unfolding entries_of_def by (metis dom_map_of_conv_image_fst)
  with start_entries [OF assms(1) _ refl, of entries c] entries_of_informers [OF assms(2)] assms(3) show ?thesis
    by (auto simp: WaitForCacheSync_def Let_def Factory_Start_def dom_def split: if_splits)
qed

lemma ForResource_shared:
  "ForResource env (resource_of t) f =
     (Ok \<lparr>gi_informer = fst (Informer env t f), gi_resource = (policy_GroupName, gvr_Resource (resource_of t))\<rparr>, snd (Informer env t f))"
  by (cases t) (simp_all add: ForResource_def resource_of_def Let_def split: prod.splits)

lemma ForResource_unknown: "(\<nexists>t. r = resource_of t) \<Longrightarrow> ForResource env r f = (Err (''no informer found for '' @ gvr_String r), f)"
  by (auto simp: ForResource_def Let_def)

end
