(* ===== verification/Spec2Isabelle.thy ===== *)
theory Spec2Isabelle
  imports Admission ReconcilerProperties TrustRootReconciler ConfigFiles OfflinePolicy Controllers WebhookMain Tester DeepCopiesBeta RegistryAuth ApiDocs InformerFactory
begin

text \<open>
  A model of policy-controller, the admission webhook that checks the images of Kubernetes
  workloads against \<open>ClusterImagePolicy\<close> resources, in the fork that adds signatures with the
  Chinese commercial algorithms (GM) confirmed by a hardware security module. File names
  below are relative to the repository.

  \<^bold>\<open>The program.\<close> Policies arrive as custom resources in two API versions
  (\<open>pkg/apis/policy/v1alpha1\<close>, \<open>v1beta1\<close>), are defaulted, validated and converted by the
  policy webhook, turned into the webhook's own form
  (\<open>pkg/webhook/clusterimagepolicy\<close>) and kept in a config map by the reconciler
  (\<open>pkg/reconciler/clusterimagepolicy\<close>), which \<open>pkg/apis/config\<close> reads. On admission of a workload \<open>pkg/webhook/validator.go\<close>
  resolves tags to digests (mutating webhook) or selects the policies that match each image
  and checks every authority of each policy (validating webhook): with keys, keyless
  identities, static answers, attestations or GM signatures (\<open>pkg/webhook/gm\<close>). Trust roots
  (\<open>trustroot_*.go\<close>, \<open>sigstore_keys.go\<close>) supply the certificates and log keys; their
  reconciler (\<open>pkg/reconciler/trustroot\<close>) gets them from TUF repositories (\<open>pkg/tuf\<close>). Clients
  outside the cluster verify images with the same engine through \<open>pkg/policy\<close>.

  \<^bold>\<open>Theories and sources.\<close>
  \<^item> \<open>PC_Prelude\<close>: Go results and the functions of \<open>strings\<close> and \<open>strconv\<close> that are used.
  \<^item> \<open>FieldErrors\<close>: knative's \<open>apis.FieldError\<close> as a record of operations with the laws the
    code relies on as the locale \<open>field_error_laws\<close>, interpreted by a list of diagnostics.
    \<open>blocks\<close> says that an answer contains an error and not only warnings.
  \<^item> \<open>Regex\<close>, \<open>Glob\<close>: \<open>pkg/apis/glob/glob.go\<close> with derivatives of regular expressions.
  \<^item> \<open>SignatureAlgo\<close>, \<open>Common\<close>, \<open>ControllerConfig\<close>: \<open>pkg/apis/signaturealgo\<close>,
    \<open>pkg/apis/policy/common\<close>, \<open>pkg/config/store.go\<close>.
  \<^item> \<open>V1alpha1\<close>, \<open>V1beta1\<close>, \<open>Conversion\<close>, \<open>CIPProperties\<close>: types, defaults, validators and
    conversion of the two API versions. For each validator a declarative predicate
    (\<open>spec_ok\<close>, \<open>B_spec_ok\<close>) lists the rules, and the validator is shown to reject exactly
    what breaks them; conversion is shown to keep acceptance and to be invertible exactly
    where it drops nothing.
  \<^item> \<open>Encodings\<close>, \<open>WebhookCIP\<close>, \<open>ImagePolicies\<close>: decoded JSON, the webhook form of a policy
    and the selection of policies.
  \<^item> \<open>GMClient\<close>, \<open>GMCache\<close>, \<open>GMVerify\<close>: \<open>pkg/webhook/gm\<close>. The LRU list is an interface
    (\<open>lru_laws\<close>), and the cache over it is shown to implement a memory of positive answers
    (\<open>positive_memo\<close>).
  \<^item> \<open>TrustRoot\<close>, \<open>SigstoreConfig\<close>: trust roots and their serialised form; the PEM decoder is
    an interface (\<open>pem_laws\<close>) interpreted by an executable decoder.
  \<^item> \<open>Signatures\<close>, \<open>Verification\<close>: \<open>validation.go\<close> and the part of \<open>validator.go\<close> that builds
    verification options and checks one authority. Cosign, the registry and the key parsers
    are fields of the record \<open>verify_env\<close>.
  \<^item> \<open>PolicyEngine\<close>, \<open>PolicyProperties\<close>: \<open>ValidatePolicy\<close>, \<open>validatePolicies\<close>,
    \<open>errorsToFieldErrors\<close> and \<open>validateContainerImage\<close>.
  \<^item> \<open>Admission\<close>: the entry points for pods, scalable resources and cron jobs and the
    resolution of tags.
  \<^item> \<open>ConfigFiles\<close>: \<open>getConfigs\<close> of \<open>validator.go\<close>, which the engine uses through the field
    \<open>px_getConfigs\<close>; its recursion over nested indexes ends and collects every platform.
  \<^item> \<open>Conditions\<close>: the lifecycle files of policies and trust roots over knative's condition
    manager (\<open>condition_laws\<close>); the statuses the methods can produce are an inductive
    predicate, in all of which Ready sums up the steps.
  \<^item> \<open>ConfigMaps\<close>: \<open>resources/configmap.go\<close> of the reconcilers and the API server's config map;
    JSON patches are an interface (\<open>patch_laws\<close>) interpreted by a difference of maps.
  \<^item> \<open>CIPReconciler\<close>, \<open>ReconcilerProperties\<close>: \<open>clusterimagepolicy.go\<close> in the style of a state
    monad over the tracked references. One run is characterised exactly, and \<open>cluster\<close> is the
    reachability relation of histories of applied, reconciled and deleted policies.
  \<^item> \<open>Paths\<close>, \<open>TufRepo\<close>, \<open>TufClient\<close>: Go's path functions, the compressed repositories, clients
    and the cached trusted root of \<open>pkg/tuf\<close>, the latter also as steps of concurrent callers.
  \<^item> \<open>TrustRootReconciler\<close>: \<open>trustroot.go\<close>.
  \<^item> \<open>OfflinePolicy\<close>: \<open>parse.go\<close>, \<open>validate.go\<close>, \<open>policy.go\<close> and \<open>verifier.go\<close> of \<open>pkg/policy\<close>.
  \<^item> \<open>GenReconciler\<close>: the generated reconcilers of \<open>pkg/client/injection/reconciler\<close>, one text for
    every kind: leadership, choice of the method, finalizers, status updates and events, over a
    world the clients act on (\<open>reconciler_laws\<close>).
  \<^item> \<open>ControllerRuns\<close>: the world: the versions of every object, the version the lister shows, the
    config map. An API server is a locale (\<open>api_laws\<close>), and a controller that keeps one config map
    entry per object another (\<open>entry_controller\<close>), in which the invariant of all runs is proved.
  \<^item> \<open>Controllers\<close>: the two controllers as instances; \<open>managed\<close> is the reachability relation of a
    cluster with lagging listers, failing writes and users. Entries are backed by finalizers,
    deletion cleans up, a resync repairs.
  \<^item> \<open>WebhookMain\<close>: \<open>cmd/webhook/main.go\<close>, the values in Go contexts and the configuration stores
    (\<open>untyped_store_laws\<close>): what start-up sets up reaches every request.
  \<^item> \<open>Tester\<close>: \<open>cmd/tester\<close>, from flags to the exit code.
  \<^item> \<open>GoHeap\<close>, \<open>DeepCopies\<close>, \<open>DeepCopiesBeta\<close>: the generated \<open>zz_generated.deepcopy.go\<close> files. Sharing matters here, so
    pointers, slices and maps are addresses in an explicit heap; a copy has the value of the original and shares no cell with
    it. The deep copies of structs of other packages are the locale \<open>deep_copy_laws\<close>.
  \<^item> \<open>RegistryAuth\<close>: \<open>pkg/webhook/registryauth\<close> over key chains (\<open>keychain_laws\<close>): Azure credentials come last and only for
    Azure registries.
  \<^item> \<open>InformerFactory\<close>: the generated informers and listers of \<open>pkg/client\<close>; the factory shares one informer per kind and, once
    \<open>Shutdown\<close> returned, nothing runs.
  \<^item> \<open>ApiDocs\<close>: \<open>cmd/api-docs\<close>: descriptions stay in their table cells, links agree with the table of contents.
  \<^item> This theory: properties that span components.

  \<^bold>\<open>Conventions.\<close> A Go function that returns a value and an error is a function into
  \<open>string + 'a\<close>; a nil pointer is \<open>None\<close>; a Go map whose iteration order matters is an
  association list, and the properties hold for every order. Goroutines whose results are
  collected from a channel are modelled by a \<open>schedule\<close>: the order in which results arrive
  and the rounds in which the select statement sees the cancellation instead; the
  properties quantify over all schedules. Values kept in a Go context are arguments or
  record fields. Texts of errors follow the source up to the quoting of \<open>%q\<close>; log output
  is left out. Integers are unbounded except where the code can wrap (the product that
  gives the HSM timeout, the hit counters, the length prefix of the cache key).

  A panic is a value of the type \<open>run\<close> where a reconciler can reach one; a log of a trust root without a
  public key (a nil pointer the serialisation would dereference) is not represented.

  \<^bold>\<open>Fuel.\<close> The loop over PEM blocks takes the length of its input as fuel, which is
  enough since a decoder that returns a block consumes at least one character. \<open>getConfigs\<close> takes
  fuel because the code does not bound its recursion; one more than the depth of nested indexes is
  shown to be enough. Every other function is total by structural recursion or a measure.

  \<^bold>\<open>Not modelled.\<close> \<open>parsePems\<close> (not called by the modelled code); client-go's informers, the work
  queue and the event broadcaster; the assembly of knative's webhook
  controllers in \<open>cmd/webhook/main.go\<close> beyond the contexts they infuse; the commands that write the schema or set up a local
  cluster; generated clients, which only build requests for client-go; SM3 (one call of a library); vendored code.
\<close>

section \<open>Properties that span components\<close>

lemma gm_authority_pass:
  assumes "authority_ok x in_spec au" "au_GMSignature au = Some g"
    and "ar_pass (check_authority env ns ref ro (convertAuthorityV1Alpha1ToWebhook au))"
  shows "\<exists>sigs. fst (Verify (ve_gm env) (ve_gm_cache env) ref (convertGMSignatureRefV1Alpha1ToWebhook (Some g))) = Ok sigs"
proof -
  let ?a = "convertAuthorityV1Alpha1ToWebhook au"
  have "au_Key au = None \<and> au_Keyless au = None \<and> au_Static au = None \<and> au_Attestations au = [] \<and>
      au_RFC3161Timestamp au = None"
    using assms(1,2) by (auto simp: authority_ok_def verifier_count_def split: if_splits)
  then have a: "wa_Key ?a = None" "wa_Keyless ?a = None" "wa_Static ?a = None" "wa_Attestations ?a = []"
      "wa_RFC3161Timestamp ?a = None" "wa_GMSignature ?a = convertGMSignatureRefV1Alpha1ToWebhook (Some g)"
    using assms(2)
    by (simp_all add: convertAuthorityV1Alpha1ToWebhook_def convertKeyRefV1Alpha1ToWebhook_def
        convertKeylessRefV1Alpha1ToWebhook_def convertStaticRefV1Alpha1ToWebhook_def
        convertAttestationsV1Alpha1ToWebhook_def convertRFC3161TimestampV1Alpha1ToWebhook_def)
  from assms(3) obtain ro' sigs where "ValidatePolicySignaturesForAuthority env ref ?a ro' = Ok sigs"
    by (auto simp: check_authority_def a ar_pass_def failed_authority_def Let_def split: sum.splits)
  moreover have "wa_GMSignature ?a \<noteq> None" using a by (simp add: convertGMSignatureRefV1Alpha1ToWebhook_def)
  ultimately show ?thesis
    using a by (auto simp: ValidatePolicySignaturesForAuthority_def Let_def split: sum.splits)
qed

text \<open>
  C3 A GM authority of an accepted policy is enforced by the HSM and by nothing else. Once
  the validator accepted a v1alpha1 policy, the authority the webhook derives from it passes
  an image referred to by digest only if the registry returned a signature that names the
  expected signer, whose payload claims exactly that digest, and whose cache key (signature bytes
  and signer) the HSM confirmed in this call or was remembered in the verification cache, over
  any LRU that returns only the keys it was given; with the cache off, the HSM confirmed the SM3
  digest of this very payload. No key, static action, timestamp or attestation can stand in
  for it, although the dispatch looks at those first. With the cache on, the confirmation
  may be for another payload signed with the same bytes, see \<open>gm_cache_replay\<close>.
\<close>

theorem accepted_gm_authority_is_enforced:
  assumes "field_error_laws api" "\<not> vc_InStatusUpdate ctx" "\<not> blocks api (ClusterImagePolicy_Validate api x ctx c)"
    and "au \<in> set (cs_Authorities (cip_Spec c))" "au_GMSignature au = Some g"
    and "lru_laws (ge_lru (ve_gm env)) lkeys" "ref_Kind ref = DigestRef" "ref_DigestStr ref \<noteq> ''''"
    and "ar_pass (check_authority env ns ref ro (convertAuthorityV1Alpha1ToWebhook au))"
  shows "\<exists>cipGM client fetched s ann b p. convertGMSignatureRefV1Alpha1ToWebhook (Some g) = Some cipGM \<and>
    ge_client (ve_gm env) = Some client \<and> ge_fetch (ve_gm env) ref = Ok fetched \<and>
    s \<in> set fetched \<and> os_Annotations s = Ok ann \<and> MatchSigner cipGM ann = None \<and> os_Payload s = Ok p \<and>
    extractDockerManifestDigest (ge_parse (ve_gm env)) p = Ok (ref_DigestStr ref) \<and>
    gm_gate (ge_parse (ve_gm env)) cipGM (ref_DigestStr ref) s = Ok (b, p) \<and>
    cacheKey (ge_sha256 (ve_gm env)) b (expected_signer cipGM) \<in> cache_holds lkeys (ve_gm_cache env) \<union>
      confirmed_keys (ve_gm env) client cipGM (ref_DigestStr ref) (indexed fetched) \<and>
    (cache_off (ve_gm_cache env) \<longrightarrow>
       (\<exists>i. (i, s) \<in> set (indexed fetched) \<and> client i (gm_request (ve_gm env) cipGM b p) = Ok True))"
proof -
  let ?E = "ve_gm env" and ?d = "ref_DigestStr ref"
  have d: "digestString ref = ?d" using assms(7) by (simp add: digestString_def)
  have "spec_ok x ctx (cip_Spec c)"
    using assms(2,3) field_error_laws.blocks_Spec_Validate [OF assms(1)] field_error_laws.blocks_basic [OF assms(1)]
    by (simp add: ClusterImagePolicy_Validate_def)
  with assms(4) have "authority_ok x (vc_InSpec ctx) au" by (simp add: spec_ok_def)
  from gm_authority_pass [OF this assms(5,9)] obtain sigs where
    v: "fst (Verify ?E (ve_gm_cache env) ref (convertGMSignatureRefV1Alpha1ToWebhook (Some g))) = Ok sigs" ..
  from Verify_Ok_parts [OF v] obtain cipGM client fetched where
    p: "convertGMSignatureRefV1Alpha1ToWebhook (Some g) = Some cipGM" "ge_client ?E = Some client" "ge_fetch ?E ref = Ok fetched"
    and sigs: "sigs = gv_verified (gm_loop ?E client cipGM ?d (ve_gm_cache env) fetched)" "sigs \<noteq> []"
    unfolding d by blast
  then obtain s where s: "s \<in> set (gv_verified (gm_loop ?E client cipGM ?d (ve_gm_cache env) fetched))"
    by (metis last_in_set)
  from gm_loop_sound [OF assms(6) s] assms(8) obtain ann b q where
    a: "s \<in> set fetched" "os_Annotations s = Ok ann" "MatchSigner cipGM ann = None" "os_Payload s = Ok q"
      "extractDockerManifestDigest (ge_parse ?E) q = Ok ?d" "gm_gate (ge_parse ?E) cipGM ?d s = Ok (b, q)"
      "cacheKey (ge_sha256 ?E) b (expected_signer cipGM) \<in>
        cache_holds lkeys (ve_gm_cache env) \<union> confirmed_keys ?E client cipGM ?d (indexed fetched)" by blast
  have off: "\<exists>i. (i, s) \<in> set (indexed fetched) \<and> client i (gm_request ?E cipGM b q) = Ok True" if "cache_off (ve_gm_cache env)"
    using s a(6) by (auto simp: gm_loop_off [OF that] hsm_accepts_def)
  show ?thesis using p a off by blast
qed

definition sample_gm_ref :: GMSignatureRef where
  "sample_gm_ref = \<lparr>gm_VerifyURL = ''https://hsm/{tenantId}'', gm_TenantID = ''t'',
     gm_Signer = \<lparr>gs_AppID = ''app'', gs_NodeID = ''node'', gs_UserID = ''''\<rparr>, gm_RequestTimeoutMs = 0\<rparr>"

definition sample_gm_authority :: Authority where
  "sample_gm_authority = zero_Authority\<lparr>au_GMSignature := Some sample_gm_ref\<rparr>"

definition sample_gm_cip :: "unit ClusterImagePolicy" where
  "sample_gm_cip = sample_cip\<lparr>cip_Spec := sample_spec\<lparr>cs_Authorities := [sample_gm_authority]\<rparr>\<rparr>"

lemma sample_gm_cip_accepted:
  "\<not> blocks diag_api (ClusterImagePolicy_Validate diag_api sample_externals sample_ctx sample_gm_cip)"
proof -
  have "spec_ok sample_externals sample_ctx (cip_Spec sample_gm_cip)"
    using sample_spec_ok
    by (simp add: sample_gm_cip_def spec_ok_def sample_spec_def zero_defs sample_gm_authority_def authority_ok_def
        verifier_count_def gm_ok_def sample_gm_ref_def)
  then show ?thesis
    by (simp add: ClusterImagePolicy_Validate_def field_error_laws.blocks_Spec_Validate [OF dl.field_error_laws_axioms]
        field_error_laws.blocks_basic [OF dl.field_error_laws_axioms])
qed

lemma sample_gm_converted: "convertGMSignatureRefV1Alpha1ToWebhook (Some sample_gm_ref) = Some sample_gm"
  by (simp add: convertGMSignatureRefV1Alpha1ToWebhook_def sample_gm_ref_def sample_gm_def)

lemma sample_gm_authority_passes:
  "ar_pass (check_authority sample_env ''ns'' (sample_ref ''sha256:a'') []
     (convertAuthorityV1Alpha1ToWebhook sample_gm_authority))"
proof -
  let ?a = "convertAuthorityV1Alpha1ToWebhook sample_gm_authority"
  have a: "wa_Key ?a = None" "wa_Keyless ?a = None" "wa_Static ?a = None" "wa_Attestations ?a = []" "wa_Sources ?a = []"
    "wa_RFC3161Timestamp ?a = None" "wa_CTLog ?a = None" "wa_GMSignature ?a = Some sample_gm" "wa_SignatureFormat ?a = ''''"
    by (simp_all add: sample_gm_authority_def zero_defs convertAuthorityV1Alpha1ToWebhook_def convertKeyRefV1Alpha1ToWebhook_def
        convertKeylessRefV1Alpha1ToWebhook_def convertStaticRefV1Alpha1ToWebhook_def
        convertAttestationsV1Alpha1ToWebhook_def convertRFC3161TimestampV1Alpha1ToWebhook_def sample_gm_converted)
  have "fst (Verify (ve_gm sample_env) (ve_gm_cache sample_env) (sample_ref ''sha256:a'') (Some sample_gm)) =
      Ok [sample_sig ''sha256:a'']"
    by (simp add: sample_env_def Verify_def Let_def gm_loop_def gm_step_def sample_gate gm_request_def Lookup_def Store_def)
  moreover have "\<exists>f. \<forall>ro. checkOptsFromAuthority sample_env ?a ro = Ok (f ro)"
    by (rule choice)
      (simp add: checkOptsFromAuthority_def base_opts_def fulcio_opts_def rekor_opts_def tsa_opts_def a
        rekorClientAndKeysFromAuthority_def Let_def sample_env_def split: sum.splits)
  then obtain f where "\<And>ro. checkOptsFromAuthority sample_env ?a ro = Ok (f ro)" by auto
  ultimately show ?thesis
    by (simp add: check_authority_def ar_pass_def a SourceSignaturePullSecretsOpts_def ValidatePolicySignaturesForAuthority_def
        Let_def signatureID_def sample_sig_def)
qed

theorem accepted_gm_authority_is_enforced_witness:
  "\<exists>cipGM client fetched s ann b p. convertGMSignatureRefV1Alpha1ToWebhook (Some sample_gm_ref) = Some cipGM \<and>
    ge_client (ve_gm sample_env) = Some client \<and> ge_fetch (ve_gm sample_env) (sample_ref ''sha256:a'') = Ok fetched \<and>
    s \<in> set fetched \<and> os_Annotations s = Ok ann \<and> MatchSigner cipGM ann = None \<and> os_Payload s = Ok p \<and>
    extractDockerManifestDigest (ge_parse (ve_gm sample_env)) p = Ok (ref_DigestStr (sample_ref ''sha256:a'')) \<and>
    gm_gate (ge_parse (ve_gm sample_env)) cipGM (ref_DigestStr (sample_ref ''sha256:a'')) s = Ok (b, p) \<and>
    cacheKey (ge_sha256 (ve_gm sample_env)) b (expected_signer cipGM) \<in> cache_holds (\<lambda>l. set (snd l)) (ve_gm_cache sample_env) \<union>
      confirmed_keys (ve_gm sample_env) client cipGM (ref_DigestStr (sample_ref ''sha256:a'')) (indexed fetched) \<and>
    (cache_off (ve_gm_cache sample_env) \<longrightarrow>
       (\<exists>i. (i, s) \<in> set (indexed fetched) \<and> client i (gm_request (ve_gm sample_env) cipGM b p) = Ok True))"
  by (rule accepted_gm_authority_is_enforced [OF dl.field_error_laws_axioms _ sample_gm_cip_accepted _ _ _ _ _ sample_gm_authority_passes])
    (simp_all add: sample_ctx_def sample_gm_cip_def sample_gm_authority_def sample_env_def sample_gm_env_def ll.lru_laws_axioms sample_ref_def)

section \<open>From the reconciler to the webhook\<close>

lemma policies_loop_map:
  assumes "policies_loop parse data ret = Ok ps" "distinct (map fst data)" "k \<noteq> ''_example''"
  shows "map_of ps k = (case map_of data k of None \<Rightarrow> map_of ret k | Some v \<Rightarrow> (case parse v of Inl e \<Rightarrow> None | Inr p \<Rightarrow> Some p))"
  using assms
proof (induction parse data ret rule: policies_loop.induct)
  case (2 parse j v data ret)
  show ?case
  proof (cases "j = ''_example''")
    case True
    with 2 show ?thesis by auto
  next
    case False
    with "2.prems"(1) obtain p where p: "parse v = Ok p" and v: "v \<noteq> ''''" and r: "policies_loop parse data (map_assign j p ret) = Ok ps"
      by (auto split: if_splits sum.splits)
    have ih: "map_of ps k =
        (case map_of data k of None \<Rightarrow> map_of (map_assign j p ret) k | Some v \<Rightarrow> (case parse v of Inl e \<Rightarrow> None | Inr p \<Rightarrow> Some p))"
      using "2.IH"(2) [OF False v p r] "2.prems"(2,3) by simp
    show ?thesis
    proof (cases "k = j")
      case True
      with "2.prems"(2) have "map_of data k = None" by (simp add: map_of_eq_None_iff)
      with ih True p show ?thesis by simp
    qed (use ih in \<open>simp split: option.splits\<close>)
  qed
qed simp

text \<open>
  C26 What the reconciler writes is what the webhook enforces. After a reconciliation of a policy
  not named \<open>_example\<close>, with an up to date lister of config maps, writes that succeed and no panic, a
  webhook that reads the config map that was written and can parse it, in any order of its
  (distinct) entries, finds under the policy's name exactly its fully inlined form as it is read
  back from the configuration, and nothing when something could not be inlined.
\<close>

theorem reconciled_policy_reaches_webhook:
  assumes "patch_laws (cv_patch (re_cm env))" "condition_laws kc" "writes_ok (re_cm env)"
    and "\<And>w. \<exists>entry. re_marshal env w = Ok entry \<and> parse entry = Ok (reread w)"
    and "up_to_date (re_ConfigMap env ImagePoliciesConfigName) server" "inlined_cip env cip \<noteq> Panicked"
    and "rr_server (CIP_ReconcileKind kc env cip server tr) = Some written" "map_of data = map_of written" "distinct (map fst data)"
    and "NewImagePoliciesConfigFromMap parse data = Ok cfg" "om_Name (cip_ObjectMeta cip) \<noteq> ''_example''"
  shows "map_of (Policies cfg) (om_Name (cip_ObjectMeta cip)) =
    (case inlined_cip env cip of
       Done c \<Rightarrow> Some (reread (ConvertClusterImagePolicyV1alpha1ToWebhook c))
     | _ \<Rightarrow> None)"
proof -
  let ?n = "om_Name (cip_ObjectMeta cip)"
  have total: "is_ok (re_marshal env w)" for w using assms(4) [of w] by auto
  have d: "map_of written ?n = wanted_entry env cip" using reconciled_data [OF assms(1,3) _ assms(5,6), of kc tr] total assms(7) by simp
  from assms(10) have "policies_loop parse data [] = Ok (Policies cfg)"
    by (auto simp: NewImagePoliciesConfigFromMap_def split: sum.splits)
  from policies_loop_map [OF this assms(9,11)]
  have "map_of (Policies cfg) ?n = (case wanted_entry env cip of None \<Rightarrow> None
      | Some v \<Rightarrow> (case parse v of Inl e \<Rightarrow> None | Inr p \<Rightarrow> Some p))"
    unfolding assms(8) d by (simp split: option.splits)
  also have "\<dots> = (case inlined_cip env cip of Done c \<Rightarrow> Some (reread (ConvertClusterImagePolicyV1alpha1ToWebhook c)) | _ \<Rightarrow> None)"
  proof (cases "inlined_cip env cip")
    case (Done c)
    with assms(4) [of "ConvertClusterImagePolicyV1alpha1ToWebhook c"] show ?thesis by (auto simp: wanted_entry_def)
  qed (simp_all add: wanted_entry_def)
  finally show ?thesis .
qed

theorem reconciled_policy_reaches_webhook_witness:
  "map_of [(''policy'', sample_webhook_cip\<lparr>wc_UID := ''uid-17''\<rparr>)] (om_Name (cip_ObjectMeta (sample_secret_cip ''keys''))) =
    (case inlined_cip (sample_rec_env (Inl (NotFound ''none''))) (sample_secret_cip ''keys'') of
       Done c \<Rightarrow> Some ((\<lambda>w. sample_webhook_cip\<lparr>wc_UID := wc_UID w @ wc_ResourceVersion w\<rparr>) (ConvertClusterImagePolicyV1alpha1ToWebhook c))
     | _ \<Rightarrow> None)"
proof -
  let ?env = "sample_rec_env (Inl (NotFound ''none''))" and ?parse = "\<lambda>e. Ok (sample_webhook_cip\<lparr>wc_UID := e\<rparr>)"
  have m: "\<exists>entry. re_marshal ?env w = Ok entry \<and> ?parse entry = Ok (sample_webhook_cip\<lparr>wc_UID := wc_UID w @ wc_ResourceVersion w\<rparr>)" for w
    by (simp add: sample_rec_env_def)
  have u: "up_to_date (re_ConfigMap ?env ImagePoliciesConfigName) None" by (simp add: up_to_date_def sample_rec_env_def)
  have p: "inlined_cip ?env (sample_secret_cip ''keys'') \<noteq> Panicked" by (simp add: sample_inlined)
  have c: "NewImagePoliciesConfigFromMap ?parse [(''policy'', ''uid-17'')] = Ok \<lparr>Policies = [(''policy'', sample_webhook_cip\<lparr>wc_UID := ''uid-17''\<rparr>)]\<rparr>"
    by (simp add: NewImagePoliciesConfigFromMap_def map_assign_def)
  have n: "om_Name (cip_ObjectMeta (sample_secret_cip ''keys'')) \<noteq> ''_example''" by (simp add: sample_secret_cip_def sample_ready_cip_def)
  from reconciled_policy_reaches_webhook [OF sample_patch_laws tab.condition_laws_axioms sample_writes_ok m u p sample_reconciled refl _ c n]
  show ?thesis by (simp only: ImagePolicyConfig.simps) simp
qed

end
